(* ===== verification/Prelude.thy ===== *)
theory Prelude
  imports Complex_Main "HOL-Library.Word"
begin

text \<open>
  Shared vocabulary of the Byte Latency model: the JavaScript operations the code
  relies on (\<open>Math.round\<close>, \<open>String.prototype.trim\<close>, \<open>split\<close>, \<open>toUpperCase\<close>,
  the \<open>\s\<close> character class), the millisecond time unit of \<open>Date.getTime()\<close>, and
  the lemmas about them that the component theories share.
  Timestamps are \<open>int\<close> milliseconds since the epoch (the value of
  \<open>new Date(iso).getTime()\<close>); user ids are strings (Supabase UUIDs).
\<close>

named_theorems js_simps "equations that evaluate the JavaScript helpers on concrete values"

type_synonym ms = int
type_synonym uid = string

subsection \<open>Time units\<close>

text \<open>The constants the code writes as \<open>1000 * 60 * 60 * 24\<close> and its prefixes.\<close>

definition ms_per_second :: int where "ms_per_second = 1000"
definition ms_per_minute :: int where "ms_per_minute = 1000 * 60"
definition ms_per_hour :: int where "ms_per_hour = 1000 * 60 * 60"
definition ms_per_day :: int where "ms_per_day = 1000 * 60 * 60 * 24"

lemmas time_unit_values [js_simps] = ms_per_second_def ms_per_minute_def ms_per_hour_def ms_per_day_def

subsection \<open>\<open>Math.round\<close>\<close>

text \<open>
  \<open>Math.round x\<close> is the integer closest to \<open>x\<close>, halves rounded up: \<open>\<lfloor>x + 1/2\<rfloor>\<close>.
  The model computes on exact reals; the rounding errors of IEEE doubles are not modelled.
\<close>

definition js_round :: "real \<Rightarrow> int" where
  "js_round x = \<lfloor>x + 1 / 2\<rfloor>"

lemma js_round_mono: "x \<le> y \<Longrightarrow> js_round x \<le> js_round y"
  unfolding js_round_def by (intro floor_mono) simp

lemma js_round_of_int [simp]: "js_round (of_int k) = k"
  unfolding js_round_def by linarith

lemma js_round_numeral [simp]: "js_round (numeral n) = numeral n"
  using js_round_of_int [of "numeral n"] by simp

lemma js_round_0 [simp]: "js_round 0 = 0"
  using js_round_of_int [of 0] by simp

lemma js_round_bounds:
  assumes "of_int lo \<le> x" and "x \<le> of_int hi"
  shows "lo \<le> js_round x \<and> js_round x \<le> hi"
  using js_round_mono [OF assms(1)] js_round_mono [OF assms(2)] by simp

lemma js_round_eqI:
  "of_int k - 1 / 2 \<le> x \<Longrightarrow> x < of_int k + 1 / 2 \<Longrightarrow> js_round x = k"
  unfolding js_round_def by linarith

lemma js_round_ge_iff: "k \<le> js_round x \<longleftrightarrow> of_int k - 1 / 2 \<le> x"
  unfolding js_round_def by (simp add: le_floor_iff algebra_simps)

lemma js_round_le_iff: "js_round x \<le> k \<longleftrightarrow> x < of_int k + 1 / 2"
  unfolding js_round_def floor_le_iff by linarith

subsection \<open>Characters and strings\<close>

text \<open>
  Strings are sequences of UTF-16 code units; the model's characters are the code units
  0--255 (Latin-1), which cover every string literal of the code. The regular-expression
  class \<open>\s\<close> and \<open>trim\<close> on that range: space, tab, line feed, vertical tab,
  form feed, carriage return and no-break space (U+00A0). The other Unicode spaces lie
  above U+00FF.
\<close>

definition js_is_space :: "char \<Rightarrow> bool" where
  "js_is_space c \<longleftrightarrow> c = CHR '' '' \<or> c = CHR 0x09 \<or> c = CHR 0x0A \<or> c = CHR 0x0B
     \<or> c = CHR 0x0C \<or> c = CHR 0x0D \<or> c = CHR 0xA0"

definition js_trim :: "string \<Rightarrow> string" where
  "js_trim s = rev (dropWhile js_is_space (rev (dropWhile js_is_space s)))"

lemma js_trim_snoc_space:
  assumes x: "js_is_space x"
  shows "js_trim (l @ [x]) = js_trim l"
proof (cases "\<forall>y \<in> set l. js_is_space y")
  case True
  then have l: "dropWhile js_is_space l = []" by (induction l) auto
  from True x have lx: "dropWhile js_is_space (l @ [x]) = []" by (simp add: dropWhile_append)
  show ?thesis by (simp only: js_trim_def l lx rev.simps dropWhile.simps)
next
  case False
  then have "dropWhile js_is_space (l @ [x]) = dropWhile js_is_space l @ [x]"
    by (simp add: dropWhile_append)
  with x show ?thesis by (simp add: js_trim_def)
qed

lemma js_trim_Nil_iff: "js_trim s = [] \<longleftrightarrow> (\<forall>c \<in> set s. js_is_space c)"
proof -
  have A: "js_trim s = [] \<longleftrightarrow> (\<forall>c \<in> set (dropWhile js_is_space s). js_is_space c)"
    unfolding js_trim_def by (simp only: rev_is_Nil_conv dropWhile_eq_Nil_conv set_rev)
  have B: "(\<forall>c \<in> set (dropWhile js_is_space s). js_is_space c) \<longleftrightarrow> dropWhile js_is_space s = []"
  proof (cases "dropWhile js_is_space s")
    case (Cons y ys)
    then have "\<not> js_is_space y" using hd_dropWhile [of js_is_space s] by simp
    with Cons show ?thesis by simp
  next
    case Nil
    then show ?thesis by (simp only: set_simps) simp
  qed
  from A B show ?thesis by (metis dropWhile_eq_Nil_conv)
qed

text \<open>
  \<open>toUpperCase\<close> and \<open>toLowerCase\<close> on one Latin-1 code unit: the ASCII letters and
  the accented letters \<open>U+00C0\<close>--\<open>U+00DE\<close> / \<open>U+00E0\<close>--\<open>U+00FE\<close> (without the
  signs \<open>U+00D7\<close> and \<open>U+00F7\<close>) differ by 32. The three Latin-1 letters whose upper
  case lies outside Latin-1 (\<open>U+00B5\<close>, \<open>U+00DF\<close>, which becomes two letters, and
  \<open>U+00FF\<close>) are left unchanged, which JavaScript does not do.
\<close>

definition js_upper_char :: "char \<Rightarrow> char" where
  "js_upper_char c =
     (if (97 \<le> (of_char c :: nat) \<and> (of_char c :: nat) \<le> 122) \<or>
         (224 \<le> (of_char c :: nat) \<and> (of_char c :: nat) \<le> 254 \<and> (of_char c :: nat) \<noteq> 247)
      then char_of (of_char c - (32::nat)) else c)"

definition js_lower_char :: "char \<Rightarrow> char" where
  "js_lower_char c =
     (if (65 \<le> (of_char c :: nat) \<and> (of_char c :: nat) \<le> 90) \<or>
         (192 \<le> (of_char c :: nat) \<and> (of_char c :: nat) \<le> 222 \<and> (of_char c :: nat) \<noteq> 215)
      then char_of (of_char c + (32::nat)) else c)"

lemma js_is_space_of_char:
  "js_is_space c \<longleftrightarrow> (of_char c :: nat) \<in> {9, 10, 11, 12, 13, 32, 160}"
  unfolding js_is_space_def
  by (simp only: of_char_eq_iff [symmetric, where 'a = nat]) (simp del: of_char_eq_iff, blast)

lemma of_char_js_lower_char:
  "(of_char (js_lower_char c) :: nat) =
     (if (65 \<le> (of_char c :: nat) \<and> (of_char c :: nat) \<le> 90) \<or>
         (192 \<le> (of_char c :: nat) \<and> (of_char c :: nat) \<le> 222 \<and> (of_char c :: nat) \<noteq> 215)
      then of_char c + 32 else of_char c)"
proof -
  have "(of_char c :: nat) < 256" by (rule nat_of_char_less_256)
  then show ?thesis by (auto simp: js_lower_char_def of_char_of)
qed

definition js_upper :: "string \<Rightarrow> string" where
  "js_upper s = map js_upper_char s"

definition js_lower :: "string \<Rightarrow> string" where
  "js_lower s = map js_lower_char s"

text \<open>
  \<open>s.split(c)\<close> for a one-character separator: the pieces between the separators,
  never an empty list (\<open>''.split('/')\<close> is \<open>['']\<close>).
\<close>

fun js_split :: "char \<Rightarrow> string \<Rightarrow> string list" where
  "js_split c [] = [[]]"
| "js_split c (x # xs) =
     (if x = c then [] # js_split c xs
      else (case js_split c xs of w # ws \<Rightarrow> (x # w) # ws | [] \<Rightarrow> [[x]]))"

lemma js_split_not_Nil [simp]: "js_split c s \<noteq> []"
  by (induction s) (auto split: list.split)

lemma js_split_Cons_sep [simp]: "js_split c (c # xs) = [] # js_split c xs"
  by simp

lemma js_split_Cons_other [simp]:
  "x \<noteq> c \<Longrightarrow> js_split c (x # xs) = (x # hd (js_split c xs)) # tl (js_split c xs)"
  using js_split_not_Nil [of c xs] by (cases "js_split c xs") auto

declare js_split.simps(2) [simp del]

lemma js_split_no_sep: "c \<notin> set s \<Longrightarrow> js_split c s = [s]"
  by (induction s) auto

lemma js_split_append_sep:
  "c \<notin> set xs \<Longrightarrow> js_split c (xs @ c # ys) = xs # js_split c ys"
  by (induction xs) auto

lemma set_js_split: "set s \<subseteq> insert c (\<Union>w \<in> set (js_split c s). set w)"
proof (induction s)
  case Nil
  then show ?case by simp
next
  case (Cons x xs)
  obtain v vs where L: "js_split c xs = v # vs"
    using js_split_not_Nil [of c xs] by (cases "js_split c xs") auto
  with Cons show ?case by (cases "x = c") auto
qed

text \<open>\<open>Array.prototype.join\<close> with a one-character separator.\<close>

fun js_join :: "char \<Rightarrow> string list \<Rightarrow> string" where
  "js_join c [] = []"
| "js_join c [w] = w"
| "js_join c (w # ws) = w @ c # js_join c ws"

lemma js_join_Cons: "js_join c (w # ws) = (if ws = [] then w else w @ c # js_join c ws)"
  by (cases ws) auto

text \<open>Splitting and joining with the separator are inverse: no character is lost.\<close>

lemma js_join_split [simp]: "js_join c (js_split c s) = s"
proof (induction s)
  case Nil
  then show ?case by simp
next
  case (Cons x xs)
  obtain w ws where L: "js_split c xs = w # ws"
    using js_split_not_Nil [of c xs] by (cases "js_split c xs") auto
  show ?case
  proof (cases "x = c")
    case True
    with Cons.IH L show ?thesis by (auto simp: js_join_Cons split: if_splits)
  next
    case False
    with Cons.IH L show ?thesis by (auto simp: js_join_Cons split: if_splits)
  qed
qed

lemma js_split_pieces: "w \<in> set (js_split c s) \<Longrightarrow> c \<notin> set w"
proof (induction s arbitrary: w)
  case Nil
  then show ?case by simp
next
  case (Cons x xs)
  obtain v vs where L: "js_split c xs = v # vs"
    using js_split_not_Nil [of c xs] by (cases "js_split c xs") auto
  show ?case
  proof (cases "x = c")
    case True
    with Cons show ?thesis by auto
  next
    case False
    with Cons.prems L have "w = x # v \<or> w \<in> set vs" by auto
    with False Cons.IH L show ?thesis by auto
  qed
qed

text \<open>
  \<open>s.split(c).pop()\<close> is the last piece: the characters after the last separator.
  The code writes \<open>resourcePath.split('/').pop() || ''\<close>; \<open>pop\<close> of a non-empty
  array never gives \<open>undefined\<close>, so the fallback only turns \<open>''\<close> into \<open>''\<close>.
\<close>

definition js_last_segment :: "char \<Rightarrow> string \<Rightarrow> string" where
  "js_last_segment c s = last (js_split c s)"

lemma js_last_segment_takeWhile:
  "js_last_segment c s = rev (takeWhile (\<lambda>x. x \<noteq> c) (rev s))"
proof (induction s)
  case Nil
  then show ?case by (simp add: js_last_segment_def)
next
  case (Cons x xs)
  then show ?case
  proof (cases "x = c")
    case True
    with Cons.IH show ?thesis by (simp add: js_last_segment_def takeWhile_append)
  next
    case False
    obtain v vs where L: "js_split c xs = v # vs"
      using js_split_not_Nil [of c xs] by (cases "js_split c xs") auto
    from Cons.IH have IH: "last (v # vs) = rev (takeWhile (\<lambda>x. x \<noteq> c) (rev xs))"
      by (simp add: js_last_segment_def L)
    show ?thesis
    proof (cases "vs = []")
      case True
      with L have "c \<notin> set xs"
        using js_join_split [of c xs] js_split_pieces [of v c xs] by auto
      with False True L show ?thesis
        using js_join_split [of c xs] by (simp add: js_last_segment_def takeWhile_append)
    next
      case nonempty: False
      with IH have "c \<in> set xs"
        using js_join_split [of c xs] L by (auto simp: js_join_Cons)
      with False nonempty L IH show ?thesis by (auto simp: js_last_segment_def takeWhile_append)
    qed
  qed
qed

text \<open>
  \<open>s.replace(pat, r)\<close> with a string pattern: only the first occurrence of \<open>pat\<close> is
  replaced (an empty pattern matches at the start).
\<close>

fun js_replace_first :: "string \<Rightarrow> string \<Rightarrow> string \<Rightarrow> string" where
  "js_replace_first pat r [] = (if pat = [] then r else [])"
| "js_replace_first pat r (c # cs) =
     (if take (length pat) (c # cs) = pat then r @ drop (length pat) (c # cs)
      else c # js_replace_first pat r cs)"

lemma js_replace_first_prefix [simp]: "js_replace_first pat r (pat @ s) = r @ s"
proof (cases "pat @ s")
  case Nil
  then show ?thesis by simp
next
  case (Cons c cs)
  then have "take (length pat) (c # cs) = pat" "drop (length pat) (c # cs) = s"
    by (metis append_eq_conv_conj)+
  with Cons show ?thesis by simp
qed

lemma js_replace_first_absent:
  "(\<And>xs ys. s \<noteq> xs @ pat @ ys) \<Longrightarrow> js_replace_first pat r s = s"
proof (induction s)
  case Nil
  then show ?case by (cases pat) auto
next
  case (Cons c cs)
  have "take (length pat) (c # cs) \<noteq> pat"
    using Cons.prems [of "[]" "drop (length pat) (c # cs)"] by (metis append_take_drop_id self_append_conv2)
  moreover have "js_replace_first pat r cs = cs"
    using Cons.prems [of "c # _"] by (intro Cons.IH) auto
  ultimately show ?case by simp
qed

subsection \<open>Lists\<close>

text \<open>The position of the first occurrence of an element (the length when absent).\<close>

fun list_index :: "'a list \<Rightarrow> 'a \<Rightarrow> nat" where
  "list_index [] x = 0"
| "list_index (y # ys) x = (if y = x then 0 else Suc (list_index ys x))"

lemma list_index_nth: "distinct xs \<Longrightarrow> i < length xs \<Longrightarrow> list_index xs (xs ! i) = i"
proof (induction xs arbitrary: i)
  case Nil
  then show ?case by simp
next
  case (Cons y ys)
  then show ?case by (cases i) (auto simp: nth_mem)
qed


subsection \<open>Counting residues and words\<close>

text \<open>How many of \<open>0, \<dots>, m - 1\<close> leave the residue \<open>i\<close> modulo \<open>k\<close>.\<close>

lemma card_mod_class:
  assumes "0 < k" "i < k"
  shows "card {n. n < m \<and> n mod k = i} = m div k + (if i < m mod k then 1 else 0)"
proof (induction m)
  case 0 then show ?case by simp
next
  case (Suc m)
  have s: "{n. n < Suc m \<and> n mod k = i} = {n. n < m \<and> n mod k = i} \<union> (if m mod k = i then {m} else {})"
    by (auto simp: less_Suc_eq)
  have c: "card {n. n < Suc m \<and> n mod k = i} = card {n. n < m \<and> n mod k = i} + (if m mod k = i then 1 else 0)"
    unfolding s by (simp add: card_insert_if)
  have "m mod k < k" using assms(1) by simp
  then show ?case unfolding c Suc.IH using assms by (auto simp: mod_Suc div_Suc)
qed

text \<open>A property of \<open>unat r\<close> holds for as many words \<open>r\<close> as naturals below \<open>2 ^ LENGTH('a)\<close>.\<close>

lemma card_word_unat:
  "card {r :: 'a::len word. P (unat r)} = card {n. n < 2 ^ LENGTH('a) \<and> P n}"
proof -
  have "unat ` {r :: 'a word. P (unat r)} = {n. n < 2 ^ LENGTH('a) \<and> P n}"
  proof (intro set_eqI iffI)
    fix n assume "n \<in> unat ` {r :: 'a word. P (unat r)}"
    then show "n \<in> {n. n < 2 ^ LENGTH('a) \<and> P n}" by auto
  next
    fix n assume n: "n \<in> {n. n < 2 ^ LENGTH('a) \<and> P n}"
    then have "unat (word_of_nat n :: 'a word) = n" by (simp add: unat_of_nat)
    with n show "n \<in> unat ` {r :: 'a word. P (unat r)}" by (metis (mono_tags, lifting) image_eqI mem_Collect_eq)
  qed
  moreover have "inj_on unat {r :: 'a word. P (unat r)}" by (simp add: inj_on_def word_unat_eq_iff)
  ultimately show ?thesis by (metis card_image)
qed


subsection \<open>Numbers as text\<close>

text \<open>
  A natural number in decimal, and \<open>toLocaleString('pt-BR')\<close> of a non-negative
  integer: the digits grouped by three from the right, separated by a full stop.
\<close>

definition digit_char :: "nat \<Rightarrow> char" where
  "digit_char d = char_of (48 + d)"

fun nat_digits :: "nat \<Rightarrow> string" where
  "nat_digits n = (if n < 10 then [digit_char n] else nat_digits (n div 10) @ [digit_char (n mod 10)])"

definition digits_value :: "string \<Rightarrow> nat" where
  "digits_value s = foldl (\<lambda>acc c. 10 * acc + (of_char c - 48)) 0 s"

function group_thousands :: "char \<Rightarrow> string \<Rightarrow> string" where
  "group_thousands sep ds =
     (if length ds \<le> 3 then ds
      else group_thousands sep (take (length ds - 3) ds) @ [sep] @ drop (length ds - 3) ds)"
  by pat_completeness auto
termination by (relation "measure (\<lambda>(_, ds). length ds)") auto

definition locale_pt_br :: "nat \<Rightarrow> string" where
  "locale_pt_br n = group_thousands (CHR ''.'') (nat_digits n)"

declare nat_digits.simps [simp del] group_thousands.simps [simp del]

lemma of_char_digit_char: "d < 10 \<Longrightarrow> of_char (digit_char d) = 48 + d"
  by (simp add: digit_char_def)

lemma digits_value_snoc: "digits_value (xs @ [c]) = 10 * digits_value xs + (of_char c - 48)"
  by (simp add: digits_value_def)

lemma digits_value_nat_digits [simp]: "digits_value (nat_digits n) = n"
proof (induction n rule: nat_digits.induct)
  case (1 n) then show ?case
    by (subst nat_digits.simps)
       (simp add: digits_value_snoc of_char_digit_char, simp add: digits_value_def of_char_digit_char)
qed

lemma nat_digits_ne [simp]: "nat_digits n \<noteq> []"
  by (subst nat_digits.simps) simp

lemma nat_digits_chars: "c \<in> set (nat_digits n) \<Longrightarrow> 48 \<le> (of_char c :: nat) \<and> (of_char c :: nat) < 58"
proof (induction n rule: nat_digits.induct)
  case (1 n) then show ?case
    by (subst (asm) nat_digits.simps) (auto simp: of_char_digit_char split: if_splits)
qed

lemma group_thousands_filter:
  "sep \<notin> set ds \<Longrightarrow> filter (\<lambda>c. c \<noteq> sep) (group_thousands sep ds) = ds"
proof (induction sep ds rule: group_thousands.induct)
  case (1 sep ds)
  have "sep \<notin> set (take (length ds - 3) ds)" using 1(2) by (auto dest: in_set_takeD)
  moreover have "filter (\<lambda>c. c \<noteq> sep) (drop (length ds - 3) ds) = drop (length ds - 3) ds"
    using 1(2) by (auto simp: filter_id_conv dest: in_set_dropD)
  ultimately show ?case using 1
    by (subst group_thousands.simps) (auto simp: filter_id_conv)
qed

lemma group_thousands_short: "length ds \<le> 3 \<Longrightarrow> group_thousands sep ds = ds"
  by (simp add: group_thousands.simps)


lemma locale_pt_br_digits: "filter (\<lambda>c. c \<noteq> CHR ''.'') (locale_pt_br n) = nat_digits n"
proof -
  have "CHR ''.'' \<notin> set (nat_digits n)" using nat_digits_chars [of "CHR ''.''" n] by auto
  then show ?thesis by (simp add: locale_pt_br_def group_thousands_filter)
qed

end
