(* ===== verification/Resources.thy ===== *)
theory Resources
  imports Prelude
begin

text \<open>
  The optimisation resource manager (\<open>lib/optimizationResourceManager.ts\<close>) and its
  table (\<open>lib/optimizationResources.ts\<close>): fourteen \<open>.reg\<close>/\<open>.bat\<close> tweak files,
  checked for on disk, downloaded from the CDN and resolved to a local path. The file
  system is the set of paths that exist, with the log of the GET requests the
  \<open>download-file\<close> handler of \<open>main.js\<close> issued. The renderer reaches the file system
  only through the \<open>electronAPI\<close> object of the preload script, modelled by what it
  exposes.
\<close>

subsection \<open>The resource table\<close>

datatype res_kind = Reg | Bat

fun kind_str :: "res_kind \<Rightarrow> string" where
  "kind_str Reg = ''reg''"
| "kind_str Bat = ''bat''"

text \<open>\<open>OptimizationResource\<close> without its display-only \<open>description\<close> and unused \<open>url\<close>.\<close>

record resource =
  res_type :: res_kind
  res_name :: string
  res_path :: string
  res_category :: string

definition cat_desempenho :: string where
  "cat_desempenho = ''DESEMPENHO GERAL DO SISTEMA''"

definition cat_fps :: string where
  "cat_fps = ''FPSeINPUT LAG''"

text \<open>\<open>'OTIMIZA\<Ccedil>\<Otilde>ES NO REGISTRO'\<close>: U+00C7 and U+00D5.\<close>

definition cat_registro :: string where
  "cat_registro = ''OTIMIZA'' @ [CHR 0xC7, CHR 0xD5] @ ''ES NO REGISTRO''"

definition res :: "res_kind \<Rightarrow> string \<Rightarrow> string \<Rightarrow> string \<Rightarrow> resource" where
  "res k cat file name =
     \<lparr>res_type = k, res_name = name, res_path = ''otimizacoes-byte/'' @ cat @ ''/'' @ file,
      res_category = cat\<rparr>"

definition optimization_resources :: "resource list" where
  "optimization_resources =
     [res Reg cat_desempenho ''Power Throttling off.reg'' ''Power Throttling'',
      res Reg cat_desempenho ''Processor Scheduling.reg'' ''Processor Scheduling'',
      res Reg cat_desempenho ''Superfetch off.reg'' ''Superfetch'',
      res Reg cat_desempenho ''SystemResponsiveness + GPU.reg'' ''System Responsiveness'',
      res Reg cat_desempenho (''Windows Mais R'' @ [CHR 0xE1] @ ''pido.reg'') ''Windows Performance'',
      res Bat cat_fps ''Aumentar fps.bat'' ''Aumentar FPS'',
      res Bat cat_fps ''Deixa jogo mais fluido.bat'' ''Fluidez de Jogos'',
      res Bat cat_fps ''Diminui Input lag.bat'' ''Reduzir Input Lag'',
      res Reg cat_fps ''Reduzir Input Lag.reg'' ''Registry Input Lag'',
      res Reg cat_registro ''Desativa dvr.reg'' ''Desativar DVR'',
      res Reg cat_registro ''Liberar nucleos.reg'' (''Liberar N'' @ [CHR 0xFA] @ ''cleos''),
      res Reg cat_registro ''PC fraco ATT- .reg'' ''Otimizar PC'',
      res Reg cat_registro ''Ping Optimization.reg'' ''Otimizar Ping'',
      res Reg cat_registro (''Recuperando RAM ap'' @ [CHR 0xF3] @ ''s o fechamento dos programas.reg'')
        ''Recuperar RAM'']"

text \<open>\<open>CDN_BASE_URL = import.meta.env.VITE_CDN_URL || 'https://cdn.bytelatency.com/otimizacoes'\<close>\<close>

definition cdn_base_url :: "string option \<Rightarrow> string" where
  "cdn_base_url env =
     (case env of Some u \<Rightarrow> if u = [] then ''https://cdn.bytelatency.com/otimizacoes'' else u
      | None \<Rightarrow> ''https://cdn.bytelatency.com/otimizacoes'')"

text \<open>\<open>getResourceUrl\<close>: the base and the file name \<open>resourcePath.split('/').pop() || ''\<close>.\<close>

definition get_resource_url :: "string \<Rightarrow> string \<Rightarrow> string" where
  "get_resource_url base resourcePath = base @ ''/'' @ js_last_segment (CHR ''/'') resourcePath"

text \<open>\<open>s.replace(/\s+/g, '_')\<close>: every run of white space becomes one underscore.\<close>

function js_replace_ws :: "string \<Rightarrow> string" where
  "js_replace_ws [] = []"
| "js_replace_ws (c # cs) =
     (if js_is_space c then CHR ''_'' # js_replace_ws (dropWhile js_is_space cs)
      else c # js_replace_ws cs)"
  by pat_completeness auto
termination
  by (relation "measure length") (auto simp: le_imp_less_Suc length_dropWhile_le)

subsection \<open>The preload API and the file system\<close>

text \<open>
  What \<open>window.electronAPI\<close> offers the manager: the value \<open>getAppPath?.()\<close> has in
  a template literal (\<open>None\<close> when the function is not exposed, so \<open>|| ''\<close> gives the
  empty string), and whether \<open>fileExists\<close> and \<open>downloadFile\<close> exist. A missing
  \<open>fileExists\<close> answers \<open>undefined\<close>, which the code reads as "does not exist".
\<close>

record electron_api =
  api_app_path :: "string option"
  api_file_exists :: bool
  api_download :: bool

text \<open>
  \<open>electron/preload.cjs\<close>, the script \<open>main.js\<close> loads (line 132): no file functions.
  \<open>electron/preload.js\<close>: all three, but \<open>getAppPath\<close> is \<open>ipcRenderer.invoke\<close>, a
  promise, which the template literal prints as \<open>[object Promise]\<close>.
\<close>

definition preload_cjs_api :: electron_api where
  "preload_cjs_api = \<lparr>api_app_path = None, api_file_exists = False, api_download = False\<rparr>"

definition preload_js_api :: electron_api where
  "preload_js_api = \<lparr>api_app_path = Some ''[object Promise]'', api_file_exists = True, api_download = True\<rparr>"

definition app_prefix :: "electron_api \<Rightarrow> string" where
  "app_prefix api = (case api_app_path api of None \<Rightarrow> [] | Some p \<Rightarrow> p)"

record fs_state =
  fs_files :: "string set"
  fs_fetched :: "string list"

text \<open>
  An \<open>ipcRenderer.invoke\<close> as the renderer sees it: the promise resolves with a value
  or rejects.
\<close>

datatype 'a invoke = Resolved 'a | Rejected

text \<open>
  \<open>main.js\<close> is an ES module (line 1 \<open>import\<close>, line 13 \<open>import.meta.url\<close>): the
  free name \<open>require\<close> is not defined in it, and calling it throws a
  \<open>ReferenceError\<close>.
\<close>

definition main_js_esm :: bool where
  "main_js_esm = True"

text \<open>
  The \<open>file-exists\<close> handler (lines 466--474): \<open>require('fs')\<close> comes before the
  \<open>try\<close>, so in an ES module the handler throws and the invoke rejects; otherwise it
  answers whether the path is on the disk.
\<close>

definition file_exists_handler :: "bool \<Rightarrow> fs_state \<Rightarrow> string \<Rightarrow> bool invoke" where
  "file_exists_handler esm fs filePath = (if esm then Rejected else Resolved (filePath \<in> fs_files fs))"

text \<open>
  \<open>electronAPI.fileExists?.(path)\<close>: \<open>undefined\<close> (read as "does not exist") when the
  preload does not expose it, else the handler's answer.
\<close>

definition file_exists :: "electron_api \<Rightarrow> fs_state \<Rightarrow> string \<Rightarrow> bool invoke" where
  "file_exists api fs filePath =
     (if \<not> api_file_exists api then Resolved False else file_exists_handler main_js_esm fs filePath)"

text \<open>
  The \<open>download-file\<close> handler (lines 410--463): \<open>require\<close> at line 411 comes before the
  \<open>try\<close>, so in an ES module it throws before any request; otherwise one GET of
  \<open>url\<close>, and with status 200 (\<open>net url\<close>) the body is written to \<open>filePath\<close> and the
  call resolves, else it rejects.
\<close>

definition download_file_handler ::
  "bool \<Rightarrow> (string \<Rightarrow> bool) \<Rightarrow> string \<Rightarrow> string \<Rightarrow> fs_state \<Rightarrow> unit invoke \<times> fs_state" where
  "download_file_handler esm net url filePath fs =
     (if esm then (Rejected, fs)
      else let fs' = fs\<lparr>fs_fetched := fs_fetched fs @ [url]\<rparr>
           in if net url then (Resolved (), fs'\<lparr>fs_files := insert filePath (fs_files fs')\<rparr>) else (Rejected, fs'))"

text \<open>
  \<open>electronAPI.downloadFile(options)\<close>: the options are copied to the main process by
  the structured-clone algorithm, which refuses a function: with an \<open>onProgress\<close>
  callback (\<open>with_callback\<close>) the invoke rejects before the handler runs.
\<close>

definition download_file ::
  "bool \<Rightarrow> (string \<Rightarrow> bool) \<Rightarrow> string \<Rightarrow> string \<Rightarrow> fs_state \<Rightarrow> unit invoke \<times> fs_state" where
  "download_file with_callback net url filePath fs =
     (if with_callback then (Rejected, fs) else download_file_handler main_js_esm net url filePath fs)"

subsection \<open>The manager\<close>

definition find_resource :: "string \<Rightarrow> resource option" where
  "find_resource resourcePath = find (\<lambda>r. res_path r = resourcePath) optimization_resources"

text \<open>The path \<open>getMissingResources\<close> tests: \<open>\<dots>/otimizacoes-byte/${name}.${type}\<close>.\<close>

definition check_path :: "electron_api \<Rightarrow> resource \<Rightarrow> string" where
  "check_path api r = app_prefix api @ ''/otimizacoes-byte/'' @ res_name r @ ''.'' @ kind_str (res_type r)"

text \<open>
  The path \<open>downloadResources\<close>, \<open>downloadResource\<close> and \<open>ensureResource\<close> write and
  test: \<open>\<dots>/otimizacoes-byte/${category}/${fileName}\<close>.
\<close>

definition local_path :: "electron_api \<Rightarrow> resource \<Rightarrow> string \<Rightarrow> string" where
  "local_path api r resourcePath =
     app_prefix api @ ''/otimizacoes-byte/'' @ js_replace_ws (res_category r) @ ''/'' @
       js_last_segment (CHR ''/'') resourcePath"

text \<open>
  \<open>getMissingResources\<close> (lines 43--64): a resource is missing unless \<open>fileExists\<close>
  answers a truthy value; a rejection is caught and counts as missing.
\<close>

definition get_missing_resources :: "electron_api \<Rightarrow> fs_state \<Rightarrow> string list" where
  "get_missing_resources api fs =
     map res_path (filter (\<lambda>r. file_exists api fs (check_path api r) \<noteq> Resolved True) optimization_resources)"

text \<open>
  \<open>downloadResources\<close> (lines 69--110): each listed path in turn, with an
  \<open>onProgress\<close> callback; a rejected download is caught and skipped.
\<close>

definition download_resources ::
  "electron_api \<Rightarrow> (string \<Rightarrow> bool) \<Rightarrow> string \<Rightarrow> string list \<Rightarrow> fs_state \<Rightarrow> fs_state" where
  "download_resources api net base resourcePaths fs =
     (if \<not> api_download api then fs
      else foldl (\<lambda>fs p. case find_resource p of None \<Rightarrow> fs
                        | Some r \<Rightarrow> snd (download_file True net (get_resource_url base p) (local_path api r p) fs))
             fs resourcePaths)"

text \<open>\<open>downloadResource\<close> (lines 115--149): one download without a callback; \<open>true\<close> when it resolves.\<close>

definition download_resource ::
  "electron_api \<Rightarrow> (string \<Rightarrow> bool) \<Rightarrow> string \<Rightarrow> string \<Rightarrow> fs_state \<Rightarrow> bool \<times> fs_state" where
  "download_resource api net base resourcePath fs =
     (if \<not> api_download api then (False, fs)
      else case find_resource resourcePath of None \<Rightarrow> (False, fs)
           | Some r \<Rightarrow> (case download_file False net (get_resource_url base resourcePath) (local_path api r resourcePath) fs of
                         (Resolved (), fs') \<Rightarrow> (True, fs')
                       | (Rejected, fs') \<Rightarrow> (False, fs')))"

text \<open>
  \<open>ensureResource\<close> (lines 154--181): the local path when \<open>fileExists\<close> says it is
  there or the download succeeds; a rejected \<open>fileExists\<close> is caught and gives
  \<open>null\<close>.
\<close>

definition ensure_resource ::
  "electron_api option \<Rightarrow> (string \<Rightarrow> bool) \<Rightarrow> string \<Rightarrow> string \<Rightarrow> fs_state \<Rightarrow> string option \<times> fs_state" where
  "ensure_resource api_opt net base resourcePath fs =
     (case api_opt of None \<Rightarrow> (None, fs) | Some api \<Rightarrow>
      (case find_resource resourcePath of None \<Rightarrow> (None, fs) | Some r \<Rightarrow>
       (let lp = local_path api r resourcePath
        in case file_exists api fs lp of
             Rejected \<Rightarrow> (None, fs)
           | Resolved True \<Rightarrow> (Some lp, fs)
           | Resolved False \<Rightarrow>
               (case download_resource api net base resourcePath fs of
                  (True, fs') \<Rightarrow> (Some lp, fs')
                | (False, fs') \<Rightarrow> (None, fs')))))"

text \<open>
  \<open>initialize\<close>: once per process (\<open>isInitialized\<close> is a static field, false at every
  launch); without \<open>electronAPI\<close> it returns before setting the flag.
\<close>

record rm_state =
  rm_initialized :: bool
  rm_fs :: fs_state

definition initialize ::
  "electron_api option \<Rightarrow> (string \<Rightarrow> bool) \<Rightarrow> string \<Rightarrow> rm_state \<Rightarrow> rm_state" where
  "initialize api_opt net base st =
     (if rm_initialized st then st
      else case api_opt of None \<Rightarrow> st | Some api \<Rightarrow>
        (let missing = get_missing_resources api (rm_fs st);
             fs' = (if missing \<noteq> [] then download_resources api net base missing (rm_fs st) else rm_fs st)
         in st\<lparr>rm_initialized := True, rm_fs := fs'\<rparr>))"

text \<open>An application launch: a new process, whose manager is initialised by the dashboard.\<close>

definition launch ::
  "electron_api option \<Rightarrow> (string \<Rightarrow> bool) \<Rightarrow> string \<Rightarrow> fs_state \<Rightarrow> fs_state" where
  "launch api_opt net base fs =
     rm_fs (initialize api_opt net base \<lparr>rm_initialized = False, rm_fs = fs\<rparr>)"

subsection \<open>Lemmas\<close>

lemma set_js_replace_ws: "set (js_replace_ws s) \<subseteq> insert (CHR ''_'') (set s)"
  by (induction s rule: js_replace_ws.induct) (auto dest: set_dropWhileD)

lemma slash_not_in_last_segment: "CHR ''/'' \<notin> set (js_last_segment (CHR ''/'') s)"
  by (auto simp: js_last_segment_takeWhile dest: set_takeWhileD)

lemma slash_not_in_kind_str: "CHR ''/'' \<notin> set (kind_str k)"
  by (cases k) simp_all

lemma resources_no_slash:
  "r \<in> set optimization_resources \<Longrightarrow> CHR ''/'' \<notin> set (res_name r) \<and> CHR ''/'' \<notin> set (res_category r)"
  by (auto simp: optimization_resources_def res_def cat_desempenho_def cat_fps_def cat_registro_def)

lemma filter_slash_none: "CHR ''/'' \<notin> set s \<Longrightarrow> filter (\<lambda>c. c = CHR ''/'') s = []"
  by (auto simp: filter_empty_conv)

text \<open>
  The tested path has two slashes after the application prefix, the downloaded path
  three: no download can create a file \<open>getMissingResources\<close> looks for.
\<close>

lemma check_path_ne_local_path:
  assumes "r \<in> set optimization_resources" "r' \<in> set optimization_resources"
  shows "check_path api r \<noteq> local_path api r' p"
proof
  assume eq: "check_path api r = local_path api r' p"
  have "CHR ''/'' \<notin> set (js_replace_ws (res_category r'))"
    using set_js_replace_ws [of "res_category r'"] resources_no_slash [OF assms(2)] by auto
  then have "length (filter (\<lambda>c. c = CHR ''/'') (local_path api r' p)) =
      length (filter (\<lambda>c. c = CHR ''/'') (app_prefix api)) + 3"
    by (simp add: local_path_def filter_slash_none slash_not_in_last_segment)
  moreover have "length (filter (\<lambda>c. c = CHR ''/'') (check_path api r)) =
      length (filter (\<lambda>c. c = CHR ''/'') (app_prefix api)) + 2"
    using resources_no_slash [OF assms(1)]
    by (simp add: check_path_def filter_slash_none slash_not_in_kind_str)
  ultimately show False using eq by simp
qed

lemma find_resource_in_table: "find_resource p = Some r \<Longrightarrow> r \<in> set optimization_resources"
  by (auto simp: find_resource_def find_Some_iff)

lemma find_resource_paths: "r \<in> set optimization_resources \<Longrightarrow> \<exists>r'. find_resource (res_path r) = Some r'"
proof -
  assume "r \<in> set optimization_resources"
  then have "find (\<lambda>x. res_path x = res_path r) optimization_resources \<noteq> None"
    by (auto simp: find_None_iff)
  then show ?thesis by (auto simp: find_resource_def)
qed

lemma length_optimization_resources [simp]: "length optimization_resources = 14"
  by (simp add: optimization_resources_def)

lemma download_file_rejected: "download_file cb net url filePath fs = (Rejected, fs)"
  by (simp add: download_file_def download_file_handler_def main_js_esm_def)

lemma file_exists_never_true: "file_exists api fs filePath \<noteq> Resolved True"
  by (simp add: file_exists_def file_exists_handler_def main_js_esm_def)

lemma download_resources_noop: "download_resources api net base ps fs = fs"
proof -
  have "foldl (\<lambda>fs p. case find_resource p of None \<Rightarrow> fs
                | Some r \<Rightarrow> snd (download_file True net (get_resource_url base p) (local_path api r p) fs)) fs ps = fs"
    for fs by (induction ps arbitrary: fs) (simp_all add: download_file_rejected split: option.split)
  then show ?thesis by (simp add: download_resources_def)
qed

lemma download_resource_fails: "download_resource api net base p fs = (False, fs)"
  by (simp add: download_resource_def download_file_rejected split: option.split)

lemma ensure_resource_none: "ensure_resource api_opt net base p fs = (None, fs)"
  by (auto simp: ensure_resource_def Let_def download_resource_fails file_exists_def file_exists_handler_def
      main_js_esm_def split: option.split invoke.split bool.split)

subsection \<open>Properties of the resource manager\<close>

text \<open>
  C25: the manager never downloads anything. \<open>main.js\<close>'s \<open>file-exists\<close> and
  \<open>download-file\<close> handlers call \<open>require\<close> in an ES module and reject, and
  \<open>downloadResources\<close> passes a callback the IPC cannot copy: whatever the preload
  exposes, a launch leaves the disk and the request log as they were, and every one
  of the fourteen resources is reported missing at every launch.
\<close>

theorem launch_downloads_nothing:
  "launch api_opt net base fs = fs \<and> get_missing_resources api fs = map res_path optimization_resources"
proof -
  have "get_missing_resources api fs = map res_path optimization_resources"
    by (simp add: get_missing_resources_def file_exists_never_true)
  moreover have "launch api_opt net base fs = fs"
    by (simp add: launch_def initialize_def Let_def download_resources_noop split: option.split)
  ultimately show ?thesis by simp
qed

text \<open>
  C26: with the preload the application actually loads (\<open>preload.cjs\<close>, which exposes
  neither \<open>fileExists\<close> nor \<open>downloadFile\<close>), \<open>ensureResource\<close> never yields a path
  and never touches the disk or the network.
\<close>

theorem ensure_resource_preload_cjs:
  "ensure_resource (Some preload_cjs_api) net base p fs = (None, fs)"
  by (simp add: ensure_resource_def preload_cjs_api_def file_exists_def download_resource_def
      Let_def split: option.split)

text \<open>
  The CDN URLs of the fourteen resources are pairwise distinct: \<open>getResourceUrl\<close>
  keeps only the file name, and no two resources share one.
\<close>

theorem resource_urls_distinct:
  "distinct (map (\<lambda>r. get_resource_url base (res_path r)) optimization_resources)"
proof -
  have "distinct (map (\<lambda>r. js_last_segment (CHR ''/'') (res_path r)) optimization_resources)"
    by (simp add: optimization_resources_def res_def js_last_segment_takeWhile cat_desempenho_def
        cat_fps_def cat_registro_def)
  then show ?thesis
    by (simp add: get_resource_url_def distinct_map inj_on_def comp_def)
qed

end
