(* ===== verification/LicenseKey.thy ===== *)
theory LicenseKey
  imports Prelude
begin

text \<open>
  Licence keys as the two admin panels generate them (\<open>AdminPanel.generateKey\<close>,
  \<open>AdminPanelComplete.createLicenses\<close>): four groups of four characters of
  \<open>[A-Z0-9]\<close> joined by hyphens, each character \<open>chars[r % 36]\<close> for a fresh
  unsigned 32-bit word \<open>r\<close> of \<open>crypto.getRandomValues\<close>. The random source is a
  function from the draw number (0 to 15, in the order the loops draw) to a \<open>32 word\<close>.
  Also here: the client-side guard and normalisation of a key typed for redemption.
\<close>

subsection \<open>Generation\<close>

definition key_chars :: string where
  "key_chars = ''ABCDEFGHIJKLMNOPQRSTUVWXYZ0123456789''"

text \<open>\<open>crypto.getRandomValues(randomBytes)[0] % chars.length\<close>\<close>

definition key_index :: "32 word \<Rightarrow> nat" where
  "key_index r = unat r mod length key_chars"

text \<open>The inner loop: \<open>for (k = 0; k < 4; k++) key += chars[randomIndex]\<close>.\<close>

definition key_group :: "(nat \<Rightarrow> 32 word) \<Rightarrow> nat \<Rightarrow> string \<Rightarrow> string" where
  "key_group rnd j key0 =
     foldl (\<lambda>key k. key @ [key_chars ! key_index (rnd (4 * j + k))]) key0 [0..<4]"

text \<open>The outer loop: \<open>for (j = 0; j < 4; j++) { if (j > 0) key += "-"; \<dots> }\<close>.\<close>

definition gen_key :: "(nat \<Rightarrow> 32 word) \<Rightarrow> string" where
  "gen_key rnd =
     foldl (\<lambda>key j. key_group rnd j (if 0 < j then key @ ''-'' else key)) [] [0..<4]"

text \<open>
  The format of the spec, \<open>^[A-Z0-9]{4}-[A-Z0-9]{4}-[A-Z0-9]{4}-[A-Z0-9]{4}$\<close>, as an
  executable check: split at the hyphens there are four groups of four key characters
  (no key character is a hyphen, so this is the regular expression).
\<close>

definition key_format :: "string \<Rightarrow> bool" where
  "key_format s \<longleftrightarrow>
     (let gs = js_split (CHR ''-'') s
      in length gs = 4 \<and> list_all (\<lambda>g. length g = 4 \<and> list_all (\<lambda>c. c \<in> set key_chars) g) gs)"

subsection \<open>Redemption input\<close>

text \<open>
  \<open>Dashboard.redeemKey\<close> and \<open>NewDashboard.redeemKey\<close>: an input that is empty after
  \<open>trim()\<close> is refused with a toast (\<open>None\<close>); otherwise the RPC is called with
  \<open>licenseKey.toUpperCase()\<close>, which is not trimmed.
\<close>

definition redeem_input :: "string \<Rightarrow> string option" where
  "redeem_input licenseKey =
     (if js_trim licenseKey = [] then None else Some (js_upper licenseKey))"

subsection \<open>Lemmas\<close>

lemma length_key_chars [simp]: "length key_chars = 36"
  by (simp add: key_chars_def)

lemma key_index_less: "key_index r < 36"
  by (simp add: key_index_def)

lemma key_char_in [simp]: "key_chars ! key_index r \<in> set key_chars"
  using key_index_less [of r] by simp

lemma hyphen_not_key_char [simp]: "CHR ''-'' \<notin> set key_chars"
  by (simp add: key_chars_def)

lemma distinct_key_chars: "distinct key_chars"
  by (simp add: key_chars_def)

text \<open>The characters of group \<open>j\<close>, in the order they are drawn.\<close>

definition group_chars :: "(nat \<Rightarrow> 32 word) \<Rightarrow> nat \<Rightarrow> string" where
  "group_chars rnd j = map (\<lambda>k. key_chars ! key_index (rnd (4 * j + k))) [0..<4]"

lemma key_group_eq: "key_group rnd j key0 = key0 @ group_chars rnd j"
  by (simp add: key_group_def group_chars_def upt_rec)

lemma gen_key_eq:
  "gen_key rnd = group_chars rnd 0 @ CHR ''-'' # group_chars rnd 1 @ CHR ''-'' #
                 group_chars rnd 2 @ CHR ''-'' # group_chars rnd 3"
  by (simp add: gen_key_def key_group_eq upt_rec numeral_2_eq_2 numeral_3_eq_3)

lemma group_chars_length [simp]: "length (group_chars rnd j) = 4"
  by (simp add: group_chars_def)

lemma group_chars_set: "set (group_chars rnd j) \<subseteq> set key_chars"
  by (auto simp: group_chars_def)

lemma hyphen_not_in_group [simp]: "CHR ''-'' \<notin> set (group_chars rnd j)"
  using group_chars_set [of rnd j] hyphen_not_key_char by blast

lemma js_split_gen_key:
  "js_split (CHR ''-'') (gen_key rnd) = map (group_chars rnd) [0..<4]"
  by (simp add: gen_key_eq js_split_append_sep js_split_no_sep upt_rec numeral_2_eq_2
      numeral_3_eq_3)

text \<open>Upper-casing undoes lower-casing on the key alphabet and the hyphen.\<close>

lemma upper_lower_key_char: "c \<in> set (CHR ''-'' # key_chars) \<Longrightarrow> js_upper_char (js_lower_char c) = c"
  by (auto simp: key_chars_def js_upper_char_def js_lower_char_def)

lemma upper_key_char: "c \<in> set (CHR ''-'' # key_chars) \<Longrightarrow> js_upper_char c = c"
  by (auto simp: key_chars_def js_upper_char_def)

lemma set_gen_key: "set (gen_key rnd) \<subseteq> set (CHR ''-'' # key_chars)"
  using group_chars_set [of rnd] by (auto simp: gen_key_eq)

lemma lower_key_chars_not_space:
  "list_all (\<lambda>c. \<not> js_is_space (js_lower_char c)) (CHR ''-'' # key_chars)"
  by (simp add: key_chars_def js_is_space_of_char of_char_js_lower_char)

lemma lower_key_char_not_space:
  "c \<in> set (CHR ''-'' # key_chars) \<Longrightarrow> \<not> js_is_space (js_lower_char c)"
  using lower_key_chars_not_space unfolding list_all_iff by blast

lemma index_key_char [simp]: "list_index key_chars (key_chars ! key_index r) = key_index r"
  using distinct_key_chars key_index_less [of r] by (simp add: list_index_nth)

lemma filter_group_chars: "filter (\<lambda>c. c \<noteq> CHR ''-'') (group_chars rnd j) = group_chars rnd j"
  using hyphen_not_in_group [of rnd j] by (auto simp: filter_id_conv)

lemma index_group_chars:
  "map (list_index key_chars) (group_chars rnd j) = map (\<lambda>k. key_index (rnd (4 * j + k))) [0..<4]"
  by (simp add: group_chars_def)

lemma gen_key_not_Nil [simp]: "gen_key rnd \<noteq> []"
  by (simp add: gen_key_eq)

lemma key_format_chars: "key_format s \<Longrightarrow> set s \<subseteq> set (CHR ''-'' # key_chars)"
  using set_js_split [of s "CHR ''-''"] by (auto simp: key_format_def list_all_iff Let_def)

lemma js_trim_gen_key: "js_trim (gen_key rnd) \<noteq> []"
proof -
  obtain c cs where gk: "gen_key rnd = c # cs" by (cases "gen_key rnd") auto
  have "c \<in> set (CHR ''-'' # key_chars)" using set_gen_key [of rnd] gk by auto
  then have "\<not> js_is_space c"
    by (auto simp: key_chars_def js_is_space_def)
  with gk show ?thesis by (simp add: js_trim_Nil_iff)
qed

lemma redeem_input_gen_key: "redeem_input (gen_key rnd) = Some (gen_key rnd)"
proof -
  have "map js_upper_char (gen_key rnd) = gen_key rnd"
    using set_gen_key [of rnd] by (intro map_idI upper_key_char) auto
  with js_trim_gen_key [of rnd] show ?thesis by (simp add: redeem_input_def js_upper_def)
qed

subsection \<open>Properties of generated keys\<close>

text \<open>
  C3: every generated key has the format \<open>XXXX-XXXX-XXXX-XXXX\<close> over \<open>[A-Z0-9]\<close>,
  whatever words the random source returns.
\<close>

theorem gen_key_format: "key_format (gen_key rnd)"
  using group_chars_set [of rnd]
  by (simp add: key_format_def js_split_gen_key upt_rec list_all_iff subset_iff)

theorem gen_key_format_witness: "key_format (gen_key (\<lambda>i. of_nat (i * 1000003)))"
  by (rule gen_key_format)

text \<open>
  C14: the key records its draws: reading the characters back as positions in the
  alphabet gives, in order, the sixteen random words modulo 36. No draw is lost or
  reordered by the two loops.
\<close>

theorem gen_key_decode:
  "map (list_index key_chars) (filter (\<lambda>c. c \<noteq> CHR ''-'') (gen_key rnd))
     = map (\<lambda>i. key_index (rnd i)) [0..<16]"
proof -
  have "filter (\<lambda>c. c \<noteq> CHR ''-'') (gen_key rnd)
          = group_chars rnd 0 @ group_chars rnd 1 @ group_chars rnd 2 @ group_chars rnd 3"
    by (simp add: gen_key_eq filter_group_chars)
  then show ?thesis
    by (simp only: map_append index_group_chars) (simp add: upt_rec numeral_eq_Suc)
qed

text \<open>
  C15: The characters of a generated key are not uniform: \<open>key_index\<close> reduces a 32-bit
  word modulo 36, and since \<open>2 ^ 32 mod 36 = 4\<close> the letters A--D are drawn by 119304648
  words each and every other character by 119304647.
\<close>

theorem key_index_bias:
  assumes "i < 36"
  shows "card {r :: 32 word. key_index r = i} = (if i < 4 then 119304648 else 119304647)"
proof -
  have "card {r :: 32 word. key_index r = i} = card {n. n < 2 ^ 32 \<and> n mod 36 = i}"
    using card_word_unat [where 'a = 32 and P = "\<lambda>n. n mod 36 = i"]
    by (simp add: key_index_def length_key_chars)
  also have "\<dots> = 2 ^ 32 div 36 + (if i < 2 ^ 32 mod 36 then 1 else 0)"
    using assms by (intro card_mod_class) auto
  finally show ?thesis by simp
qed

theorem key_index_bias_witness:
  "(0::nat) < 36 \<and> card {r :: 32 word. key_index r = 0} = 119304648 \<and>
   (35::nat) < 36 \<and> card {r :: 32 word. key_index r = 35} = 119304647"
  using key_index_bias [of 0] key_index_bias [of 35] by simp

text \<open>
  A generated key typed in lower case passes the client's guard and is sent to the
  RPC as the key itself: \<open>toUpperCase\<close> undoes the lower-casing on the key alphabet.
\<close>

theorem redeem_input_lower_gen_key:
  "redeem_input (js_lower (gen_key rnd)) = Some (gen_key rnd)"
proof -
  have chars: "\<forall>c \<in> set (gen_key rnd). c \<in> set (CHR ''-'' # key_chars)"
    using set_gen_key [of rnd] by blast
  have "js_trim (js_lower (gen_key rnd)) \<noteq> []"
  proof -
    obtain c cs where gk: "gen_key rnd = c # cs"
      by (cases "gen_key rnd") auto
    with chars have "\<not> js_is_space (js_lower_char c)"
      by (intro lower_key_char_not_space) simp
    with gk show ?thesis by (simp add: js_trim_Nil_iff js_lower_def)
  qed
  moreover have "js_upper (js_lower (gen_key rnd)) = gen_key rnd"
    using chars by (simp add: js_upper_def js_lower_def upper_lower_key_char map_idI)
  ultimately show ?thesis by (simp add: redeem_input_def)
qed

end
