(* ===== verification/LicenseDB.thy ===== *)
theory LicenseDB
  imports LicenseKey
begin

text \<open>
  The Supabase tables as the client reads and writes them, each admin operation of
  \<open>AdminPanel.tsx\<close> and \<open>AdminPanelComplete.tsx\<close> as a function on them, the
  redemption RPC \<open>redeem_license_key\<close> (its SQL is not in the repository; modelled from
  the spec, section 4.2) and the client's \<open>redeemKey\<close>. All operations are combined in
  one step function over a datatype of operations; the reachable table states are an
  inductive predicate, and the licence invariant holds in all of them.
  Row ids are the natural numbers \<open>next_id\<close> hands out (Supabase uses fresh UUIDs).
\<close>

subsection \<open>Tables\<close>

record license =
  lic_id :: nat
  lic_key :: string
  duration_days :: int
  is_used :: bool
  created_by :: "uid option"
  created_at :: ms
  used_by :: "uid option"
  used_at :: "ms option"
  expires_at :: "ms option"

record subscription_row =
  sub_expires_at :: ms
  sub_source :: string
  sub_license_key_id :: "nat option"

datatype app_role = Admin | User_Role

text \<open>A \<open>profiles\<close> row; \<open>avatar_url\<close> is written by the settings page.\<close>

record profile_row =
  prof_username :: string
  prof_email :: string
  prof_avatar_url :: string

record notification_row =
  notif_id :: nat
  notif_title :: string
  notif_message :: string
  notif_created_by :: "uid option"
  notif_expires_at :: ms

text \<open>
  \<open>maintenance_value\<close> is the \<open>value\<close> of the \<open>system_config\<close> row with key
  \<open>maintenance_mode\<close> (\<open>None\<close> when the row is missing). \<open>default_duration\<close> is the
  schema's default for \<open>license_keys.duration_days\<close>, which the bulk path relies on.
\<close>

record db =
  licenses :: "license list"
  next_id :: nat
  profiles :: "uid \<rightharpoonup> profile_row"
  roles :: "uid \<rightharpoonup> app_role"
  subscriptions :: "uid \<rightharpoonup> subscription_row"
  maintenance_value :: "string option"
  notifications :: "notification_row list"
  default_duration :: int

definition insert_license :: "db \<Rightarrow> (nat \<Rightarrow> license) \<Rightarrow> db" where
  "insert_license d row =
     d\<lparr>licenses := licenses d @ [row (next_id d)], next_id := Suc (next_id d)\<rparr>"

subsection \<open>Admin operations on licence keys\<close>

text \<open>
  \<open>AdminPanel.generateKey\<close>: one key with the selected duration, its creator, its
  creation time and an expiry precomputed as \<open>now + duration * 24 h\<close>.
\<close>

definition generate_key :: "uid option \<Rightarrow> ms \<Rightarrow> int \<Rightarrow> (nat \<Rightarrow> 32 word) \<Rightarrow> db \<Rightarrow> db" where
  "generate_key user now selectedDuration rnd d =
     insert_license d (\<lambda>i. \<lparr>lic_id = i, lic_key = gen_key rnd, duration_days = selectedDuration,
        is_used = False, created_by = user, created_at = now, used_by = None, used_at = None,
        expires_at = Some (now + selectedDuration * ms_per_day)\<rparr>)"

text \<open>
  \<open>AdminPanelComplete.createLicenses\<close>: \<open>quantity\<close> keys inserted in one call, each with
  \<open>is_used\<close> and \<open>expires_at\<close> only: \<open>duration_days\<close> takes the schema default,
  \<open>created_by\<close> stays null, \<open>created_at\<close> is the insertion time. Key \<open>i\<close> draws
  its words from \<open>rnds i\<close>. A quantity that is not positive inserts nothing.
\<close>

definition bulk_row :: "ms \<Rightarrow> int \<Rightarrow> int \<Rightarrow> string \<Rightarrow> nat \<Rightarrow> license" where
  "bulk_row now durationDays dflt key i =
     \<lparr>lic_id = i, lic_key = key, duration_days = dflt, is_used = False, created_by = None,
      created_at = now, used_by = None, used_at = None,
      expires_at = Some (now + durationDays * ms_per_day)\<rparr>"

definition create_licenses :: "ms \<Rightarrow> int \<Rightarrow> int \<Rightarrow> (nat \<Rightarrow> nat \<Rightarrow> 32 word) \<Rightarrow> db \<Rightarrow> db" where
  "create_licenses now durationDays quantity rnds d =
     foldl (\<lambda>d' i. insert_license d' (bulk_row now durationDays (default_duration d') (gen_key (rnds i))))
       d [0..<nat quantity]"

text \<open>\<open>deleteLicense\<close> / \<open>deleteKey\<close> and \<open>deleteAllLicenses\<close>.\<close>

definition delete_license :: "nat \<Rightarrow> db \<Rightarrow> db" where
  "delete_license licenseId d = d\<lparr>licenses := filter (\<lambda>l. lic_id l \<noteq> licenseId) (licenses d)\<rparr>"

definition delete_all_licenses :: "db \<Rightarrow> db" where
  "delete_all_licenses d = d\<lparr>licenses := []\<rparr>"

subsection \<open>Admin operations on users, configuration and notifications\<close>

text \<open>
  \<open>toggleUserRole userId currentRole\<close>: \<open>'admin'\<close> is demoted by deleting the role
  row, anything else is promoted by an upsert of \<open>admin\<close>.
\<close>

definition toggle_user_role :: "uid \<Rightarrow> string \<Rightarrow> db \<Rightarrow> db" where
  "toggle_user_role userId currentRole d =
     (if currentRole = ''admin'' then d\<lparr>roles := (roles d)(userId := None)\<rparr>
      else d\<lparr>roles := (roles d)(userId \<mapsto> Admin)\<rparr>)"

text \<open>\<open>deleteUser\<close>: role row, subscription rows and profile, in this order.\<close>

definition delete_user :: "uid \<Rightarrow> db \<Rightarrow> db" where
  "delete_user userId d =
     d\<lparr>roles := (roles d)(userId := None), subscriptions := (subscriptions d)(userId := None),
       profiles := (profiles d)(userId := None)\<rparr>"

text \<open>
  \<open>toggleMaintenanceMode\<close> writes the negation of the flag the panel last loaded
  (\<open>maintenanceMode\<close>), as the string \<open>'true'\<close> or \<open>'false'\<close>; an update of a
  missing row changes nothing.
\<close>

definition toggle_maintenance :: "bool \<Rightarrow> db \<Rightarrow> db" where
  "toggle_maintenance maintenanceMode d =
     (case maintenance_value d of
        None \<Rightarrow> d
      | Some _ \<Rightarrow> d\<lparr>maintenance_value := Some (if \<not> maintenanceMode then ''true'' else ''false'')\<rparr>)"

text \<open>
  \<open>sendNotification\<close>: refused when the title or the message is empty; the expiry is
  \<open>duration_hours || 24\<close> hours from now. The code adds the hours with \<open>setHours\<close>
  on local time, which differs from adding milliseconds by an hour when the interval
  crosses a daylight-saving change; the model adds milliseconds (time zones are not
  modelled).
\<close>

definition send_notification :: "uid option \<Rightarrow> string \<Rightarrow> string \<Rightarrow> int \<Rightarrow> ms \<Rightarrow> db \<Rightarrow> db" where
  "send_notification user title message durationHours now d =
     (if title = [] \<or> message = [] then d
      else let hours = (if durationHours = 0 then 24 else durationHours)
           in d\<lparr>notifications := notifications d @
                  [\<lparr>notif_id = next_id d, notif_title = title, notif_message = message,
                    notif_created_by = user, notif_expires_at = now + hours * ms_per_hour\<rparr>],
                next_id := Suc (next_id d)\<rparr>)"

subsection \<open>Redemption\<close>

datatype redeem_msg = Key_Not_Found | Key_Already_Used | Key_Activated

record redeem_result =
  success :: bool
  message :: redeem_msg

text \<open>
  The RPC, from the spec: find the key; an unknown or used key is refused and nothing
  changes; otherwise the row is marked used by the caller at \<open>now\<close> with expiry
  \<open>now + duration_days\<close>, and the caller's subscription is created or replaced with
  that expiry. The first row with the key is taken (the schema's uniqueness of keys is
  not known).
\<close>

definition redeem_license_key :: "uid \<Rightarrow> string \<Rightarrow> ms \<Rightarrow> db \<Rightarrow> redeem_result \<times> db" where
  "redeem_license_key u p_key now d =
     (case find (\<lambda>l. lic_key l = p_key) (licenses d) of
        None \<Rightarrow> (\<lparr>success = False, message = Key_Not_Found\<rparr>, d)
      | Some l \<Rightarrow>
          if is_used l then (\<lparr>success = False, message = Key_Already_Used\<rparr>, d)
          else
            (let exp = now + duration_days l * ms_per_day;
                 l' = l\<lparr>is_used := True, used_by := Some u, used_at := Some now,
                        expires_at := Some exp\<rparr>
             in (\<lparr>success = True, message = Key_Activated\<rparr>,
                 d\<lparr>licenses := map (\<lambda>x. if lic_id x = lic_id l then l' else x) (licenses d),
                   subscriptions := (subscriptions d)(u \<mapsto>
                      \<lparr>sub_expires_at = exp, sub_source = ''license_key'',
                       sub_license_key_id = Some (lic_id l)\<rparr>)\<rparr>)))"

text \<open>
  The client's \<open>redeemKey\<close>: an input blank after \<open>trim()\<close> is refused before any
  call; otherwise the RPC runs on the upper-cased input and its result is reported.
\<close>

datatype redeem_outcome = Redeem_Empty | Redeem_Ok | Redeem_Rejected redeem_msg

definition client_redeem :: "uid \<Rightarrow> string \<Rightarrow> ms \<Rightarrow> db \<Rightarrow> redeem_outcome \<times> db" where
  "client_redeem u licenseKey now d =
     (case redeem_input licenseKey of
        None \<Rightarrow> (Redeem_Empty, d)
      | Some k \<Rightarrow>
          (let (r, d') = redeem_license_key u k now d
           in (if success r then Redeem_Ok else Redeem_Rejected (message r), d')))"

subsection \<open>The operations as one step function\<close>

datatype db_op =
    Op_Generate "uid option" ms int "nat \<Rightarrow> 32 word"
  | Op_Create_Licenses ms int int "nat \<Rightarrow> nat \<Rightarrow> 32 word"
  | Op_Delete_License nat
  | Op_Delete_All_Licenses
  | Op_Toggle_Role uid string
  | Op_Delete_User uid
  | Op_Toggle_Maintenance bool
  | Op_Send_Notification "uid option" string string int ms
  | Op_Redeem uid string ms

fun db_step :: "db \<Rightarrow> db_op \<Rightarrow> db" where
  "db_step d (Op_Generate user now dur rnd) = generate_key user now dur rnd d"
| "db_step d (Op_Create_Licenses now dur q rnds) = create_licenses now dur q rnds d"
| "db_step d (Op_Delete_License i) = delete_license i d"
| "db_step d Op_Delete_All_Licenses = delete_all_licenses d"
| "db_step d (Op_Toggle_Role u r) = toggle_user_role u r d"
| "db_step d (Op_Delete_User u) = delete_user u d"
| "db_step d (Op_Toggle_Maintenance m) = toggle_maintenance m d"
| "db_step d (Op_Send_Notification user t msg h now) = send_notification user t msg h now d"
| "db_step d (Op_Redeem u k now) = snd (client_redeem u k now d)"

definition empty_db :: "int \<Rightarrow> db" where
  "empty_db dflt =
     \<lparr>licenses = [], next_id = 0, profiles = Map.empty, roles = Map.empty,
      subscriptions = Map.empty, maintenance_value = Some ''false'', notifications = [],
      default_duration = dflt\<rparr>"

inductive reachable_db :: "db \<Rightarrow> bool" where
  init: "reachable_db (empty_db dflt)"
| step: "reachable_db d \<Longrightarrow> reachable_db (db_step d op)"

subsection \<open>The licence invariant\<close>

text \<open>
  A row is consistent when it is used exactly when it names the user who used it, and a
  used row records when it was used and when it expires. The table is consistent when
  its ids are distinct and below the next id, and every row is.
\<close>

definition row_ok :: "license \<Rightarrow> bool" where
  "row_ok l \<longleftrightarrow> (is_used l \<longleftrightarrow> used_by l \<noteq> None) \<and>
                (is_used l \<longrightarrow> used_at l \<noteq> None \<and> expires_at l \<noteq> None)"

definition lic_inv :: "db \<Rightarrow> bool" where
  "lic_inv d \<longleftrightarrow> distinct (map lic_id (licenses d)) \<and>
     (\<forall>l \<in> set (licenses d). lic_id l < next_id d \<and> row_ok l)"

named_theorems lic_inv_step "each operation keeps the licence invariant"

lemma insert_license_inv:
  assumes "lic_inv d" "lic_id (row (next_id d)) = next_id d" "row_ok (row (next_id d))"
  shows "lic_inv (insert_license d row)"
  using assms by (auto simp: lic_inv_def insert_license_def)

lemma generate_key_inv [lic_inv_step]: "lic_inv d \<Longrightarrow> lic_inv (generate_key user now dur rnd d)"
  unfolding generate_key_def by (rule insert_license_inv) (simp_all add: row_ok_def)

lemma create_licenses_fold_inv:
  "lic_inv d \<Longrightarrow>
   lic_inv (foldl (\<lambda>d' i. insert_license d' (bulk_row now dur (default_duration d') (key i))) d is)"
proof (induction "is" arbitrary: d)
  case Nil
  then show ?case by simp
next
  case (Cons i "is")
  have "lic_inv (insert_license d (bulk_row now dur (default_duration d) (key i)))"
    using Cons.prems by (rule insert_license_inv) (simp_all add: bulk_row_def row_ok_def)
  then show ?case by (simp add: Cons.IH)
qed

lemma create_licenses_inv [lic_inv_step]: "lic_inv d \<Longrightarrow> lic_inv (create_licenses now dur q rnds d)"
  unfolding create_licenses_def by (rule create_licenses_fold_inv)

lemma delete_license_inv [lic_inv_step]: "lic_inv d \<Longrightarrow> lic_inv (delete_license i d)"
  by (auto simp: lic_inv_def delete_license_def distinct_map_filter)

lemma delete_all_licenses_inv [lic_inv_step]: "lic_inv d \<Longrightarrow> lic_inv (delete_all_licenses d)"
  by (simp add: lic_inv_def delete_all_licenses_def)

lemma toggle_user_role_inv [lic_inv_step]: "lic_inv d \<Longrightarrow> lic_inv (toggle_user_role u r d)"
  by (simp add: lic_inv_def toggle_user_role_def)

lemma delete_user_inv [lic_inv_step]: "lic_inv d \<Longrightarrow> lic_inv (delete_user u d)"
  by (simp add: lic_inv_def delete_user_def)

lemma toggle_maintenance_inv [lic_inv_step]: "lic_inv d \<Longrightarrow> lic_inv (toggle_maintenance m d)"
  by (simp add: lic_inv_def toggle_maintenance_def split: option.split)

lemma send_notification_inv [lic_inv_step]:
  "lic_inv d \<Longrightarrow> lic_inv (send_notification user t msg h now d)"
  by (auto simp: lic_inv_def send_notification_def Let_def less_SucI)

text \<open>Updating rows in place keeps the ids.\<close>

lemma map_keep_ids:
  "(\<And>x. lic_id (f x) = lic_id x) \<Longrightarrow> map lic_id (map f xs) = map lic_id xs"
  by (induction xs) auto

lemma redeem_license_key_inv: "lic_inv d \<Longrightarrow> lic_inv (snd (redeem_license_key u k now d))"
proof -
  assume inv: "lic_inv d"
  show ?thesis
  proof (cases "find (\<lambda>l. lic_key l = k) (licenses d)")
    case None
    with inv show ?thesis by (simp add: redeem_license_key_def)
  next
    case (Some l)
    let ?l' = "l\<lparr>is_used := True, used_by := Some u, used_at := Some now,
                 expires_at := Some (now + duration_days l * ms_per_day)\<rparr>"
    let ?f = "\<lambda>x. if lic_id x = lic_id l then ?l' else x"
    have ids: "map lic_id (map ?f (licenses d)) = map lic_id (licenses d)"
      by (rule map_keep_ids) simp
    have l: "l \<in> set (licenses d)" using Some by (simp add: find_Some_iff) (metis nth_mem)
    have "lic_inv (d\<lparr>licenses := map ?f (licenses d),
             subscriptions := (subscriptions d)(u \<mapsto>
               \<lparr>sub_expires_at = now + duration_days l * ms_per_day, sub_source = ''license_key'',
                sub_license_key_id = Some (lic_id l)\<rparr>)\<rparr>)"
      using inv l unfolding lic_inv_def by (auto simp: ids row_ok_def simp del: map_map)
    with Some inv show ?thesis by (simp add: redeem_license_key_def Let_def)
  qed
qed

lemma client_redeem_inv [lic_inv_step]: "lic_inv d \<Longrightarrow> lic_inv (snd (client_redeem u k now d))"
  by (auto simp: client_redeem_def split: option.split prod.split)
     (metis redeem_license_key_inv snd_conv)

lemma db_step_inv: "lic_inv d \<Longrightarrow> lic_inv (db_step d op)"
  by (cases op) (simp_all add: lic_inv_step)

lemma empty_db_inv: "lic_inv (empty_db dflt)"
  by (simp add: lic_inv_def empty_db_def)

subsection \<open>Where the rows after a step come from\<close>

text \<open>
  Every row after a step is a row from before, a new row with a fresh id, or the
  update of a row that was unused.
\<close>

definition row_from :: "db \<Rightarrow> license \<Rightarrow> bool" where
  "row_from d l' \<longleftrightarrow> l' \<in> set (licenses d) \<or> next_id d \<le> lic_id l' \<or>
     (\<exists>l0 \<in> set (licenses d). lic_id l0 = lic_id l' \<and> \<not> is_used l0)"

lemma create_licenses_fold_rows:
  "l' \<in> set (licenses (foldl (\<lambda>d' i. insert_license d' (bulk_row now dur (default_duration d') (key i))) d is))
   \<Longrightarrow> l' \<in> set (licenses d) \<or> next_id d \<le> lic_id l'"
proof (induction "is" arbitrary: d)
  case Nil
  then show ?case by simp
next
  case (Cons i "is")
  from Cons.prems have "l' \<in> set (licenses (insert_license d (bulk_row now dur (default_duration d) (key i))))
      \<or> next_id (insert_license d (bulk_row now dur (default_duration d) (key i))) \<le> lic_id l'"
    by (intro Cons.IH) simp
  then show ?case by (auto simp: insert_license_def bulk_row_def)
qed

lemma find_in_set: "find P xs = Some x \<Longrightarrow> x \<in> set xs \<and> P x"
  by (auto simp: find_Some_iff)

lemma redeem_license_key_rows:
  "l' \<in> set (licenses (snd (redeem_license_key u k now d))) \<Longrightarrow> row_from d l'"
  by (auto simp: redeem_license_key_def row_from_def Let_def split: option.splits if_splits
      dest: find_in_set)

lemma snd_client_redeem:
  "snd (client_redeem u k now d) =
     (case redeem_input k of None \<Rightarrow> d | Some k' \<Rightarrow> snd (redeem_license_key u k' now d))"
  by (simp add: client_redeem_def split: option.split prod.split)

lemma client_redeem_rows:
  "l' \<in> set (licenses (snd (client_redeem u k now d))) \<Longrightarrow> row_from d l'"
proof (cases "redeem_input k")
  case None
  then show "l' \<in> set (licenses (snd (client_redeem u k now d))) \<Longrightarrow> row_from d l'"
    by (simp add: snd_client_redeem row_from_def)
next
  case (Some k')
  then show "l' \<in> set (licenses (snd (client_redeem u k now d))) \<Longrightarrow> row_from d l'"
    by (simp add: snd_client_redeem redeem_license_key_rows)
qed

lemma db_step_rows: "l' \<in> set (licenses (db_step d op)) \<Longrightarrow> row_from d l'"
proof (cases op)
  case (Op_Create_Licenses now dur q rnds)
  then show "l' \<in> set (licenses (db_step d op)) \<Longrightarrow> row_from d l'"
    by (auto simp: create_licenses_def row_from_def dest: create_licenses_fold_rows)
next
  case (Op_Redeem u k now)
  then show "l' \<in> set (licenses (db_step d op)) \<Longrightarrow> row_from d l'"
    by (simp add: client_redeem_rows)
qed (auto simp: row_from_def generate_key_def insert_license_def delete_license_def
     delete_all_licenses_def toggle_user_role_def delete_user_def toggle_maintenance_def
     send_notification_def Let_def split: option.splits if_splits)

lemma lic_inv_same_id:
  "lic_inv d \<Longrightarrow> l \<in> set (licenses d) \<Longrightarrow> l' \<in> set (licenses d) \<Longrightarrow> lic_id l = lic_id l' \<Longrightarrow> l = l'"
  unfolding lic_inv_def by (metis distinct_map inj_onD)

lemma find_exists: "\<exists>x \<in> set xs. P x \<Longrightarrow> \<exists>y. find P xs = Some y"
  by (metis find_None_iff not_Some_eq)

lemma client_redeem_Some:
  "redeem_input input = Some k \<Longrightarrow>
   client_redeem u input now d =
     (let (r, d') = redeem_license_key u k now d
      in (if success r then Redeem_Ok else Redeem_Rejected (message r), d'))"
  by (simp add: client_redeem_def)

lemma redeem_input_space:
  "js_trim k \<noteq> [] \<Longrightarrow> redeem_input (CHR '' '' # k) = Some (CHR '' '' # js_upper k)"
  by (simp add: redeem_input_def js_trim_def js_is_space_def js_upper_def js_upper_char_def)

lemma find_append_new:
  "\<not> (\<exists>x \<in> set xs. P x) \<Longrightarrow> P y \<Longrightarrow> find P (xs @ y # ys) = Some y"
  by (induction xs) auto

lemma create_licenses_fold_prefix:
  "\<exists>rest. licenses (foldl (\<lambda>d' i. insert_license d' (bulk_row now dur (default_duration d') (key i))) d is)
      = licenses d @ rest"
proof (induction "is" arbitrary: d)
  case Nil
  then show ?case by simp
next
  case (Cons i "is")
  then obtain rest where
    "licenses (foldl (\<lambda>d' i. insert_license d' (bulk_row now dur (default_duration d') (key i)))
       (insert_license d (bulk_row now dur (default_duration d) (key i))) is)
     = licenses (insert_license d (bulk_row now dur (default_duration d) (key i))) @ rest"
    by blast
  then show ?case by (simp add: insert_license_def)
qed

text \<open>The first of the keys a bulk call inserts, and the rows before it.\<close>

lemma create_licenses_first:
  "0 < quantity \<Longrightarrow>
   \<exists>rest. licenses (create_licenses now dur quantity rnds d) =
     licenses d @ bulk_row now dur (default_duration d) (gen_key (rnds 0)) (next_id d) # rest"
proof -
  assume q: "0 < quantity"
  then have "[0..<nat quantity] = 0 # [1..<nat quantity]" by (simp add: upt_conv_Cons)
  then show ?thesis
    using create_licenses_fold_prefix [of now dur "\<lambda>i. gen_key (rnds i)"
        "insert_license d (bulk_row now dur (default_duration d) (gen_key (rnds 0)))" "[1..<nat quantity]"]
    by (simp add: create_licenses_def insert_license_def)
qed

text \<open>Redeeming a key whose first row is a fresh, unused row appended after rows with other keys.\<close>

lemma client_redeem_fresh_row:
  assumes "redeem_input k = Some k" "k \<notin> lic_key ` set xs" "licenses d = xs @ r # rest"
    and "lic_key r = k" "\<not> is_used r"
  shows "fst (client_redeem u k t d) = Redeem_Ok \<and>
         subscriptions (snd (client_redeem u k t d)) u =
           Some \<lparr>sub_expires_at = t + duration_days r * ms_per_day, sub_source = ''license_key'',
                 sub_license_key_id = Some (lic_id r)\<rparr>"
proof -
  have "find (\<lambda>l. lic_key l = k) (licenses d) = Some r"
    unfolding assms(3) using assms(2,4) by (intro find_append_new) (auto simp: image_iff)
  with assms(1,5) show ?thesis by (simp add: client_redeem_Some redeem_license_key_def Let_def)
qed

text \<open>What a successful redemption did: the row it found and the two writes.\<close>

lemma client_redeem_OkE:
  assumes "client_redeem u input now d = (Redeem_Ok, d')"
  obtains l where "l \<in> set (licenses d)" "lic_key l = js_upper input" "\<not> is_used l"
    "d' = d\<lparr>licenses := map (\<lambda>x. if lic_id x = lic_id l then l\<lparr>is_used := True, used_by := Some u,
              used_at := Some now, expires_at := Some (now + duration_days l * ms_per_day)\<rparr> else x)
              (licenses d),
            subscriptions := (subscriptions d)(u \<mapsto> \<lparr>sub_expires_at = now + duration_days l * ms_per_day,
              sub_source = ''license_key'', sub_license_key_id = Some (lic_id l)\<rparr>)\<rparr>"
proof -
  from assms obtain k where k: "redeem_input input = Some k"
    by (cases "redeem_input input") (auto simp: client_redeem_def)
  then have kk: "k = js_upper input" by (simp add: redeem_input_def split: if_splits)
  obtain l where l: "find (\<lambda>l. lic_key l = k) (licenses d) = Some l" and u: "\<not> is_used l"
    using assms k
    by (auto simp: client_redeem_Some redeem_license_key_def split: option.splits if_splits)
  from l have "l \<in> set (licenses d)" "lic_key l = k" by (auto dest: find_in_set)
  moreover from assms k l u have "d' = d\<lparr>licenses := map (\<lambda>x. if lic_id x = lic_id l then l\<lparr>is_used := True,
      used_by := Some u, used_at := Some now, expires_at := Some (now + duration_days l * ms_per_day)\<rparr>
      else x) (licenses d), subscriptions := (subscriptions d)(u \<mapsto> \<lparr>sub_expires_at = now + duration_days l * ms_per_day,
         sub_source = ''license_key'', sub_license_key_id = Some (lic_id l)\<rparr>)\<rparr>"
    by (simp add: client_redeem_Some redeem_license_key_def Let_def)
  ultimately show ?thesis using that kk u by blast
qed

lemma space_not_key_char: "CHR '' '' \<notin> set (CHR ''-'' # key_chars)"
  by (simp add: key_chars_def)

subsection \<open>Properties of the tables and of redemption\<close>

text \<open>
  C1: in every table state the admin operations and redemptions can produce from empty
  tables, licence ids are distinct and fresh, a row is used exactly when it names its
  user, and a used row records when it was used and when it expires.
\<close>

theorem reachable_db_lic_inv: "reachable_db d \<Longrightarrow> lic_inv d"
proof (induction rule: reachable_db.induct)
  case (init dflt)
  show ?case by (rule empty_db_inv)
next
  case (step d op)
  from step.IH show ?case by (rule db_step_inv)
qed

theorem reachable_db_lic_inv_witness:
  "reachable_db (db_step (empty_db 30) (Op_Generate None 0 30 (\<lambda>i. 0))) \<and>
   lic_inv (db_step (empty_db 30) (Op_Generate None 0 30 (\<lambda>i. 0)))"
proof -
  have r: "reachable_db (db_step (empty_db 30) (Op_Generate None 0 30 (\<lambda>i. 0)))"
    by (rule reachable_db.step [OF reachable_db.init])
  show ?thesis using r reachable_db_lic_inv [OF r] by simp
qed

text \<open>
  C5: a used key never changes again: after any operation, a row with the id of a used
  row is that row, with the same user, redemption time and expiry. The transition
  unused to used happens at most once per key.
\<close>

theorem used_license_stable:
  assumes "lic_inv d" "l \<in> set (licenses d)" "is_used l"
    and "l' \<in> set (licenses (db_step d op))" "lic_id l' = lic_id l"
  shows "l' = l"
proof -
  from assms(4) have "row_from d l'" by (rule db_step_rows)
  then consider (old) "l' \<in> set (licenses d)" | (fresh) "next_id d \<le> lic_id l'"
    | (upd) l0 where "l0 \<in> set (licenses d)" "lic_id l0 = lic_id l'" "\<not> is_used l0"
    unfolding row_from_def by blast
  then show ?thesis
  proof cases
    case old
    with assms(1,2,5) show ?thesis using lic_inv_same_id by metis
  next
    case fresh
    with assms(1,2,5) show ?thesis by (auto simp: lic_inv_def)
  next
    case upd
    with assms(1,2,3,5) have "l0 = l" using lic_inv_same_id by metis
    with upd assms(3) show ?thesis by simp
  qed
qed

theorem used_license_stable_witness:
  "let L = \<lparr>lic_id = 0, lic_key = ''K'', duration_days = 30, is_used = True, created_by = None,
             created_at = 0, used_by = Some ''u'', used_at = Some 5, expires_at = Some 9\<rparr>;
       d0 = (empty_db 30)\<lparr>licenses := [L], next_id := 1\<rparr>;
       op = Op_Redeem ''v'' ''K'' 7
   in lic_inv d0 \<and> L \<in> set (licenses d0) \<and> is_used L \<and>
      hd (licenses (db_step d0 op)) \<in> set (licenses (db_step d0 op)) \<and>
      lic_id (hd (licenses (db_step d0 op))) = lic_id L \<and> hd (licenses (db_step d0 op)) = L"
proof -
  let ?L = "\<lparr>lic_id = 0, lic_key = ''K'', duration_days = 30, is_used = True, created_by = None,
             created_at = 0, used_by = Some ''u'', used_at = Some 5, expires_at = Some 9\<rparr>"
  let ?d0 = "(empty_db 30)\<lparr>licenses := [?L], next_id := 1\<rparr>"
  let ?op = "Op_Redeem ''v'' ''K'' 7"
  let ?h = "hd (licenses (db_step ?d0 ?op))"
  have inv: "lic_inv ?d0" by (simp add: lic_inv_def row_ok_def empty_db_def)
  have step: "snd (client_redeem ''v'' ''K'' 7 ?d0) = ?d0"
    by (simp add: client_redeem_def redeem_input_def js_trim_def js_is_space_def js_upper_def
        js_upper_char_def redeem_license_key_def empty_db_def)
  have mem: "?L \<in> set (licenses ?d0)" by simp
  have used: "is_used ?L" by simp
  have hmem: "?h \<in> set (licenses (db_step ?d0 ?op))" by (simp only: db_step.simps step) simp
  have hid: "lic_id ?h = lic_id ?L" by (simp only: db_step.simps step) simp
  have "?h = ?L" by (rule used_license_stable [OF inv mem used hmem hid])
  with inv hmem hid show ?thesis by (simp only: Let_def) simp
qed

text \<open>
  C9: redeeming a key whose every row is already used is refused with "already used"
  and changes no table: in particular the first user and expiry of the key stay.
\<close>

theorem client_redeem_used_key:
  assumes "redeem_input input = Some k" "k \<in> lic_key ` set (licenses d)"
    and "\<forall>l \<in> set (licenses d). lic_key l = k \<longrightarrow> is_used l"
  shows "client_redeem u input now d = (Redeem_Rejected Key_Already_Used, d)"
proof -
  from assms(2) obtain l where l: "find (\<lambda>l. lic_key l = k) (licenses d) = Some l"
    using find_exists [of "licenses d" "\<lambda>l. lic_key l = k"] by auto
  with assms(3) have "is_used l" by (auto dest: find_in_set)
  with l assms(1) show ?thesis by (simp add: client_redeem_Some redeem_license_key_def)
qed

theorem client_redeem_used_key_witness:
  "let L = \<lparr>lic_id = 0, lic_key = ''K'', duration_days = 30, is_used = True, created_by = None,
             created_at = 0, used_by = Some ''u'', used_at = Some 5, expires_at = Some 9\<rparr>;
       d0 = (empty_db 30)\<lparr>licenses := [L], next_id := 1\<rparr>
   in redeem_input ''K'' = Some ''K'' \<and> ''K'' \<in> lic_key ` set (licenses d0) \<and>
      is_used L \<and> client_redeem ''v'' ''K'' 7 d0 = (Redeem_Rejected Key_Already_Used, d0)"
proof -
  let ?L = "\<lparr>lic_id = 0, lic_key = ''K'', duration_days = 30, is_used = True, created_by = None,
             created_at = 0, used_by = Some ''u'', used_at = Some 5, expires_at = Some 9\<rparr>"
  let ?d0 = "(empty_db 30)\<lparr>licenses := [?L], next_id := 1\<rparr>"
  have i: "redeem_input ''K'' = Some ''K''"
    by (simp add: redeem_input_def js_trim_def js_is_space_def js_upper_def js_upper_char_def)
  have k: "''K'' \<in> lic_key ` set (licenses ?d0)" by simp
  have a: "\<forall>l \<in> set (licenses ?d0). lic_key l = ''K'' \<longrightarrow> is_used l" by simp
  from client_redeem_used_key [OF i k a]
  have "client_redeem ''v'' ''K'' 7 ?d0 = (Redeem_Rejected Key_Already_Used, ?d0)" .
  with i k show ?thesis by (simp only: Let_def) simp
qed

text \<open>
  C10: redeeming a key that no row has is refused with "not found" and changes no
  table.
\<close>

theorem client_redeem_unknown_key:
  assumes "redeem_input input = Some k" "k \<notin> lic_key ` set (licenses d)"
  shows "client_redeem u input now d = (Redeem_Rejected Key_Not_Found, d)"
proof -
  from assms(2) have "find (\<lambda>l. lic_key l = k) (licenses d) = None"
    by (auto simp: find_None_iff)
  with assms(1) show ?thesis by (simp add: client_redeem_Some redeem_license_key_def)
qed

theorem client_redeem_unknown_key_witness:
  "redeem_input ''K'' = Some ''K'' \<and> ''K'' \<notin> lic_key ` set (licenses (empty_db 30)) \<and>
   client_redeem ''v'' ''K'' 7 (empty_db 30) = (Redeem_Rejected Key_Not_Found, empty_db 30)"
proof -
  have i: "redeem_input ''K'' = Some ''K''"
    by (simp add: redeem_input_def js_trim_def js_is_space_def js_upper_def js_upper_char_def)
  have k: "''K'' \<notin> lic_key ` set (licenses (empty_db 30))" by (simp add: empty_db_def)
  from i k client_redeem_unknown_key [OF i k] show ?thesis by simp
qed

text \<open>
  An input that is blank after trimming is refused on the client: no RPC is made
  and no table changes.
\<close>

theorem client_redeem_blank:
  "js_trim input = [] \<Longrightarrow> client_redeem u input now d = (Redeem_Empty, d)"
  by (simp add: client_redeem_def redeem_input_def)

theorem client_redeem_blank_witness:
  "js_trim ''  '' = [] \<and> client_redeem ''v'' ''  '' 7 (empty_db 30) = (Redeem_Empty, empty_db 30)"
proof -
  have b: "js_trim ''  '' = []" by (simp add: js_trim_def js_is_space_def)
  from b client_redeem_blank [OF b] show ?thesis by simp
qed

text \<open>
  C6: a successful redemption found an unused row with the upper-cased key, marked it
  used by the caller now with expiry \<open>now + duration_days\<close> days, and gave the caller a
  subscription from the licence with that expiry.
\<close>

theorem client_redeem_ok:
  assumes "client_redeem u input now d = (Redeem_Ok, d')"
  shows "\<exists>l \<in> set (licenses d). lic_key l = js_upper input \<and> \<not> is_used l \<and>
           subscriptions d' u = Some \<lparr>sub_expires_at = now + duration_days l * ms_per_day,
              sub_source = ''license_key'', sub_license_key_id = Some (lic_id l)\<rparr> \<and>
           l\<lparr>is_used := True, used_by := Some u, used_at := Some now,
             expires_at := Some (now + duration_days l * ms_per_day)\<rparr> \<in> set (licenses d')"
  using assms
proof (rule client_redeem_OkE)
  fix l assume "l \<in> set (licenses d)" "lic_key l = js_upper input" "\<not> is_used l"
    and d': "d' = d\<lparr>licenses := map (\<lambda>x. if lic_id x = lic_id l then l\<lparr>is_used := True, used_by := Some u,
              used_at := Some now, expires_at := Some (now + duration_days l * ms_per_day)\<rparr> else x)
              (licenses d),
            subscriptions := (subscriptions d)(u \<mapsto> \<lparr>sub_expires_at = now + duration_days l * ms_per_day,
              sub_source = ''license_key'', sub_license_key_id = Some (lic_id l)\<rparr>)\<rparr>"
  then show ?thesis by (force simp: d')
qed

theorem client_redeem_ok_witness:
  "let L = \<lparr>lic_id = 0, lic_key = ''K'', duration_days = 30, is_used = False, created_by = None,
             created_at = 0, used_by = None, used_at = None, expires_at = Some 9\<rparr>;
       d0 = (empty_db 30)\<lparr>licenses := [L], next_id := 1\<rparr>
   in client_redeem ''v'' ''K'' 7 d0 = (Redeem_Ok, snd (client_redeem ''v'' ''K'' 7 d0)) \<and>
      map_option sub_expires_at (subscriptions (snd (client_redeem ''v'' ''K'' 7 d0)) ''v'')
        = Some (7 + 30 * ms_per_day)"
proof -
  let ?L = "\<lparr>lic_id = 0, lic_key = ''K'', duration_days = 30, is_used = False, created_by = None,
             created_at = 0, used_by = None, used_at = None, expires_at = Some 9\<rparr>"
  let ?d0 = "(empty_db 30)\<lparr>licenses := [?L], next_id := 1\<rparr>"
  have ok: "client_redeem ''v'' ''K'' 7 ?d0 = (Redeem_Ok, snd (client_redeem ''v'' ''K'' 7 ?d0))"
    by (simp add: client_redeem_def redeem_input_def js_trim_def js_is_space_def js_upper_def
        js_upper_char_def redeem_license_key_def Let_def)
  from client_redeem_ok [OF ok] obtain l where "l \<in> set (licenses ?d0)"
    and "subscriptions (snd (client_redeem ''v'' ''K'' 7 ?d0)) ''v'' =
           Some \<lparr>sub_expires_at = 7 + duration_days l * ms_per_day, sub_source = ''license_key'',
                 sub_license_key_id = Some (lic_id l)\<rparr>"
    by blast
  with ok show ?thesis by (simp only: Let_def) simp
qed

text \<open>
  C11: a key the admin panel has just generated, for a duration of \<open>dur\<close> days, is
  redeemable at any later time \<open>t\<close>: the redeemer gets a subscription expiring
  \<open>dur\<close> days after \<open>t\<close>, tied to the new row (provided the random key is new).
\<close>

theorem generate_then_redeem:
  assumes "gen_key rnd \<notin> lic_key ` set (licenses d)"
  shows "fst (client_redeem u (gen_key rnd) t (generate_key c now dur rnd d)) = Redeem_Ok \<and>
         subscriptions (snd (client_redeem u (gen_key rnd) t (generate_key c now dur rnd d))) u =
           Some \<lparr>sub_expires_at = t + dur * ms_per_day, sub_source = ''license_key'',
                 sub_license_key_id = Some (next_id d)\<rparr>"
  using client_redeem_fresh_row [OF redeem_input_gen_key assms, of "generate_key c now dur rnd d"]
  by (simp add: generate_key_def insert_license_def)

theorem generate_then_redeem_witness:
  "gen_key (\<lambda>_. 0) \<notin> lic_key ` set (licenses (empty_db 30)) \<and>
   fst (client_redeem ''v'' (gen_key (\<lambda>_. 0)) 7 (generate_key None 0 90 (\<lambda>_. 0) (empty_db 30))) = Redeem_Ok \<and>
   subscriptions (snd (client_redeem ''v'' (gen_key (\<lambda>_. 0)) 7
       (generate_key None 0 90 (\<lambda>_. 0) (empty_db 30)))) ''v'' =
     Some \<lparr>sub_expires_at = 7 + 90 * ms_per_day, sub_source = ''license_key'',
           sub_license_key_id = Some (next_id (empty_db 30))\<rparr>"
proof -
  have h: "gen_key (\<lambda>_. 0) \<notin> lic_key ` set (licenses (empty_db 30))" by (simp add: empty_db_def)
  from h generate_then_redeem [OF h, of "''v''" 7 None 0 90] show ?thesis by simp
qed

text \<open>
  C12: a key of a bulk call (\<open>createLicenses\<close>, duration \<open>durationDays\<close>) is stored
  with \<open>expires_at = now + durationDays\<close> days but \<open>duration_days\<close> left at the
  table default; redemption reads \<open>duration_days\<close>, so the redeemer's subscription
  runs for the default duration, whatever duration the admin chose.
\<close>

theorem bulk_redeem_uses_default_duration:
  assumes "0 < quantity" "gen_key (rnds 0) \<notin> lic_key ` set (licenses d)"
  shows "fst (client_redeem u (gen_key (rnds 0)) t (create_licenses now durationDays quantity rnds d))
           = Redeem_Ok \<and>
         map_option sub_expires_at (subscriptions (snd (client_redeem u (gen_key (rnds 0)) t
           (create_licenses now durationDays quantity rnds d))) u)
           = Some (t + default_duration d * ms_per_day) \<and>
         bulk_row now durationDays (default_duration d) (gen_key (rnds 0)) (next_id d)
           \<in> set (licenses (create_licenses now durationDays quantity rnds d)) \<and>
         expires_at (bulk_row now durationDays (default_duration d) (gen_key (rnds 0)) (next_id d))
           = Some (now + durationDays * ms_per_day)"
proof -
  obtain rest where l: "licenses (create_licenses now durationDays quantity rnds d) =
      licenses d @ bulk_row now durationDays (default_duration d) (gen_key (rnds 0)) (next_id d) # rest"
    using create_licenses_first [OF assms(1)] by blast
  have "lic_key (bulk_row now durationDays (default_duration d) (gen_key (rnds 0)) (next_id d)) = gen_key (rnds 0)"
    "\<not> is_used (bulk_row now durationDays (default_duration d) (gen_key (rnds 0)) (next_id d))"
    by (simp_all add: bulk_row_def)
  from client_redeem_fresh_row [OF redeem_input_gen_key assms(2) l this, of u t] l
  show ?thesis by (simp add: bulk_row_def)
qed

theorem bulk_redeem_uses_default_duration_witness:
  "0 < (1::int) \<and> gen_key (\<lambda>_. 0) \<notin> lic_key ` set (licenses (empty_db 30)) \<and>
   map_option sub_expires_at (subscriptions (snd (client_redeem ''v'' (gen_key (\<lambda>_. 0)) 7
       (create_licenses 0 90 1 (\<lambda>_ _. 0) (empty_db 30)))) ''v'') = Some (7 + 30 * ms_per_day) \<and>
   expires_at (bulk_row 0 90 30 (gen_key (\<lambda>_. 0)) 0) = Some (90 * ms_per_day)"
proof -
  have q: "0 < (1::int)" by simp
  have h: "gen_key ((\<lambda>_ _. 0) 0) \<notin> lic_key ` set (licenses (empty_db 30))" by (simp add: empty_db_def)
  from bulk_redeem_uses_default_duration [OF q h, of "''v''" 7 0 90]
  show ?thesis by (simp add: empty_db_def)
qed

text \<open>
  C13: the client trims only to test for a blank input and sends the untrimmed text: a
  valid key typed with a leading space is refused as "not found" whenever every stored
  key has the generated format, and no table changes.
\<close>

theorem redeem_padded_key_rejected:
  assumes "\<forall>l \<in> set (licenses d). key_format (lic_key l)" "js_trim k \<noteq> []"
  shows "client_redeem u (CHR '' '' # k) t d = (Redeem_Rejected Key_Not_Found, d)"
proof -
  have "\<forall>l \<in> set (licenses d). lic_key l \<noteq> CHR '' '' # js_upper k"
    using assms(1) space_not_key_char by (fastforce dest: key_format_chars)
  then have "find (\<lambda>l. lic_key l = CHR '' '' # js_upper k) (licenses d) = None"
    by (auto simp: find_None_iff)
  with redeem_input_space [OF assms(2)] show ?thesis
    by (simp add: client_redeem_Some redeem_license_key_def)
qed

theorem redeem_padded_key_rejected_witness:
  "let L = \<lparr>lic_id = 0, lic_key = ''AAAA-AAAA-AAAA-AAAA'', duration_days = 30, is_used = False,
             created_by = None, created_at = 0, used_by = None, used_at = None, expires_at = Some 9\<rparr>;
       d0 = (empty_db 30)\<lparr>licenses := [L], next_id := 1\<rparr>
   in key_format (lic_key L) \<and> js_trim ''AAAA-AAAA-AAAA-AAAA'' \<noteq> [] \<and>
      client_redeem ''v'' '' AAAA-AAAA-AAAA-AAAA'' 7 d0 = (Redeem_Rejected Key_Not_Found, d0)"
proof -
  let ?L = "\<lparr>lic_id = 0, lic_key = ''AAAA-AAAA-AAAA-AAAA'', duration_days = 30, is_used = False,
             created_by = None, created_at = 0, used_by = None, used_at = None, expires_at = Some 9\<rparr>"
  let ?d0 = "(empty_db 30)\<lparr>licenses := [?L], next_id := 1\<rparr>"
  have f: "key_format ''AAAA-AAAA-AAAA-AAAA''" by (simp add: key_format_def key_chars_def)
  then have a: "\<forall>l \<in> set (licenses ?d0). key_format (lic_key l)" by simp
  have t: "js_trim ''AAAA-AAAA-AAAA-AAAA'' \<noteq> []" by (simp add: js_trim_def js_is_space_def)
  from redeem_padded_key_rejected [OF a t, of "''v''" 7] f t show ?thesis by (simp only: Let_def) simp
qed

end
