(* ===== verification/AuthSession.thy ===== *)
theory AuthSession
  imports LicenseDB
begin

text \<open>
  The session bootstrap of \<open>contexts/AuthContext.tsx\<close>: the client state of
  \<open>AuthProvider\<close> as a record, \<open>fetchUserData\<close> as a function of the tables
  (\<open>LicenseDB.db\<close>) and that state, and the three ways it is started
  (\<open>initializeAuth\<close>, the \<open>onAuthStateChange\<close> listener, \<open>refreshProfile\<close>) as one
  step function over a datatype of events. Each \<open>fetchUserData\<close> is taken to complete
  before the next event: its four reads see one table state.
\<close>

subsection \<open>Client state\<close>

text \<open>The \<open>Subscription\<close> the context exposes: an expiry (null for a licence row without one) and a source.\<close>

record sub_view =
  view_expires_at :: "ms option"
  view_source :: string

record auth_state =
  session_user :: "uid option"
  auth_profile :: "profile_row option"
  auth_subscription :: "sub_view option"
  is_admin :: bool
  is_loading :: bool

subsection \<open>Queries\<close>

text \<open>
  \<open>.maybeSingle()\<close>: the row when exactly one row matches; no data when none does, and
  no data (with the error \<open>PGRST116\<close>, which \<open>fetchUserData\<close> tolerates) when several
  do.
\<close>

fun maybe_single :: "'a list \<Rightarrow> 'a option" where
  "maybe_single [x] = Some x"
| "maybe_single _ = None"

text \<open>\<open>license_keys.select(...).eq("used_by", userId).eq("is_used", true).maybeSingle()\<close>.\<close>

definition license_of_user :: "uid \<Rightarrow> db \<Rightarrow> license option" where
  "license_of_user userId d =
     maybe_single (filter (\<lambda>l. used_by l = Some userId \<and> is_used l) (licenses d))"

subsection \<open>Sign-out and \<open>fetchUserData\<close>\<close>

text \<open>
  \<open>supabase.auth.signOut()\<close> ends the session; the listener then runs with a null
  session and clears profile, subscription and the admin flag.
\<close>

definition sign_out :: "auth_state \<Rightarrow> auth_state" where
  "sign_out st =
     st\<lparr>session_user := None, auth_profile := None, auth_subscription := None, is_admin := False\<rparr>"

text \<open>
  The four reads, the profile, the subscription with its fallback to the user's used
  licence, the admin flag from the role row, then the maintenance check: when
  \<open>system_config.maintenance_mode\<close> is \<open>'true'\<close> and the role read found no admin row,
  the user is signed out.
\<close>

definition fetch_user_data :: "uid \<Rightarrow> db \<Rightarrow> auth_state \<Rightarrow> auth_state" where
  "fetch_user_data userId d st =
     (let profileRes = profiles d userId;
          subRes = subscriptions d userId;
          roleRes = (roles d userId = Some Admin);
          licenseRes = license_of_user userId d;
          st' = st\<lparr>auth_profile := profileRes,
                   auth_subscription :=
                     (case subRes of
                        Some s \<Rightarrow> Some \<lparr>view_expires_at = Some (sub_expires_at s), view_source = sub_source s\<rparr>
                      | None \<Rightarrow>
                          (case licenseRes of
                             Some l \<Rightarrow> Some \<lparr>view_expires_at = expires_at l, view_source = ''license_key''\<rparr>
                           | None \<Rightarrow> None)),
                   is_admin := roleRes\<rparr>
      in if maintenance_value d = Some ''true'' \<and> \<not> roleRes then sign_out st' else st')"

subsection \<open>Events\<close>

text \<open>
  \<open>Auth_Init s\<close>: \<open>initializeAuth\<close> read the session \<open>s\<close> (\<open>None\<close> for no session);
  \<open>Auth_Change s\<close>: the listener fired with session \<open>s\<close>; \<open>Auth_Refresh\<close>:
  \<open>refreshProfile\<close>, which refetches only when a user is set. A session read that fails
  only clears \<open>isLoading\<close> (\<open>Auth_Init_Error\<close>).
\<close>

datatype auth_event = Auth_Init "uid option" | Auth_Init_Error | Auth_Change "uid option" | Auth_Refresh

definition session_changed :: "uid option \<Rightarrow> db \<Rightarrow> auth_state \<Rightarrow> auth_state" where
  "session_changed s d st =
     (case s of
        Some u \<Rightarrow> fetch_user_data u d (st\<lparr>session_user := Some u\<rparr>)
      | None \<Rightarrow> st\<lparr>session_user := None, auth_profile := None, auth_subscription := None,
                   is_admin := False\<rparr>)"

fun auth_step :: "db \<Rightarrow> auth_state \<Rightarrow> auth_event \<Rightarrow> auth_state" where
  "auth_step d st (Auth_Init s) = session_changed s d (st\<lparr>is_loading := False\<rparr>)"
| "auth_step d st Auth_Init_Error = st\<lparr>is_loading := False\<rparr>"
| "auth_step d st (Auth_Change s) = session_changed s d st"
| "auth_step d st Auth_Refresh =
     (case session_user st of Some u \<Rightarrow> fetch_user_data u d st | None \<Rightarrow> st)"

definition auth_init :: auth_state where
  "auth_init = \<lparr>session_user = None, auth_profile = None, auth_subscription = None,
                is_admin = False, is_loading = True\<rparr>"

subsection \<open>Lemmas\<close>

lemma session_user_fetch:
  "session_user (fetch_user_data u d st) =
     (if maintenance_value d = Some ''true'' \<and> roles d u \<noteq> Some Admin then None else session_user st)"
  by (simp add: fetch_user_data_def Let_def sign_out_def)

lemma fetch_not_gated:
  "\<not> (maintenance_value d = Some ''true'' \<and> roles d u \<noteq> Some Admin) \<Longrightarrow>
   auth_subscription (fetch_user_data u d st) =
     (case subscriptions d u of
        Some s \<Rightarrow> Some \<lparr>view_expires_at = Some (sub_expires_at s), view_source = sub_source s\<rparr>
      | None \<Rightarrow> map_option (\<lambda>l. \<lparr>view_expires_at = expires_at l, view_source = ''license_key''\<rparr>)
                 (license_of_user u d))"
  by (auto simp: fetch_user_data_def Let_def split: option.split)

lemma session_changed_user:
  "session_user (session_changed s d st) = Some u \<Longrightarrow>
   s = Some u \<and> \<not> (maintenance_value d = Some ''true'' \<and> roles d u \<noteq> Some Admin)"
  by (cases s) (auto simp: session_changed_def session_user_fetch split: if_splits)

subsection \<open>Properties of the session bootstrap\<close>

text \<open>
  C21: the maintenance gate. While \<open>maintenance_mode\<close> is \<open>'true'\<close>, every event that
  fetches the user's data leaves no signed-in user without an admin role row: a session
  that survives an initialisation, a session change or a refresh belongs to an admin.
\<close>

theorem auth_step_maintenance_gate:
  assumes "maintenance_value d = Some ''true''" "ev \<noteq> Auth_Init_Error"
    and "session_user (auth_step d st ev) = Some u"
  shows "roles d u = Some Admin"
proof (cases ev)
  case (Auth_Init s)
  with assms show ?thesis by (auto dest: session_changed_user)
next
  case (Auth_Change s)
  with assms show ?thesis by (auto dest: session_changed_user)
next
  case Auth_Refresh
  with assms show ?thesis
    by (auto simp: session_user_fetch split: option.splits if_splits)
qed (use assms in simp)

theorem auth_step_maintenance_gate_witness:
  "let d = (empty_db 30)\<lparr>maintenance_value := Some ''true'', roles := [''a'' \<mapsto> Admin]\<rparr>
   in maintenance_value d = Some ''true'' \<and> Auth_Change (Some ''a'') \<noteq> Auth_Init_Error \<and>
      session_user (auth_step d auth_init (Auth_Change (Some ''a''))) = Some ''a'' \<and>
      roles d ''a'' = Some Admin \<and>
      session_user (auth_step d auth_init (Auth_Change (Some ''b''))) = None"
proof -
  let ?d = "(empty_db 30)\<lparr>maintenance_value := Some ''true'', roles := [''a'' \<mapsto> Admin]\<rparr>"
  have m: "maintenance_value ?d = Some ''true''" by simp
  have e: "Auth_Change (Some ''a'') \<noteq> Auth_Init_Error" by simp
  have s: "session_user (auth_step ?d auth_init (Auth_Change (Some ''a''))) = Some ''a''"
    by (simp add: session_changed_def session_user_fetch)
  have b: "session_user (auth_step ?d auth_init (Auth_Change (Some ''b''))) = None"
    by (simp add: session_changed_def session_user_fetch)
  from auth_step_maintenance_gate [OF m e s] m s b show ?thesis by (simp only: Let_def) simp
qed

text \<open>
  C22: the licence fallback. A user with no subscription row but exactly one used
  licence row gets from \<open>fetchUserData\<close>, while maintenance mode is off, a
  subscription with that row's expiry and source \<open>license_key\<close>.
\<close>

theorem fetch_user_data_license_fallback:
  assumes "subscriptions d u = None"
    and "filter (\<lambda>l. used_by l = Some u \<and> is_used l) (licenses d) = [l]"
    and "maintenance_value d \<noteq> Some ''true''"
  shows "auth_subscription (fetch_user_data u d st) =
           Some \<lparr>view_expires_at = expires_at l, view_source = ''license_key''\<rparr>"
  using assms by (simp add: fetch_not_gated license_of_user_def)

theorem fetch_user_data_license_fallback_witness:
  "let L = \<lparr>lic_id = 0, lic_key = ''K'', duration_days = 30, is_used = True, created_by = None,
             created_at = 0, used_by = Some ''u'', used_at = Some 5, expires_at = Some 9\<rparr>;
       d = (empty_db 30)\<lparr>licenses := [L], next_id := 1\<rparr>
   in subscriptions d ''u'' = None \<and>
      filter (\<lambda>l. used_by l = Some ''u'' \<and> is_used l) (licenses d) = [L] \<and>
      maintenance_value d \<noteq> Some ''true'' \<and>
      auth_subscription (fetch_user_data ''u'' d auth_init) =
        Some \<lparr>view_expires_at = Some 9, view_source = ''license_key''\<rparr>"
proof -
  let ?L = "\<lparr>lic_id = 0, lic_key = ''K'', duration_days = 30, is_used = True, created_by = None,
             created_at = 0, used_by = Some ''u'', used_at = Some 5, expires_at = Some 9\<rparr>"
  let ?d = "(empty_db 30)\<lparr>licenses := [?L], next_id := 1\<rparr>"
  have a: "subscriptions ?d ''u'' = None" by (simp add: empty_db_def)
  have b: "filter (\<lambda>l. used_by l = Some ''u'' \<and> is_used l) (licenses ?d) = [?L]" by simp
  have c: "maintenance_value ?d \<noteq> Some ''true''" by (simp add: empty_db_def)
  from fetch_user_data_license_fallback [OF a b c, of auth_init] a b c
  show ?thesis by (simp only: Let_def) simp
qed

end
