(* ===== verification/Expiry.thy ===== *)
theory Expiry
  imports AuthSession
begin

text \<open>
  Expiry checks on the client: \<open>isSubscriptionActive\<close> (\<open>Dashboard.tsx\<close>,
  \<open>NewDashboard.tsx\<close>, \<open>NewHeader.tsx\<close>), the live countdown of \<open>NewHeader\<close>, and
  the notification list of \<open>NewsSection\<close> with its expiry filter and
  \<open>getTimeRemaining\<close> labels. Times are \<open>int\<close> milliseconds since the epoch; a null
  date string is the epoch (\<open>new Date(null).getTime() = 0\<close>).
\<close>

subsection \<open>Subscription activity\<close>

definition js_date_ms :: "ms option \<Rightarrow> ms" where
  "js_date_ms t = (case t of None \<Rightarrow> 0 | Some ms \<Rightarrow> ms)"

text \<open>\<open>subscription && new Date(subscription.expires_at) > new Date()\<close>\<close>

definition is_subscription_active :: "sub_view option \<Rightarrow> ms \<Rightarrow> bool" where
  "is_subscription_active subscription now =
     (case subscription of None \<Rightarrow> False | Some s \<Rightarrow> now < js_date_ms (view_expires_at s))"

subsection \<open>The header countdown\<close>

record countdown =
  cd_days :: int
  cd_hours :: int
  cd_minutes :: int
  cd_seconds :: int

text \<open>
  The body of the \<open>timeLeft\<close> initialiser and of the one-second interval: no countdown
  without an expiry; otherwise the non-negative remaining time split into days, hours,
  minutes and seconds by successive \<open>Math.floor\<close> and subtraction.
\<close>

definition time_left :: "sub_view option \<Rightarrow> ms \<Rightarrow> countdown option" where
  "time_left subscription now =
     (case subscription of None \<Rightarrow> None | Some s \<Rightarrow>
      (case view_expires_at s of None \<Rightarrow> None | Some expires \<Rightarrow>
       (let diff = max 0 (expires - now);
            days = diff div ms_per_day;
            diff = diff - days * ms_per_day;
            hours = diff div ms_per_hour;
            diff = diff - hours * ms_per_hour;
            minutes = diff div ms_per_minute;
            diff = diff - minutes * ms_per_minute;
            seconds = diff div ms_per_second
        in Some \<lparr>cd_days = days, cd_hours = hours, cd_minutes = minutes, cd_seconds = seconds\<rparr>)))"

subsection \<open>Notifications\<close>

text \<open>
  \<open>loadNotifications\<close>: the ten newest notifications (newest first; rows are kept in
  creation order), then the expiry filter: a row without an expiry is kept, otherwise it
  is kept while its expiry is in the future.
\<close>

definition is_notification_active :: "ms option \<Rightarrow> ms \<Rightarrow> bool" where
  "is_notification_active expiresAt now = (case expiresAt of None \<Rightarrow> True | Some e \<Rightarrow> now < e)"

definition load_notifications :: "db \<Rightarrow> ms \<Rightarrow> notification_row list" where
  "load_notifications d now =
     filter (\<lambda>n. is_notification_active (Some (notif_expires_at n)) now)
       (take 10 (rev (notifications d)))"

text \<open>\<open>getTimeRemaining\<close>: the label shown under a notification.\<close>

datatype time_remaining = TR_Expired | TR_Days int | TR_Hours int | TR_Minutes int

definition get_time_remaining :: "ms option \<Rightarrow> ms \<Rightarrow> time_remaining option" where
  "get_time_remaining expiresAt now =
     (case expiresAt of None \<Rightarrow> None | Some expiry \<Rightarrow>
      (let diff = expiry - now
       in if diff \<le> 0 then Some TR_Expired
          else (let hours = diff div ms_per_hour;
                    days = hours div 24
                in if 0 < days then Some (TR_Days days)
                   else if 0 < hours then Some (TR_Hours hours)
                   else Some (TR_Minutes (diff div ms_per_minute)))))"

subsection \<open>Lemmas\<close>

lemma mod_mult_div: "0 < (b::int) \<Longrightarrow> 0 < c \<Longrightarrow> a mod (b * c) div b = a div b mod c"
  by (simp add: zmod_zmult2_eq)

lemma div_unit_split:
  "0 < (b::int) \<Longrightarrow> 0 < c \<Longrightarrow> a div b = c * (a div (b * c)) + a div b mod c"
  by (simp add: zdiv_zmult2_eq)

text \<open>The countdown computes days, hours, minutes and seconds by direct division.\<close>

lemma time_left_eq:
  "time_left (Some s) now =
     map_option (\<lambda>e. let x = max 0 (e - now) in
       \<lparr>cd_days = x div ms_per_day, cd_hours = x div ms_per_hour mod 24,
        cd_minutes = x div ms_per_minute mod 60, cd_seconds = x div ms_per_second mod 60\<rparr>)
       (view_expires_at s)"
proof (cases "view_expires_at s")
  case None
  then show ?thesis by (simp add: time_left_def)
next
  case (Some e)
  define x where "x = max 0 (e - now)"
  have h: "x mod ms_per_day div ms_per_hour = x div ms_per_hour mod 24"
    using mod_mult_div [of ms_per_hour 24 x] by (simp add: time_unit_values)
  have m: "x mod ms_per_hour div ms_per_minute = x div ms_per_minute mod 60"
    using mod_mult_div [of ms_per_minute 60 x] by (simp add: time_unit_values)
  have s: "x mod ms_per_minute div ms_per_second = x div ms_per_second mod 60"
    using mod_mult_div [of ms_per_second 60 x] by (simp add: time_unit_values)
  have dh: "x mod ms_per_day mod ms_per_hour = x mod ms_per_hour"
    by (simp add: time_unit_values mod_mod_cancel)
  have hm: "x mod ms_per_hour mod ms_per_minute = x mod ms_per_minute"
    by (simp add: time_unit_values mod_mod_cancel)
  from Some h m s dh hm show ?thesis
    by (simp add: time_left_def Let_def x_def[symmetric] minus_div_mult_eq_mod)
qed

lemma countdown_split:
  "(x::int) = ms_per_day * (x div ms_per_day) + ms_per_hour * (x div ms_per_hour mod 24) +
     ms_per_minute * (x div ms_per_minute mod 60) + ms_per_second * (x div ms_per_second mod 60) +
     x mod ms_per_second"
proof -
  have a: "x = ms_per_second * (x div ms_per_second) + x mod ms_per_second" by simp
  have b: "x div ms_per_second = 60 * (x div ms_per_minute) + x div ms_per_second mod 60"
    using div_unit_split [of ms_per_second 60 x] by (simp add: time_unit_values)
  have c: "x div ms_per_minute = 60 * (x div ms_per_hour) + x div ms_per_minute mod 60"
    using div_unit_split [of ms_per_minute 60 x] by (simp add: time_unit_values)
  have d: "x div ms_per_hour = 24 * (x div ms_per_day) + x div ms_per_hour mod 24"
    using div_unit_split [of ms_per_hour 24 x] by (simp add: time_unit_values)
  from a b c d show ?thesis unfolding time_unit_values by linarith
qed

text \<open>
  The header countdown is exact: for a subscription with an expiry, its days,
  hours, minutes and seconds add up to the remaining time (zero once expired) less its
  milliseconds, and hours, minutes and seconds stay within a day, an hour and a minute.
\<close>

theorem time_left_decompose:
  assumes "view_expires_at s = Some e"
  shows "\<exists>c. time_left (Some s) now = Some c \<and>
           cd_days c * ms_per_day + cd_hours c * ms_per_hour + cd_minutes c * ms_per_minute +
           cd_seconds c * ms_per_second + max 0 (e - now) mod ms_per_second = max 0 (e - now) \<and>
           0 \<le> cd_days c \<and> 0 \<le> cd_hours c \<and> cd_hours c < 24 \<and> 0 \<le> cd_minutes c \<and>
           cd_minutes c < 60 \<and> 0 \<le> cd_seconds c \<and> cd_seconds c < 60"
proof -
  define x where "x = max 0 (e - now)"
  have x0: "0 \<le> x" by (simp add: x_def)
  let ?c = "\<lparr>cd_days = x div ms_per_day, cd_hours = x div ms_per_hour mod 24,
             cd_minutes = x div ms_per_minute mod 60, cd_seconds = x div ms_per_second mod 60\<rparr>"
  have tl: "time_left (Some s) now = Some ?c" by (simp add: time_left_eq assms x_def Let_def)
  have sum: "cd_days ?c * ms_per_day + cd_hours ?c * ms_per_hour + cd_minutes ?c * ms_per_minute +
      cd_seconds ?c * ms_per_second + x mod ms_per_second = x"
    using countdown_split [of x] by (simp add: mult.commute)
  have d0: "0 \<le> x div ms_per_day" using x0 by (simp add: time_unit_values)
  show ?thesis
    by (rule exI [of _ ?c]) (use tl sum d0 in \<open>simp add: x_def [symmetric]\<close>)
qed

theorem time_left_decompose_witness:
  "(\<exists>c. time_left (Some \<lparr>view_expires_at = Some 90061001, view_source = ''license_key''\<rparr>) 0 = Some c \<and>
     cd_days c * ms_per_day + cd_hours c * ms_per_hour + cd_minutes c * ms_per_minute +
     cd_seconds c * ms_per_second + max 0 (90061001 - 0) mod ms_per_second = max 0 (90061001 - 0) \<and>
     0 \<le> cd_days c \<and> 0 \<le> cd_hours c \<and> cd_hours c < 24 \<and> 0 \<le> cd_minutes c \<and>
     cd_minutes c < 60 \<and> 0 \<le> cd_seconds c \<and> cd_seconds c < 60) \<and>
   time_left (Some \<lparr>view_expires_at = Some 90061001, view_source = ''license_key''\<rparr>) 0 =
     Some \<lparr>cd_days = 1, cd_hours = 1, cd_minutes = 1, cd_seconds = 1\<rparr>"
proof
  show "\<exists>c. time_left (Some \<lparr>view_expires_at = Some 90061001, view_source = ''license_key''\<rparr>) 0 = Some c \<and>
     cd_days c * ms_per_day + cd_hours c * ms_per_hour + cd_minutes c * ms_per_minute +
     cd_seconds c * ms_per_second + max 0 (90061001 - 0) mod ms_per_second = max 0 (90061001 - 0) \<and>
     0 \<le> cd_days c \<and> 0 \<le> cd_hours c \<and> cd_hours c < 24 \<and> 0 \<le> cd_minutes c \<and>
     cd_minutes c < 60 \<and> 0 \<le> cd_seconds c \<and> cd_seconds c < 60"
    by (rule time_left_decompose) simp
  show "time_left (Some \<lparr>view_expires_at = Some 90061001, view_source = ''license_key''\<rparr>) 0 =
     Some \<lparr>cd_days = 1, cd_hours = 1, cd_minutes = 1, cd_seconds = 1\<rparr>"
    by (simp add: time_left_eq time_unit_values)
qed

text \<open>
  C23: \<open>getTimeRemaining\<close> divides twice (milliseconds to hours, hours to days); this
  is the label of a direct computation: expired when the expiry is not in the future,
  otherwise whole days if at least a day remains, else whole hours if at least an hour
  remains, else whole minutes.
\<close>

theorem get_time_remaining_eq:
  "get_time_remaining (Some e) now =
     Some (if e \<le> now then TR_Expired
           else if ms_per_day \<le> e - now then TR_Days ((e - now) div ms_per_day)
           else if ms_per_hour \<le> e - now then TR_Hours ((e - now) div ms_per_hour)
           else TR_Minutes ((e - now) div ms_per_minute))"
proof -
  have dd: "(e - now) div ms_per_hour div 24 = (e - now) div ms_per_day"
    using zdiv_zmult2_eq [of 24 "e - now" ms_per_hour] by (simp add: time_unit_values)
  have pd: "0 < (e - now) div ms_per_day \<longleftrightarrow> ms_per_day \<le> e - now"
    by (simp add: time_unit_values pos_imp_zdiv_pos_iff)
  have ph: "0 < (e - now) div ms_per_hour \<longleftrightarrow> ms_per_hour \<le> e - now"
    by (simp add: time_unit_values pos_imp_zdiv_pos_iff)
  show ?thesis
    by (simp add: get_time_remaining_def Let_def dd pd ph)
qed

text \<open>
  C24: a notification sent from the admin panel with title and message appears first in
  every user's news list exactly while the current time is before its expiry, \<open>now\<close>
  plus the chosen hours (24 when none are given); the rest of the list is the nine
  newest older notifications that have not expired.
\<close>

theorem sent_notification_shown:
  assumes "title \<noteq> []" "msg \<noteq> []"
  shows "load_notifications (send_notification user title msg h now d) t =
           (if t < now + (if h = 0 then 24 else h) * ms_per_hour
            then [\<lparr>notif_id = next_id d, notif_title = title, notif_message = msg,
                   notif_created_by = user,
                   notif_expires_at = now + (if h = 0 then 24 else h) * ms_per_hour\<rparr>]
            else []) @
           filter (\<lambda>n. t < notif_expires_at n) (take 9 (rev (notifications d)))"
  using assms
  by (simp add: load_notifications_def send_notification_def Let_def is_notification_active_def)

theorem sent_notification_shown_witness:
  "''T'' \<noteq> [] \<and> ''M'' \<noteq> [] \<and>
   load_notifications (send_notification None ''T'' ''M'' 0 0 (empty_db 30)) 5 =
     [\<lparr>notif_id = 0, notif_title = ''T'', notif_message = ''M'', notif_created_by = None,
       notif_expires_at = 24 * ms_per_hour\<rparr>] \<and>
   load_notifications (send_notification None ''T'' ''M'' (-5) 0 (empty_db 30)) 5 = []"
proof -
  have t: "''T'' \<noteq> []" and m: "''M'' \<noteq> []" by simp_all
  show ?thesis
    using sent_notification_shown [OF t m, of None 0 0 "empty_db 30" 5]
      sent_notification_shown [OF t m, of None "-5" 0 "empty_db 30" 5]
    by (simp add: empty_db_def time_unit_values)
qed

end
