(* ===== verification/Score.thy ===== *)
theory Score
  imports Prelude
begin

text \<open>
  The optimisation score of the Electron main process (\<open>src/electron/main.js\<close>,
  handler \<open>get-system-metrics\<close>): four piecewise-linear sub-scores of the CPU load,
  memory use, disk use and process count, weighted and subtracted from 100, clamped and
  rounded. The sub-scores are real-valued as in JavaScript (exact reals here, no IEEE
  rounding); the percentages fed to them are the \<open>Math.round\<close>ed integers the handler
  computes.
\<close>

subsection \<open>Sub-scores\<close>

named_theorems subscore_defs "the four sub-score definitions"

definition cpu_score :: "int \<Rightarrow> real" where
  "cpu_score cpuUsage =
     (if cpuUsage < 30 then 100
      else if cpuUsage < 50 then 100 - ((of_int cpuUsage - 30) / 20) * 20
      else if cpuUsage < 70 then 80 - ((of_int cpuUsage - 50) / 20) * 30
      else max 0 (50 - ((of_int cpuUsage - 70) / 30) * 50))"

definition mem_score :: "int \<Rightarrow> real" where
  "mem_score memUsagePercent =
     (if memUsagePercent < 40 then 100
      else if memUsagePercent < 60 then 100 - ((of_int memUsagePercent - 40) / 20) * 20
      else if memUsagePercent < 80 then 80 - ((of_int memUsagePercent - 60) / 20) * 30
      else max 0 (50 - ((of_int memUsagePercent - 80) / 20) * 50))"

definition disk_score :: "int \<Rightarrow> real" where
  "disk_score diskUsagePercent =
     (if diskUsagePercent < 60 then 100
      else if diskUsagePercent < 80 then 100 - ((of_int diskUsagePercent - 60) / 20) * 30
      else max 0 (70 - ((of_int diskUsagePercent - 80) / 20) * 70))"

definition process_score :: "int \<Rightarrow> real" where
  "process_score processAll =
     (if processAll < 50 then 100
      else if processAll < 100 then 100 - ((of_int processAll - 50) / 50) * 20
      else if processAll < 150 then 80 - ((of_int processAll - 100) / 50) * 30
      else max 0 (50 - ((of_int processAll - 150) / 150) * 50))"

declare cpu_score_def [subscore_defs] mem_score_def [subscore_defs]
  disk_score_def [subscore_defs] process_score_def [subscore_defs]

subsection \<open>The weighted score\<close>

text \<open>
  \<open>let score = 100; score -= (100 - cpuScore) * 0.25; \<dots>;
  Math.round(Math.max(0, Math.min(100, score)))\<close>, the four deductions in the code's order.
\<close>

definition weighted_score :: "real \<Rightarrow> real \<Rightarrow> real \<Rightarrow> real \<Rightarrow> int" where
  "weighted_score cpuScore memScore diskScore processScore =
     (let score = 100;
          score = score - (100 - cpuScore) * 0.25;
          score = score - (100 - memScore) * 0.30;
          score = score - (100 - diskScore) * 0.10;
          score = score - (100 - processScore) * 0.35
      in js_round (max 0 (min 100 score)))"

definition optimization_score :: "int \<Rightarrow> int \<Rightarrow> int \<Rightarrow> int \<Rightarrow> int" where
  "optimization_score cpuUsage memUsagePercent diskUsagePercent processAll =
     weighted_score (cpu_score cpuUsage) (mem_score memUsagePercent)
       (disk_score diskUsagePercent) (process_score processAll)"

subsection \<open>Percentages as JavaScript numbers\<close>

text \<open>
  The handler computes \<open>Math.round((used / total) * 100)\<close>. With \<open>total = 0\<close> this is
  not a number: \<open>0 / 0\<close> is \<open>NaN\<close>, a positive numerator over 0 is \<open>Infinity\<close>, a
  negative one \<open>-Infinity\<close>. The main disk defaults to \<open>{size: 0, used: 0}\<close> when
  \<open>systeminformation\<close> reports no file system, so the \<open>NaN\<close> case is reachable.
\<close>

datatype js_pct = Pct int | Pct_NaN | Pct_Inf | Pct_NegInf

definition usage_percent :: "real \<Rightarrow> real \<Rightarrow> js_pct" where
  "usage_percent usedBytes totalBytes =
     (if totalBytes = 0 then (if usedBytes = 0 then Pct_NaN else if 0 < usedBytes then Pct_Inf else Pct_NegInf)
      else Pct (js_round ((usedBytes / totalBytes) * 100)))"

text \<open>
  A sub-score of a non-finite percentage, as JavaScript evaluates the same branches:
  every comparison with \<open>NaN\<close> is false, so the last branch runs and
  \<open>Math.max(0, NaN)\<close> is \<open>NaN\<close> (here \<open>None\<close>); \<open>Infinity\<close> fails every \<open><\<close> and
  the last branch gives \<open>Math.max(0, -Infinity) = 0\<close>; \<open>-Infinity\<close> takes the first
  branch, 100.
\<close>

definition js_subscore :: "(int \<Rightarrow> real) \<Rightarrow> js_pct \<Rightarrow> real option" where
  "js_subscore f p =
     (case p of Pct n \<Rightarrow> Some (f n) | Pct_NaN \<Rightarrow> None | Pct_Inf \<Rightarrow> Some 0
      | Pct_NegInf \<Rightarrow> Some 100)"

text \<open>\<open>NaN\<close> propagates through the subtractions, \<open>min\<close>, \<open>max\<close> and \<open>Math.round\<close>.\<close>

definition js_weighted_score :: "real option \<Rightarrow> real option \<Rightarrow> real option \<Rightarrow> real option \<Rightarrow> int option" where
  "js_weighted_score c m d p =
     (case (c, m, d, p) of
        (Some c, Some m, Some d, Some p) \<Rightarrow> Some (weighted_score c m d p)
      | _ \<Rightarrow> None)"

subsection \<open>The \<open>get-system-metrics\<close> handler\<close>

text \<open>
  The inputs are what \<open>systeminformation\<close> returns: the current CPU load, total and
  used memory, the file systems as (size, used) pairs, and the process count after
  \<open>getProcessCountExact\<close>. The result keeps the fields the score depends on; temperature,
  cores and network rates are copied through by the code and not modelled.
  \<open>None\<close> as the score is \<open>NaN\<close>.
\<close>

record system_metrics =
  cpu_usage :: int
  mem_usage_percent :: js_pct
  disk_usage_percent :: js_pct
  processes_all :: int
  metrics_score :: "int option"

definition get_system_metrics :: "real \<Rightarrow> real \<Rightarrow> real \<Rightarrow> (real \<times> real) list \<Rightarrow> int \<Rightarrow> system_metrics" where
  "get_system_metrics currentLoad memTotal memUsed diskData processAll =
     (let cpuUsage = js_round currentLoad;
          memUsagePercent = usage_percent memUsed memTotal;
          (diskTotal, diskUsed) = (case diskData of [] \<Rightarrow> (0, 0) | d # _ \<Rightarrow> d);
          diskUsagePercent = usage_percent diskUsed diskTotal;
          score = js_weighted_score (Some (cpu_score cpuUsage)) (js_subscore mem_score memUsagePercent)
                    (js_subscore disk_score diskUsagePercent) (Some (process_score processAll))
      in \<lparr>cpu_usage = cpuUsage, mem_usage_percent = memUsagePercent,
          disk_usage_percent = diskUsagePercent, processes_all = processAll,
          metrics_score = score\<rparr>)"

subsection \<open>\<open>getProcessCountExact\<close>\<close>

text \<open>
  On Windows the process count is the number of non-blank lines of
  \<open>tasklist /FO CSV /NH\<close>, falling back to the count of \<open>systeminformation\<close>; on any
  other platform, and when \<open>tasklist\<close> fails (\<open>None\<close>), the fallback is used directly.
  \<open>defaultCount || 0\<close> is \<open>defaultCount\<close> for a number.
\<close>

datatype platform = Win32 | Other_Platform

definition get_process_count_exact :: "platform \<Rightarrow> string option \<Rightarrow> int \<Rightarrow> int" where
  "get_process_count_exact plat tasklist defaultCount =
     (if plat \<noteq> Win32 then defaultCount
      else (case tasklist of
              None \<Rightarrow> defaultCount
            | Some stdout \<Rightarrow>
                (let lines = filter (\<lambda>l. length l > 0) (map js_trim (js_split (CHR 0x0A) stdout))
                 in if length lines = 0 then defaultCount else int (length lines))))"

subsection \<open>The simulated score of the browser build\<close>

text \<open>
  Outside Electron, \<open>useSystemMetrics.fetchMetrics\<close> (\<open>src/src/hooks/useSystemMetrics.ts\<close>)
  draws random metrics and scores them with a different formula: linear CPU and disk
  sub-scores, a memory sub-score that also penalises low use, and weights 0.3, 0.25, 0.2,
  0.25.
\<close>

definition sim_mem_score :: "int \<Rightarrow> real" where
  "sim_mem_score memory =
     (if memory < 40 then 70 + (of_int memory / 40) * 30
      else if memory > 70 then max 0 (100 - ((of_int memory - 70) * 2))
      else 100)"

definition sim_process_score :: "int \<Rightarrow> real" where
  "sim_process_score processes =
     (if processes < 100 then 100
      else if processes > 300 then max 0 (100 - ((of_int processes - 300) / 5))
      else 100 - ((of_int processes - 100) / 200) * 50)"

definition simulated_score :: "int \<Rightarrow> int \<Rightarrow> int \<Rightarrow> int \<Rightarrow> int" where
  "simulated_score cpu memory disk processes =
     (let score = 100;
          cpuScore = max 0 (100 - of_int cpu);
          score = score - (100 - cpuScore) * 0.3;
          score = score - (100 - sim_mem_score memory) * 0.25;
          diskScore = max 0 (100 - of_int disk);
          score = score - (100 - diskScore) * 0.2;
          score = score - (100 - sim_process_score processes) * 0.25
      in js_round (max 0 (min 100 score)))"

subsection \<open>Sub-score lemmas\<close>

text \<open>Each sub-score lies in \<open>[0, 100]\<close> and never grows with its input.\<close>

lemma cpu_score_range: "0 \<le> cpu_score u \<and> cpu_score u \<le> 100"
  by (auto simp: cpu_score_def field_simps max_def)

lemma mem_score_range: "0 \<le> mem_score u \<and> mem_score u \<le> 100"
  by (auto simp: mem_score_def field_simps max_def)

lemma disk_score_range: "0 \<le> disk_score u \<and> disk_score u \<le> 100"
  by (auto simp: disk_score_def field_simps max_def)

lemma process_score_range: "0 \<le> process_score u \<and> process_score u \<le> 100"
  by (auto simp: process_score_def field_simps max_def)

lemma cpu_score_antimono: "a \<le> b \<Longrightarrow> cpu_score b \<le> cpu_score a"
  by (auto simp: cpu_score_def field_simps max_def)

lemma mem_score_antimono: "a \<le> b \<Longrightarrow> mem_score b \<le> mem_score a"
  by (auto simp: mem_score_def field_simps max_def)

lemma disk_score_antimono: "a \<le> b \<Longrightarrow> disk_score b \<le> disk_score a"
  by (auto simp: disk_score_def field_simps max_def)

lemma process_score_antimono: "a \<le> b \<Longrightarrow> process_score b \<le> process_score a"
  by (auto simp: process_score_def field_simps max_def)

lemma weighted_score_range: "0 \<le> weighted_score c m d p \<and> weighted_score c m d p \<le> 100"
  unfolding weighted_score_def Let_def by (rule js_round_bounds) auto

lemma weighted_score_mono:
  "c \<le> c' \<Longrightarrow> m \<le> m' \<Longrightarrow> d \<le> d' \<Longrightarrow> p \<le> p' \<Longrightarrow>
   weighted_score c m d p \<le> weighted_score c' m' d' p'"
  unfolding weighted_score_def Let_def
  by (intro js_round_mono max.mono min.mono diff_mono mult_right_mono order.refl) simp_all

lemma usage_percent_range:
  assumes "0 < totalBytes" "0 \<le> usedBytes" "usedBytes \<le> totalBytes"
  shows "\<exists>n. usage_percent usedBytes totalBytes = Pct n \<and> 0 \<le> n \<and> n \<le> 100"
proof -
  have "0 \<le> (usedBytes / totalBytes) * 100" "(usedBytes / totalBytes) * 100 \<le> 100"
    using assms by (simp_all add: field_simps)
  then have "0 \<le> js_round ((usedBytes / totalBytes) * 100) \<and> js_round ((usedBytes / totalBytes) * 100) \<le> 100"
    by (intro js_round_bounds) simp_all
  with assms show ?thesis by (simp add: usage_percent_def)
qed

lemma tasklist_split:
  assumes "\<forall>l \<in> set ls. CHR 0x0A \<notin> set l"
  shows "js_split (CHR 0x0A) (concat (map (\<lambda>l. l @ [CHR 0x0D, CHR 0x0A]) ls))
           = map (\<lambda>l. l @ [CHR 0x0D]) ls @ [[]]"
  using assms
proof (induction ls)
  case Nil
  then show ?case by simp
next
  case (Cons a ls)
  then have "js_split (CHR 0x0A) ((a @ [CHR 0x0D]) @ CHR 0x0A # concat (map (\<lambda>l. l @ [CHR 0x0D, CHR 0x0A]) ls))
               = (a @ [CHR 0x0D]) # js_split (CHR 0x0A) (concat (map (\<lambda>l. l @ [CHR 0x0D, CHR 0x0A]) ls))"
    by (intro js_split_append_sep) simp
  with Cons show ?case by simp
qed

lemma js_weighted_score_disk_NaN [simp]: "js_weighted_score c m None p = None"
  by (simp add: js_weighted_score_def split: option.split)

lemma js_is_space_CR [simp]: "js_is_space (CHR 0x0D)"
  by (simp add: js_is_space_def)

subsection \<open>Properties of the score\<close>

text \<open>
  For every reading the optimisation score is an integer between 0 and 100: the
  clamp before \<open>Math.round\<close> bounds it whatever the sub-scores are.
\<close>

theorem optimization_score_range:
  "0 \<le> optimization_score cpu mem disk procs \<and> optimization_score cpu mem disk procs \<le> 100"
  unfolding optimization_score_def by (rule weighted_score_range)

text \<open>
  C2: the score never increases when any reading increases: more CPU load, memory use,
  disk use or processes give the same or a lower score.
\<close>

theorem optimization_score_antimono:
  assumes "cpu \<le> cpu'" "mem \<le> mem'" "disk \<le> disk'" "procs \<le> procs'"
  shows "optimization_score cpu' mem' disk' procs' \<le> optimization_score cpu mem disk procs"
  unfolding optimization_score_def
  using assms by (intro weighted_score_mono cpu_score_antimono mem_score_antimono
      disk_score_antimono process_score_antimono)

theorem optimization_score_antimono_witness:
  "(20::int) \<le> 75 \<and> (30::int) \<le> 85 \<and> (20::int) \<le> 85 \<and> (40::int) \<le> 200 \<and>
   optimization_score 75 85 85 200 \<le> optimization_score 20 30 20 40"
  using optimization_score_antimono [of 20 75 30 85 20 85 40 200] by simp

text \<open>
  C7: with every reading below its first breakpoint (CPU under 30\%, memory under 40\%,
  disk under 60\%, fewer than 50 processes) every sub-score is 100 and the score is 100;
  the example of the spec (20, 30, 20, 40) is one such reading.
\<close>

theorem optimization_score_idle:
  assumes "cpu < 30" "mem < 40" "disk < 60" "procs < 50"
  shows "optimization_score cpu mem disk procs = 100"
  using assms by (simp add: optimization_score_def weighted_score_def subscore_defs)

theorem optimization_score_idle_witness:
  "(20::int) < 30 \<and> (30::int) < 40 \<and> (20::int) < 60 \<and> (40::int) < 50 \<and>
   optimization_score 20 30 20 40 = 100"
  using optimization_score_idle [of 20 30 20 40] by simp

text \<open>
  A loaded machine scores below 40: from CPU 75\%, memory 85\%, disk 85\% and 200
  processes upwards every weighted penalty is active and the score is at most 39.
\<close>

theorem optimization_score_loaded:
  assumes "75 \<le> cpu" "85 \<le> mem" "85 \<le> disk" "200 \<le> procs"
  shows "optimization_score cpu mem disk procs < 40"
proof -
  have "optimization_score cpu mem disk procs \<le> optimization_score 75 85 85 200"
    unfolding optimization_score_def
    using assms by (intro weighted_score_mono cpu_score_antimono mem_score_antimono
        disk_score_antimono process_score_antimono)
  also have "optimization_score 75 85 85 200 = 39"
    by (simp add: optimization_score_def weighted_score_def subscore_defs js_round_def)
  finally show ?thesis by simp
qed

theorem optimization_score_loaded_witness:
  "(75::int) \<le> 75 \<and> (85::int) \<le> 85 \<and> (85::int) \<le> 85 \<and> (200::int) \<le> 200 \<and>
   optimization_score 75 85 85 200 < 40"
  using optimization_score_loaded [of 75 85 85 200] by simp

text \<open>
  C4: on the readings \<open>systeminformation\<close> gives for a working machine (positive totals,
  usage between 0 and the total) the handler computes finite percentages between 0 and
  100 and its score is the optimisation score of the rounded readings: the handler
  refines the pure scoring function.
\<close>

theorem get_system_metrics_refines:
  assumes "0 < memTotal" "0 \<le> memUsed" "memUsed \<le> memTotal"
    and "0 < diskSize" "0 \<le> diskUsed" "diskUsed \<le> diskSize"
  shows "\<exists>mp dp. get_system_metrics load memTotal memUsed ((diskSize, diskUsed) # disks) procs =
           \<lparr>cpu_usage = js_round load, mem_usage_percent = Pct mp, disk_usage_percent = Pct dp,
            processes_all = procs,
            metrics_score = Some (optimization_score (js_round load) mp dp procs)\<rparr>
           \<and> 0 \<le> mp \<and> mp \<le> 100 \<and> 0 \<le> dp \<and> dp \<le> 100"
proof -
  obtain mp where mp: "usage_percent memUsed memTotal = Pct mp" "0 \<le> mp" "mp \<le> 100"
    using usage_percent_range [OF assms(1-3)] by blast
  obtain dp where dp: "usage_percent diskUsed diskSize = Pct dp" "0 \<le> dp" "dp \<le> 100"
    using usage_percent_range [OF assms(4-6)] by blast
  show ?thesis
    using mp dp
    by (simp add: get_system_metrics_def js_subscore_def js_weighted_score_def optimization_score_def
        Let_def)
qed

theorem get_system_metrics_refines_witness:
  "\<exists>mp dp. get_system_metrics 42 16 8 [(500, 125)] 120 =
      \<lparr>cpu_usage = js_round 42, mem_usage_percent = Pct mp, disk_usage_percent = Pct dp,
       processes_all = 120, metrics_score = Some (optimization_score (js_round 42) mp dp 120)\<rparr>
      \<and> 0 \<le> mp \<and> mp \<le> 100 \<and> 0 \<le> dp \<and> dp \<le> 100"
  using get_system_metrics_refines [of 16 8 500 125 42 "[]" 120] by simp

text \<open>
  C17: when \<open>systeminformation\<close> reports no file system the handler falls back to a
  disk of size 0, the disk percentage is \<open>0 / 0 = NaN\<close>, and the score it returns is
  \<open>NaN\<close>, whatever the other readings are: the score is then not in \<open>[0, 100]\<close>.
\<close>

theorem get_system_metrics_no_disk:
  "metrics_score (get_system_metrics load memTotal memUsed [] procs) = None"
proof -
  have "js_subscore disk_score (usage_percent 0 0) = None"
    by (simp add: usage_percent_def js_subscore_def)
  then show ?thesis by (simp add: get_system_metrics_def)
qed

text \<open>
  On Windows the process count is the number of lines \<open>tasklist\<close> prints: for an
  output of one or more non-blank CSV lines, each ended by CR LF, the count is the number
  of lines (the trailing CR is trimmed away and the empty piece after the last LF dropped).
\<close>

theorem get_process_count_exact_tasklist:
  assumes "ls \<noteq> []" and "\<forall>l \<in> set ls. CHR 0x0A \<notin> set l \<and> js_trim l \<noteq> []"
  shows "get_process_count_exact Win32 (Some (concat (map (\<lambda>l. l @ [CHR 0x0D, CHR 0x0A]) ls))) d
           = int (length ls)"
proof -
  have split: "js_split (CHR 0x0A) (concat (map (\<lambda>l. l @ [CHR 0x0D, CHR 0x0A]) ls))
                 = map (\<lambda>l. l @ [CHR 0x0D]) ls @ [[]]"
    using assms(2) by (simp add: tasklist_split)
  have "\<forall>l \<in> set ls. js_trim l \<noteq> []" using assms(2) by blast
  then have "filter (\<lambda>l. length l > 0) (map js_trim (map (\<lambda>l. l @ [CHR 0x0D]) ls))
          = map js_trim ls"
    by (induction ls) (simp_all add: js_trim_snoc_space)
  moreover have "js_trim [] = []" by (simp add: js_trim_def)
  ultimately have "filter (\<lambda>l. length l > 0) (map js_trim (js_split (CHR 0x0A)
                     (concat (map (\<lambda>l. l @ [CHR 0x0D, CHR 0x0A]) ls)))) = map js_trim ls"
    by (simp add: split)
  with assms(1) show ?thesis
    by (simp add: get_process_count_exact_def Let_def)
qed

theorem get_process_count_exact_tasklist_witness:
  "[''a,1'', ''b,2''] \<noteq> [] \<and>
   CHR 0x0A \<notin> set ''a,1'' \<and> js_trim ''a,1'' \<noteq> [] \<and>
   CHR 0x0A \<notin> set ''b,2'' \<and> js_trim ''b,2'' \<noteq> [] \<and>
   get_process_count_exact Win32
     (Some (concat (map (\<lambda>l. l @ [CHR 0x0D, CHR 0x0A]) [''a,1'', ''b,2'']))) 7 = 2"
  using get_process_count_exact_tasklist [of "[''a,1'', ''b,2'']" 7]
  by (simp add: js_trim_def js_is_space_def)

text \<open>
  The browser build's simulated score is not monotone in memory use: its memory
  sub-score rises from 70 to 100 as use goes from 0\% to 40\%, so a reading with 40\%
  memory scores higher than the same reading with 0\%.
\<close>

theorem simulated_score_not_antimono:
  "simulated_score 40 0 30 150 < simulated_score 40 40 30 150"
  by (simp add: simulated_score_def sim_mem_score_def sim_process_score_def js_round_def)

end
