(* ===== verification/Optimize.thy ===== *)
theory Optimize
  imports Resources Expiry Score
begin

text \<open>
  The optimise button of \<open>NewDashboard.handleOptimize\<close>: refused without an active
  subscription or without an \<open>executeCommand\<close> bridge; otherwise every resource of the
  table in order is resolved by \<open>ensureResource\<close> and, when it yields a path, run
  elevated (\<open>regedit /s "path"\<close> for a \<open>.reg\<close>, \<open>"path"\<close> for a \<open>.bat\<close>). The
  \<open>execute-command\<close> handler of \<open>main.js\<close> turns a command into the line it runs; it
  resolves even when the command fails, so the client counts every command it issued.
\<close>

subsection \<open>Commands\<close>

text \<open>\<open>command.replace(/"/g, '""')\<close>\<close>

definition double_quotes :: "string \<Rightarrow> string" where
  "double_quotes command = concat (map (\<lambda>c. if c = CHR 0x22 then [CHR 0x22, CHR 0x22] else [c]) command)"

text \<open>
  The \<open>execute-command\<close> handler: elevated on Windows through PowerShell's
  \<open>Start-Process \<dots> -ArgumentList '/c','<command>' -Verb RunAs\<close>, otherwise through
  \<open>cmd.exe /c "<command>"\<close> on Windows and the command itself elsewhere.
\<close>

definition execute_command_line :: "platform \<Rightarrow> bool \<Rightarrow> string \<Rightarrow> string" where
  "execute_command_line plat asAdmin command =
     (if asAdmin \<and> plat = Win32 then
        ''powershell -Command '' @ [CHR 0x22] @ ''Start-Process -FilePath '' @ [CHR 0x27] @ ''cmd.exe'' @
        [CHR 0x27] @ '' -ArgumentList '' @ [CHR 0x27] @ ''/c'' @ [CHR 0x27, CHR 0x2C, CHR 0x27] @
        double_quotes command @ [CHR 0x27] @ '' -Verb RunAs -WindowStyle Hidden -Wait'' @ [CHR 0x22]
      else if plat = Win32 then ''cmd.exe /c '' @ [CHR 0x22] @ command @ [CHR 0x22]
      else command)"

text \<open>The command \<open>handleOptimize\<close> issues for a resource at a local path.\<close>

fun resource_command :: "res_kind \<Rightarrow> string \<Rightarrow> string" where
  "resource_command Reg localPath = ''regedit /s '' @ [CHR 0x22] @ localPath @ [CHR 0x22]"
| "resource_command Bat localPath = [CHR 0x22] @ localPath @ [CHR 0x22]"

subsection \<open>\<open>handleOptimize\<close>\<close>

datatype optimize_outcome = Opt_Needs_License | Opt_No_Desktop | Opt_Done

record optimize_result =
  opt_outcome :: optimize_outcome
  opt_commands :: "string list"
  opt_completed :: nat
  opt_fs :: fs_state

text \<open>One iteration of \<open>for (const resource of OPTIMIZATION_RESOURCES)\<close>.\<close>

definition optimize_one ::
  "electron_api option \<Rightarrow> (string \<Rightarrow> bool) \<Rightarrow> string \<Rightarrow> string list \<times> nat \<times> fs_state \<Rightarrow> resource \<Rightarrow>
   string list \<times> nat \<times> fs_state" where
  "optimize_one api_opt net base acc resource =
     (case acc of (cmds, completed, fs) \<Rightarrow>
       (case ensure_resource api_opt net base (res_path resource) fs of
          (None, fs') \<Rightarrow> (cmds, completed, fs')
        | (Some localPath, fs') \<Rightarrow>
            (cmds @ [resource_command (res_type resource) localPath], Suc completed, fs')))"

text \<open>
  \<open>subscription\<close> and \<open>now\<close> give \<open>isSubscriptionActive\<close>; \<open>has_exec\<close> is whether
  \<open>window.electron || window.electronAPI\<close> offers \<open>executeCommand\<close>; \<open>api_opt\<close> is
  \<open>window.electronAPI\<close> as the resource manager sees it.
\<close>

definition handle_optimize ::
  "sub_view option \<Rightarrow> ms \<Rightarrow> bool \<Rightarrow> electron_api option \<Rightarrow> (string \<Rightarrow> bool) \<Rightarrow> string \<Rightarrow> fs_state \<Rightarrow>
   optimize_result" where
  "handle_optimize subscription now has_exec api_opt net base fs =
     (if \<not> is_subscription_active subscription now then
        \<lparr>opt_outcome = Opt_Needs_License, opt_commands = [], opt_completed = 0, opt_fs = fs\<rparr>
      else if \<not> has_exec then
        \<lparr>opt_outcome = Opt_No_Desktop, opt_commands = [], opt_completed = 0, opt_fs = fs\<rparr>
      else
        (case foldl (optimize_one api_opt net base) ([], 0, fs) optimization_resources of
           (cmds, completed, fs') \<Rightarrow>
             \<lparr>opt_outcome = Opt_Done, opt_commands = cmds, opt_completed = completed, opt_fs = fs'\<rparr>))"

subsection \<open>Lemmas\<close>

lemma find_distinct_key: "distinct (map f xs) \<Longrightarrow> x \<in> set xs \<Longrightarrow> find (\<lambda>y. f y = f x) xs = Some x"
  by (induction xs) (auto simp: image_iff)

lemma distinct_resource_paths: "distinct (map res_path optimization_resources)"
  by (simp add: optimization_resources_def res_def cat_desempenho_def cat_fps_def cat_registro_def)

lemma find_resource_self: "r \<in> set optimization_resources \<Longrightarrow> find_resource (res_path r) = Some r"
  unfolding find_resource_def by (rule find_distinct_key [OF distinct_resource_paths])

lemma optimize_fold_none:
  "foldl (optimize_one api_opt net base) (cmds, n, fs) rs = (cmds, n, fs)"
  by (induction rs) (simp_all add: optimize_one_def ensure_resource_none)


subsection \<open>Properties of the optimise button\<close>



text \<open>
  C29: with any preload, an active subscriber's optimise run issues no command at all:
  every \<open>ensureResource\<close> ends in its \<open>catch\<close> or in a failed download and gives
  \<open>null\<close>, so the loop skips all fourteen resources, touches neither disk nor network,
  and the run still ends in the "done" state the UI reports as a successful
  optimisation.
\<close>

theorem optimize_runs_nothing:
  "is_subscription_active subscription now \<Longrightarrow>
   handle_optimize subscription now True api_opt net base fs =
     \<lparr>opt_outcome = Opt_Done, opt_commands = [], opt_completed = 0, opt_fs = fs\<rparr>"
  by (simp add: handle_optimize_def optimize_fold_none)

theorem optimize_runs_nothing_witness:
  "is_subscription_active (Some \<lparr>view_expires_at = Some 100, view_source = ''license_key''\<rparr>) 0 \<and>
   handle_optimize (Some \<lparr>view_expires_at = Some 100, view_source = ''license_key''\<rparr>) 0 True
     (Some preload_js_api) (\<lambda>_. True) (cdn_base_url None) \<lparr>fs_files = {}, fs_fetched = []\<rparr> =
     \<lparr>opt_outcome = Opt_Done, opt_commands = [], opt_completed = 0, opt_fs = \<lparr>fs_files = {}, fs_fetched = []\<rparr>\<rparr>"
proof -
  have a: "is_subscription_active (Some \<lparr>view_expires_at = Some 100, view_source = ''license_key''\<rparr>) 0"
    by (simp add: is_subscription_active_def js_date_ms_def)
  from a optimize_runs_nothing [OF a] show ?thesis by simp
qed

text \<open>
  C30: without an active subscription the button runs nothing: no resource is resolved,
  no command is issued and the disk is untouched, whatever the bridge offers.
\<close>

theorem optimize_needs_license:
  "\<not> is_subscription_active subscription now \<Longrightarrow>
   handle_optimize subscription now has_exec api_opt net base fs =
     \<lparr>opt_outcome = Opt_Needs_License, opt_commands = [], opt_completed = 0, opt_fs = fs\<rparr>"
  by (simp add: handle_optimize_def)

theorem optimize_needs_license_witness:
  "\<not> is_subscription_active (Some \<lparr>view_expires_at = Some 100, view_source = ''license_key''\<rparr>) 100 \<and>
   handle_optimize (Some \<lparr>view_expires_at = Some 100, view_source = ''license_key''\<rparr>) 100 True
     (Some preload_js_api) (\<lambda>_. True) (cdn_base_url None) \<lparr>fs_files = {}, fs_fetched = []\<rparr> =
     \<lparr>opt_outcome = Opt_Needs_License, opt_commands = [], opt_completed = 0,
      opt_fs = \<lparr>fs_files = {}, fs_fetched = []\<rparr>\<rparr>"
proof -
  have a: "\<not> is_subscription_active (Some \<lparr>view_expires_at = Some 100, view_source = ''license_key''\<rparr>) 100"
    by (simp add: is_subscription_active_def js_date_ms_def)
  from a optimize_needs_license [OF a] show ?thesis by simp
qed

end
