(* ===== verification/Preferences.thy ===== *)
theory Preferences
  imports Prelude
begin

text \<open>
  The user preferences of \<open>hooks/useSettings.ts\<close> and the preference toggles of
  \<open>components/Settings.tsx\<close>. The settings are a JavaScript object: after
  \<open>{...DEFAULT_SETTINGS, ...parsed}\<close> its fields hold whatever the stored JSON held, so
  the model keeps them as a map from key to JSON value. \<open>localStorage["userSettings"]\<close>
  holds the object the hook last wrote (this hook is its only writer), nothing, or text
  that does not parse. A render runs the hook's effects after each handler: the load
  effect once at mount, the save effect whenever the settings change after loading.
\<close>

subsection \<open>Values and defaults\<close>

datatype json_val = JBool bool | JStr string | JNum int | JNull

type_synonym settings_obj = "string \<rightharpoonup> json_val"

text \<open>JavaScript truthiness of a stored value (\<open>!value\<close> negates it).\<close>

fun js_truthy :: "json_val option \<Rightarrow> bool" where
  "js_truthy None = False"
| "js_truthy (Some (JBool b)) = b"
| "js_truthy (Some (JStr s)) = (s \<noteq> [])"
| "js_truthy (Some (JNum n)) = (n \<noteq> 0)"
| "js_truthy (Some JNull) = False"

definition default_settings :: settings_obj where
  "default_settings =
     [''emailNotifications'' \<mapsto> JBool True, ''pushNotifications'' \<mapsto> JBool True,
      ''performanceAlerts'' \<mapsto> JBool True, ''weeklyReport'' \<mapsto> JBool False,
      ''discordRichPresence'' \<mapsto> JBool True, ''theme'' \<mapsto> JStr ''dark'',
      ''language'' \<mapsto> JStr ''pt-BR'', ''autoSave'' \<mapsto> JBool True, ''compactMode'' \<mapsto> JBool False]"

datatype ls_item = LS_Absent | LS_Object settings_obj | LS_Corrupt

subsection \<open>The hook\<close>

text \<open>
  \<open>loadSettings\<close>: a stored object is merged over the defaults (its keys win); a missing
  item, and text \<open>JSON.parse\<close> rejects (caught), leave the defaults.
\<close>

definition load_settings :: "ls_item \<Rightarrow> settings_obj" where
  "load_settings item = (case item of LS_Object parsed \<Rightarrow> default_settings ++ parsed | _ \<Rightarrow> default_settings)"

text \<open>
  \<open>applyTheme\<close>, inverted on purpose by its comment: choosing \<open>"light"\<close> adds the
  \<open>dark\<close> class, \<open>"dark"\<close> removes it, anything else follows
  \<open>prefers-color-scheme\<close>. The result is whether the \<open>dark\<close> class is set.
\<close>

definition apply_theme :: "json_val option \<Rightarrow> bool \<Rightarrow> bool" where
  "apply_theme theme prefersDark =
     (if theme = Some (JStr ''light'') then True
      else if theme = Some (JStr ''dark'') then False
      else prefersDark)"

text \<open>
  The hook's state. React runs the save effect after a render in which \<open>settings\<close>
  (compared by reference) or \<open>isLoaded\<close> changed; \<open>is_default_ref\<close> records whether
  \<open>settings\<close> is the \<open>DEFAULT_SETTINGS\<close> object itself, which decides whether
  \<open>setSettings(DEFAULT_SETTINGS)\<close> changes anything.
\<close>

record prefs_state =
  settings :: settings_obj
  is_default_ref :: bool
  is_loaded :: bool
  stored :: ls_item
  dark_class :: "bool option"

definition prefs_init :: "ls_item \<Rightarrow> prefs_state" where
  "prefs_init item = \<lparr>settings = default_settings, is_default_ref = True, is_loaded = False,
                      stored = item, dark_class = None\<rparr>"

text \<open>The save effect: write the settings and apply their theme, once loaded.\<close>

definition save_effect :: "bool \<Rightarrow> prefs_state \<Rightarrow> prefs_state" where
  "save_effect prefersDark st =
     (if \<not> is_loaded st then st
      else st\<lparr>stored := LS_Object (settings st),
              dark_class := Some (apply_theme (settings st ''theme'') prefersDark)\<rparr>)"

text \<open>
  Mount: the load effect (a new object only when the item parsed), then the save effect,
  since \<open>isLoaded\<close> changed.
\<close>

definition mount :: "bool \<Rightarrow> prefs_state \<Rightarrow> prefs_state" where
  "mount prefersDark st =
     save_effect prefersDark
       (st\<lparr>settings := load_settings (stored st),
           is_default_ref := (case stored st of LS_Object _ \<Rightarrow> False | _ \<Rightarrow> is_default_ref st),
           is_loaded := True\<rparr>)"

text \<open>
  \<open>updateSetting(key, value)\<close>: a new object with one key changed; a theme is applied at
  once, then again by the save effect.
\<close>

definition update_setting :: "bool \<Rightarrow> string \<Rightarrow> json_val \<Rightarrow> prefs_state \<Rightarrow> prefs_state" where
  "update_setting prefersDark key value st =
     (let st' = st\<lparr>settings := (settings st)(key \<mapsto> value), is_default_ref := False\<rparr>;
          st'' = (if key = ''theme'' then st'\<lparr>dark_class := Some (apply_theme (Some value) prefersDark)\<rparr> else st')
      in save_effect prefersDark st'')"

text \<open>\<open>updateSettings(newSettings)\<close>: a new object with the given keys changed.\<close>

definition update_settings :: "bool \<Rightarrow> settings_obj \<Rightarrow> prefs_state \<Rightarrow> prefs_state" where
  "update_settings prefersDark newSettings st =
     save_effect prefersDark (st\<lparr>settings := settings st ++ newSettings, is_default_ref := False\<rparr>)"

text \<open>
  \<open>resetSettings\<close>: \<open>setSettings(DEFAULT_SETTINGS)\<close>, then the item removed; unless the
  state already held \<open>DEFAULT_SETTINGS\<close>, the render that follows runs the save effect,
  which writes the defaults back.
\<close>

definition reset_settings :: "bool \<Rightarrow> prefs_state \<Rightarrow> prefs_state" where
  "reset_settings prefersDark st =
     (if is_default_ref st then st\<lparr>stored := LS_Absent\<rparr>
      else save_effect prefersDark
             (st\<lparr>settings := default_settings, is_default_ref := True, stored := LS_Absent\<rparr>))"

subsection \<open>The toggles of the settings page\<close>

text \<open>
  The Discord bridge the toggle looks for: \<open>window.electron.enableDiscordRPC\<close> and
  \<open>disableDiscordRPC\<close>. \<open>preload.cjs\<close>, the loaded preload, exposes only
  \<open>executeCommand\<close> on \<open>window.electron\<close>.
\<close>

datatype discord_call = Discord_Enable | Discord_Disable | Discord_Unavailable

datatype pref_event =
    Toggle_Weekly_Report
  | Toggle_Discord bool
  | Choose_Theme string
  | Toggle_Key string

text \<open>
  One click: the weekly-report switch, the Discord switch (with whether the bridge has
  the two functions), a theme button (\<open>"dark"\<close>, \<open>"light"\<close>, \<open>"system"\<close>), or the
  compact-mode and auto-save switches. The result carries the Discord call made.
\<close>

fun pref_click :: "bool \<Rightarrow> prefs_state \<Rightarrow> pref_event \<Rightarrow> prefs_state \<times> discord_call option" where
  "pref_click prefersDark st Toggle_Weekly_Report =
     (update_setting prefersDark ''weeklyReport'' (JBool (\<not> js_truthy (settings st ''weeklyReport''))) st, None)"
| "pref_click prefersDark st (Toggle_Discord bridge) =
     (let enabled = \<not> js_truthy (settings st ''discordRichPresence'')
      in (update_setting prefersDark ''discordRichPresence'' (JBool enabled) st,
          Some (if bridge then (if enabled then Discord_Enable else Discord_Disable) else Discord_Unavailable)))"
| "pref_click prefersDark st (Choose_Theme t) = (update_setting prefersDark ''theme'' (JStr t) st, None)"
| "pref_click prefersDark st (Toggle_Key k) =
     (update_setting prefersDark k (JBool (\<not> js_truthy (settings st k))) st, None)"

subsection \<open>The hook as a step relation\<close>

datatype pref_op =
    Op_Update_Setting string json_val
  | Op_Update_Settings settings_obj
  | Op_Reset
  | Op_Click pref_event

fun prefs_step :: "bool \<Rightarrow> prefs_state \<Rightarrow> pref_op \<Rightarrow> prefs_state" where
  "prefs_step pd st (Op_Update_Setting k v) = update_setting pd k v st"
| "prefs_step pd st (Op_Update_Settings m) = update_settings pd m st"
| "prefs_step pd st Op_Reset = reset_settings pd st"
| "prefs_step pd st (Op_Click e) = fst (pref_click pd st e)"

text \<open>The states of a mounted settings hook, from any stored item and any system theme.\<close>

inductive prefs_reach :: "prefs_state \<Rightarrow> bool" where
  mounted: "prefs_reach (mount pd (prefs_init item))"
| step: "prefs_reach st \<Longrightarrow> prefs_reach (prefs_step pd st op)"

subsection \<open>Lemmas\<close>

lemma map_add_dom_subsumed: "dom m \<subseteq> dom m' \<Longrightarrow> m ++ m' = m'"
  by (rule ext) (auto simp: map_add_def split: option.split)

text \<open>What the load effect would give from the stored item agrees with the settings.\<close>

definition prefs_ok :: "prefs_state \<Rightarrow> bool" where
  "prefs_ok st \<longleftrightarrow> is_loaded st \<and> dom default_settings \<subseteq> dom (settings st) \<and>
     load_settings (stored st) = settings st \<and> (is_default_ref st \<longrightarrow> settings st = default_settings)"

lemma save_effect_ok:
  "is_loaded st \<Longrightarrow> dom default_settings \<subseteq> dom (settings st) \<Longrightarrow>
   (is_default_ref st \<longrightarrow> settings st = default_settings) \<Longrightarrow> prefs_ok (save_effect pd st)"
  by (simp add: prefs_ok_def save_effect_def load_settings_def map_add_dom_subsumed)

lemma mount_ok: "prefs_ok (mount pd (prefs_init item))"
  unfolding mount_def
  by (rule save_effect_ok) (auto simp: prefs_init_def load_settings_def split: ls_item.split)

lemma update_setting_ok: "prefs_ok st \<Longrightarrow> prefs_ok (update_setting pd k v st)"
  unfolding update_setting_def Let_def
  by (rule save_effect_ok) (auto simp: prefs_ok_def)

lemma update_settings_ok: "prefs_ok st \<Longrightarrow> prefs_ok (update_settings pd m st)"
  unfolding update_settings_def
  by (rule save_effect_ok) (auto simp: prefs_ok_def)

lemma reset_settings_ok: "prefs_ok st \<Longrightarrow> prefs_ok (reset_settings pd st)"
proof (cases "is_default_ref st")
  case True
  moreover assume "prefs_ok st"
  ultimately show ?thesis by (simp add: reset_settings_def prefs_ok_def load_settings_def)
next
  case False
  moreover assume "prefs_ok st"
  ultimately show ?thesis unfolding reset_settings_def
    by (simp, intro save_effect_ok) (auto simp: prefs_ok_def)
qed

lemma pref_click_ok: "prefs_ok st \<Longrightarrow> prefs_ok (fst (pref_click pd st e))"
  by (cases e) (simp_all add: update_setting_ok Let_def)

lemma prefs_step_ok: "prefs_ok st \<Longrightarrow> prefs_ok (prefs_step pd st op)"
  by (cases op) (simp_all add: update_setting_ok update_settings_ok reset_settings_ok pref_click_ok)

subsection \<open>Properties of the preferences\<close>

text \<open>
  C33: the preferences survive a restart. In every state of a mounted settings hook,
  whatever it was started from and whatever updates, resets and clicks followed, loading
  the stored item again gives exactly the current settings.
\<close>

theorem prefs_reach_persisted:
  "prefs_reach st \<Longrightarrow> is_loaded st \<and> load_settings (stored st) = settings st"
proof -
  assume "prefs_reach st"
  then have "prefs_ok st"
  proof (induction rule: prefs_reach.induct)
    case (mounted pd item)
    then show ?case by (rule mount_ok)
  next
    case (step st pd op)
    from step.IH show ?case by (rule prefs_step_ok)
  qed
  then show ?thesis by (simp add: prefs_ok_def)
qed

theorem prefs_reach_persisted_witness:
  "let st = prefs_step False (mount False (prefs_init LS_Corrupt)) (Op_Click (Choose_Theme ''light''))
   in prefs_reach st \<and> is_loaded st \<and> load_settings (stored st) = settings st \<and>
      settings st ''theme'' = Some (JStr ''light'')"
proof -
  let ?st = "prefs_step False (mount False (prefs_init LS_Corrupt)) (Op_Click (Choose_Theme ''light''))"
  have r: "prefs_reach ?st" by (intro prefs_reach.step prefs_reach.mounted)
  have t: "settings ?st ''theme'' = Some (JStr ''light'')"
    by (simp add: mount_def save_effect_def prefs_init_def load_settings_def update_setting_def Let_def)
  from prefs_reach_persisted [OF r] r t show ?thesis by (simp only: Let_def)
qed

text \<open>
  The theme buttons are inverted, as the comment in \<open>applyTheme\<close> says: choosing
  "Escuro" (\<open>dark\<close>) removes the \<open>dark\<close> class and choosing "Claro" (\<open>light\<close>) sets it,
  from any state of the hook and for either system preference.
\<close>

theorem choose_theme_inverted:
  "dark_class (fst (pref_click pd st (Choose_Theme ''dark''))) = Some False \<and>
   dark_class (fst (pref_click pd st (Choose_Theme ''light''))) = Some True"
  by (simp add: update_setting_def save_effect_def apply_theme_def Let_def)

end
