(* ===== verification/Account.thy ===== *)
theory Account
  imports AuthSession
begin

text \<open>
  Accounts: the sign-in and sign-up form of \<open>pages/Auth.tsx\<close> and the profile,
  password and account operations of \<open>components/Settings.tsx\<close>. The Supabase auth
  service is not in the repository; it is modelled from the spec as a map from e-mail
  address to password and user id, compared exactly. \<open>zod\<close>'s \<open>.email()\<close> test is a
  library predicate, a parameter \<open>email_ok\<close> of the validation.
\<close>

subsection \<open>The auth service\<close>

type_synonym accounts = "string \<rightharpoonup> string \<times> uid"

text \<open>\<open>signInWithPassword\<close>: the user id when the password matches.\<close>

definition sign_in_with_password :: "accounts \<Rightarrow> string \<Rightarrow> string \<Rightarrow> uid option" where
  "sign_in_with_password accts email password =
     (case accts email of Some (pw, u) \<Rightarrow> if pw = password then Some u else None | None \<Rightarrow> None)"

text \<open>\<open>signUp\<close>: refused for a registered address; otherwise a new account \<open>newUid\<close>.\<close>

definition sign_up :: "accounts \<Rightarrow> string \<Rightarrow> string \<Rightarrow> uid \<Rightarrow> accounts option" where
  "sign_up accts email password newUid =
     (if email \<in> dom accts then None else Some (accts(email \<mapsto> (password, newUid))))"

text \<open>\<open>updateUser({password})\<close> for the account of \<open>email\<close>.\<close>

definition update_user_password :: "accounts \<Rightarrow> string \<Rightarrow> string \<Rightarrow> accounts" where
  "update_user_password accts email newPassword =
     (case accts email of Some (_, u) \<Rightarrow> accts(email \<mapsto> (newPassword, u)) | None \<Rightarrow> accts)"

subsection \<open>The sign-in and sign-up form\<close>

record auth_form =
  f_username :: string
  f_email :: string
  f_password :: string
  f_license_key :: string

datatype form_error = Err_Email | Err_Password_Short | Err_Username_Short | Err_Username_Long

text \<open>
  \<open>validateForm\<close>: the fields \<open>loginSchema\<close> or \<open>signupSchema\<close> reject, in schema order.
  \<open>.trim()\<close> applies to username and e-mail before their checks; the password is checked
  as typed; the licence key is optional.
\<close>

definition validate_form :: "(string \<Rightarrow> bool) \<Rightarrow> bool \<Rightarrow> auth_form \<Rightarrow> (string \<times> form_error) list" where
  "validate_form email_ok isLogin form =
     (let u = js_trim (f_username form);
          usernameErr = (if isLogin then []
                         else if length u < 3 then [(''username'', Err_Username_Short)]
                         else if 20 < length u then [(''username'', Err_Username_Long)] else []);
          emailErr = (if email_ok (js_trim (f_email form)) then [] else [(''email'', Err_Email)]);
          passwordErr = (if length (f_password form) < 6 then [(''password'', Err_Password_Short)] else [])
      in usernameErr @ emailErr @ passwordErr)"

datatype key_result = Key_None | Key_Activated_At_Signup | Key_Rejected_At_Signup

datatype submit_outcome =
    Form_Invalid "(string \<times> form_error) list"
  | Login_Ok uid
  | Login_Failed
  | Signup_Failed
  | Signup_Ok key_result

text \<open>
  \<open>handleSubmit\<close>. Sign-in sends the e-mail and password as typed. Sign-up sends them as
  typed, then redeems a non-blank licence key through the RPC as the session's user;
  with e-mail confirmation (\<open>autoconfirm\<close> false) \<open>signUp\<close> opens no session and the
  RPC has no user, which it refuses.
\<close>

definition handle_submit ::
  "(string \<Rightarrow> bool) \<Rightarrow> bool \<Rightarrow> bool \<Rightarrow> uid \<Rightarrow> ms \<Rightarrow> auth_form \<Rightarrow> accounts \<times> db \<Rightarrow>
   submit_outcome \<times> accounts \<times> db" where
  "handle_submit email_ok autoconfirm isLogin newUid now form bk =
     (case bk of (accts, d) \<Rightarrow>
      let errs = validate_form email_ok isLogin form
      in if errs \<noteq> [] then (Form_Invalid errs, accts, d)
         else if isLogin then
           (case sign_in_with_password accts (f_email form) (f_password form) of
              Some u \<Rightarrow> (Login_Ok u, accts, d)
            | None \<Rightarrow> (Login_Failed, accts, d))
         else
           (case sign_up accts (f_email form) (f_password form) newUid of
              None \<Rightarrow> (Signup_Failed, accts, d)
            | Some accts' \<Rightarrow>
                if js_trim (f_license_key form) = [] then (Signup_Ok Key_None, accts', d)
                else if \<not> autoconfirm then (Signup_Ok Key_Rejected_At_Signup, accts', d)
                else (case client_redeem newUid (f_license_key form) now d of
                        (Redeem_Ok, d') \<Rightarrow> (Signup_Ok Key_Activated_At_Signup, accts', d')
                      | (_, d') \<Rightarrow> (Signup_Ok Key_Rejected_At_Signup, accts', d'))))"

subsection \<open>The settings page: profile\<close>

record profile_form =
  pf_username :: string
  pf_email :: string
  pf_avatar_url :: string

text \<open>The form state synchronised from the profile, or from the account's e-mail without one.\<close>

definition profile_form_of :: "profile_row option \<Rightarrow> string option \<Rightarrow> profile_form option" where
  "profile_form_of profile userEmail =
     (case profile of
        Some p \<Rightarrow> Some \<lparr>pf_username = prof_username p,
                         pf_email = (if prof_email p \<noteq> [] then prof_email p
                                     else case userEmail of Some e \<Rightarrow> e | None \<Rightarrow> []),
                         pf_avatar_url = prof_avatar_url p\<rparr>
      | None \<Rightarrow> (case userEmail of
                   Some e \<Rightarrow> if e = [] then None
                             else Some \<lparr>pf_username = hd (js_split (CHR ''@'') e), pf_email = e,
                                        pf_avatar_url = []\<rparr>
                 | None \<Rightarrow> None))"

text \<open>\<open>handleAvatarChange\<close>: JPEG, PNG, GIF or WebP of at most 2 MiB.\<close>

definition avatar_accepted :: "string \<Rightarrow> nat \<Rightarrow> bool" where
  "avatar_accepted fileType fileSize \<longleftrightarrow>
     fileType \<in> set [''image/jpeg'', ''image/png'', ''image/gif'', ''image/webp''] \<and> fileSize \<le> 2 * 1024 * 1024"

datatype profile_outcome = Profile_Invalid | Profile_Saved | Profile_Upload_Failed

text \<open>
  \<open>updateProfile\<close>: a non-blank username and a non-blank e-mail containing \<open>@\<close>; an
  optional avatar upload (\<open>Some url\<close> when it succeeded, \<open>None\<close> when it failed); an upsert
  of the trimmed username and e-mail; then \<open>refreshProfile\<close>, also after a failure.
\<close>

definition update_profile ::
  "uid \<Rightarrow> profile_form \<Rightarrow> string option option \<Rightarrow> db \<times> auth_state \<Rightarrow> profile_outcome \<times> db \<times> auth_state" where
  "update_profile u form upload ds =
     (case ds of (d, st) \<Rightarrow>
      if js_trim (pf_username form) = [] then (Profile_Invalid, d, st)
      else if js_trim (pf_email form) = [] \<or> CHR ''@'' \<notin> set (pf_email form) then (Profile_Invalid, d, st)
      else
        let oldAvatar = (case profiles d u of Some p \<Rightarrow> prof_avatar_url p | None \<Rightarrow> [])
        in case upload of
             Some None \<Rightarrow> (Profile_Upload_Failed, d, auth_step d st Auth_Refresh)
           | _ \<Rightarrow>
               let avatar = (case upload of Some (Some url) \<Rightarrow> url | _ \<Rightarrow> oldAvatar);
                   d' = d\<lparr>profiles := (profiles d)(u \<mapsto>
                          \<lparr>prof_username = js_trim (pf_username form), prof_email = js_trim (pf_email form),
                           prof_avatar_url = avatar\<rparr>)\<rparr>
               in (Profile_Saved, d', auth_step d' st Auth_Refresh))"

subsection \<open>The settings page: password and account\<close>

text \<open>\<open>/[A-Z]/.test\<close>, \<open>/[a-z]/.test\<close>, \<open>/[0-9]/.test\<close>.\<close>

definition has_upper :: "string \<Rightarrow> bool" where
  "has_upper s \<longleftrightarrow> list_ex (\<lambda>c. (65::nat) \<le> of_char c \<and> of_char c \<le> (90::nat)) s"

definition has_lower :: "string \<Rightarrow> bool" where
  "has_lower s \<longleftrightarrow> list_ex (\<lambda>c. (97::nat) \<le> of_char c \<and> of_char c \<le> (122::nat)) s"

definition has_digit :: "string \<Rightarrow> bool" where
  "has_digit s \<longleftrightarrow> list_ex (\<lambda>c. (48::nat) \<le> of_char c \<and> of_char c \<le> (57::nat)) s"

text \<open>\<open>getPasswordStrength\<close>: the level of the strength bar (0 for an empty password).\<close>

definition password_strength :: "string \<Rightarrow> nat" where
  "password_strength newPassword =
     (if newPassword = [] then 0
      else let strength = of_bool (8 \<le> length newPassword) + of_bool (has_upper newPassword) +
                          of_bool (has_lower newPassword) + of_bool (has_digit newPassword)
           in if strength \<le> 1 then 1 else strength)"

datatype password_outcome =
    Pw_No_Current | Pw_Mismatch | Pw_Too_Short | Pw_Weak | Pw_Same | Pw_Wrong_Current | Pw_Updated

text \<open>\<open>updatePassword\<close>: its five guards in order, then the current password checked by
  signing in again, then the update.\<close>

definition update_password ::
  "string \<Rightarrow> string \<Rightarrow> string \<Rightarrow> string \<Rightarrow> accounts \<Rightarrow> password_outcome \<times> accounts" where
  "update_password userEmail currentPassword newPassword confirmPassword accts =
     (if js_trim currentPassword = [] then (Pw_No_Current, accts)
      else if newPassword \<noteq> confirmPassword then (Pw_Mismatch, accts)
      else if length newPassword < 8 then (Pw_Too_Short, accts)
      else if \<not> (has_upper newPassword \<and> has_lower newPassword \<and> has_digit newPassword) then (Pw_Weak, accts)
      else if currentPassword = newPassword then (Pw_Same, accts)
      else if sign_in_with_password accts userEmail currentPassword = None then (Pw_Wrong_Current, accts)
      else (Pw_Updated, update_user_password accts userEmail newPassword))"

datatype delete_outcome = Del_No_Password | Del_Wrong_Password | Del_Deleted

text \<open>
  \<open>deleteAccount\<close>: the password is checked by signing in again; then the \<open>profiles\<close>
  row is deleted and the user signed out (\<open>AuthContext.signOut\<close>). Nothing else is
  deleted: not the account, the role, the subscription or the licence rows.
\<close>

definition delete_account ::
  "uid \<Rightarrow> string \<Rightarrow> string \<Rightarrow> accounts \<times> db \<times> auth_state \<Rightarrow> delete_outcome \<times> accounts \<times> db \<times> auth_state" where
  "delete_account u userEmail currentPassword bk =
     (case bk of (accts, d, st) \<Rightarrow>
      if js_trim currentPassword = [] then (Del_No_Password, accts, d, st)
      else if sign_in_with_password accts userEmail currentPassword = None then (Del_Wrong_Password, accts, d, st)
      else (Del_Deleted, accts, d\<lparr>profiles := (profiles d)(u := None)\<rparr>, sign_out st))"

subsection \<open>Properties of the account operations\<close>

text \<open>
  A password change that succeeds leaves a password the strength bar rates
  "Forte" (level 4): the guards of \<open>updatePassword\<close> demand exactly the four criteria of
  \<open>getPasswordStrength\<close>. Afterwards the new password signs in and the old one does not.
\<close>

theorem update_password_ok:
  assumes "update_password e cur new conf accts = (Pw_Updated, accts')"
  shows "password_strength new = 4 \<and> sign_in_with_password accts' e new \<noteq> None \<and>
         sign_in_with_password accts' e cur = None"
proof -
  from assms have g: "8 \<le> length new" "has_upper new" "has_lower new" "has_digit new" "cur \<noteq> new"
    and s: "sign_in_with_password accts e cur \<noteq> None"
    and a: "accts' = update_user_password accts e new"
    by (simp_all add: update_password_def split: if_splits)
  from s obtain u where acc: "accts e = Some (cur, u)"
    by (auto simp: sign_in_with_password_def split: option.splits if_splits)
  have "new \<noteq> []" using g(1) by auto
  with g have "password_strength new = 4" by (simp add: password_strength_def)
  with acc a g(5) show ?thesis
    by (simp add: update_user_password_def sign_in_with_password_def)
qed

theorem update_password_ok_witness:
  "update_password ''a@b.c'' ''old-pass'' ''Abcdefg1'' ''Abcdefg1'' [''a@b.c'' \<mapsto> (''old-pass'', ''u'')] =
     (Pw_Updated, [''a@b.c'' \<mapsto> (''Abcdefg1'', ''u'')]) \<and>
   password_strength ''Abcdefg1'' = 4 \<and>
   sign_in_with_password [''a@b.c'' \<mapsto> (''Abcdefg1'', ''u'')] ''a@b.c'' ''Abcdefg1'' \<noteq> None \<and>
   sign_in_with_password [''a@b.c'' \<mapsto> (''Abcdefg1'', ''u'')] ''a@b.c'' ''old-pass'' = None"
proof -
  have h: "update_password ''a@b.c'' ''old-pass'' ''Abcdefg1'' ''Abcdefg1'' [''a@b.c'' \<mapsto> (''old-pass'', ''u'')] =
     (Pw_Updated, [''a@b.c'' \<mapsto> (''Abcdefg1'', ''u'')])"
    by (simp add: update_password_def js_trim_def js_is_space_def has_upper_def has_lower_def
        has_digit_def sign_in_with_password_def update_user_password_def)
  from h update_password_ok [OF h] show ?thesis by simp
qed

text \<open>
  C35: "deleting" one's account in the settings page deletes only the profile row. The
  password still signs in, and the next session bootstrap finds the same subscription
  (row or licence fallback) as before: paid access is unchanged.
\<close>

theorem delete_account_keeps_access:
  assumes "delete_account u e pw (accts, d, st) = (Del_Deleted, accts', d', st')"
  shows "accts' = accts \<and> sign_in_with_password accts' e pw \<noteq> None \<and>
         subscriptions d' = subscriptions d \<and> licenses d' = licenses d \<and> roles d' = roles d \<and>
         profiles d' u = None \<and> session_user st' = None \<and>
         auth_subscription (auth_step d' st0 (Auth_Change (Some u))) =
           auth_subscription (auth_step d st0 (Auth_Change (Some u)))"
proof -
  from assms have pw: "sign_in_with_password accts e pw \<noteq> None" and a: "accts' = accts"
    and d': "d' = d\<lparr>profiles := (profiles d)(u := None)\<rparr>" and st': "st' = sign_out st"
    by (simp_all add: delete_account_def split: if_splits)
  have "auth_subscription (fetch_user_data u d' s) = auth_subscription (fetch_user_data u d s)" for s
    by (simp add: fetch_user_data_def d' license_of_user_def Let_def sign_out_def)
  then have "auth_subscription (auth_step d' st0 (Auth_Change (Some u))) =
      auth_subscription (auth_step d st0 (Auth_Change (Some u)))"
    by (simp add: session_changed_def)
  with pw a d' st' show ?thesis by (simp add: sign_out_def)
qed

theorem delete_account_keeps_access_witness:
  "let L = \<lparr>lic_id = 0, lic_key = ''K'', duration_days = 30, is_used = True, created_by = None,
             created_at = 0, used_by = Some ''u'', used_at = Some 5, expires_at = Some 99\<rparr>;
       d = (empty_db 30)\<lparr>licenses := [L], next_id := 1,
             profiles := [''u'' \<mapsto> \<lparr>prof_username = ''x'', prof_email = ''a@b.c'', prof_avatar_url = []\<rparr>]\<rparr>;
       accts = [''a@b.c'' \<mapsto> (''pw'', ''u'')]
   in delete_account ''u'' ''a@b.c'' ''pw'' (accts, d, auth_init) =
        (Del_Deleted, accts, d\<lparr>profiles := Map.empty\<rparr>, sign_out auth_init) \<and>
      auth_subscription (auth_step (d\<lparr>profiles := Map.empty\<rparr>) auth_init (Auth_Change (Some ''u''))) =
        Some \<lparr>view_expires_at = Some 99, view_source = ''license_key''\<rparr>"
proof -
  let ?L = "\<lparr>lic_id = 0, lic_key = ''K'', duration_days = 30, is_used = True, created_by = None,
             created_at = 0, used_by = Some ''u'', used_at = Some 5, expires_at = Some (99::int)\<rparr>"
  let ?d = "(empty_db 30)\<lparr>licenses := [?L], next_id := 1,
             profiles := [''u'' \<mapsto> \<lparr>prof_username = ''x'', prof_email = ''a@b.c'', prof_avatar_url = []\<rparr>]\<rparr>"
  let ?a = "[''a@b.c'' \<mapsto> (''pw'', ''u'')]"
  have h: "delete_account ''u'' ''a@b.c'' ''pw'' (?a, ?d, auth_init) =
      (Del_Deleted, ?a, ?d\<lparr>profiles := Map.empty\<rparr>, sign_out auth_init)"
    by (simp add: delete_account_def js_trim_def js_is_space_def sign_in_with_password_def)
  have s: "auth_subscription (auth_step ?d auth_init (Auth_Change (Some ''u''))) =
      Some \<lparr>view_expires_at = Some 99, view_source = ''license_key''\<rparr>"
    by (simp add: session_changed_def fetch_user_data_def license_of_user_def empty_db_def Let_def)
  from delete_account_keeps_access [OF h, of auth_init] h s show ?thesis
    by (simp only: Let_def)
qed

end
