(* ===== verification/IndexPage.thy ===== *)
theory IndexPage
  imports AuthSession "HOL-Library.Sublist"
begin

text \<open>
  The main page \<open>src/src/pages/Index.tsx\<close> and its sidebar \<open>NewSidebar.tsx\<close>: the
  loading bar of the splash screen (two \<open>setInterval\<close> loops), the redirect to
  \<open>/auth\<close>, the welcome name, the tab switch of \<open>renderContent\<close> with its admin gate,
  and the sidebar's menu. The page reads the \<open>auth_state\<close> of \<open>AuthSession\<close>; its
  own state is the active tab and the progress value.
\<close>

subsection \<open>The loading bar\<close>

text \<open>
  While \<open>isLoading\<close>, every 100 ms the progress grows by \<open>Math.random() * 10\<close>, capped
  at 90 (lines 34--39); \<open>r\<close> is the draw, in \<open>[0, 1)\<close>.
\<close>

definition loading_tick :: "real \<Rightarrow> real \<Rightarrow> real" where
  "loading_tick r prev = (if 90 \<le> prev then 90 else min (prev + r * 10) 90)"

fun loading_run :: "real list \<Rightarrow> real \<Rightarrow> real" where
  "loading_run [] p = p"
| "loading_run (r # rs) p = loading_run rs (loading_tick r p)"

text \<open>
  Once loading is over, every 50 ms the progress grows by 10 up to 100; the tick that
  finds it at 100 or above clears the interval (lines 43--51). The second component
  tells whether the tick cleared the interval.
\<close>

definition complete_tick :: "real \<Rightarrow> real \<times> bool" where
  "complete_tick prev = (if 100 \<le> prev then (100, True) else (min (prev + 10) 100, False))"

text \<open>
  The completion interval until it clears itself: the number of ticks it fires and the
  final progress. Nothing in the code bounds the number of ticks, so the loop is a
  partial function; \<open>None\<close> would be an interval that never clears.
\<close>

partial_function (option) complete_run :: "real \<Rightarrow> (nat \<times> real) option" where
  "complete_run prev =
     (let (p, cleared) = complete_tick prev
      in if cleared then Some (1, p) else Option.bind (complete_run p) (\<lambda>(n, q). Some (Suc n, q)))"

text \<open>The step label under the bar (lines 137--142): each line renders its text or nothing.\<close>

definition loading_label :: "real \<Rightarrow> string" where
  "loading_label p =
     (if p < 30 then ''Conectando ao servidor...'' else []) @
     (if 30 \<le> p \<and> p < 60 then ''Carregando perfil...'' else []) @
     (if 60 \<le> p \<and> p < 90 then ''Verificando licen'' @ [CHR 0xE7] @ ''a...'' else []) @
     (if 90 \<le> p then ''Quase pronto...'' else [])"

text \<open>
  The welcome line of the splash screen (line 109):
  \<open>profile?.username || user.email?.split('@')[0] || "Usuario"\<close>, with an accented
  \<open>a\<close>.
\<close>

definition welcome_name :: "profile_row option \<Rightarrow> string option \<Rightarrow> string" where
  "welcome_name prof email =
     (let u = (case prof of Some p \<Rightarrow> prof_username p | None \<Rightarrow> []);
          e = (case email of Some m \<Rightarrow> hd (js_split CHR ''@'' m) | None \<Rightarrow> [])
      in if u \<noteq> [] then u else if e \<noteq> [] then e else ''Usu'' @ [CHR 0xE1] @ ''rio'')"

subsection \<open>What the page shows\<close>

datatype index_view = View_Loading | View_Null | View_Admin string | View_Settings | View_Dashboard

text \<open>
  \<open>renderContent\<close> (lines 153--167): the admin panel for a tab starting with
  \<open>admin\<close> when the context says the user is an admin, the settings page for
  \<open>settings\<close>, the dashboard otherwise.
\<close>

definition render_content :: "bool \<Rightarrow> string \<Rightarrow> index_view" where
  "render_content isAdmin activeTab =
     (if prefix ''admin'' activeTab \<and> isAdmin then View_Admin activeTab
      else if activeTab = ''settings'' then View_Settings
      else View_Dashboard)"

text \<open>
  The component body: the splash screen while loading, \<open>null\<close> without a user, the
  content otherwise (lines 57--151, 196); the effect of lines 25--29 navigates to
  \<open>/auth\<close> in the \<open>null\<close> case.
\<close>

definition index_render :: "auth_state \<Rightarrow> string \<Rightarrow> index_view" where
  "index_render st activeTab =
     (if is_loading st then View_Loading
      else if session_user st = None then View_Null
      else render_content (is_admin st) activeTab)"

definition redirect_to_auth :: "auth_state \<Rightarrow> bool" where
  "redirect_to_auth st = (\<not> is_loading st \<and> session_user st = None)"

subsection \<open>The sidebar\<close>

text \<open>\<open>menuItems\<close> of \<open>NewSidebar\<close> (lines 111--116): the admin entry only for admins.\<close>

definition menu_items :: "bool \<Rightarrow> string list" where
  "menu_items isAdmin =
     [''dashboard'', ''profile''] @ (if isAdmin then [''admin''] else []) @ [''close'']"

datatype sidebar_effect = Set_Tab string | Close_App | Cloud_Sync

text \<open>\<open>handleMenuClick\<close> (lines 84--106) with the handlers it calls.\<close>

definition handle_menu_click :: "string \<Rightarrow> sidebar_effect" where
  "handle_menu_click itemId =
     (if itemId = ''dashboard'' then Set_Tab ''dashboard''
      else if itemId = ''profile'' then Set_Tab ''settings''
      else if itemId = ''apps'' then Set_Tab ''apps''
      else if itemId = ''close'' then Close_App
      else if itemId = ''cloud'' then Cloud_Sync
      else if itemId = ''history'' then Set_Tab ''history''
      else Set_Tab itemId)"

text \<open>
  The page's tab events: a click on a sidebar entry, on the sidebar avatar (to
  \<open>settings\<close>, line 127), or on the header's activate button (\<open>handleActivateClick\<close>,
  back to \<open>dashboard\<close>, Index.tsx lines 169--179).
\<close>

datatype page_event = Menu_Click string | Avatar_Click | Activate_Click

fun page_step :: "string \<Rightarrow> page_event \<Rightarrow> string" where
  "page_step tab (Menu_Click item) =
     (case handle_menu_click item of Set_Tab t \<Rightarrow> t | _ \<Rightarrow> tab)"
| "page_step tab Avatar_Click = ''settings''"
| "page_step tab Activate_Click = ''dashboard''"

text \<open>The events the page offers: sidebar clicks only on the entries it renders.\<close>

fun offered :: "bool \<Rightarrow> page_event \<Rightarrow> bool" where
  "offered isAdmin (Menu_Click item) = (item \<in> set (menu_items isAdmin))"
| "offered isAdmin _ = True"

subsection \<open>Lemmas\<close>

lemma loading_tick_bounds:
  "0 \<le> r \<Longrightarrow> 0 \<le> p \<Longrightarrow> p \<le> 90 \<Longrightarrow> p \<le> loading_tick r p \<and> loading_tick r p \<le> 90"
  by (simp add: loading_tick_def)

lemma complete_run_done: "100 \<le> p \<Longrightarrow> complete_run p = Some (1, 100)"
  by (subst complete_run.simps) (simp add: complete_tick_def)

lemma complete_run_step:
  "p < 100 \<Longrightarrow> complete_run p = map_option (\<lambda>(n, q). (Suc n, q)) (complete_run (min (p + 10) 100))"
proof -
  assume "p < 100"
  then have "complete_run p = Option.bind (complete_run (min (p + 10) 100)) (\<lambda>(n, q). Some (Suc n, q))"
    by (subst complete_run.simps) (simp add: complete_tick_def)
  then show ?thesis by (cases "complete_run (min (p + 10) 100)") auto
qed

lemma ceiling_step: "\<lceil>(100 - (p + 10)) / 10 :: real\<rceil> = \<lceil>(100 - p) / 10\<rceil> - 1"
proof -
  have "(100 - (p + 10)) / 10 = (100 - p) / 10 - 1" by (simp add: field_simps)
  then show ?thesis by (simp only: ceiling_diff_one)
qed

lemma page_step_offered_tab:
  "offered isAdmin ev \<Longrightarrow> page_step tab ev \<in> {tab, ''dashboard'', ''settings''} \<union> set (menu_items isAdmin)"
  by (cases ev) (auto simp: menu_items_def handle_menu_click_def)

lemma loading_run_bounds_gen:
  "list_all (\<lambda>r. 0 \<le> r) rs \<Longrightarrow> 0 \<le> p \<Longrightarrow> p \<le> 90 \<Longrightarrow>
   p \<le> loading_run rs p \<and> loading_run rs p \<le> 90"
proof (induction rs arbitrary: p)
  case Nil
  then show ?case by simp
next
  case (Cons r rs)
  then have "p \<le> loading_tick r p" "loading_tick r p \<le> 90" "0 \<le> loading_tick r p"
    using loading_tick_bounds [of r p] by auto
  with Cons.IH [of "loading_tick r p"] Cons.prems(1) show ?case by auto
qed

lemma render_after_change:
  "index_render (auth_step d st (Auth_Change (Some u))) tab =
     (if is_loading st then View_Loading
      else if maintenance_value d = Some ''true'' \<and> roles d u \<noteq> Some Admin then View_Null
      else render_content (roles d u = Some Admin) tab)"
  by (simp add: index_render_def session_changed_def fetch_user_data_def Let_def sign_out_def)

subsection \<open>Properties of the main page\<close>

text \<open>
  C36: the completion interval always clears itself. From any progress value it fires
  \<open>\<lceil>(100 - p) / 10\<rceil> + 1\<close> ticks (eleven from 0) and leaves the bar at 100.
\<close>

theorem complete_run_terminates:
  "complete_run p = Some (nat \<lceil>(100 - p) / 10\<rceil> + 1, 100)"
proof (induction "nat \<lceil>(100 - p) / 10\<rceil>" arbitrary: p)
  case 0
  then have "100 \<le> p" by simp
  with 0 show ?case by (simp add: complete_run_done)
next
  case (Suc k)
  then have "0 < \<lceil>(100 - p) / 10\<rceil>" by (metis Zero_neq_Suc nat_le_0 not_le)
  then have lt: "p < 100" by simp
  show ?case
  proof (cases "90 \<le> p")
    case True
    with lt have c: "\<lceil>(100 - p) / 10\<rceil> = 1" by (intro ceiling_unique) auto
    from True have "min (p + 10) 100 = 100" by simp
    with lt c show ?thesis by (simp add: complete_run_step complete_run_done)
  next
    case False
    then have m: "min (p + 10) 100 = p + 10" by simp
    from Suc.hyps(2) have "k = nat (\<lceil>(100 - p) / 10\<rceil> - 1)" by linarith
    then have k: "k = nat \<lceil>(100 - (p + 10)) / 10\<rceil>" by (subst ceiling_step)
    from Suc.hyps(1) [OF k] have "complete_run (p + 10) = Some (Suc k, 100)" by (simp add: k)
    with Suc.hyps(2) lt m show ?thesis by (simp add: complete_run_step)
  qed
qed

text \<open>
  The splash screen's bar never passes 90 while loading. From a value in
  \<open>[0, 90]\<close>, any sequence of \<open>Math.random()\<close> draws keeps the progress
  non-decreasing and at most 90, so the percentage shown is at most 90 and the step label
  is \<open>Quase pronto...\<close> only once the bar is at 90.
\<close>

theorem loading_run_bounds:
  assumes "list_all (\<lambda>r. 0 \<le> r \<and> r < 1) rs" "0 \<le> p" "p \<le> 90"
  shows "p \<le> loading_run rs p \<and> js_round (loading_run rs p) \<le> 90 \<and>
         (loading_label (loading_run rs p) = ''Quase pronto...'' \<longleftrightarrow> loading_run rs p = 90)"
proof -
  from assms(1) have "list_all (\<lambda>r. 0 \<le> r) rs" by (simp add: list_all_iff)
  from loading_run_bounds_gen [OF this assms(2,3)] have b: "p \<le> loading_run rs p" "loading_run rs p \<le> 90"
    by auto
  then have "js_round (loading_run rs p) \<le> 90" unfolding js_round_def by linarith
  moreover from b assms(2) have "loading_label (loading_run rs p) = ''Quase pronto...'' \<longleftrightarrow> loading_run rs p = 90"
    by (auto simp: loading_label_def)
  ultimately show ?thesis using b by simp
qed

theorem loading_run_bounds_witness:
  "list_all (\<lambda>r. 0 \<le> r \<and> r < 1) [0.5, 0.9, 0.99 :: real] \<and> 0 \<le> (0::real) \<and> (0::real) \<le> 90 \<and>
   js_round (loading_run [0.5, 0.9, 0.99] 0) = 24 \<and>
   loading_label (loading_run [0.5, 0.9, 0.99] 0) = ''Conectando ao servidor...''"
proof -
  have a: "list_all (\<lambda>r. 0 \<le> r \<and> r < 1) [0.5, 0.9, 0.99 :: real]" by simp
  have "0 \<le> loading_run [0.5, 0.9, 0.99] 0 \<and> js_round (loading_run [0.5, 0.9, 0.99] 0) \<le> 90"
    using loading_run_bounds [OF a, of 0] by simp
  moreover have v: "loading_run [0.5, 0.9, 0.99] 0 = (239 / 10 :: real)"
    by (simp add: loading_tick_def)
  ultimately show ?thesis
    by (simp only: v a) (simp add: js_round_def loading_label_def floor_eq_iff)
qed

text \<open>
  C37: the admin panel shows exactly for admins. After the auth listener fetched the
  data of user \<open>u\<close>, the page renders the admin panel for tab \<open>t\<close> if and only if
  the tab starts with \<open>admin\<close>, the user has an admin role row, and loading is over;
  with maintenance on, a non-admin sees nothing (and is sent to \<open>/auth\<close>).
\<close>

theorem index_admin_gate:
  "index_render (auth_step d st (Auth_Change (Some u))) tab = View_Admin t \<longleftrightarrow>
     t = tab \<and> prefix ''admin'' tab \<and> roles d u = Some Admin \<and> \<not> is_loading st"
  by (simp only: render_after_change) (auto simp: render_content_def)

end
