(* ===== verification/AdminViews.thy ===== *)
theory AdminViews
  imports IndexPage Expiry
begin

text \<open>
  What the admin panels read and show: the users list, the licence list, the statistics
  and the maintenance flag of \<open>AdminPanelComplete.tsx\<close>, the key list and counters of
  the older \<open>AdminPanel.tsx\<close>, the check for expiring subscriptions, and the section
  the panel opens on. These are reads of \<open>LicenseDB.db\<close>; the writes of the panels
  are in \<open>LicenseDB\<close>.
\<close>

subsection \<open>The users list\<close>

text \<open>A row of the list (\<open>interface User\<close>, lines 16--23).\<close>

record admin_user =
  au_id :: uid
  au_username :: string
  au_email :: string
  au_role :: string
  au_subscription_status :: string

text \<open>\<open>rolesData?.find(r => r.user_id === profile.id)?.role || 'user'\<close>.\<close>

definition role_name :: "app_role option \<Rightarrow> string" where
  "role_name r = (case r of Some Admin \<Rightarrow> ''admin'' | _ \<Rightarrow> ''user'')"

text \<open>
  One profile enriched with its role and its subscription status: \<open>active\<close> when the
  user has a subscription expiring after now (lines 136--146).
\<close>

definition enrich_user :: "ms \<Rightarrow> db \<Rightarrow> uid \<Rightarrow> profile_row \<Rightarrow> admin_user" where
  "enrich_user now d u p =
     \<lparr>au_id = u, au_username = prof_username p, au_email = prof_email p,
      au_role = role_name (roles d u),
      au_subscription_status =
        (case subscriptions d u of
           Some s \<Rightarrow> if now < sub_expires_at s then ''active'' else ''free''
         | None \<Rightarrow> ''free'')\<rparr>"

text \<open>
  \<open>loadUsers\<close> (lines 124--149): the rows of the profiles query (newest first), each
  enriched; a failed profiles query leaves the list as it was.
\<close>

definition load_users ::
  "ms \<Rightarrow> db \<Rightarrow> (uid \<times> profile_row) list option \<Rightarrow> admin_user list \<Rightarrow> admin_user list" where
  "load_users now d profilesData users =
     (case profilesData of
        None \<Rightarrow> users
      | Some rows \<Rightarrow> map (\<lambda>(u, p). enrich_user now d u p) rows)"

text \<open>\<open>filteredUsers\<close> (lines 475--478): case-insensitive substring search.\<close>

definition filtered_users :: "string \<Rightarrow> admin_user list \<Rightarrow> admin_user list" where
  "filtered_users searchTerm users =
     filter (\<lambda>u. sublist (js_lower searchTerm) (js_lower (au_username u)) \<or>
                 sublist (js_lower searchTerm) (js_lower (au_email u))) users"

subsection \<open>Licences and statistics\<close>

text \<open>
  \<open>loadLicenses\<close> and \<open>AdminPanel.fetchKeys\<close>: the table ordered by \<open>created_at\<close>,
  newest first (\<open>sort_key\<close> is stable; the database's order among equal times is not
  specified). \<open>fetchKeys\<close> empties the list on an error.
\<close>

definition load_licenses :: "db \<Rightarrow> license list" where
  "load_licenses d = sort_key (\<lambda>l. - created_at l) (licenses d)"

definition fetch_keys :: "bool \<Rightarrow> db \<Rightarrow> license list" where
  "fetch_keys failed d = (if failed then [] else load_licenses d)"

record system_stats =
  total_users :: nat
  active_users :: nat
  total_licenses :: nat
  used_licenses :: nat
  admin_count :: nat
  storage_used :: nat

text \<open>
  \<open>loadStats\<close> (lines 160--173): \<open>activeUsers\<close> is the number of profiles again, and
  \<open>storageUsed\<close> is the constant 0.
\<close>

definition load_stats :: "db \<Rightarrow> system_stats" where
  "load_stats d =
     \<lparr>total_users = card (dom (profiles d)), active_users = card (dom (profiles d)),
      total_licenses = length (licenses d), used_licenses = length (filter is_used (licenses d)),
      admin_count = card {u. roles d u = Some Admin}, storage_used = 0\<rparr>"

record key_stats =
  ks_total :: nat
  ks_used :: nat
  ks_unused :: nat

text \<open>The counters of \<open>AdminPanel\<close> over the fetched keys (lines 145--149).\<close>

definition keys_stats :: "license list \<Rightarrow> key_stats" where
  "keys_stats keys =
     \<lparr>ks_total = length keys, ks_used = length (filter is_used keys),
      ks_unused = length (filter (\<lambda>k. \<not> is_used k) keys)\<rparr>"

subsection \<open>Maintenance flag and expiring subscriptions\<close>

text \<open>
  \<open>loadMaintenanceMode\<close> (lines 233--246): the panel's flag is whether the row's value
  is \<open>'true'\<close>; without the row \<open>.single()\<close> fails and the flag is kept.
\<close>

definition load_maintenance_mode :: "db \<Rightarrow> bool \<Rightarrow> bool" where
  "load_maintenance_mode d maintenanceMode =
     (case maintenance_value d of Some v \<Rightarrow> v = ''true'' | None \<Rightarrow> maintenanceMode)"

text \<open>
  \<open>checkExpiringLicenses\<close> (lines 248--275): the users whose subscription expires within
  the next three hours are logged. The query's rows are \<open>(user_id, expires_at)\<close>;
  \<open>None\<close> is a failed query, which logs nothing.
\<close>

definition check_expiring_licenses :: "ms \<Rightarrow> (uid \<times> ms) list option \<Rightarrow> uid list" where
  "check_expiring_licenses now subscriptionsData =
     (case subscriptionsData of
        None \<Rightarrow> []
      | Some subs \<Rightarrow> map fst (filter (\<lambda>(u, expiresAt). now < expiresAt \<and> expiresAt \<le> now + 3 * ms_per_hour) subs))"

subsection \<open>The section the panel shows\<close>

datatype admin_section = Sec_Overview | Sec_Users | Sec_Generate | Sec_System | Sec_Notifications

text \<open>The tab bar (lines 480--486) and the sections rendered for each tab (lines 531--849).\<close>

definition admin_tabs :: "string list" where
  "admin_tabs = [''overview'', ''users'', ''generate'', ''system'', ''notifications'']"

definition admin_section :: "string \<Rightarrow> admin_section option" where
  "admin_section activeTab =
     (if activeTab = ''overview'' then Some Sec_Overview
      else if activeTab = ''users'' then Some Sec_Users
      else if activeTab = ''generate'' then Some Sec_Generate
      else if activeTab = ''system'' then Some Sec_System
      else if activeTab = ''notifications'' then Some Sec_Notifications
      else None)"

text \<open>
  The tab after mounting with \<open>activeSubTab\<close>: the initial state
  \<open>activeSubTab?.replace('admin-', '') || "overview"\<close> (line 52), then the effect of
  lines 88--90, which sets the replaced string when \<open>activeSubTab\<close> is non-empty.
\<close>

definition admin_tab_init :: "string option \<Rightarrow> string" where
  "admin_tab_init activeSubTab =
     (let initial = (case activeSubTab of
                       Some s \<Rightarrow> (let r = js_replace_first ''admin-'' [] s in if r = [] then ''overview'' else r)
                     | None \<Rightarrow> ''overview'')
      in case activeSubTab of Some s \<Rightarrow> if s \<noteq> [] then js_replace_first ''admin-'' [] s else initial
                            | None \<Rightarrow> initial)"

subsection \<open>Lemmas\<close>

lemma filtered_users_all: "filtered_users [] users = users"
  by (simp add: filtered_users_def js_lower_def)

lemma keys_stats_sum: "ks_used (keys_stats ks) + ks_unused (keys_stats ks) = ks_total (keys_stats ks)"
  by (simp add: keys_stats_def sum_length_filter_compl)

lemma keys_stats_fetch: "\<not> failed \<Longrightarrow>
   ks_total (keys_stats (fetch_keys failed d)) = total_licenses (load_stats d) \<and>
   ks_used (keys_stats (fetch_keys failed d)) = used_licenses (load_stats d)"
  by (simp add: keys_stats_def fetch_keys_def load_licenses_def load_stats_def
      filter_sort)

lemma toggle_after_load:
  "maintenance_value d \<noteq> None \<Longrightarrow>
   (maintenance_value (toggle_maintenance (load_maintenance_mode d m) d) = Some ''true'') \<longleftrightarrow>
   maintenance_value d \<noteq> Some ''true''"
  by (auto simp: toggle_maintenance_def load_maintenance_mode_def)

lemma toggle_role_displayed:
  "au_role (enrich_user now (toggle_user_role u (au_role (enrich_user now d u p)) d) u p) =
     (if au_role (enrich_user now d u p) = ''admin'' then ''user'' else ''admin'')"
  by (auto simp: enrich_user_def toggle_user_role_def role_name_def split: option.split app_role.split)

lemma admin_section_tabs: "t \<in> set admin_tabs \<Longrightarrow> admin_section t \<noteq> None"
  by (auto simp: admin_tabs_def admin_section_def)

lemma admin_tab_init_prefixed: "admin_tab_init (Some (''admin-'' @ t)) = t"
  by (simp add: admin_tab_init_def)

lemma used_count_replace:
  "distinct (map lic_id xs) \<Longrightarrow> l \<in> set xs \<Longrightarrow> \<not> is_used l \<Longrightarrow> is_used l' \<Longrightarrow>
   length (filter is_used (map (\<lambda>x. if lic_id x = lic_id l then l' else x) xs)) =
     Suc (length (filter is_used xs))"
proof (induction xs)
  case Nil
  then show ?case by simp
next
  case (Cons a xs)
  show ?case
  proof (cases "lic_id a = lic_id l")
    case True
    with Cons.prems(1) have "\<forall>x \<in> set xs. lic_id x \<noteq> lic_id l" by (auto simp: image_iff)
    then have "map (\<lambda>x. if lic_id x = lic_id l then l' else x) xs = xs" by (induction xs) auto
    moreover from True Cons.prems(1,2) have "a = l" by (auto simp: image_iff)
    ultimately show ?thesis using Cons.prems(3,4) by simp
  next
    case False
    with Cons.prems Cons.IH show ?thesis by auto
  qed
qed

lemma render_admin_tab:
  "roles d u = Some Admin \<Longrightarrow> \<not> is_loading st \<Longrightarrow>
   index_render (auth_step d st (Auth_Change (Some u))) (page_step tab (Menu_Click ''admin'')) =
     View_Admin ''admin''"
  by (simp only: render_after_change) (simp add: render_content_def handle_menu_click_def)

subsection \<open>Properties of the admin views\<close>

text \<open>
  C27: the sidebar's admin entry opens an empty panel. For an admin whose data the auth
  listener fetched, clicking \<open>Admin\<close> in \<open>NewSidebar\<close> renders
  \<open>AdminPanelComplete\<close> with \<open>activeSubTab = "admin"\<close>; \<open>replace('admin-', '')\<close>
  leaves \<open>"admin"\<close>, which is none of the panel's five tabs, so no section is shown
  until a tab button is clicked (the old sidebar's \<open>admin-generate\<close> would open one).
\<close>

theorem sidebar_admin_opens_empty_panel:
  assumes "roles d u = Some Admin" "\<not> is_loading st"
  shows "index_render (auth_step d st (Auth_Change (Some u))) (page_step tab (Menu_Click ''admin'')) =
           View_Admin ''admin'' \<and>
         admin_section (admin_tab_init (Some ''admin'')) = None \<and>
         admin_section (admin_tab_init (Some ''admin-generate'')) = Some Sec_Generate"
proof -
  have "admin_tab_init (Some ''admin'') = ''admin''"
    by (simp add: admin_tab_init_def)
  moreover have "admin_tab_init (Some ''admin-generate'') = ''generate''"
    using admin_tab_init_prefixed [of "''generate''"] by simp
  ultimately show ?thesis
    using render_admin_tab [OF assms] by (simp add: admin_section_def)
qed

theorem sidebar_admin_opens_empty_panel_witness:
  "roles ((empty_db 30)\<lparr>roles := [''a'' \<mapsto> Admin]\<rparr>) ''a'' = Some Admin \<and> \<not> is_loading (auth_init\<lparr>is_loading := False\<rparr>) \<and>
   index_render (auth_step ((empty_db 30)\<lparr>roles := [''a'' \<mapsto> Admin]\<rparr>) (auth_init\<lparr>is_loading := False\<rparr>)
     (Auth_Change (Some ''a''))) (page_step ''dashboard'' (Menu_Click ''admin'')) = View_Admin ''admin'' \<and>
   admin_section (admin_tab_init (Some ''admin'')) = None"
proof -
  have a: "roles ((empty_db 30)\<lparr>roles := [''a'' \<mapsto> Admin]\<rparr>) ''a'' = Some Admin" by simp
  have b: "\<not> is_loading (auth_init\<lparr>is_loading := False\<rparr>)" by simp
  from sidebar_admin_opens_empty_panel [OF a b, of "''dashboard''"] a b show ?thesis by simp
qed

text \<open>
  C34: the admin views follow a redemption. In a table with distinct licence ids, after
  a successful redemption by \<open>u\<close>, the panel's statistics count one more used licence
  and the same number of licences, and at any time \<open>t\<close> the users list shows \<open>u\<close> as
  \<open>active\<close> exactly when \<open>u\<close>'s own dashboard, fed by \<open>fetchUserData\<close>, treats the
  subscription as active (outside maintenance mode).
\<close>

theorem redeem_shown_in_admin_views:
  assumes "distinct (map lic_id (licenses d))"
    and "client_redeem u input now d = (Redeem_Ok, d')"
    and "maintenance_value d \<noteq> Some ''true''"
  shows "used_licenses (load_stats d') = Suc (used_licenses (load_stats d)) \<and>
         total_licenses (load_stats d') = total_licenses (load_stats d) \<and>
         (au_subscription_status (enrich_user t d' u p) = ''active'' \<longleftrightarrow>
            is_subscription_active (auth_subscription (fetch_user_data u d' st)) t)"
proof -
  obtain l where l: "l \<in> set (licenses d)" "\<not> is_used l"
    and d': "d' = d\<lparr>licenses := map (\<lambda>x. if lic_id x = lic_id l then l\<lparr>is_used := True, used_by := Some u,
              used_at := Some now, expires_at := Some (now + duration_days l * ms_per_day)\<rparr> else x)
              (licenses d),
            subscriptions := (subscriptions d)(u \<mapsto> \<lparr>sub_expires_at = now + duration_days l * ms_per_day,
              sub_source = ''license_key'', sub_license_key_id = Some (lic_id l)\<rparr>)\<rparr>"
    using client_redeem_OkE [OF assms(2)] by blast
  have used: "used_licenses (load_stats d') = Suc (used_licenses (load_stats d))"
    unfolding d' load_stats_def using used_count_replace [OF assms(1) l] by simp
  have total: "total_licenses (load_stats d') = total_licenses (load_stats d)"
    unfolding d' load_stats_def by simp
  have "\<not> (maintenance_value d' = Some ''true'' \<and> roles d' u \<noteq> Some Admin)"
    using assms(3) unfolding d' by simp
  then have "auth_subscription (fetch_user_data u d' st) =
      Some \<lparr>view_expires_at = Some (now + duration_days l * ms_per_day), view_source = ''license_key''\<rparr>"
    by (simp add: fetch_not_gated d')
  then have "is_subscription_active (auth_subscription (fetch_user_data u d' st)) t \<longleftrightarrow>
      t < now + duration_days l * ms_per_day"
    by (simp add: is_subscription_active_def js_date_ms_def)
  moreover have "au_subscription_status (enrich_user t d' u p) = ''active'' \<longleftrightarrow>
      t < now + duration_days l * ms_per_day"
    by (simp add: enrich_user_def d')
  ultimately show ?thesis using used total by simp
qed

theorem redeem_shown_in_admin_views_witness:
  "let L = \<lparr>lic_id = 0, lic_key = ''K'', duration_days = 30, is_used = False, created_by = None,
             created_at = 0, used_by = None, used_at = None, expires_at = None\<rparr>;
       d0 = (empty_db 30)\<lparr>licenses := [L], next_id := 1\<rparr>;
       p = \<lparr>prof_username = ''v'', prof_email = ''v@x'', prof_avatar_url = []\<rparr>
   in distinct (map lic_id (licenses d0)) \<and>
      client_redeem ''v'' ''K'' 7 d0 = (Redeem_Ok, snd (client_redeem ''v'' ''K'' 7 d0)) \<and>
      maintenance_value d0 \<noteq> Some ''true'' \<and>
      used_licenses (load_stats (snd (client_redeem ''v'' ''K'' 7 d0))) = 1 \<and>
      au_subscription_status (enrich_user 8 (snd (client_redeem ''v'' ''K'' 7 d0)) ''v'' p) = ''active'' \<and>
      is_subscription_active (auth_subscription (fetch_user_data ''v'' (snd (client_redeem ''v'' ''K'' 7 d0)) auth_init)) 8"
proof -
  let ?L = "\<lparr>lic_id = 0, lic_key = ''K'', duration_days = 30, is_used = False, created_by = None,
             created_at = 0, used_by = None, used_at = None, expires_at = None\<rparr>"
  let ?d0 = "(empty_db 30)\<lparr>licenses := [?L], next_id := 1\<rparr>"
  let ?p = "\<lparr>prof_username = ''v'', prof_email = ''v@x'', prof_avatar_url = []\<rparr>"
  have a: "distinct (map lic_id (licenses ?d0))" by simp
  have ok: "client_redeem ''v'' ''K'' 7 ?d0 = (Redeem_Ok, snd (client_redeem ''v'' ''K'' 7 ?d0))"
    by (simp add: client_redeem_def redeem_input_def js_trim_def js_is_space_def js_upper_def
        js_upper_char_def redeem_license_key_def Let_def)
  have m: "maintenance_value ?d0 \<noteq> Some ''true''" by (simp add: empty_db_def)
  have u0: "used_licenses (load_stats ?d0) = 0" by (simp add: load_stats_def)
  have act: "au_subscription_status (enrich_user 8 (snd (client_redeem ''v'' ''K'' 7 ?d0)) ''v'' ?p) = ''active''"
    by (simp add: enrich_user_def client_redeem_def redeem_input_def js_trim_def js_is_space_def
        js_upper_def js_upper_char_def redeem_license_key_def Let_def ms_per_day_def)
  note f = redeem_shown_in_admin_views [OF a ok m, of 8 ?p auth_init]
  from f u0 have one: "used_licenses (load_stats (snd (client_redeem ''v'' ''K'' 7 ?d0))) = 1" by simp
  from f act have two:
    "is_subscription_active (auth_subscription (fetch_user_data ''v'' (snd (client_redeem ''v'' ''K'' 7 ?d0)) auth_init)) 8"
    by simp
  show ?thesis unfolding Let_def by (intro conjI a ok m one act two)
qed

end
