(* ===== verification/Metrics.thy ===== *)
theory Metrics
  imports Score
begin

text \<open>
  The metrics poller \<open>hooks/useSystemMetrics.ts\<close> and the places that display its
  result: the optimisation status of \<open>NewHeader.tsx\<close> and the system cards of
  \<open>NewDashboard.tsx\<close>. In Electron the poller copies what the
  \<open>get-system-metrics\<close> handler (\<open>Score.get_system_metrics\<close>) returns; in a browser
  (no \<open>electronAPI.getSystemMetrics\<close>) it draws four random readings and computes
  \<open>Score.simulated_score\<close> from them.
\<close>

subsection \<open>The poller\<close>

text \<open>\<open>Math.floor(Math.random() * n) + k\<close> for a draw \<open>r\<close> in \<open>[0, 1)\<close>.\<close>

definition sim_draw :: "real \<Rightarrow> int \<Rightarrow> int \<Rightarrow> int" where
  "sim_draw r n k = \<lfloor>r * of_int n\<rfloor> + k"

text \<open>
  The simulated branch (lines 56--100): CPU in \<open>20 + [0, 30)\<close>, memory in
  \<open>40 + [0, 40)\<close>, disk in \<open>30 + [0, 20)\<close>, processes in \<open>150 + [0, 100)\<close>, and the
  score of those readings. Only the fields the model keeps are set.
\<close>

definition simulated_metrics :: "real \<Rightarrow> real \<Rightarrow> real \<Rightarrow> real \<Rightarrow> system_metrics" where
  "simulated_metrics r1 r2 r3 r4 =
     (let cpu = sim_draw r1 30 20;
          memory = sim_draw r2 40 40;
          disk = sim_draw r3 20 30;
          processes = sim_draw r4 100 150
      in \<lparr>cpu_usage = cpu, mem_usage_percent = Pct memory, disk_usage_percent = Pct disk,
          processes_all = processes, metrics_score = Some (simulated_score cpu memory disk processes)\<rparr>)"

text \<open>The initial metrics (lines 37--44): every reading 0 and score 0.\<close>

definition metrics_init :: system_metrics where
  "metrics_init = \<lparr>cpu_usage = 0, mem_usage_percent = Pct 0, disk_usage_percent = Pct 0,
                   processes_all = 0, metrics_score = Some 0\<rparr>"

record metrics_state =
  metrics :: system_metrics
  metrics_loading :: bool
  metrics_error :: "string option"

text \<open>What \<open>electronAPI.getSystemMetrics()\<close> resolved to: the handler's object, a null value, or a rejection.\<close>

datatype ipc_result = Ipc_Value system_metrics | Ipc_Null | Ipc_Error string

text \<open>
  \<open>fetchMetrics\<close> (lines 48--116): with no IPC bridge, the simulated metrics of the four
  draws; otherwise the IPC value when it is not null; a rejection sets the error and
  keeps the metrics.
\<close>

definition fetch_metrics ::
  "bool \<Rightarrow> real \<times> real \<times> real \<times> real \<Rightarrow> ipc_result \<Rightarrow> metrics_state \<Rightarrow> metrics_state" where
  "fetch_metrics hasApi draws ipc st =
     (if \<not> hasApi then
        (case draws of (r1, r2, r3, r4) \<Rightarrow>
           st\<lparr>metrics := simulated_metrics r1 r2 r3 r4, metrics_loading := False, metrics_error := None\<rparr>)
      else case ipc of
        Ipc_Value m \<Rightarrow> st\<lparr>metrics := m, metrics_loading := False, metrics_error := None\<rparr>
      | Ipc_Null \<Rightarrow> st\<lparr>metrics_loading := False, metrics_error := None\<rparr>
      | Ipc_Error e \<Rightarrow> st\<lparr>metrics_loading := False, metrics_error := Some e\<rparr>)"

text \<open>The poller: the initial state, then one \<open>fetchMetrics\<close> per 15-second tick.\<close>

fun poll_metrics ::
  "bool \<Rightarrow> ((real \<times> real \<times> real \<times> real) \<times> ipc_result) list \<Rightarrow> metrics_state \<Rightarrow> metrics_state" where
  "poll_metrics hasApi [] st = st"
| "poll_metrics hasApi ((draws, ipc) # ticks) st = poll_metrics hasApi ticks (fetch_metrics hasApi draws ipc st)"

definition metrics_state_init :: metrics_state where
  "metrics_state_init = \<lparr>metrics = metrics_init, metrics_loading = True, metrics_error = None\<rparr>"

subsection \<open>Displays\<close>

text \<open>\<open>getOptimizationStatus\<close> of \<open>NewHeader\<close> (lines 51--56), on \<open>metrics.optimizationScore\<close>.\<close>

definition optimization_status :: "int \<Rightarrow> string" where
  "optimization_status optimizationLevel =
     (if 90 \<le> optimizationLevel then ''Perfeito!''
      else if 70 \<le> optimizationLevel then ''Bom''
      else if 50 \<le> optimizationLevel then ''Regular''
      else ''Cr'' @ [CHR 0xED] @ ''tico'')"

record system_info =
  si_cpu :: int
  si_mem :: js_pct
  si_disk :: js_pct
  si_processes :: int

text \<open>
  \<open>fetchRealTimeMetrics\<close> of \<open>NewDashboard\<close> (lines 74--93): the rounded readings of
  the handler's object; \<open>Math.round\<close> of an integer or a non-finite value is itself.
\<close>

definition system_info_of :: "system_metrics \<Rightarrow> system_info" where
  "system_info_of m =
     \<lparr>si_cpu = cpu_usage m, si_mem = mem_usage_percent m, si_disk = disk_usage_percent m,
      si_processes = processes_all m\<rparr>"

text \<open>\<open>processStatus\<close> of \<open>NewDashboard\<close> (lines 227--233): the label of the process card.\<close>

definition process_status :: "int \<Rightarrow> string" where
  "process_status count =
     (if count < 80 then [CHR 0xD3] @ ''timo''
      else if count < 150 then ''Normal''
      else if count < 250 then ''Alto''
      else ''Cr'' @ [CHR 0xED] @ ''tico'')"

subsection \<open>Lemmas\<close>

lemma sim_draw_range: "0 \<le> r \<Longrightarrow> r < 1 \<Longrightarrow> 0 < n \<Longrightarrow> k \<le> sim_draw r n k \<and> sim_draw r n k \<le> k + n - 1"
proof -
  assume r: "0 \<le> r" "r < 1" and n: "0 < n"
  have "0 \<le> r * of_int n" using r n by simp
  moreover have "r * of_int n < of_int n" using r n by simp
  ultimately have "0 \<le> \<lfloor>r * of_int n\<rfloor>" "\<lfloor>r * of_int n\<rfloor> < n"
    by (simp, linarith)
  then show ?thesis by (simp add: sim_draw_def)
qed

lemma sim_mem_score_drawn: "40 \<le> m \<Longrightarrow> m \<le> 79 \<Longrightarrow> 82 \<le> sim_mem_score m \<and> sim_mem_score m \<le> 100"
  by (auto simp: sim_mem_score_def max_def)

lemma sim_process_score_drawn:
  "150 \<le> p \<Longrightarrow> p \<le> 249 \<Longrightarrow> 62.75 \<le> sim_process_score p \<and> sim_process_score p \<le> 87.5"
  by (auto simp: sim_process_score_def)

lemma simulated_score_drawn:
  assumes "20 \<le> c" "c \<le> 49" "40 \<le> m" "m \<le> 79" "30 \<le> d" "d \<le> 49" "150 \<le> p" "p \<le> 249"
  shows "62 \<le> simulated_score c m d p \<and> simulated_score c m d p \<le> 85"
proof -
  from assms(3,4) have M: "82 \<le> sim_mem_score m" "sim_mem_score m \<le> 100" using sim_mem_score_drawn by auto
  from assms(7,8) have P: "62.75 \<le> sim_process_score p" "sim_process_score p \<le> 87.5"
    using sim_process_score_drawn by auto
  define x where "x = 100 - (100 - max 0 (100 - of_int c)) * 0.3 - (100 - sim_mem_score m) * 0.25 -
      (100 - max 0 (100 - of_int d)) * 0.2 - (100 - sim_process_score p) * 0.25"
  have c: "max 0 (100 - of_int c) = 100 - (of_int c :: real)" using assms(2) by simp
  have d: "max 0 (100 - of_int d) = 100 - (of_int d :: real)" using assms(6) by simp
  from assms have R: "20 \<le> real_of_int c" "real_of_int c \<le> 49" "30 \<le> real_of_int d" "real_of_int d \<le> 49"
    by simp_all
  have x1: "61.6875 \<le> x" using R M P unfolding x_def c d by (simp add: field_simps)
  have x2: "x \<le> 84.875" using R M P unfolding x_def c d by (simp add: field_simps)
  from x1 x2 have "max 0 (min 100 x) = x" by simp
  then have e: "simulated_score c m d p = \<lfloor>x + 1 / 2\<rfloor>"
    by (simp add: simulated_score_def x_def Let_def js_round_def)
  have "(62::real) \<le> x + 1 / 2" "x + 1 / 2 < 86" using x1 x2 by (simp_all add: field_simps)
  then show ?thesis unfolding e by (simp add: le_floor_iff floor_le_iff)
qed

text \<open>The draws the poller uses are within \<open>[0, 1)\<close>.\<close>

definition draws_ok :: "(real \<times> real \<times> real \<times> real) \<times> ipc_result \<Rightarrow> bool" where
  "draws_ok tick = (case fst tick of (r1, r2, r3, r4) \<Rightarrow>
     0 \<le> r1 \<and> r1 < 1 \<and> 0 \<le> r2 \<and> r2 < 1 \<and> 0 \<le> r3 \<and> r3 < 1 \<and> 0 \<le> r4 \<and> r4 < 1)"

lemma poll_metrics_simulated:
  "ticks \<noteq> [] \<Longrightarrow> metrics (poll_metrics False ticks st) =
     (case fst (last ticks) of (r1, r2, r3, r4) \<Rightarrow> simulated_metrics r1 r2 r3 r4)"
proof (induction ticks arbitrary: st)
  case Nil
  then show ?case by simp
next
  case (Cons t ts)
  obtain dr ipc where t: "t = (dr, ipc)" by (cases t)
  show ?case
  proof (cases "ts = []")
    case True
    then show ?thesis by (simp add: t fetch_metrics_def split: prod.split)
  next
    case False
    with Cons.IH show ?thesis by (simp add: t)
  qed
qed

lemma simulated_metrics_score:
  "0 \<le> r1 \<Longrightarrow> r1 < 1 \<Longrightarrow> 0 \<le> r2 \<Longrightarrow> r2 < 1 \<Longrightarrow> 0 \<le> r3 \<Longrightarrow> r3 < 1 \<Longrightarrow> 0 \<le> r4 \<Longrightarrow> r4 < 1 \<Longrightarrow>
   \<exists>s. metrics_score (simulated_metrics r1 r2 r3 r4) = Some s \<and> 62 \<le> s \<and> s \<le> 85"
proof -
  assume r: "0 \<le> r1" "r1 < 1" "0 \<le> r2" "r2 < 1" "0 \<le> r3" "r3 < 1" "0 \<le> r4" "r4 < 1"
  from sim_draw_range [OF r(1,2), of 30 20] sim_draw_range [OF r(3,4), of 40 40]
    sim_draw_range [OF r(5,6), of 20 30] sim_draw_range [OF r(7,8), of 100 150]
  have "62 \<le> simulated_score (sim_draw r1 30 20) (sim_draw r2 40 40) (sim_draw r3 20 30) (sim_draw r4 100 150) \<and>
        simulated_score (sim_draw r1 30 20) (sim_draw r2 40 40) (sim_draw r3 20 30) (sim_draw r4 100 150) \<le> 85"
    by (intro simulated_score_drawn) auto
  then show ?thesis by (simp add: simulated_metrics_def Let_def)
qed

subsection \<open>Properties of the poller\<close>

text \<open>
  C16: in a browser the score is fake and narrow. Without the IPC bridge, after any
  non-empty sequence of polls with draws in \<open>[0, 1)\<close>, the score the page shows lies
  between 62 and 85 whatever the machine does, so the header reads "Bom" or "Regular"
  and never "Perfeito!" or "Critico".
\<close>

theorem browser_score_bounds:
  assumes "list_all draws_ok ticks" "ticks \<noteq> []"
  shows "\<exists>s. metrics_score (metrics (poll_metrics False ticks st)) = Some s \<and> 62 \<le> s \<and> s \<le> 85 \<and>
             (optimization_status s = ''Bom'' \<or> optimization_status s = ''Regular'')"
proof -
  obtain r1 r2 r3 r4 ipc where l: "last ticks = ((r1, r2, r3, r4), ipc)"
    by (metis prod.collapse)
  from assms have "draws_ok (last ticks)" by (simp add: list_all_iff)
  then have r: "0 \<le> r1" "r1 < 1" "0 \<le> r2" "r2 < 1" "0 \<le> r3" "r3 < 1" "0 \<le> r4" "r4 < 1"
    by (simp_all add: draws_ok_def l)
  from simulated_metrics_score [OF r] obtain s where
    s: "metrics_score (simulated_metrics r1 r2 r3 r4) = Some s" "62 \<le> s" "s \<le> 85" by blast
  have "metrics (poll_metrics False ticks st) = simulated_metrics r1 r2 r3 r4"
    using poll_metrics_simulated [OF assms(2)] by (simp add: l)
  moreover from s(2,3) have "optimization_status s = ''Bom'' \<or> optimization_status s = ''Regular''"
    by (simp add: optimization_status_def)
  ultimately show ?thesis using s by auto
qed

theorem browser_score_bounds_witness:
  "list_all draws_ok [((0.5, 0.5, 0.5, 0.5), Ipc_Null)] \<and> [((0.5::real, 0.5::real, 0.5::real, 0.5::real), Ipc_Null)] \<noteq> [] \<and>
   metrics_score (metrics (poll_metrics False [((0.5, 0.5, 0.5, 0.5), Ipc_Null)] metrics_state_init)) = Some 75"
proof -
  have a: "list_all draws_ok [((0.5, 0.5, 0.5, 0.5), Ipc_Null)]" by (simp add: draws_ok_def)
  have b: "[((0.5::real, 0.5::real, 0.5::real, 0.5::real), Ipc_Null)] \<noteq> []" by simp
  have m: "metrics (poll_metrics False [((0.5, 0.5, 0.5, 0.5), Ipc_Null)] metrics_state_init) =
      simulated_metrics 0.5 0.5 0.5 0.5"
    by (simp add: fetch_metrics_def)
  have d: "sim_draw 0.5 30 20 = 35" "sim_draw 0.5 40 40 = 60" "sim_draw 0.5 20 30 = 40"
    "sim_draw 0.5 100 150 = 200"
    by (simp_all add: sim_draw_def)
  have "simulated_score 35 60 40 200 = 75"
    by (simp add: simulated_score_def sim_mem_score_def sim_process_score_def js_round_def Let_def)
  with m d have "metrics_score (metrics (poll_metrics False [((0.5, 0.5, 0.5, 0.5), Ipc_Null)] metrics_state_init)) = Some 75"
    by (simp add: simulated_metrics_def Let_def)
  with browser_score_bounds [OF a b, of metrics_state_init] a b show ?thesis by simp
qed

end
