(* ===== verification/MainProcess.thy ===== *)
theory MainProcess
  imports Prelude
begin

text \<open>
  The Electron main process outside the metrics and file handlers
  (\<open>src/electron/main.js\<close> lines 16--259): the window's life cycle, the Discord RPC
  client, the auto-updater's messages to the renderer, and the IPC channels the
  preloads expose; on the renderer side, \<open>hooks/useDiscordPresence.ts\<close> and
  \<open>components/UpdateBlocker.tsx\<close>. The main process is a state record changed by
  events (Electron and Discord callbacks, IPC messages); the state is what the module's
  variables \<open>mainWindow\<close> and \<open>discordClient\<close> hold, the activity Discord shows, the
  messages sent to the renderer, and whether the app quit.
\<close>

subsection \<open>Discord activities\<close>

text \<open>An activity as the renderer sends it: every field optional.\<close>

record activity_req =
  req_state :: "string option"
  req_details :: "string option"
  req_large_key :: "string option"
  req_large_text :: "string option"
  req_small_key :: "string option"
  req_small_text :: "string option"
  req_start :: "int option"

record activity =
  a_state :: string
  a_details :: string
  a_start :: int
  a_large_key :: string
  a_large_text :: string
  a_small :: "(string \<times> string) option"

text \<open>\<open>value || default\<close> for a string and for a number (\<open>''\<close> and \<open>0\<close> are falsy).\<close>

definition js_or_str :: "string option \<Rightarrow> string \<Rightarrow> string" where
  "js_or_str v d = (case v of Some s \<Rightarrow> if s = [] then d else s | None \<Rightarrow> d)"

definition js_or_num :: "int option \<Rightarrow> int \<Rightarrow> int" where
  "js_or_num v d = (case v of Some n \<Rightarrow> if n = 0 then d else n | None \<Rightarrow> d)"

text \<open>\<open>activityData\<close> of \<open>setDiscordActivity\<close> (lines 87--99), at time \<open>now\<close>.\<close>

definition activity_data :: "ms \<Rightarrow> activity_req \<Rightarrow> activity" where
  "activity_data now a =
     \<lparr>a_state = js_or_str (req_state a) ''Navegando'',
      a_details = js_or_str (req_details a) ''ByteLatency - PC Optimizer'',
      a_start = js_or_num (req_start a) now,
      a_large_key = js_or_str (req_large_key a) ''bytelatency_logo'',
      a_large_text = js_or_str (req_large_text a) ''ByteLatency'',
      a_small = (case req_small_key a of
                   Some k \<Rightarrow> if k = [] then None else Some (k, js_or_str (req_small_text a) [])
                 | None \<Rightarrow> None)\<rparr>"

text \<open>The presence the \<open>ready\<close> callback sets (lines 56--62).\<close>

definition initial_activity :: "ms \<Rightarrow> activity_req" where
  "initial_activity now =
     \<lparr>req_state = Some ''No Dashboard'', req_details = Some ''Byte Latency - PC Optimizer'',
      req_large_key = Some ''bytelatency_logo'', req_large_text = Some ''ByteLatency'',
      req_small_key = None, req_small_text = None, req_start = Some now\<rparr>"

subsection \<open>The main process\<close>

text \<open>
  \<open>discordClient\<close>: \<open>null\<close>, a client that is logging in, or a client whose
  \<open>user\<close> is set (after \<open>ready\<close>).
\<close>

datatype discord_client = No_Client | Client_Connecting | Client_Ready

record window_state =
  win_shown :: bool
  win_maximized :: bool
  win_minimized :: bool

datatype renderer_msg = Msg_Update_Available | Msg_Update_Downloaded | Msg_Update_Error string

record main_state =
  main_window :: "window_state option"
  discord :: discord_client
  discord_activity :: "activity option"
  renderer_msgs :: "renderer_msg list"
  app_quit :: bool
  app_ready :: bool

definition main_init :: main_state where
  "main_init = \<lparr>main_window = None, discord = No_Client, discord_activity = None,
                renderer_msgs = [], app_quit = False, app_ready = False\<rparr>"

text \<open>\<open>initializeDiscordRPC\<close> (lines 46--77): a new client, unless one exists.\<close>

definition initialize_discord_rpc :: "main_state \<Rightarrow> main_state" where
  "initialize_discord_rpc st = (if discord st \<noteq> No_Client then st else st\<lparr>discord := Client_Connecting\<rparr>)"

text \<open>\<open>setDiscordActivity\<close> (lines 80--105): nothing unless the client is ready.\<close>

definition set_discord_activity :: "ms \<Rightarrow> activity_req \<Rightarrow> main_state \<Rightarrow> main_state" where
  "set_discord_activity now a st =
     (if discord st \<noteq> Client_Ready then st else st\<lparr>discord_activity := Some (activity_data now a)\<rparr>)"

text \<open>\<open>clearDiscordActivity\<close> (lines 108--116).\<close>

definition clear_discord_activity :: "main_state \<Rightarrow> main_state" where
  "clear_discord_activity st = (if discord st = No_Client then st else st\<lparr>discord_activity := None\<rparr>)"

text \<open>\<open>createWindow\<close> (lines 118--180): a hidden window, shown at \<open>ready-to-show\<close>.\<close>

definition create_window :: "main_state \<Rightarrow> main_state" where
  "create_window st =
     st\<lparr>main_window := Some \<lparr>win_shown = False, win_maximized = False, win_minimized = False\<rparr>\<rparr>"

text \<open>The cleanup of \<open>window-all-closed\<close> and \<open>before-quit\<close>: clear, destroy, forget the client.\<close>

definition destroy_discord :: "main_state \<Rightarrow> main_state" where
  "destroy_discord st =
     (if discord st = No_Client then st else st\<lparr>discord_activity := None, discord := No_Client\<rparr>)"

text \<open>
  Closing the window: the \<open>close\<close> handler clears the activity of any client
  (lines 156--166), \<open>closed\<close> forgets the window (lines 168--170), and with no window
  left \<open>window-all-closed\<close> cleans up and quits (lines 202--217).
\<close>

definition close_window :: "main_state \<Rightarrow> main_state" where
  "close_window st =
     (case main_window st of
        None \<Rightarrow> st
      | Some _ \<Rightarrow>
          let st1 = (if discord st = No_Client then st else st\<lparr>discord_activity := None\<rparr>);
              st2 = st1\<lparr>main_window := None\<rparr>
          in (destroy_discord st2)\<lparr>app_quit := True\<rparr>)"

text \<open>A message of the auto-updater (lines 24--38), sent only while the window exists.\<close>

definition send_to_renderer :: "renderer_msg \<Rightarrow> main_state \<Rightarrow> main_state" where
  "send_to_renderer m st =
     (case main_window st of None \<Rightarrow> st | Some _ \<Rightarrow> st\<lparr>renderer_msgs := renderer_msgs st @ [m]\<rparr>)"

definition map_window :: "(window_state \<Rightarrow> window_state) \<Rightarrow> main_state \<Rightarrow> main_state" where
  "map_window f st = st\<lparr>main_window := map_option f (main_window st)\<rparr>"

datatype main_event =
    App_Ready
  | Discord_Ready ms
  | Discord_Login_Failed
  | Ready_To_Show
  | User_Close
  | Before_Quit
  | App_Activate
  | Ipc_Minimize
  | Ipc_Maximize
  | Ipc_Close
  | Ipc_Set_Activity ms activity_req
  | Ipc_Clear_Activity
  | Updater_Available
  | Updater_Downloaded
  | Updater_Error string

text \<open>
  One event: \<open>app.whenReady\<close> (lines 182--200, once: the client, then the window, then the
  updater, which changes no state here); Discord's \<open>ready\<close> and a failed login; the
  window's \<open>ready-to-show\<close>; a close by the user or by the \<open>close-window\<close> channel;
  \<open>before-quit\<close>; \<open>activate\<close>, whose listener is registered inside the
  \<open>whenReady\<close> callback (line 195) and so acts only after it, and which finds no
  window when \<open>getAllWindows()\<close> is empty; the window and Discord channels (lines 234--259); the
  updater's three events (an error is sent as \<open>err.message || String(err)\<close>, and
  \<open>String\<close> of an \<open>Error\<close> without message is \<open>"Error"\<close>).
\<close>

fun main_step :: "main_state \<Rightarrow> main_event \<Rightarrow> main_state" where
  "main_step st App_Ready =
     (if app_ready st then st else create_window (initialize_discord_rpc st)\<lparr>app_ready := True\<rparr>)"
| "main_step st (Discord_Ready now) =
     (if discord st = Client_Connecting
      then set_discord_activity now (initial_activity now) (st\<lparr>discord := Client_Ready\<rparr>) else st)"
| "main_step st Discord_Login_Failed =
     (if discord st = Client_Connecting then st\<lparr>discord := No_Client\<rparr> else st)"
| "main_step st Ready_To_Show = map_window (\<lambda>w. w\<lparr>win_shown := True\<rparr>) st"
| "main_step st User_Close = close_window st"
| "main_step st Before_Quit = destroy_discord st"
| "main_step st App_Activate =
     (if app_ready st \<and> main_window st = None then create_window st else st)"
| "main_step st Ipc_Minimize = map_window (\<lambda>w. w\<lparr>win_minimized := True\<rparr>) st"
| "main_step st Ipc_Maximize = map_window (\<lambda>w. w\<lparr>win_maximized := \<not> win_maximized w\<rparr>) st"
| "main_step st Ipc_Close = close_window st"
| "main_step st (Ipc_Set_Activity now a) = set_discord_activity now a st"
| "main_step st Ipc_Clear_Activity = clear_discord_activity st"
| "main_step st Updater_Available = send_to_renderer Msg_Update_Available st"
| "main_step st Updater_Downloaded = send_to_renderer Msg_Update_Downloaded st"
| "main_step st (Updater_Error e) = send_to_renderer (Msg_Update_Error (if e = [] then ''Error'' else e)) st"

inductive main_reach :: "main_state \<Rightarrow> bool" where
  init: "main_reach main_init"
| step: "main_reach st \<Longrightarrow> main_reach (main_step st ev)"

subsection \<open>The renderer side\<close>

text \<open>
  \<open>useDiscordPresence\<close> (lines 14--56): the IPC messages of one run of its effect, when
  \<open>window.electronAPI.setDiscordActivity\<close> exists (\<open>hasApi\<close>): a clear when the
  presence is disabled, otherwise the activity with the hook's defaults.
\<close>

record presence_options =
  opt_state :: "string option"
  opt_details :: "string option"
  opt_enabled :: "bool option"

definition presence_effect :: "bool \<Rightarrow> ms \<Rightarrow> presence_options \<Rightarrow> main_event list" where
  "presence_effect hasApi now opts =
     (if \<not> hasApi then []
      else if opt_enabled opts = Some False then [Ipc_Clear_Activity]
      else [Ipc_Set_Activity now
              \<lparr>req_state = Some (js_or_str (opt_state opts) ''Navegando''),
               req_details = Some (js_or_str (opt_details opts) ''ByteLatency - PC Optimizer''),
               req_large_key = Some ''bytelatency_logo'', req_large_text = Some ''ByteLatency'',
               req_small_key = None, req_small_text = None, req_start = Some now\<rparr>])"

text \<open>
  A re-run after a dependency changed: the previous run's cleanup (a clear, returned only
  by a run that set an activity), then the new run.
\<close>

definition presence_rerun :: "bool \<Rightarrow> ms \<Rightarrow> presence_options \<Rightarrow> presence_options \<Rightarrow> main_event list" where
  "presence_rerun hasApi now old new =
     (if hasApi \<and> opt_enabled old \<noteq> Some False then [Ipc_Clear_Activity] else []) @
     presence_effect hasApi now new"

text \<open>The options \<open>NewDashboard\<close> passes (lines 43--49).\<close>

definition dashboard_presence :: "bool \<Rightarrow> bool \<Rightarrow> bool \<Rightarrow> presence_options" where
  "dashboard_presence subscriptionActive isOptimizing enabled =
     \<lparr>opt_state = Some (if subscriptionActive then ''PRO Ativo'' else ''Vers'' @ [CHR 0xE3] @ ''o Free''),
      opt_details = Some (if isOptimizing then ''Otimizando sistema...'' else ''No Dashboard''),
      opt_enabled = Some enabled\<rparr>"

text \<open>\<open>UpdateBlocker\<close> (lines 3--54): the flags its listeners set, and what it renders.\<close>

record blocker_state =
  upd_available :: bool
  upd_downloaded :: bool
  upd_error :: "string option"

definition blocker_init :: blocker_state where
  "blocker_init = \<lparr>upd_available = False, upd_downloaded = False, upd_error = None\<rparr>"

fun blocker_receive :: "blocker_state \<Rightarrow> renderer_msg \<Rightarrow> blocker_state" where
  "blocker_receive st Msg_Update_Available = st\<lparr>upd_available := True\<rparr>"
| "blocker_receive st Msg_Update_Downloaded = st\<lparr>upd_downloaded := True\<rparr>"
| "blocker_receive st (Msg_Update_Error e) = st\<lparr>upd_error := Some e\<rparr>"

datatype blocker_view = Blocker_None | Blocker_Error string | Blocker_Downloading | Blocker_Downloaded

definition update_blocker :: "blocker_state \<Rightarrow> blocker_view" where
  "update_blocker st =
     (case upd_error st of
        Some e \<Rightarrow> if e \<noteq> [] then Blocker_Error e
                  else if upd_available st \<or> upd_downloaded st
                       then (if upd_downloaded st then Blocker_Downloaded else Blocker_Downloading)
                       else Blocker_None
      | None \<Rightarrow> if upd_available st \<or> upd_downloaded st
                then (if upd_downloaded st then Blocker_Downloaded else Blocker_Downloading)
                else Blocker_None)"

subsection \<open>Lemmas\<close>

definition main_inv :: "main_state \<Rightarrow> bool" where
  "main_inv st \<longleftrightarrow>
     (discord_activity st \<noteq> None \<longrightarrow> discord st = Client_Ready) \<and>
     (\<forall>m \<in> set (renderer_msgs st). m \<noteq> Msg_Update_Error [])"

lemma main_step_inv: "main_inv st \<Longrightarrow> main_inv (main_step st ev)"
  by (cases ev)
     (auto simp: main_inv_def create_window_def initialize_discord_rpc_def set_discord_activity_def
        clear_discord_activity_def destroy_discord_def close_window_def send_to_renderer_def
        map_window_def Let_def split: option.splits)

lemma close_window_quits:
  "main_window st \<noteq> None \<Longrightarrow>
   main_window (close_window st) = None \<and> app_quit (close_window st) \<and>
   discord (close_window st) = No_Client"
  by (auto simp: close_window_def destroy_discord_def Let_def)

lemma blocker_view_kept:
  "update_blocker st \<noteq> Blocker_None \<Longrightarrow> m \<noteq> Msg_Update_Error [] \<Longrightarrow>
   update_blocker (blocker_receive st m) \<noteq> Blocker_None"
  by (cases m) (auto simp: update_blocker_def split: option.splits if_splits)

lemma blocker_view_first:
  "m \<noteq> Msg_Update_Error [] \<Longrightarrow> update_blocker (blocker_receive st m) \<noteq> Blocker_None"
  by (cases m) (auto simp: update_blocker_def split: option.splits if_splits)

lemma blocker_fold_kept:
  "update_blocker st \<noteq> Blocker_None \<Longrightarrow> \<forall>m \<in> set ms. m \<noteq> Msg_Update_Error [] \<Longrightarrow>
   update_blocker (foldl blocker_receive st ms) \<noteq> Blocker_None"
proof (induction ms arbitrary: st)
  case Nil
  then show ?case by simp
next
  case (Cons m ms)
  from Cons.prems have "update_blocker (blocker_receive st m) \<noteq> Blocker_None"
    by (intro blocker_view_kept) auto
  with Cons.IH Cons.prems(2) show ?case by simp
qed

lemma presence_disabled_clears:
  "hasApi \<Longrightarrow> presence_effect hasApi now (dashboard_presence a b False) = [Ipc_Clear_Activity]"
  by (simp add: presence_effect_def dashboard_presence_def)

subsection \<open>Properties of the main process\<close>

text \<open>
  C18: Discord shows an activity only through a logged-in client. In every state the
  main process reaches, from start-up through any sequence of window, Discord, IPC and
  updater events, a shown activity means the client is ready; and every error the
  renderer has been sent has a non-empty text.
\<close>

theorem main_reach_inv: "main_reach st \<Longrightarrow> main_inv st"
proof (induction rule: main_reach.induct)
  case init
  show ?case by (simp add: main_inv_def main_init_def)
next
  case (step st ev)
  from step.IH show ?case by (rule main_step_inv)
qed

theorem main_reach_inv_witness:
  "main_reach (main_step (main_step main_init App_Ready) (Discord_Ready 5)) \<and>
   discord_activity (main_step (main_step main_init App_Ready) (Discord_Ready 5)) \<noteq> None \<and>
   discord (main_step (main_step main_init App_Ready) (Discord_Ready 5)) = Client_Ready"
proof -
  have r: "main_reach (main_step (main_step main_init App_Ready) (Discord_Ready 5))"
    by (intro main_reach.step main_reach.init)
  have a: "discord_activity (main_step (main_step main_init App_Ready) (Discord_Ready 5)) \<noteq> None"
    by (simp add: main_init_def create_window_def initialize_discord_rpc_def set_discord_activity_def)
  from main_reach_inv [OF r] a have "discord (main_step (main_step main_init App_Ready) (Discord_Ready 5)) = Client_Ready"
    by (simp add: main_inv_def)
  with r a show ?thesis by simp
qed

text \<open>
  C19: an update notice blocks the app for the rest of the session. In every reachable
  state of the main process, once it has sent the renderer any updater message, the
  \<open>UpdateBlocker\<close> that received the messages in order covers the app, and no later
  message uncovers it.
\<close>

theorem update_blocks_for_good:
  assumes "main_reach st" "renderer_msgs st \<noteq> []"
  shows "update_blocker (foldl blocker_receive blocker_init (renderer_msgs st)) \<noteq> Blocker_None"
proof -
  obtain m ms where ms: "renderer_msgs st = m # ms"
    using assms(2) by (cases "renderer_msgs st") auto
  from main_reach_inv [OF assms(1)] have ok: "\<forall>m \<in> set (renderer_msgs st). m \<noteq> Msg_Update_Error []"
    by (simp add: main_inv_def)
  then have "update_blocker (blocker_receive blocker_init m) \<noteq> Blocker_None"
    by (intro blocker_view_first) (simp add: ms)
  with ok show ?thesis by (simp add: ms blocker_fold_kept)
qed


theorem update_blocks_for_good_witness:
  "main_reach (main_step (main_step main_init App_Ready) Updater_Available) \<and>
   renderer_msgs (main_step (main_step main_init App_Ready) Updater_Available) \<noteq> [] \<and>
   update_blocker (foldl blocker_receive blocker_init
     (renderer_msgs (main_step (main_step main_init App_Ready) Updater_Available))) = Blocker_Downloading"
proof -
  have r: "main_reach (main_step (main_step main_init App_Ready) Updater_Available)"
    by (intro main_reach.step main_reach.init)
  have m: "renderer_msgs (main_step (main_step main_init App_Ready) Updater_Available) = [Msg_Update_Available]"
    by (simp add: main_init_def create_window_def initialize_discord_rpc_def send_to_renderer_def)
  then have n: "renderer_msgs (main_step (main_step main_init App_Ready) Updater_Available) \<noteq> []" by simp
  have "update_blocker (foldl blocker_receive blocker_init [Msg_Update_Available]) = Blocker_Downloading"
    by (simp add: update_blocker_def blocker_init_def)
  with update_blocks_for_good [OF r n] r n m show ?thesis by simp
qed

end
