(* ===== verification/News.thy ===== *)
theory News
  imports Expiry "HOL-Library.Sublist"
begin

text \<open>
  The rest of the news list \<open>components/NewsSection.tsx\<close>: the admin check that shows
  the delete buttons, \<open>deleteNotification\<close>, the badge of a notification
  (\<open>getNotificationType\<close>), and what the section renders. The list itself and the
  remaining-time labels are in \<open>Expiry\<close>.
\<close>

text \<open>
  \<open>checkAdmin\<close> (lines 34--47): the role row read with \<open>.single()\<close>; without a user
  the flag stays \<open>false\<close>.
\<close>

definition news_check_admin :: "uid option \<Rightarrow> db \<Rightarrow> bool" where
  "news_check_admin user d = (case user of None \<Rightarrow> False | Some u \<Rightarrow> roles d u = Some Admin)"

text \<open>
  \<open>deleteNotification\<close> (lines 72--90): the row deleted in the table and in the list
  shown; a failed delete changes neither.
\<close>

definition delete_notification ::
  "bool \<Rightarrow> nat \<Rightarrow> db \<times> notification_row list \<Rightarrow> db \<times> notification_row list" where
  "delete_notification failed i dn =
     (case dn of (d, shown) \<Rightarrow>
        if failed then (d, shown)
        else (d\<lparr>notifications := filter (\<lambda>n. notif_id n \<noteq> i) (notifications d)\<rparr>,
              filter (\<lambda>n. notif_id n \<noteq> i) shown))"

datatype notification_type = Type_Launch | Type_Info_Update | Type_Info_Community | Type_Notice

text \<open>
  \<open>getNotificationType\<close> (lines 111--142): the first keyword group the lower-cased title
  contains: the Portuguese words for "launch" and "available"; \<open>update\<close> and the
  Portuguese for "update"; \<open>discord\<close> and \<open>comunidade\<close>. The accented letters are
  their Latin-1 code units.
\<close>

definition notification_type :: "string \<Rightarrow> notification_type" where
  "notification_type title =
     (let t = js_lower title
      in if sublist (''lan'' @ [CHR 0xE7] @ ''amento'') t \<or> sublist (''dispon'' @ [CHR 0xED] @ ''vel'') t
         then Type_Launch
         else if sublist ''update'' t \<or> sublist (''atualiza'' @ [CHR 0xE7, CHR 0xE3] @ ''o'') t
         then Type_Info_Update
         else if sublist ''discord'' t \<or> sublist ''comunidade'' t then Type_Info_Community
         else Type_Notice)"

datatype news_view = News_Loading | News_Empty | News_List nat "notification_row list"

text \<open>What the section renders (lines 144--290): placeholders while loading, an empty
  message, or the list with its count.\<close>

definition news_view :: "bool \<Rightarrow> notification_row list \<Rightarrow> news_view" where
  "news_view isLoading items =
     (if isLoading then News_Loading
      else if items = [] then News_Empty
      else News_List (length items) items)"

text \<open>A message longer than 150 characters gets a \<open>Leia mais\<close> button (line 202).\<close>

definition should_show_more :: "string \<Rightarrow> bool" where
  "should_show_more msg \<longleftrightarrow> 150 < length msg"

subsection \<open>Lemmas\<close>

lemma delete_notification_gone:
  "\<not> failed \<Longrightarrow> delete_notification failed i (d, shown) = (d', shown') \<Longrightarrow>
   i \<notin> notif_id ` set (load_notifications d' now) \<and> i \<notin> notif_id ` set shown'"
proof -
  assume "\<not> failed" "delete_notification failed i (d, shown) = (d', shown')"
  then have d': "notifications d' = filter (\<lambda>n. notif_id n \<noteq> i) (notifications d)"
    and s: "shown' = filter (\<lambda>n. notif_id n \<noteq> i) shown"
    by (auto simp: delete_notification_def)
  have "set (load_notifications d' now) \<subseteq> set (notifications d')"
    by (auto simp: load_notifications_def dest: in_set_takeD)
  with d' s show ?thesis by auto
qed

lemma notification_type_upper:
  "notification_type (''LAN'' @ [CHR 0xC7] @ ''AMENTO'') = Type_Launch"
  by code_simp

end
