(* ===== verification/LicenseTracker.thy ===== *)
theory LicenseTracker
  imports LicenseDB
begin

text \<open>
  \<open>hooks/useLicenseTracker.ts\<close>, which \<open>Index\<close> mounts: it follows the user's activity
  (DOM events, a check for five minutes of inactivity every minute) and, while the user
  is active, writes \<open>last_activity\<close> on the user's licence every five minutes. The
  timers are events of a step function; the write is recorded as the time and the
  licence rows it touches, since the model's licence rows have no \<open>last_activity\<close>
  column.
\<close>

record tracker_state =
  tr_user :: "uid option"
  tr_active :: bool
  tr_session_start :: "ms option"
  tr_last_activity :: ms
  tr_writes :: "(ms \<times> nat list) list"

text \<open>The state at mount (lines 6--9): active, no session, last activity now.\<close>

definition tracker_init :: "ms \<Rightarrow> tracker_state" where
  "tracker_init now = \<lparr>tr_user = None, tr_active = True, tr_session_start = None,
                       tr_last_activity = now, tr_writes = []\<rparr>"

text \<open>
  The rows the update of lines 55--62 touches: the user's rows with
  \<open>expires_at >= now\<close> (a null expiry fails the comparison), at most one by
  \<open>.limit(1)\<close>, the first in table order.
\<close>

definition tracked_rows :: "uid \<Rightarrow> ms \<Rightarrow> db \<Rightarrow> nat list" where
  "tracked_rows u now d =
     take 1 (map lic_id (filter (\<lambda>l. used_by l = Some u \<and>
       (case expires_at l of Some e \<Rightarrow> now \<le> e | None \<Rightarrow> False)) (licenses d)))"

datatype tracker_event =
    Tr_Auth "uid option" ms
  | Tr_Dom_Event ms
  | Tr_Minute ms
  | Tr_Five_Minutes ms db

text \<open>
  \<open>Tr_Auth\<close>: the first effect re-runs for a new user (lines 11--47): for a user it
  starts the session and counts as activity. \<open>Tr_Dom_Event\<close>: a listened event
  (\<open>handleActivity\<close>, lines 14--17), only while a user is set. \<open>Tr_Minute\<close>: the
  inactivity timer (lines 30--35). \<open>Tr_Five_Minutes\<close>: the activity interval of the
  second effect (lines 49--72), which exists only for an active user.
\<close>

fun tracker_step :: "tracker_state \<Rightarrow> tracker_event \<Rightarrow> tracker_state" where
  "tracker_step st (Tr_Auth user now) =
     (case user of
        None \<Rightarrow> st\<lparr>tr_user := None\<rparr>
      | Some u \<Rightarrow> st\<lparr>tr_user := Some u, tr_session_start := Some now, tr_last_activity := now,
                     tr_active := True\<rparr>)"
| "tracker_step st (Tr_Dom_Event now) =
     (if tr_user st = None then st else st\<lparr>tr_active := True, tr_last_activity := now\<rparr>)"
| "tracker_step st (Tr_Minute now) =
     (if tr_user st \<noteq> None \<and> now - tr_last_activity st > 5 * ms_per_minute
      then st\<lparr>tr_active := False\<rparr> else st)"
| "tracker_step st (Tr_Five_Minutes now d) =
     (case tr_user st of
        Some u \<Rightarrow> if tr_active st then st\<lparr>tr_writes := tr_writes st @ [(now, tracked_rows u now d)]\<rparr> else st
      | None \<Rightarrow> st)"

definition tracker_run :: "tracker_event list \<Rightarrow> tracker_state \<Rightarrow> tracker_state" where
  "tracker_run evs st = foldl tracker_step st evs"

subsection \<open>Lemmas\<close>

text \<open>Every write touches only rows the user redeemed and that had not expired.\<close>

lemma tracked_rows_owned:
  "i \<in> set (tracked_rows u now d) \<Longrightarrow>
   \<exists>l \<in> set (licenses d). lic_id l = i \<and> used_by l = Some u \<and> (\<exists>e. expires_at l = Some e \<and> now \<le> e)"
  by (force simp: tracked_rows_def dest!: in_set_takeD split: option.splits)

lemma tracker_step_writes:
  "tr_writes (tracker_step st ev) = tr_writes st \<or>
   (\<exists>u now d. tr_user st = Some u \<and> tr_active st \<and>
      tr_writes (tracker_step st ev) = tr_writes st @ [(now, tracked_rows u now d)])"
  by (cases ev) (auto split: option.splits)

lemma tracker_inactive_no_write:
  "\<not> tr_active st \<Longrightarrow> tr_writes (tracker_step st (Tr_Five_Minutes now d)) = tr_writes st"
  by (simp split: option.split)

lemma tracker_recent_activity_kept:
  "tr_user st \<noteq> None \<Longrightarrow> now' - now \<le> 5 * ms_per_minute \<Longrightarrow>
   tr_active (tracker_step (tracker_step st (Tr_Dom_Event now)) (Tr_Minute now'))"
  by auto

end
