(* ===== verification/LegacyDashboard.thy ===== *)
theory LegacyDashboard
  imports Expiry
begin

text \<open>
  The first dashboard of the renderer, \<open>components/Dashboard.tsx\<close>, with the chart it
  embeds, \<open>components/PerformanceCharts.tsx\<close>, and its gauge helper
  \<open>components/CircularProgress.tsx\<close> and button \<open>components/OptimizeButton.tsx\<close>.
  No page of the application renders \<open>Dashboard\<close> any longer (\<open>Index\<close> shows
  \<open>NewDashboard\<close>); the code is still in the tree and its behaviour is modelled here as
  it is written. Random draws are reals in \<open>[0, 1)\<close>, passed in as arguments; the two
  timers of \<open>handleOptimize\<close> and the chart's interval are events of a step function.
\<close>

subsection \<open>The real-time chart\<close>

record chart_stats =
  cs_cpu :: real
  cs_ram :: real
  cs_temp :: real

record data_point =
  dp_time :: ms
  dp_cpu :: real
  dp_ram :: real
  dp_temp :: real

record chart_state =
  chart_data :: "data_point list"
  current_stats :: chart_stats

text \<open>The initial \<open>currentStats\<close> (line 23).\<close>

definition chart_stats_init :: chart_stats where
  "chart_stats_init = \<lparr>cs_cpu = 45, cs_ram = 62, cs_temp = 55\<rparr>"

text \<open>
  The \<open>i\<close>-th point of the initial data (lines 28--36): \<open>(20 - i) * 3000\<close> ms before
  now, with CPU \<open>30 + [0, 40)\<close>, RAM \<open>50 + [0, 30)\<close> and temperature \<open>50 + [0, 15)\<close>.
  The time label is kept as the instant it is formatted from.
\<close>

definition initial_point :: "ms \<Rightarrow> nat \<Rightarrow> real \<times> real \<times> real \<Rightarrow> data_point" where
  "initial_point now i r = (case r of (r1, r2, r3) \<Rightarrow>
     \<lparr>dp_time = now - (20 - int i) * 3000, dp_cpu = r1 * 40 + 30, dp_ram = r2 * 30 + 50,
      dp_temp = r3 * 15 + 50\<rparr>)"

definition initial_data :: "ms \<Rightarrow> (nat \<Rightarrow> real \<times> real \<times> real) \<Rightarrow> data_point list" where
  "initial_data now rs = map (\<lambda>i. initial_point now i (rs i)) [0..<20]"

text \<open>\<open>newStats\<close> (lines 42--46): a step of at most 10, 5 and 4 around \<open>cs\<close>, clamped.\<close>

definition new_stats :: "chart_stats \<Rightarrow> real \<times> real \<times> real \<Rightarrow> chart_stats" where
  "new_stats cs r = (case r of (r1, r2, r3) \<Rightarrow>
     \<lparr>cs_cpu = max 10 (min 90 (cs_cpu cs + (r1 - 1 / 2) * 20)),
      cs_ram = max 30 (min 85 (cs_ram cs + (r2 - 1 / 2) * 10)),
      cs_temp = max 40 (min 80 (cs_temp cs + (r3 - 1 / 2) * 8))\<rparr>)"

text \<open>
  One run of the interval callback (lines 40--59). \<open>captured\<close> is the \<open>currentStats\<close>
  the callback closes over: the effect has no dependencies, so it is the value of the
  render that mounted the chart, whatever \<open>setCurrentStats\<close> stored since. The new
  point is appended after \<open>prev.slice(1)\<close>.
\<close>

definition chart_tick :: "chart_stats \<Rightarrow> ms \<Rightarrow> real \<times> real \<times> real \<Rightarrow> chart_state \<Rightarrow> chart_state" where
  "chart_tick captured now r st =
     (let ns = new_stats captured r
      in st\<lparr>current_stats := ns,
            chart_data := drop 1 (chart_data st) @
              [\<lparr>dp_time = now, dp_cpu = cs_cpu ns, dp_ram = cs_ram ns, dp_temp = cs_temp ns\<rparr>]\<rparr>)"

text \<open>The mount effect (lines 25--37) and the ticks that follow, every one with the mount's closure.\<close>

definition chart_mount :: "ms \<Rightarrow> (nat \<Rightarrow> real \<times> real \<times> real) \<Rightarrow> chart_state" where
  "chart_mount now rs = \<lparr>chart_data = initial_data now rs, current_stats = chart_stats_init\<rparr>"

definition chart_run ::
  "ms \<Rightarrow> (nat \<Rightarrow> real \<times> real \<times> real) \<Rightarrow> (ms \<times> real \<times> real \<times> real) list \<Rightarrow> chart_state" where
  "chart_run now rs ticks =
     (let st0 = chart_mount now rs
      in foldl (\<lambda>st (t, r). chart_tick (current_stats st0) t r st) st0 ticks)"

text \<open>The readout of lines 95--103: \<open>toFixed(0)\<close>, which rounds half up like \<open>Math.round\<close> on non-negative values.\<close>

definition chart_header :: "chart_state \<Rightarrow> int \<times> int \<times> int" where
  "chart_header st = (js_round (cs_cpu (current_stats st)), js_round (cs_ram (current_stats st)),
                      js_round (cs_temp (current_stats st)))"

text \<open>
  The three cards under the chart (lines 166--204): CPU and RAM as \<open>toFixed(0)\<close>, the
  memory in use out of 16 GB as \<open>toFixed(1)\<close>, kept here in tenths of a GB, and the
  temperature with its label.
\<close>

datatype temp_label = Temp_Normal | Temp_Elevado | Temp_Alto

definition temp_label :: "real \<Rightarrow> temp_label" where
  "temp_label t = (if t < 60 then Temp_Normal else if t < 75 then Temp_Elevado else Temp_Alto)"

definition chart_cards :: "chart_state \<Rightarrow> int \<times> int \<times> int \<times> int \<times> temp_label" where
  "chart_cards st =
     (let cs = current_stats st
      in (js_round (cs_cpu cs), js_round (cs_ram cs), js_round (10 * (16 * cs_ram cs / 100)),
          js_round (cs_temp cs), temp_label (cs_temp cs)))"

text \<open>
  The series of a point as the chart's three \<open>Area\<close>s name them (lines 138--161), and
  \<open>CustomTooltip\<close> (lines 64--78): nothing unless the tooltip is active with a payload,
  else one line per series with its value as \<open>toFixed(1)\<close>, in tenths.
\<close>

definition point_payload :: "data_point \<Rightarrow> (string \<times> real) list" where
  "point_payload p = [(''CPU'', dp_cpu p), (''RAM'', dp_ram p), (''Temp'', dp_temp p)]"

definition custom_tooltip :: "bool \<Rightarrow> (string \<times> real) list \<Rightarrow> (string \<times> int) list option" where
  "custom_tooltip active payload =
     (if active \<and> payload \<noteq> [] then Some (map (\<lambda>(name, v). (name, js_round (10 * v))) payload) else None)"

definition unit_draw :: "real \<Rightarrow> bool" where
  "unit_draw r \<longleftrightarrow> 0 \<le> r \<and> r < 1"

definition unit_draws3 :: "real \<times> real \<times> real \<Rightarrow> bool" where
  "unit_draws3 r = (case r of (r1, r2, r3) \<Rightarrow> unit_draw r1 \<and> unit_draw r2 \<and> unit_draw r3)"

text \<open>The box every point of the chart lies in when the draws are in \<open>[0, 1)\<close>.\<close>

definition in_chart_box :: "data_point \<Rightarrow> bool" where
  "in_chart_box p \<longleftrightarrow> 30 \<le> dp_cpu p \<and> dp_cpu p < 70 \<and> 50 \<le> dp_ram p \<and> dp_ram p < 80 \<and>
                      50 \<le> dp_temp p \<and> dp_temp p < 65"

subsection \<open>The dashboard\<close>

record dash_stats =
  ds_cpu :: real
  ds_ram :: real
  ds_disk :: real
  ds_temp :: real

text \<open>The initial \<open>stats\<close> (lines 28--33) and those set when the optimisation ends (lines 60--65).\<close>

definition dash_stats_init :: dash_stats where
  "dash_stats_init = \<lparr>ds_cpu = 45, ds_ram = 68, ds_disk = 52, ds_temp = 62\<rparr>"

definition dash_stats_optimized :: dash_stats where
  "dash_stats_optimized = \<lparr>ds_cpu = 18, ds_ram = 32, ds_disk = 38, ds_temp = 48\<rparr>"

text \<open>The updater of the half-second interval (lines 48--53).\<close>

definition decay_stats :: "real \<times> real \<times> real \<times> real \<Rightarrow> dash_stats \<Rightarrow> dash_stats" where
  "decay_stats r prev = (case r of (r1, r2, r3, r4) \<Rightarrow>
     \<lparr>ds_cpu = max 15 (ds_cpu prev - r1 * 10), ds_ram = max 25 (ds_ram prev - r2 * 15),
      ds_disk = max 30 (ds_disk prev - r3 * 8), ds_temp = max 45 (ds_temp prev - r4 * 5)\<rparr>)"

text \<open>
  The component's state (lines 24--33) with the timers \<open>handleOptimize\<close> has
  started and not yet cleared: the ids of the live intervals and of the pending
  timeouts, and the next id.
\<close>

record dash_state =
  d_optimizing :: bool
  d_complete :: bool
  d_license_key :: string
  d_stats :: dash_stats
  d_intervals :: "nat list"
  d_timeouts :: "nat list"
  d_next_timer :: nat

definition dash_init :: dash_state where
  "dash_init = \<lparr>d_optimizing = False, d_complete = False, d_license_key = [],
                d_stats = dash_stats_init, d_intervals = [], d_timeouts = [], d_next_timer = 0\<rparr>"

datatype dash_event =
    Dash_Optimize "sub_view option" ms
  | Dash_Interval nat "real \<times> real \<times> real \<times> real"
  | Dash_Timeout nat
  | Dash_Optimize_Again
  | Dash_Key_Input string

text \<open>
  \<open>Dash_Optimize\<close>: a click on \<open>OptimizeButton\<close>, which is rendered only while
  \<open>optimizationComplete\<close> is false (lines 242--274) and is disabled while
  \<open>isOptimizing\<close> (\<open>OptimizeButton.tsx\<close> line 13); \<open>handleOptimize\<close> (lines 38--67)
  returns on an inactive subscription, else sets the flags and starts interval and
  timeout number \<open>d_next_timer\<close>. \<open>Dash_Interval k\<close> and \<open>Dash_Timeout k\<close>: timer
  \<open>k\<close> fires, if it is live; the timeout clears its interval and sets the final stats.
  \<open>Dash_Optimize_Again\<close>: the link of line 260. \<open>Dash_Key_Input\<close>: the key field of
  lines 166--172, whose \<open>maxLength\<close> keeps 19 characters, stored upper-cased.
\<close>

fun dash_step :: "dash_state \<Rightarrow> dash_event \<Rightarrow> dash_state" where
  "dash_step st (Dash_Optimize sub now) =
     (if d_complete st \<or> d_optimizing st then st
      else if \<not> is_subscription_active sub now then st
      else st\<lparr>d_optimizing := True, d_complete := False,
              d_intervals := d_intervals st @ [d_next_timer st],
              d_timeouts := d_timeouts st @ [d_next_timer st],
              d_next_timer := Suc (d_next_timer st)\<rparr>)"
| "dash_step st (Dash_Interval k r) =
     (if k \<in> set (d_intervals st) then st\<lparr>d_stats := decay_stats r (d_stats st)\<rparr> else st)"
| "dash_step st (Dash_Timeout k) =
     (if k \<in> set (d_timeouts st)
      then st\<lparr>d_intervals := removeAll k (d_intervals st), d_timeouts := removeAll k (d_timeouts st),
              d_optimizing := False, d_complete := True, d_stats := dash_stats_optimized\<rparr>
      else st)"
| "dash_step st Dash_Optimize_Again = st\<lparr>d_complete := False\<rparr>"
| "dash_step st (Dash_Key_Input s) = st\<lparr>d_license_key := js_upper (take 19 s)\<rparr>"

definition dash_run :: "dash_event list \<Rightarrow> dash_state \<Rightarrow> dash_state" where
  "dash_run evs st = foldl dash_step st evs"

text \<open>\<open>redeemKey\<close> (lines 71--109) on the field's content; the field is emptied on success.\<close>

definition dash_redeem :: "uid \<Rightarrow> ms \<Rightarrow> db \<Rightarrow> dash_state \<Rightarrow> redeem_outcome \<times> dash_state \<times> db" where
  "dash_redeem u now d st =
     (let (r, d') = client_redeem u (d_license_key st) now d
      in (r, if r = Redeem_Ok then st\<lparr>d_license_key := []\<rparr> else st, d'))"

datatype gauge_color = Color_Success | Color_Warning | Color_Destructive

text \<open>\<open>getColorByValue\<close> (lines 111--115).\<close>

definition get_color_by_value :: "real \<Rightarrow> gauge_color" where
  "get_color_by_value v = (if v < 40 then Color_Success else if v < 70 then Color_Warning else Color_Destructive)"

text \<open>The four gauges of lines 199--231: the rounded value and the colour of the unrounded one.\<close>

definition dash_gauges :: "dash_state \<Rightarrow> (int \<times> gauge_color) list" where
  "dash_gauges st =
     map (\<lambda>v. (js_round v, get_color_by_value v))
       [ds_cpu (d_stats st), ds_ram (d_stats st), ds_disk (d_stats st), ds_temp (d_stats st)]"

datatype optimize_panel = Panel_Complete | Panel_Button bool

text \<open>The quick-optimise card (lines 242--274): the success panel, or the button with its \<open>isOptimizing\<close>.\<close>

definition optimize_panel :: "dash_state \<Rightarrow> optimize_panel" where
  "optimize_panel st = (if d_complete st then Panel_Complete else Panel_Button (d_optimizing st))"

text \<open>\<open>OptimizeButton\<close>'s two lines of text (lines 51--58).\<close>

definition optimize_button_label :: "bool \<Rightarrow> string \<times> string" where
  "optimize_button_label isOptimizing =
     (if isOptimizing then (''OTIMIZANDO...'', ''Aguarde...'')
      else (''OTIMIZAR AGORA'', ''Clique para otimizar o sistema''))"

text \<open>\<open>CircularProgress\<close>'s stroke geometry (lines 26--36); the defaults are 140 and 8.\<close>

definition circular_offset :: "real \<Rightarrow> real \<Rightarrow> real \<Rightarrow> real" where
  "circular_offset value sz strokeWidth =
     (let radius = (sz - strokeWidth) / 2; circumference = radius * 2 * pi
      in circumference - (value / 100) * circumference)"

text \<open>
  What a run of the dashboard keeps: at most one optimisation in flight, its interval
  and timeout together, the flags agreeing with them, and every gauge between its
  floor and its initial value.
\<close>

definition dash_event_ok :: "dash_event \<Rightarrow> bool" where
  "dash_event_ok ev = (case ev of
     Dash_Interval k (r1, r2, r3, r4) \<Rightarrow> unit_draw r1 \<and> unit_draw r2 \<and> unit_draw r3 \<and> unit_draw r4
   | _ \<Rightarrow> True)"

definition stats_in_range :: "dash_stats \<Rightarrow> bool" where
  "stats_in_range s \<longleftrightarrow> 15 \<le> ds_cpu s \<and> ds_cpu s \<le> 45 \<and> 25 \<le> ds_ram s \<and> ds_ram s \<le> 68 \<and>
                        30 \<le> ds_disk s \<and> ds_disk s \<le> 52 \<and> 45 \<le> ds_temp s \<and> ds_temp s \<le> 62"

definition dash_inv :: "dash_state \<Rightarrow> bool" where
  "dash_inv st \<longleftrightarrow> length (d_intervals st) \<le> 1 \<and> d_timeouts st = d_intervals st \<and>
     (d_optimizing st \<longleftrightarrow> d_intervals st \<noteq> []) \<and> \<not> (d_optimizing st \<and> d_complete st) \<and>
     stats_in_range (d_stats st)"

subsection \<open>Chart lemmas\<close>

lemma new_stats_init_bounds:
  assumes "unit_draws3 r"
  shows "35 \<le> cs_cpu (new_stats chart_stats_init r) \<and> cs_cpu (new_stats chart_stats_init r) < 55 \<and>
         57 \<le> cs_ram (new_stats chart_stats_init r) \<and> cs_ram (new_stats chart_stats_init r) < 67 \<and>
         51 \<le> cs_temp (new_stats chart_stats_init r) \<and> cs_temp (new_stats chart_stats_init r) < 59"
  using assms by (cases r) (auto simp: new_stats_def chart_stats_init_def unit_draws3_def unit_draw_def)

lemma chart_run_snoc:
  "chart_run now rs (ticks @ [(t, r)]) = chart_tick chart_stats_init t r (chart_run now rs ticks)"
  by (simp add: chart_run_def chart_mount_def)

lemma length_initial_data [simp]: "length (initial_data now rs) = 20"
  by (simp add: initial_data_def)

lemma length_chart_run [simp]: "length (chart_data (chart_run now rs ticks)) = 20"
  by (induction ticks rule: rev_induct) (auto simp: chart_run_snoc chart_tick_def Let_def,
      simp add: chart_run_def chart_mount_def)

text \<open>
  The chart's readout does not follow its own history: after any sequence of
  ticks, the current stats are one clamped step from the stats of the first render,
  determined by the last tick's draws alone, because the interval callback closes over
  the mounting render's \<open>currentStats\<close>.
\<close>

theorem chart_readout_stale:
  "current_stats (chart_run now rs (ticks @ [(t, r)])) = new_stats chart_stats_init r"
  by (simp add: chart_run_snoc chart_tick_def Let_def)

lemma initial_data_box:
  "(\<forall>i < 20. unit_draws3 (rs i)) \<Longrightarrow> p \<in> set (initial_data now rs) \<Longrightarrow> in_chart_box p"
  by (auto simp: initial_data_def initial_point_def in_chart_box_def unit_draws3_def unit_draw_def
           split: prod.splits)

lemma chart_window_bounds:
  assumes "\<forall>i < 20. unit_draws3 (rs i)" and "\<forall>(t, r) \<in> set ticks. unit_draws3 r"
  shows "length (chart_data (chart_run now rs ticks)) = 20 \<and>
         (\<forall>p \<in> set (chart_data (chart_run now rs ticks)). in_chart_box p)"
  using assms(2)
proof (induction ticks rule: rev_induct)
  case Nil
  then show ?case using initial_data_box [OF assms(1)] by (simp add: chart_run_def chart_mount_def)
next
  case (snoc x ticks)
  obtain t r where x: "x = (t, r)" by (cases x)
  with snoc.prems have r: "unit_draws3 r" by auto
  from snoc have ih: "\<forall>p \<in> set (chart_data (chart_run now rs ticks)). in_chart_box p" by auto
  have "in_chart_box \<lparr>dp_time = t, dp_cpu = cs_cpu (new_stats chart_stats_init r),
          dp_ram = cs_ram (new_stats chart_stats_init r), dp_temp = cs_temp (new_stats chart_stats_init r)\<rparr>"
    using new_stats_init_bounds [OF r] by (simp add: in_chart_box_def)
  with ih show ?case by (auto simp: x chart_run_snoc chart_tick_def Let_def dest: in_set_dropD)
qed

lemma chart_header_range:
  assumes "unit_draws3 r"
  shows "chart_header (chart_run now rs (ticks @ [(t, r)])) \<in> {35..55} \<times> {57..67} \<times> {51..59}"
proof -
  note b = new_stats_init_bounds [OF assms]
  show ?thesis
    unfolding chart_header_def chart_run_snoc
    using b by (simp add: chart_tick_def Let_def js_round_ge_iff js_round_le_iff)
qed

text \<open>
  C38: After any sequence of interval ticks whose random draws lie in [0, 1), the cards
  under the chart never leave the first render's neighbourhood: CPU 35--55 %, RAM
  57--67 %, memory 9.1--10.7 GB, temperature 51--59 C, always labelled \<open>Normal\<close>
  (the \<open>Elevado\<close> and \<open>Alto\<close> labels are unreachable), because the callback
  steps from the mounting render's stats.
\<close>

theorem chart_cards_range:
  assumes "unit_draws3 r"
  shows "chart_cards (chart_run now rs (ticks @ [(t, r)])) \<in>
           {35..55} \<times> {57..67} \<times> {91..107} \<times> {51..59} \<times> {Temp_Normal}"
proof -
  note b = new_stats_init_bounds [OF assms]
  show ?thesis
    unfolding chart_cards_def chart_run_snoc
    using b by (simp add: chart_tick_def Let_def js_round_ge_iff js_round_le_iff temp_label_def)
qed

text \<open>Hovering a point of the chart shows its three series, to one decimal.\<close>

lemma tooltip_point:
  "custom_tooltip True (point_payload p) =
     Some [(''CPU'', js_round (10 * dp_cpu p)), (''RAM'', js_round (10 * dp_ram p)), (''Temp'', js_round (10 * dp_temp p))]"
  by (simp add: custom_tooltip_def point_payload_def)

subsection \<open>Dashboard lemmas\<close>

lemma decay_stats_in_range:
  "stats_in_range s \<Longrightarrow> dash_event_ok (Dash_Interval k r) \<Longrightarrow> stats_in_range (decay_stats r s)"
  by (cases r) (auto simp: decay_stats_def stats_in_range_def dash_event_ok_def unit_draw_def)

lemma dash_step_inv:
  assumes "dash_inv st" and "dash_event_ok ev"
  shows "dash_inv (dash_step st ev)"
proof (cases ev)
  case (Dash_Interval k r)
  then show ?thesis using assms decay_stats_in_range by (auto simp: dash_inv_def)
next
  case (Dash_Timeout k)
  then show ?thesis using assms
    by (auto simp: dash_inv_def stats_in_range_def dash_stats_optimized_def length_Suc_conv le_Suc_eq)
qed (use assms in \<open>auto simp: dash_inv_def\<close>)

text \<open>
  In every run of the dashboard from its initial state, with draws in \<open>[0, 1)\<close>,
  at most one optimisation is in flight, its interval and timeout are live together,
  \<open>isOptimizing\<close> holds exactly while they are, the success panel and the running
  button are never shown together, and every gauge stays between its floor and its
  initial value.
\<close>

theorem dash_run_inv:
  assumes "\<forall>ev \<in> set evs. dash_event_ok ev"
  shows "dash_inv (dash_run evs dash_init)"
proof -
  have "dash_inv st \<Longrightarrow> dash_inv (foldl dash_step st evs)" for st
    using assms by (induction evs arbitrary: st) (auto intro: dash_step_inv)
  moreover have "dash_inv dash_init"
    by (simp add: dash_inv_def dash_init_def stats_in_range_def dash_stats_init_def)
  ultimately show ?thesis by (simp add: dash_run_def)
qed

lemma dash_timeout_gauges:
  assumes "k \<in> set (d_timeouts st)"
  shows "dash_gauges (dash_step st (Dash_Timeout k)) =
           [(18, Color_Success), (32, Color_Success), (38, Color_Success), (48, Color_Warning)] \<and>
         optimize_panel (dash_step st (Dash_Timeout k)) = Panel_Complete"
  using assms by (simp add: dash_gauges_def dash_stats_optimized_def get_color_by_value_def optimize_panel_def)

lemma circular_offset_range:
  assumes "0 \<le> value" "value \<le> 100" "strokeWidth \<le> sz"
  shows "0 \<le> circular_offset value sz strokeWidth \<and>
         circular_offset value sz strokeWidth \<le> (sz - strokeWidth) * pi"
proof -
  define c where "c = (sz - strokeWidth) / 2 * 2 * pi"
  have c0: "0 \<le> c" and c: "c = (sz - strokeWidth) * pi" using assms(3) by (simp_all add: c_def)
  have eq: "circular_offset value sz strokeWidth = (1 - value / 100) * c"
    unfolding circular_offset_def Let_def c_def by (simp only: left_diff_distrib mult_1)
  have y0: "0 \<le> 1 - value / 100" and y1: "1 - value / 100 \<le> 1" using assms(1,2) by simp_all
  show ?thesis
    unfolding eq c [symmetric] using mult_nonneg_nonneg [OF y0 c0] mult_left_le_one_le [OF c0 y0 y1] by simp
qed

subsection \<open>Witnesses\<close>

theorem dash_run_inv_witness:
  "dash_event_ok (Dash_Optimize (Some \<lparr>view_expires_at = Some 10, view_source = ''license''\<rparr>) 0) \<and>
   dash_event_ok (Dash_Interval 0 (1 / 2, 1 / 2, 1 / 2, 1 / 2)) \<and> dash_event_ok (Dash_Timeout 0) \<and>
   dash_inv (dash_run [Dash_Optimize (Some \<lparr>view_expires_at = Some 10, view_source = ''license''\<rparr>) 0,
                Dash_Interval 0 (1 / 2, 1 / 2, 1 / 2, 1 / 2), Dash_Timeout 0] dash_init)"
proof -
  have h: "\<forall>ev \<in> set [Dash_Optimize (Some \<lparr>view_expires_at = Some 10, view_source = ''license''\<rparr>) 0,
                Dash_Interval 0 (1 / 2, 1 / 2, 1 / 2, 1 / 2), Dash_Timeout 0]. dash_event_ok ev"
    by (simp add: dash_event_ok_def unit_draw_def)
  show ?thesis using h dash_run_inv [OF h] by simp
qed

lemma chart_cards_range_witness:
  "unit_draws3 (0, 0, 0) \<and>
   chart_cards (chart_run 0 (\<lambda>_. (0, 0, 0)) [(1000, (0, 0, 0))]) \<in>
     {35..55} \<times> {57..67} \<times> {91..107} \<times> {51..59} \<times> {Temp_Normal}"
proof -
  have r: "unit_draws3 (0, 0, 0)" by (simp add: unit_draws3_def unit_draw_def)
  show ?thesis using r chart_cards_range [OF r, of 0 "\<lambda>_. (0, 0, 0)" "[]" 1000] by simp
qed

end
