(* ===== verification/LegacyShell.thy ===== *)
theory LegacyShell
  imports AdminViews MainProcess
begin

text \<open>
  The first shell of the renderer that no page mounts any longer: the side bar
  \<open>components/Sidebar.tsx\<close> and the admin panel \<open>components/AdminPanel.tsx\<close>
  (\<open>Index\<close> now uses \<open>NewSidebar\<close> and \<open>AdminPanelComplete\<close>). The panel reads and
  writes the same tables as the new one (\<open>LicenseDB.generate_key\<close>,
  \<open>LicenseDB.delete_license\<close>, \<open>AdminViews.fetch_keys\<close>); its state and its
  events are a step function on the pair of the panel's state and the tables. A
  request that fails is a flag of its event.
\<close>

subsection \<open>The side bar\<close>

text \<open>
  The tabs the side bar offers (lines 17--19, 72--99 and 104--128): the dashboard, and
  for an admin the Admin entry and the three buttons of the bottom area.
\<close>

definition old_menu_items :: "bool \<Rightarrow> string list" where
  "old_menu_items isAdmin =
     [''dashboard''] @ (if isAdmin then [''admin'', ''admin-generate'', ''admin-keys'', ''admin-users''] else [])"

subsection \<open>The admin panel\<close>

record old_panel =
  op_sub_tab :: string
  op_keys :: "license list"
  op_loading :: bool
  op_copied :: "string option"
  op_copy_timers :: "nat list"
  op_next_timer :: nat
  op_duration :: int

text \<open>The state at mount (lines 31--36): \<open>activeSubTab || 'admin-generate'\<close>, loading, 30 days.\<close>

definition old_panel_init :: "string option \<Rightarrow> old_panel" where
  "old_panel_init activeSubTab =
     \<lparr>op_sub_tab = js_or_str activeSubTab ''admin-generate'', op_keys = [], op_loading = True,
      op_copied = None, op_copy_timers = [], op_next_timer = 0, op_duration = 30\<rparr>"

datatype old_panel_event =
    OP_Fetched bool
  | OP_Sub_Tab_Prop "string option"
  | OP_Tab_Click string
  | OP_Select_Duration int
  | OP_Generate "uid option" ms "nat \<Rightarrow> 32 word" bool bool
  | OP_Copy string
  | OP_Copy_Timeout nat
  | OP_Delete nat bool bool

text \<open>
  The keys list is on screen for an admin on the \<open>admin-keys\<close> tab once loading is over
  (lines 289--311); a copy button only on an unused key (line 384).
\<close>

definition keys_listed :: "bool \<Rightarrow> old_panel \<Rightarrow> bool" where
  "keys_listed isAdmin p \<longleftrightarrow> isAdmin \<and> op_sub_tab p = ''admin-keys'' \<and> \<not> op_loading p"

text \<open>
  \<open>OP_Fetched failed\<close>: the mount effect's \<open>fetchKeys\<close> (lines 38--64), which runs
  before the admin gate. \<open>OP_Sub_Tab_Prop\<close>: the effect on \<open>activeSubTab\<close>
  (lines 66--68). \<open>OP_Tab_Click\<close>, \<open>OP_Select_Duration\<close>: the three tab buttons
  (lines 172--190) and the duration options (lines 264--273). \<open>OP_Generate\<close>:
  \<open>generateKey\<close> (lines 70--116) with the insert's and the re-fetch's failure;
  \<open>OP_Copy\<close>: \<open>copyKey\<close> (lines 118--123), which starts a two-second timer;
  \<open>OP_Copy_Timeout t\<close>: that timer; \<open>OP_Delete\<close>: \<open>deleteKey\<close> (lines 125--143).
  An event whose control is not on screen leaves everything unchanged.
\<close>

fun old_panel_step :: "bool \<Rightarrow> old_panel \<times> db \<Rightarrow> old_panel_event \<Rightarrow> old_panel \<times> db" where
  "old_panel_step isAdmin (p, d) (OP_Fetched failed) =
     (p\<lparr>op_keys := fetch_keys failed d, op_loading := False\<rparr>, d)"
| "old_panel_step isAdmin (p, d) (OP_Sub_Tab_Prop s) =
     ((case s of Some t \<Rightarrow> if t \<noteq> [] then p\<lparr>op_sub_tab := t\<rparr> else p | None \<Rightarrow> p), d)"
| "old_panel_step isAdmin (p, d) (OP_Tab_Click t) =
     (if isAdmin \<and> t \<in> set [''admin-generate'', ''admin-keys'', ''admin-users''] then (p\<lparr>op_sub_tab := t\<rparr>, d)
      else (p, d))"
| "old_panel_step isAdmin (p, d) (OP_Select_Duration n) =
     (if isAdmin \<and> op_sub_tab p = ''admin-generate'' \<and> n \<in> set [1, 7, 30, 90, 365]
      then (p\<lparr>op_duration := n\<rparr>, d) else (p, d))"
| "old_panel_step isAdmin (p, d) (OP_Generate user now rnd insertFailed fetchFailed) =
     (if \<not> isAdmin \<or> op_sub_tab p \<noteq> ''admin-generate'' \<or> insertFailed then (p, d)
      else (let d' = generate_key user now (op_duration p) rnd d
            in (p\<lparr>op_keys := fetch_keys fetchFailed d', op_loading := False\<rparr>, d')))"
| "old_panel_step isAdmin (p, d) (OP_Copy k) =
     (if keys_listed isAdmin p \<and> k \<in> set (map lic_key (filter (\<lambda>l. \<not> is_used l) (op_keys p)))
      then (p\<lparr>op_copied := Some k, op_copy_timers := op_copy_timers p @ [op_next_timer p],
              op_next_timer := Suc (op_next_timer p)\<rparr>, d)
      else (p, d))"
| "old_panel_step isAdmin (p, d) (OP_Copy_Timeout t) =
     (if t \<in> set (op_copy_timers p)
      then (p\<lparr>op_copied := None, op_copy_timers := removeAll t (op_copy_timers p)\<rparr>, d) else (p, d))"
| "old_panel_step isAdmin (p, d) (OP_Delete i deleteFailed fetchFailed) =
     (if \<not> keys_listed isAdmin p \<or> i \<notin> set (map lic_id (op_keys p)) \<or> deleteFailed then (p, d)
      else (let d' = delete_license i d
            in (p\<lparr>op_keys := fetch_keys fetchFailed d', op_loading := False\<rparr>, d')))"

definition old_panel_run :: "bool \<Rightarrow> old_panel_event list \<Rightarrow> old_panel \<times> db \<Rightarrow> old_panel \<times> db" where
  "old_panel_run isAdmin evs s = foldl (old_panel_step isAdmin) s evs"

datatype old_panel_section = OP_Generate_Section | OP_Keys_Section

text \<open>
  What the panel renders (lines 145--154, 193--245, 248 and 289): nothing but
  \<open>Access denied\<close> for a non-admin; else the counters of the fetched keys and the
  section of the sub-tab, if it has one.
\<close>

definition old_panel_view :: "bool \<Rightarrow> old_panel \<Rightarrow> (key_stats \<times> old_panel_section option) option" where
  "old_panel_view isAdmin p =
     (if \<not> isAdmin then None
      else Some (keys_stats (op_keys p),
                 if op_sub_tab p = ''admin-generate'' then Some OP_Generate_Section
                 else if op_sub_tab p = ''admin-keys'' then Some OP_Keys_Section else None))"

datatype expiry_label = Expires_In_Days int | Expired_On ms

text \<open>The expiry line of a key row (lines 359--370): whole days left, rounded up, or the date it expired.\<close>

definition key_expiry_label :: "ms \<Rightarrow> license \<Rightarrow> expiry_label option" where
  "key_expiry_label now l =
     (case expires_at l of
        None \<Rightarrow> None
      | Some e \<Rightarrow> Some (if now < e then Expires_In_Days \<lceil>of_int (e - now) / (of_int ms_per_day :: real)\<rceil>
                       else Expired_On e))"

text \<open>Every fetch of a run succeeds.\<close>

definition op_fetch_ok :: "old_panel_event \<Rightarrow> bool" where
  "op_fetch_ok ev = (case ev of
     OP_Fetched failed \<Rightarrow> \<not> failed
   | OP_Generate _ _ _ _ fetchFailed \<Rightarrow> \<not> fetchFailed
   | OP_Delete _ _ fetchFailed \<Rightarrow> \<not> fetchFailed
   | _ \<Rightarrow> True)"

subsection \<open>Lemmas\<close>

text \<open>
  With no other writer, the keys list on screen is the table as \<open>fetchKeys\<close> orders
  it whenever loading is over: every write of the panel is followed by a re-fetch.
\<close>

lemma old_panel_step_sync:
  assumes "op_fetch_ok ev" and "op_loading p \<or> op_keys p = load_licenses d"
  shows "case old_panel_step isAdmin (p, d) ev of (p', d') \<Rightarrow> op_loading p' \<or> op_keys p' = load_licenses d'"
  using assms by (cases ev) (auto simp: op_fetch_ok_def fetch_keys_def Let_def split: option.splits)

lemma old_panel_keys_sync:
  assumes "\<forall>ev \<in> set evs. op_fetch_ok ev"
  shows "case old_panel_run isAdmin evs (old_panel_init s, d) of
           (p', d') \<Rightarrow> op_loading p' \<or> op_keys p' = load_licenses d'"
proof -
  have "op_loading p \<or> op_keys p = load_licenses d \<Longrightarrow>
        case foldl (old_panel_step isAdmin) (p, d) evs of (p', d') \<Rightarrow> op_loading p' \<or> op_keys p' = load_licenses d'"
    for p d
    using assms
  proof (induction evs arbitrary: p d)
    case Nil then show ?case by simp
  next
    case (Cons ev evs)
    obtain p1 d1 where s: "old_panel_step isAdmin (p, d) ev = (p1, d1)" by fastforce
    with old_panel_step_sync [of ev p d isAdmin] Cons.prems have "op_loading p1 \<or> op_keys p1 = load_licenses d1" by simp
    with Cons.IH [of p1 d1] Cons.prems s show ?case by simp
  qed
  then show ?thesis by (simp add: old_panel_run_def old_panel_init_def)
qed

text \<open>
  The copied mark of a key goes away with the timer of an earlier copy: every copy
  starts a timer that clears \<open>copiedKey\<close> whichever key it holds, so after copying
  \<open>a\<close> then \<open>b\<close>, \<open>a\<close>'s timer removes \<open>b\<close>'s mark before its two seconds.
\<close>

lemma old_panel_copy_cleared_early:
  assumes "keys_listed isAdmin p" and "op_copy_timers p = []"
    and "a \<in> set (map lic_key (filter (\<lambda>l. \<not> is_used l) (op_keys p)))"
    and "b \<in> set (map lic_key (filter (\<lambda>l. \<not> is_used l) (op_keys p)))"
  shows "op_copied (fst (old_panel_run isAdmin [OP_Copy a, OP_Copy b, OP_Copy_Timeout (op_next_timer p)] (p, d))) = None \<and>
         op_copy_timers (fst (old_panel_run isAdmin [OP_Copy a, OP_Copy b, OP_Copy_Timeout (op_next_timer p)] (p, d))) =
           [Suc (op_next_timer p)]"
  using assms by (simp add: old_panel_run_def keys_listed_def)

text \<open>
  The side bar's entries, passed to the panel as \<open>activeSubTab\<close>: only
  \<open>admin-generate\<close> and \<open>admin-keys\<close> open a section; the Admin entry and
  \<open>Usuarios\<close> show the counters alone.
\<close>

lemma old_sidebar_admin_sections:
  "map (\<lambda>t. map_option snd (old_panel_view True (old_panel_init (Some t)))) (old_menu_items True) =
     [Some None, Some None, Some (Some OP_Generate_Section), Some (Some OP_Keys_Section), Some None]"
  by (simp add: old_menu_items_def old_panel_view_def old_panel_init_def js_or_str_def)

text \<open>For a non-admin the panel writes nothing, whatever is clicked.\<close>

lemma old_panel_non_admin_no_write:
  "snd (old_panel_run False evs (p, d)) = d"
proof (induction evs arbitrary: p)
  case Nil then show ?case by (simp add: old_panel_run_def)
next
  case (Cons ev evs)
  obtain p1 d1 where s: "old_panel_step False (p, d) ev = (p1, d1)" by fastforce
  have "d1 = d" using s by (cases ev) (auto simp: keys_listed_def Let_def split: if_splits)
  with Cons.IH [of p1] s show ?case by (simp add: old_panel_run_def)
qed

text \<open>The days left of an unexpired key are at least one, and the ceiling is an integer division.\<close>

lemma key_expiry_label_future:
  assumes "expires_at l = Some e" and "now < e"
  shows "key_expiry_label now l = Some (Expires_In_Days (- ((now - e) div ms_per_day))) \<and>
         1 \<le> - ((now - e) div ms_per_day)"
proof -
  have "\<lceil>of_int (e - now) / (of_int ms_per_day :: real)\<rceil> = - \<lfloor>of_int (now - e) / (of_int ms_per_day :: real)\<rfloor>"
    by (simp add: ceiling_def minus_divide_left)
  also have "\<dots> = - ((now - e) div ms_per_day)" by (simp only: floor_divide_of_int_eq)
  finally have c: "\<lceil>of_int (e - now) / (of_int ms_per_day :: real)\<rceil> = - ((now - e) div ms_per_day)" .
  have "(now - e) div ms_per_day < 0" using assms(2) by (simp add: ms_per_day_def div_neg_pos_less0)
  then show ?thesis using assms c by (simp add: key_expiry_label_def)
qed
end
