(* ===== verification/DashboardPage.thy ===== *)
theory DashboardPage
  imports Metrics IndexPage Expiry
begin

text \<open>
  The page the signed-in user sees: the state of \<open>components/NewDashboard.tsx\<close> apart from
  the optimise loop (which is \<open>Optimize.handle_optimize\<close>), the PRO status of
  \<open>components/NewHeader.tsx\<close>, and how \<open>pages/Index.tsx\<close> mounts the dashboard and
  wires the header's activate button to the dashboard's key card. The dashboard's state
  exists only while it is mounted: switching to a tab that renders something else
  unmounts it, and coming back mounts a fresh one.
\<close>

subsection \<open>The dashboard's own state\<close>

record nd_state =
  nd_user_count :: nat
  nd_system_info :: system_info
  nd_show_key_input :: bool
  nd_license_key :: string
  nd_reload_at :: "ms option"

text \<open>The state at mount (lines 28--38); \<open>nd_reload_at\<close> is the pending \<open>window.location.reload\<close>.\<close>

definition nd_init :: nd_state where
  "nd_init = \<lparr>nd_user_count = 0,
              nd_system_info = \<lparr>si_cpu = 0, si_mem = Pct 0, si_disk = Pct 0, si_processes = 0\<rparr>,
              nd_show_key_input = False, nd_license_key = [], nd_reload_at = None\<rparr>"

text \<open>\<open>getUserCount\<close> (lines 59--70): the exact count of \<open>profiles\<close> rows, kept on an error.\<close>

definition get_user_count :: "bool \<Rightarrow> db \<Rightarrow> nd_state \<Rightarrow> nd_state" where
  "get_user_count failed d st = (if failed then st else st\<lparr>nd_user_count := card (dom (profiles d))\<rparr>)"

text \<open>
  \<open>fetchRealTimeMetrics\<close> (lines 73--102), at mount and every ten seconds: only with
  the IPC bridge, and only a non-null answer replaces the cards' readings.
\<close>

definition fetch_real_time_metrics :: "bool \<Rightarrow> ipc_result \<Rightarrow> nd_state \<Rightarrow> nd_state" where
  "fetch_real_time_metrics hasApi ipc st =
     (if \<not> hasApi then st
      else case ipc of Ipc_Value m \<Rightarrow> st\<lparr>nd_system_info := system_info_of m\<rparr> | _ \<Rightarrow> st)"

text \<open>
  \<open>redeemKey\<close> (lines 183--224): the client redemption of \<open>LicenseDB.client_redeem\<close>;
  on success the key card closes, the field is emptied and the page reloads one
  second later.
\<close>

definition nd_redeem :: "uid \<Rightarrow> ms \<Rightarrow> db \<Rightarrow> nd_state \<Rightarrow> redeem_outcome \<times> nd_state \<times> db" where
  "nd_redeem u now d st =
     (let (r, d') = client_redeem u (nd_license_key st) now d
      in (r, if r = Redeem_Ok
             then st\<lparr>nd_show_key_input := False, nd_license_key := [], nd_reload_at := Some (now + 1000)\<rparr>
             else st, d'))"

text \<open>The PRO card with its key field is rendered only without an active subscription (line 352).\<close>

definition key_card_shown :: "sub_view option \<Rightarrow> ms \<Rightarrow> bool" where
  "key_card_shown sub now \<longleftrightarrow> \<not> is_subscription_active sub now"

datatype nd_event =
    ND_User_Count bool
  | ND_Metrics bool ipc_result
  | ND_Show_Key_Input
  | ND_Key_Input string
  | ND_Redeem uid

text \<open>
  One event of the dashboard under the session's subscription at time \<open>now\<close>: the two
  fetches, the \<open>Inserir Key\<close> button (lines 368--375, shown while the field is not),
  the field (lines 378--382, stored upper-cased) and its button (lines 385--391).
\<close>

fun nd_step :: "sub_view option \<Rightarrow> ms \<Rightarrow> nd_state \<times> db \<Rightarrow> nd_event \<Rightarrow> nd_state \<times> db" where
  "nd_step sub now (st, d) (ND_User_Count failed) = (get_user_count failed d st, d)"
| "nd_step sub now (st, d) (ND_Metrics hasApi ipc) = (fetch_real_time_metrics hasApi ipc st, d)"
| "nd_step sub now (st, d) ND_Show_Key_Input =
     (if key_card_shown sub now \<and> \<not> nd_show_key_input st then (st\<lparr>nd_show_key_input := True\<rparr>, d) else (st, d))"
| "nd_step sub now (st, d) (ND_Key_Input s) =
     (if key_card_shown sub now \<and> nd_show_key_input st then (st\<lparr>nd_license_key := js_upper s\<rparr>, d) else (st, d))"
| "nd_step sub now (st, d) (ND_Redeem u) =
     (if key_card_shown sub now \<and> nd_show_key_input st then snd (nd_redeem u now d st) else (st, d))"

subsection \<open>What the dashboard renders\<close>

datatype key_card = Key_Card_Button | Key_Card_Field string

record nd_view =
  v_user_count :: string
  v_process_count :: int
  v_process_status :: "string \<times> string"
  v_optimize_button :: "string \<times> bool"
  v_key_card :: "key_card option"

text \<open>The sub-label of the process card (lines 227--233).\<close>

definition process_sublabel :: "int \<Rightarrow> string" where
  "process_sublabel count =
     (if count < 80 then ''Baixa carga'' else if count < 150 then ''Uso moderado'' else ''Muitos processos'')"

text \<open>
  The dashboard's view (lines 235--395) under the session's subscription at \<open>now\<close>
  while \<open>handleOptimize\<close> is or is not running: the user count as
  \<open>toLocaleString('pt-BR')\<close>, the process card, the optimise button's label and
  \<open>disabled\<close> flag, and the PRO card, absent with an active subscription, else its
  \<open>Inserir Key\<close> button or the key field with its value.
\<close>

definition nd_render :: "sub_view option \<Rightarrow> ms \<Rightarrow> bool \<Rightarrow> nd_state \<Rightarrow> nd_view" where
  "nd_render sub now isOptimizing st =
     (let count = si_processes (nd_system_info st)
      in \<lparr>v_user_count = locale_pt_br (nd_user_count st),
          v_process_count = count,
          v_process_status = (process_status count, process_sublabel count),
          v_optimize_button =
            (if isOptimizing then (''Otimizando...'', True) else (''Come'' @ [CHR 0xE7] @ ''ar otimiza'' @ [CHR 0xE7, CHR 0xE3] @ ''o'', False)),
          v_key_card =
            (if key_card_shown sub now
             then Some (if nd_show_key_input st then Key_Card_Field (nd_license_key st) else Key_Card_Button)
             else None)\<rparr>)"

subsection \<open>The header's PRO status\<close>

datatype pro_status = Pro_Active "countdown option" | Pro_Inactive

text \<open>
  Lines 78--105 of \<open>NewHeader\<close>: \<open>Ativo\<close> with the countdown state when the
  subscription is active, else the inactive label and the \<open>Ativar\<close> button.
  \<open>timeLeft\<close> is the state the initialiser and the one-second interval
  (lines 18--49) set with \<open>Expiry.time_left\<close>.
\<close>

definition header_pro_status :: "sub_view option \<Rightarrow> ms \<Rightarrow> countdown option \<Rightarrow> pro_status" where
  "header_pro_status sub now timeLeft =
     (if is_subscription_active sub now then Pro_Active timeLeft else Pro_Inactive)"

subsection \<open>The header's countdown interval and About dialog\<close>

text \<open>
  The state of \<open>NewHeader\<close> itself: the About dialog flag (line 13), the countdown
  state \<open>timeLeft\<close> (line 18), the expiry the running one-second interval captured
  (\<open>None\<close> while no interval runs, lines 33--49) and the URLs opened in the browser.
\<close>

record header_state =
  hd_show_about :: bool
  hd_time_left :: "countdown option"
  hd_interval :: "ms option"
  hd_opened :: "string list"

definition sub_expires :: "sub_view option \<Rightarrow> ms option" where
  "sub_expires sub = (case sub of None \<Rightarrow> None | Some s \<Rightarrow> view_expires_at s)"

definition discord_url :: string where
  "discord_url = ''https://discord.gg/93ftMpKXw9''"

text \<open>
  Mounting under the session's subscription at \<open>now\<close>: the dialog closed, the
  countdown from the initialiser (lines 18--31) and the effect's interval started when
  there is an expiry (lines 33--35).
\<close>

definition hd_mount :: "sub_view option \<Rightarrow> ms \<Rightarrow> header_state" where
  "hd_mount sub now =
     \<lparr>hd_show_about = False, hd_time_left = time_left sub now, hd_interval = sub_expires sub, hd_opened = []\<rparr>"

datatype hd_event =
    HD_Sub_Change "sub_view option"
  | HD_Tick ms
  | HD_About_Open
  | HD_Backdrop_Click
  | HD_Dialog_Click
  | HD_Understood_Click
  | HD_Discord_Click

text \<open>
  \<open>HD_Sub_Change\<close>: the session's subscription changes; the effect depends on
  \<open>subscription?.expires_at\<close> only, so it clears the old interval and starts one
  with the new expiry, leaving \<open>timeLeft\<close> as it is until the first tick.
  \<open>HD_Tick\<close>: the interval's callback at \<open>now\<close> (lines 36--46) with the expiry
  it captured. \<open>HD_About_Open\<close>: \<open>Sobre o programa\<close> (line 123). The backdrop
  (line 138) and \<open>Entendi!\<close> (line 171) close the dialog; a click inside it stops
  there (line 142). \<open>HD_Discord_Click\<close>: \<open>handleDiscordClick\<close> (lines 58--60).
\<close>

fun hd_step :: "header_state \<Rightarrow> hd_event \<Rightarrow> header_state" where
  "hd_step st (HD_Sub_Change sub) =
     (if sub_expires sub = hd_interval st then st else st\<lparr>hd_interval := sub_expires sub\<rparr>)"
| "hd_step st (HD_Tick now) =
     (case hd_interval st of
        None \<Rightarrow> st
      | Some e \<Rightarrow> st\<lparr>hd_time_left := time_left (Some \<lparr>view_expires_at = Some e, view_source = []\<rparr>) now\<rparr>)"
| "hd_step st HD_About_Open = st\<lparr>hd_show_about := True\<rparr>"
| "hd_step st HD_Backdrop_Click = (if hd_show_about st then st\<lparr>hd_show_about := False\<rparr> else st)"
| "hd_step st HD_Dialog_Click = st"
| "hd_step st HD_Understood_Click = (if hd_show_about st then st\<lparr>hd_show_about := False\<rparr> else st)"
| "hd_step st HD_Discord_Click = st\<lparr>hd_opened := hd_opened st @ [discord_url]\<rparr>"

definition hd_run :: "header_state \<Rightarrow> hd_event list \<Rightarrow> header_state" where
  "hd_run st evs = foldl hd_step st evs"

subsection \<open>The page\<close>

text \<open>
  The tab of \<open>Index\<close>, the mounted dashboard (\<open>None\<close> while another view is
  rendered) and the number of pending 100 ms timers of \<open>handleActivateClick\<close>.
\<close>

record page_state =
  pg_tab :: string
  pg_dash :: "nd_state option"
  pg_activate_timers :: nat

text \<open>
  \<open>setActiveTab\<close> with React's reconciliation: the dashboard keeps its state while
  \<open>renderContent\<close> keeps rendering it, and is mounted afresh otherwise.
\<close>

definition pg_set_tab :: "bool \<Rightarrow> string \<Rightarrow> page_state \<Rightarrow> page_state" where
  "pg_set_tab isAdmin t ps =
     ps\<lparr>pg_tab := t,
        pg_dash := (if render_content isAdmin t = View_Dashboard
                    then (case pg_dash ps of Some s \<Rightarrow> Some s | None \<Rightarrow> Some nd_init) else None)\<rparr>"

datatype pg_event = PG_Page page_event | PG_Activate_Timer | PG_Dash nd_event

text \<open>
  \<open>PG_Page\<close>: a tab event of \<open>IndexPage.page_step\<close>; the header's activate button also
  starts a 100 ms timer (\<open>handleActivateClick\<close>, lines 169--179). \<open>PG_Activate_Timer\<close>:
  that timer clicks the element \<open>[data-show-key-input]\<close> when it is in the document,
  that is when the dashboard is mounted with its key card closed. \<open>PG_Dash\<close>: an event
  of the mounted dashboard.
\<close>

fun pg_step :: "bool \<Rightarrow> sub_view option \<Rightarrow> ms \<Rightarrow> page_state \<times> db \<Rightarrow> pg_event \<Rightarrow> page_state \<times> db" where
  "pg_step isAdmin sub now (ps, d) (PG_Page ev) =
     (let ps' = pg_set_tab isAdmin (page_step (pg_tab ps) ev) ps
      in (if ev = Activate_Click then ps'\<lparr>pg_activate_timers := Suc (pg_activate_timers ps)\<rparr> else ps', d))"
| "pg_step isAdmin sub now (ps, d) PG_Activate_Timer =
     (if pg_activate_timers ps = 0 then (ps, d)
      else (let ps' = ps\<lparr>pg_activate_timers := pg_activate_timers ps - 1\<rparr>
            in case pg_dash ps of
                 Some s \<Rightarrow> if key_card_shown sub now \<and> \<not> nd_show_key_input s
                           then (ps'\<lparr>pg_dash := Some (s\<lparr>nd_show_key_input := True\<rparr>)\<rparr>, d) else (ps', d)
               | None \<Rightarrow> (ps', d)))"
| "pg_step isAdmin sub now (ps, d) (PG_Dash ev) =
     (case pg_dash ps of
        Some s \<Rightarrow> (let (s', d') = nd_step sub now (s, d) ev in (ps\<lparr>pg_dash := Some s'\<rparr>, d'))
      | None \<Rightarrow> (ps, d))"

subsection \<open>The side bar's avatar and score ring\<close>

datatype avatar = Avatar_Image string | Avatar_Initial string

text \<open>
  The avatar button of \<open>NewSidebar\<close> (lines 126--145): the picture when the profile
  has an avatar URL, else the upper-cased first letter of the username, or \<open>U\<close> when
  that is empty (\<open>''.toUpperCase()\<close> is falsy).
\<close>

definition sidebar_avatar :: "profile_row option \<Rightarrow> avatar" where
  "sidebar_avatar prof =
     (case prof of
        Some p \<Rightarrow> if prof_avatar_url p \<noteq> [] then Avatar_Image (prof_avatar_url p)
                  else (case prof_username p of c # _ \<Rightarrow> Avatar_Initial [js_upper_char c] | [] \<Rightarrow> Avatar_Initial ''U'')
      | None \<Rightarrow> Avatar_Initial ''U'')"

text \<open>The score ring under the menu (lines 183--216): a circle of radius 24 whose dash offset is the missing share.\<close>

definition sidebar_ring_offset :: "int \<Rightarrow> real" where
  "sidebar_ring_offset optimizationLevel = 2 * pi * 24 * (1 - of_int optimizationLevel / 100)"

text \<open>The page state is consistent when the dashboard is mounted exactly while its view is rendered.\<close>

definition page_inv :: "bool \<Rightarrow> page_state \<Rightarrow> bool" where
  "page_inv isAdmin ps \<longleftrightarrow> (pg_dash ps \<noteq> None) = (render_content isAdmin (pg_tab ps) = View_Dashboard)"

subsection \<open>Lemmas\<close>


text \<open>The key card is rendered only without an active subscription, and shows the stored, upper-cased key.\<close>

lemma nd_key_card_field:
  "\<not> is_subscription_active sub now \<Longrightarrow>
   v_key_card (nd_render sub now b (fst (nd_step sub now (st\<lparr>nd_show_key_input := True\<rparr>, d) (ND_Key_Input s)))) =
   Some (Key_Card_Field (js_upper s))"
  by (simp add: nd_render_def Let_def key_card_shown_def)

text \<open>
  Every tick after the last subscription change shows the exact time left of the
  session's subscription at the tick.
\<close>

lemma hd_tick_exact:
  assumes "hd_interval st = sub_expires sub" "sub_expires sub \<noteq> None"
  shows "hd_time_left (hd_step st (HD_Tick now)) = time_left sub now"
  using assms by (cases sub) (auto simp: sub_expires_def time_left_def)

text \<open>The interval runs with the expiry of the last subscription change, whatever happened since.\<close>

lemma hd_run_interval:
  "\<forall>ev \<in> set evs. \<forall>s. ev \<noteq> HD_Sub_Change s \<Longrightarrow>
   hd_interval (hd_run (hd_step st (HD_Sub_Change sub)) evs) = sub_expires sub"
proof (induction evs rule: rev_induct)
  case Nil then show ?case by (simp add: hd_run_def)
next
  case (snoc ev evs) then show ?case
    by (cases ev) (auto simp: hd_run_def split: option.split)
qed

text \<open>
  A subscription that arrives after the header mounted (the session loads it
  asynchronously, or a key was just redeemed) is shown as active with no countdown
  until the interval's first tick, one second later.
\<close>

lemma hd_new_subscription_no_countdown:
  assumes "is_subscription_active (Some s) now" "view_expires_at s \<noteq> None"
  shows "header_pro_status (Some s) now (hd_time_left (hd_step (hd_mount None t) (HD_Sub_Change (Some s)))) = Pro_Active None"
  using assms by (auto simp: header_pro_status_def hd_mount_def sub_expires_def time_left_def)

text \<open>A click inside the About dialog keeps it open; the backdrop and the button close it.\<close>

lemma hd_about_dialog:
  "hd_show_about (hd_step (hd_step st HD_About_Open) HD_Dialog_Click) \<and>
   \<not> hd_show_about (hd_step (hd_step st HD_About_Open) HD_Backdrop_Click) \<and>
   \<not> hd_show_about (hd_step (hd_step st HD_About_Open) HD_Understood_Click)"
  by simp

text \<open>Every event keeps the dashboard mounted exactly while its view is rendered.\<close>

lemma pg_step_inv:
  assumes "page_inv isAdmin ps"
  shows "page_inv isAdmin (fst (pg_step isAdmin sub now (ps, d) ev))"
proof (cases ev)
  case (PG_Page e) then show ?thesis by (auto simp: Let_def page_inv_def pg_set_tab_def split: option.split)
next
  case PG_Activate_Timer then show ?thesis using assms
    by (auto simp: Let_def page_inv_def split: option.split)
next
  case (PG_Dash e) then show ?thesis using assms
    by (auto simp: page_inv_def split: option.split prod.split)
qed

text \<open>
  The header's activate button works from every tab: for a user without an active
  subscription, the click and its 100 ms timer leave the page on the dashboard with the
  key field open, and touch no table. From another view the dashboard is mounted afresh
  and the timer clicks its \<open>Inserir Key\<close> button; on the dashboard with the field
  already open, the button is not in the document and the field stays open.
\<close>

theorem activate_opens_key_input:
  assumes "page_inv isAdmin ps" and "key_card_shown sub now"
  shows "case pg_step isAdmin sub now (pg_step isAdmin sub now (ps, d) (PG_Page Activate_Click)) PG_Activate_Timer of
           (ps2, d2) \<Rightarrow> pg_tab ps2 = ''dashboard'' \<and> (\<exists>s. pg_dash ps2 = Some s \<and> nd_show_key_input s) \<and> d2 = d"
proof -
  have rc: "render_content isAdmin ''dashboard'' = View_Dashboard"
    by (simp add: render_content_def)
  obtain s where s: "pg_dash (pg_set_tab isAdmin ''dashboard'' ps) = Some s"
    by (cases "pg_dash ps") (auto simp: pg_set_tab_def rc)
  show ?thesis using s assms(2)
    by (auto simp: Let_def pg_set_tab_def rc)
qed

text \<open>The ring is empty at 100 and full at 0, and within its circumference for a score in range.\<close>

lemma sidebar_ring_offset_range:
  assumes "0 \<le> level" and "level \<le> 100"
  shows "0 \<le> sidebar_ring_offset level \<and> sidebar_ring_offset level \<le> 48 * pi"
proof -
  have "0 \<le> 1 - of_int level / (100 :: real)" and "1 - of_int level / (100 :: real) \<le> 1"
    using assms by simp_all
  then show ?thesis
    unfolding sidebar_ring_offset_def using pi_gt_zero
    by (auto intro: mult_nonneg_nonneg simp: mult_left_le_one_le)
qed

text \<open>A successful redemption on the dashboard closes the card, empties the field and schedules the reload.\<close>

lemma nd_redeem_ok:
  assumes "fst (nd_redeem u now d st) = Redeem_Ok"
  shows "\<not> nd_show_key_input (fst (snd (nd_redeem u now d st))) \<and>
         nd_license_key (fst (snd (nd_redeem u now d st))) = [] \<and>
         nd_reload_at (fst (snd (nd_redeem u now d st))) = Some (now + 1000) \<and>
         snd (snd (nd_redeem u now d st)) = snd (client_redeem u (nd_license_key st) now d)"
  using assms by (simp add: nd_redeem_def split: prod.splits)
subsection \<open>Witnesses\<close>

theorem activate_opens_key_input_witness:
  "page_inv False \<lparr>pg_tab = ''settings'', pg_dash = None, pg_activate_timers = 0\<rparr> \<and> key_card_shown None 0 \<and>
   (case pg_step False None 0 (pg_step False None 0 (\<lparr>pg_tab = ''settings'', pg_dash = None, pg_activate_timers = 0\<rparr>, (empty_db 30))
                                 (PG_Page Activate_Click)) PG_Activate_Timer of
      (ps2, d2) \<Rightarrow> pg_tab ps2 = ''dashboard'' \<and> (\<exists>s. pg_dash ps2 = Some s \<and> nd_show_key_input s) \<and> d2 = (empty_db 30))"
proof -
  have h1: "page_inv False \<lparr>pg_tab = ''settings'', pg_dash = None, pg_activate_timers = 0\<rparr>"
    by (simp add: page_inv_def render_content_def)
  have h2: "key_card_shown None 0" by (simp add: key_card_shown_def is_subscription_active_def)
  show ?thesis using h1 h2 activate_opens_key_input [OF h1 h2, of "empty_db 30"] by blast
qed

end
