(* ===== verification/AdminPanelState.thy ===== *)
theory AdminPanelState
  imports AdminViews
begin

text \<open>
  The state of the admin panel \<open>components/AdminPanelComplete.tsx\<close> and its handlers,
  as a step function on the pair of the panel's state and the tables. The reads are
  those of \<open>AdminViews\<close> and the writes those of \<open>LicenseDB\<close>; this theory adds what
  the component does around them: the loading flag, the reloads after each write, the
  \<open>confirm\<close> dialogs, the forms, the copy mark and its timer, and which control is on
  screen. A request that fails is a flag of its event; a read that is not modelled as
  failing is taken to succeed.
\<close>

subsection \<open>State\<close>

record apc_state =
  apc_tab :: string
  apc_loading :: bool
  apc_users :: "admin_user list"
  apc_licenses :: "license list"
  apc_stats :: system_stats
  apc_search :: string
  apc_maintenance :: bool
  apc_copied :: "string option"
  apc_copy_timers :: "nat list"
  apc_next_timer :: nat
  apc_license_modal :: bool
  apc_new_duration :: int
  apc_new_quantity :: int
  apc_notif_title :: string
  apc_notif_message :: string
  apc_notif_hours :: int

text \<open>
  The state after mounting (lines 52--90): the tab of \<open>AdminViews.admin_tab_init\<close>,
  every counter 0, the licence form at 30 days and one key, the notification form empty
  with 24 hours.
\<close>

definition apc_init :: "string option \<Rightarrow> apc_state" where
  "apc_init activeSubTab =
     \<lparr>apc_tab = admin_tab_init activeSubTab, apc_loading = False, apc_users = [], apc_licenses = [],
      apc_stats = \<lparr>total_users = 0, active_users = 0, total_licenses = 0, used_licenses = 0,
                   admin_count = 0, storage_used = 0\<rparr>,
      apc_search = [], apc_maintenance = False, apc_copied = None, apc_copy_timers = [],
      apc_next_timer = 0, apc_license_modal = False, apc_new_duration = 30, apc_new_quantity = 1,
      apc_notif_title = [], apc_notif_message = [], apc_notif_hours = 24\<rparr>"

text \<open>
  \<open>loadData\<close> (lines 112--122), run at mount, every ten seconds and by the
  \<open>Atualizar\<close> button (lines 92--110, 499--505): the four loads together, then the
  loading flag cleared. \<open>rows\<close> is the answer of the profiles query.
\<close>

definition load_data :: "ms \<Rightarrow> db \<Rightarrow> (uid \<times> profile_row) list option \<Rightarrow> apc_state \<Rightarrow> apc_state" where
  "load_data now d rows st =
     st\<lparr>apc_users := load_users now d rows (apc_users st), apc_licenses := load_licenses d,
        apc_stats := load_stats d, apc_maintenance := load_maintenance_mode d (apc_maintenance st),
        apc_loading := False\<rparr>"

text \<open>\<open>loadLicenses(); loadStats()\<close>, the reload after a licence write.\<close>

definition reload_licenses :: "db \<Rightarrow> apc_state \<Rightarrow> apc_state" where
  "reload_licenses d st = st\<lparr>apc_licenses := load_licenses d, apc_stats := load_stats d\<rparr>"

text \<open>\<open>await loadUsers(); await loadStats()\<close>, the reload after a user write.\<close>

definition reload_users :: "ms \<Rightarrow> db \<Rightarrow> (uid \<times> profile_row) list option \<Rightarrow> apc_state \<Rightarrow> apc_state" where
  "reload_users now d rows st = st\<lparr>apc_users := load_users now d rows (apc_users st), apc_stats := load_stats d\<rparr>"

text \<open>The user of a row of the users table (lines 661--690), as the row's buttons see it.\<close>

definition listed_user :: "apc_state \<Rightarrow> uid \<Rightarrow> admin_user option" where
  "listed_user st u = find (\<lambda>x. au_id x = u) (filtered_users (apc_search st) (apc_users st))"

definition on_tab :: "apc_state \<Rightarrow> admin_section \<Rightarrow> bool" where
  "on_tab st s \<longleftrightarrow> admin_section (apc_tab st) = Some s"

subsection \<open>Events\<close>

datatype apc_event =
    APC_Load ms "(uid \<times> profile_row) list option"
  | APC_Tab_Prop "string option"
  | APC_Tab_Click string
  | APC_Search string
  | APC_License_Modal bool
  | APC_New_License int int
  | APC_Create ms "nat \<Rightarrow> nat \<Rightarrow> 32 word" bool
  | APC_Copy string
  | APC_Copy_Timeout nat
  | APC_Delete_License nat bool bool
  | APC_Delete_All bool bool bool
  | APC_Toggle_Role uid bool bool ms "(uid \<times> profile_row) list option"
  | APC_Delete_User uid bool bool bool ms "(uid \<times> profile_row) list option"
  | APC_Toggle_Maintenance bool
  | APC_Notif_Form string string int
  | APC_Send_Notification "uid option" ms bool

text \<open>
  \<^item> \<open>APC_Load\<close>: \<open>loadData\<close>; \<open>APC_Tab_Prop\<close>: the effect on \<open>activeSubTab\<close>
    (lines 88--90); \<open>APC_Tab_Click\<close>: a tab button (lines 511--527, and the overview's
    shortcut to the users, line 587); \<open>APC_Search\<close>: the search field (line 638).
  \<^item> \<open>APC_License_Modal\<close>: the buttons opening (lines 581, 703) and closing (line 1032)
    the licence form; \<open>APC_New_License\<close>: its duration and quantity fields
    (lines 1020--1027, \<open>parseInt\<close> taken to give a number); \<open>APC_Create\<close>:
    \<open>createLicenses\<close> (lines 175--224), disabled while loading, with the insert's failure.
  \<^item> \<open>APC_Copy\<close>: \<open>copyKey\<close> of a listed key (lines 226--231, 760), which starts a
    two-second timer; \<open>APC_Copy_Timeout\<close>: that timer.
  \<^item> \<open>APC_Delete_License\<close> (lines 406--420), \<open>APC_Delete_All\<close> (lines 422--436) with
    the answers to their \<open>confirm\<close> dialogs and the delete's failure.
  \<^item> \<open>APC_Toggle_Role\<close> (lines 341--376) and \<open>APC_Delete_User\<close> (lines 378--404) on a
    listed user, with the dialogs, the failure, and the profiles answer of the reload.
    \<open>deleteUser\<close> deletes the role and the subscriptions without checking their result
    and throws only when the profile delete fails.
  \<^item> \<open>APC_Toggle_Maintenance\<close> (lines 277--297, button line 866): an update of the
    \<open>maintenance_mode\<close> row, which succeeds also when no row matches.
  \<^item> \<open>APC_Notif_Form\<close>: the notification form (lines 886--918);
    \<open>APC_Send_Notification\<close>: \<open>sendNotification\<close> (lines 299--339), disabled while
    the title or the message is empty (line 922).
  An event whose control is not on screen leaves everything unchanged.
\<close>

fun apc_step :: "apc_state \<times> db \<Rightarrow> apc_event \<Rightarrow> apc_state \<times> db" where
  "apc_step (st, d) (APC_Load now rows) = (load_data now d rows st, d)"
| "apc_step (st, d) (APC_Tab_Prop s) =
     ((case s of Some t \<Rightarrow> if t \<noteq> [] then st\<lparr>apc_tab := js_replace_first ''admin-'' [] t\<rparr> else st
               | None \<Rightarrow> st), d)"
| "apc_step (st, d) (APC_Tab_Click t) =
     (if t \<in> set admin_tabs then (st\<lparr>apc_tab := t\<rparr>, d) else (st, d))"
| "apc_step (st, d) (APC_Search s) =
     (if on_tab st Sec_Users then (st\<lparr>apc_search := s\<rparr>, d) else (st, d))"
| "apc_step (st, d) (APC_License_Modal b) =
     (if b \<longrightarrow> on_tab st Sec_Overview \<or> on_tab st Sec_Generate then (st\<lparr>apc_license_modal := b\<rparr>, d)
      else (st, d))"
| "apc_step (st, d) (APC_New_License dur q) =
     (if apc_license_modal st then (st\<lparr>apc_new_duration := dur, apc_new_quantity := q\<rparr>, d) else (st, d))"
| "apc_step (st, d) (APC_Create now rnds failed) =
     (if \<not> apc_license_modal st \<or> apc_loading st then (st, d)
      else if failed then (st, d)
      else (let d' = create_licenses now (apc_new_duration st) (apc_new_quantity st) rnds d
            in (reload_licenses d' (st\<lparr>apc_license_modal := False\<rparr>), d')))"
| "apc_step (st, d) (APC_Copy k) =
     (if on_tab st Sec_Generate \<and> k \<in> set (map lic_key (apc_licenses st))
      then (st\<lparr>apc_copied := Some k, apc_copy_timers := apc_copy_timers st @ [apc_next_timer st],
               apc_next_timer := Suc (apc_next_timer st)\<rparr>, d)
      else (st, d))"
| "apc_step (st, d) (APC_Copy_Timeout t) =
     (if t \<in> set (apc_copy_timers st)
      then (st\<lparr>apc_copied := None, apc_copy_timers := removeAll t (apc_copy_timers st)\<rparr>, d) else (st, d))"
| "apc_step (st, d) (APC_Delete_License i confirmed failed) =
     (if \<not> on_tab st Sec_Generate \<or> i \<notin> set (map lic_id (apc_licenses st)) \<or> \<not> confirmed \<or> failed
      then (st, d)
      else (let d' = delete_license i d in (reload_licenses d' st, d')))"
| "apc_step (st, d) (APC_Delete_All c1 c2 failed) =
     (if \<not> on_tab st Sec_Generate \<or> \<not> c1 \<or> \<not> c2 \<or> failed then (st, d)
      else (let d' = delete_all_licenses d in (reload_licenses d' st, d')))"
| "apc_step (st, d) (APC_Toggle_Role u confirmed failed now rows) =
     (case listed_user st u of
        None \<Rightarrow> (st, d)
      | Some x \<Rightarrow>
          if \<not> on_tab st Sec_Users \<or> \<not> confirmed \<or> failed then (st, d)
          else (let d' = toggle_user_role u (au_role x) d in (reload_users now d' rows st, d')))"
| "apc_step (st, d) (APC_Delete_User u c1 c2 failed now rows) =
     (if \<not> on_tab st Sec_Users \<or> listed_user st u = None \<or> \<not> c1 \<or> \<not> c2 then (st, d)
      else if failed
      then (st, d\<lparr>roles := (roles d)(u := None), subscriptions := (subscriptions d)(u := None)\<rparr>)
      else (let d' = delete_user u d in (reload_users now d' rows st, d')))"
| "apc_step (st, d) (APC_Toggle_Maintenance failed) =
     (if \<not> on_tab st Sec_Notifications \<or> failed then (st, d)
      else (st\<lparr>apc_maintenance := \<not> apc_maintenance st\<rparr>, toggle_maintenance (apc_maintenance st) d))"
| "apc_step (st, d) (APC_Notif_Form title msg hours) =
     (if on_tab st Sec_Notifications
      then (st\<lparr>apc_notif_title := title, apc_notif_message := msg, apc_notif_hours := hours\<rparr>, d)
      else (st, d))"
| "apc_step (st, d) (APC_Send_Notification user now failed) =
     (if \<not> on_tab st Sec_Notifications \<or> apc_notif_title st = [] \<or> apc_notif_message st = [] \<or> failed
      then (st, d)
      else (st\<lparr>apc_notif_title := [], apc_notif_message := [], apc_notif_hours := 24\<rparr>,
            send_notification user (apc_notif_title st) (apc_notif_message st) (apc_notif_hours st) now d))"

definition apc_run :: "apc_event list \<Rightarrow> apc_state \<times> db \<Rightarrow> apc_state \<times> db" where
  "apc_run evs s = foldl apc_step s evs"

text \<open>Every request of an event succeeds.\<close>

definition apc_ok :: "apc_event \<Rightarrow> bool" where
  "apc_ok ev = (case ev of
     APC_Create _ _ failed \<Rightarrow> \<not> failed
   | APC_Delete_License _ _ failed \<Rightarrow> \<not> failed
   | APC_Delete_All _ _ failed \<Rightarrow> \<not> failed
   | APC_Toggle_Role _ _ failed _ _ \<Rightarrow> \<not> failed
   | APC_Delete_User _ _ _ failed _ _ \<Rightarrow> \<not> failed
   | APC_Toggle_Maintenance failed \<Rightarrow> \<not> failed
   | APC_Send_Notification _ _ failed \<Rightarrow> \<not> failed
   | _ \<Rightarrow> True)"

text \<open>The panel shows the tables: its licence list and its counters are those of the current tables.\<close>

definition apc_synced :: "apc_state \<times> db \<Rightarrow> bool" where
  "apc_synced s \<longleftrightarrow> apc_licenses (fst s) = load_licenses (snd s) \<and> apc_stats (fst s) = load_stats (snd s)"

subsection \<open>The e-mail dialog\<close>

text \<open>
  The dialog opened by the overview's \<open>Enviar Email\<close> shortcut (line 593): the form
  \<open>emailData\<close> (lines 70--74) and the request bodies \<open>sendEmail\<close> posted to the local
  e-mail server, as (recipient, subject, message).
\<close>

record email_dialog =
  em_open :: bool
  em_recipient :: string
  em_subject :: string
  em_message :: string
  em_posted :: "(string \<times> string \<times> string) list"

definition email_dialog_init :: email_dialog where
  "email_dialog_init = \<lparr>em_open = False, em_recipient = ''all'', em_subject = [], em_message = [], em_posted = []\<rparr>"

datatype email_event =
    EM_Open
  | EM_Close
  | EM_Recipient string
  | EM_Subject string
  | EM_Message string
  | EM_Send bool

text \<open>
  One event of the dialog with the panel on tab \<open>tab\<close>. \<open>EM_Open\<close>: the shortcut
  on the overview; \<open>EM_Close\<close>: the cross and \<open>Cancelar\<close> (lines 939, 990); the three
  fields (lines 949--976); \<open>EM_Send loading\<close>: \<open>Enviar Email\<close>, disabled while the
  panel is loading (line 994), running \<open>sendEmail\<close> (lines 438--461): a blank
  subject or message returns at once; otherwise the request is posted and the dialog
  closes whatever the answer, keeping the form.
\<close>

fun em_step :: "string \<Rightarrow> email_dialog \<Rightarrow> email_event \<Rightarrow> email_dialog" where
  "em_step tab em EM_Open = (if tab = ''overview'' then em\<lparr>em_open := True\<rparr> else em)"
| "em_step tab em EM_Close = em\<lparr>em_open := False\<rparr>"
| "em_step tab em (EM_Recipient s) = (if em_open em then em\<lparr>em_recipient := s\<rparr> else em)"
| "em_step tab em (EM_Subject s) = (if em_open em then em\<lparr>em_subject := s\<rparr> else em)"
| "em_step tab em (EM_Message s) = (if em_open em then em\<lparr>em_message := s\<rparr> else em)"
| "em_step tab em (EM_Send loading) =
     (if \<not> em_open em \<or> loading \<or> em_subject em = [] \<or> em_message em = [] then em
      else em\<lparr>em_posted := em_posted em @ [(em_recipient em, em_subject em, em_message em)], em_open := False\<rparr>)"

text \<open>The hint under the message (line 984), with the number of users listed.\<close>

definition email_hint :: "email_dialog \<Rightarrow> nat \<Rightarrow> string" where
  "email_hint em n =
     (if em_recipient em = ''all'' then ''todos os '' @ nat_digits n @ '' usu'' @ [CHR 0xE1] @ ''rios''
      else ''1 usu'' @ [CHR 0xE1] @ ''rio espec'' @ [CHR 0xED] @ ''fico'')"

subsection \<open>Lemmas\<close>

text \<open>The writes that touch neither licences nor the counted tables.\<close>

lemma load_licenses_toggle_maintenance [simp]: "load_licenses (toggle_maintenance m d) = load_licenses d"
  by (simp add: load_licenses_def toggle_maintenance_def split: option.split)

lemma load_stats_toggle_maintenance [simp]: "load_stats (toggle_maintenance m d) = load_stats d"
  by (simp add: load_stats_def toggle_maintenance_def split: option.split)

lemma load_licenses_send_notification [simp]: "load_licenses (send_notification u t m h now d) = load_licenses d"
  by (simp add: load_licenses_def send_notification_def Let_def)

lemma load_stats_send_notification [simp]: "load_stats (send_notification u t m h now d) = load_stats d"
  by (simp add: load_stats_def send_notification_def Let_def)

lemma load_licenses_toggle_user_role [simp]: "load_licenses (toggle_user_role u r d) = load_licenses d"
  by (simp add: load_licenses_def toggle_user_role_def)

lemma load_licenses_delete_user [simp]: "load_licenses (delete_user u d) = load_licenses d"
  by (simp add: load_licenses_def delete_user_def)

text \<open>Every successful event keeps the panel in step with the tables.\<close>

lemma apc_step_synced:
  assumes "apc_synced s" and "apc_ok ev"
  shows "apc_synced (apc_step s ev)"
proof -
  obtain st d where s: "s = (st, d)" by fastforce
  show ?thesis using assms unfolding s
    by (cases ev) (auto simp: apc_synced_def apc_ok_def load_data_def reload_licenses_def reload_users_def Let_def
                        split: option.splits)
qed

text \<open>
  C39: With one admin writing and every request succeeding, the admin panel never shows
  stale licences or counters: after the mount's \<open>loadData\<close>, whatever tabs, forms,
  copies, deletions, creations, role changes, maintenance toggles and notifications
  follow, the licence list and the statistics are those of the current tables, because
  every write that changes them is followed by the matching reloads.
\<close>

theorem apc_run_synced:
  assumes "\<forall>ev \<in> set evs. apc_ok ev"
  shows "apc_synced (apc_run (APC_Load now rows # evs) (apc_init t, d))"
proof -
  have "apc_synced s \<Longrightarrow> apc_synced (foldl apc_step s evs)" for s
    using assms
  proof (induction evs arbitrary: s)
    case Nil then show ?case by simp
  next
    case (Cons ev evs)
    have "apc_synced (apc_step s ev)" using Cons.prems by (simp add: apc_step_synced)
    with Cons.IH [of "apc_step s ev"] Cons.prems show ?case by simp
  qed
  moreover have "apc_synced (apc_step (apc_init t, d) (APC_Load now rows))"
    by (simp add: apc_synced_def load_data_def)
  ultimately show ?thesis by (simp add: apc_run_def)
qed

text \<open>
  A user deletion whose profile delete fails still removes the role and the
  subscription rows, and the panel reloads nothing.
\<close>

lemma apc_delete_user_failed:
  assumes "on_tab st Sec_Users" and "listed_user st u \<noteq> None"
  shows "apc_step (st, d) (APC_Delete_User u True True True now rows) =
           (st, d\<lparr>roles := (roles d)(u := None), subscriptions := (subscriptions d)(u := None)\<rparr>) \<and>
         profiles (snd (apc_step (st, d) (APC_Delete_User u True True True now rows))) = profiles d"
  using assms by (cases "listed_user st u") auto

text \<open>
  Without a \<open>maintenance_mode\<close> row the toggle reports success and flips the panel's
  flag, the tables stay as they were, and the next \<open>loadData\<close> keeps the flipped flag.
\<close>

lemma apc_toggle_missing_row:
  assumes "on_tab st Sec_Notifications" and "maintenance_value d = None"
  shows "apc_step (st, d) (APC_Toggle_Maintenance False) = (st\<lparr>apc_maintenance := \<not> apc_maintenance st\<rparr>, d) \<and>
         apc_maintenance (load_data now d rows (st\<lparr>apc_maintenance := \<not> apc_maintenance st\<rparr>)) = (\<not> apc_maintenance st)"
  using assms by (simp add: toggle_maintenance_def load_data_def load_maintenance_mode_def)

text \<open>As in the old panel, an earlier copy's timer clears a later copy's mark.\<close>

lemma apc_copy_cleared_early:
  assumes "on_tab st Sec_Generate" and "apc_copy_timers st = []"
    and "a \<in> set (map lic_key (apc_licenses st))" and "b \<in> set (map lic_key (apc_licenses st))"
  shows "apc_copied (fst (apc_run [APC_Copy a, APC_Copy b, APC_Copy_Timeout (apc_next_timer st)] (st, d))) = None"
  using assms by (simp add: apc_run_def on_tab_def)
text \<open>
  A send posts the form and closes the dialog without clearing it: opening the dialog
  again and sending posts the same e-mail a second time.
\<close>

lemma em_resend_duplicates:
  assumes "em_open em" and "em_subject em \<noteq> []" and "em_message em \<noteq> []"
  shows "em_posted (foldl (em_step ''overview'') em [EM_Send False, EM_Open, EM_Send False]) =
         em_posted em @ [(em_recipient em, em_subject em, em_message em), (em_recipient em, em_subject em, em_message em)]"
  using assms by simp

text \<open>A blank subject or message posts nothing and leaves the dialog open.\<close>

lemma em_blank_not_sent:
  "em_subject em = [] \<or> em_message em = [] \<Longrightarrow> em_step tab em (EM_Send loading) = em"
  by auto

subsection \<open>Witnesses\<close>

theorem apc_run_synced_witness:
  "apc_ok (APC_Tab_Click ''notifications'') \<and> apc_ok (APC_Toggle_Maintenance False) \<and>
   apc_synced (apc_run (APC_Load 0 None # [APC_Tab_Click ''notifications'', APC_Toggle_Maintenance False])
                 (apc_init None, empty_db 30))"
proof -
  have h: "\<forall>ev \<in> set [APC_Tab_Click ''notifications'', APC_Toggle_Maintenance False]. apc_ok ev"
    by (simp add: apc_ok_def)
  show ?thesis using h apc_run_synced [OF h, of 0 None None "empty_db 30"] by simp
qed

end
