(* ===== verification/SettingsPage.thy ===== *)
theory SettingsPage
  imports Account
begin

text \<open>
  The settings page \<open>components/Settings.tsx\<close> as a form: its tabs, the password
  fields of the security tab (shared with the account deletion dialog, which reuses
  \<open>currentPassword\<close>), the strength bar and match mark, and the buttons that run
  \<open>Account.update_password\<close> and \<open>Account.delete_account\<close>, with what the page does
  with their outcome. The preference buttons are \<open>Preferences.pref_click\<close>; the profile
  form is \<open>Account.update_profile\<close>.
\<close>

record settings_page =
  sp_tab :: string
  sp_current :: string
  sp_new :: string
  sp_confirm :: string
  sp_show_passwords :: bool
  sp_delete_dialog :: bool

text \<open>The tabs (lines 297--303) and the state at mount (lines 14--29).\<close>

definition settings_tabs :: "string list" where
  "settings_tabs = [''profile'', ''security'', ''notifications'', ''appearance'', ''account'']"

definition settings_page_init :: settings_page where
  "settings_page_init = \<lparr>sp_tab = ''profile'', sp_current = [], sp_new = [], sp_confirm = [],
                          sp_show_passwords = False, sp_delete_dialog = False\<rparr>"

text \<open>
  What the security tab shows below the fields (lines 520--553): the number of lit
  segments of the strength bar (none while the new password is empty), whether the
  match mark is shown, and whether \<open>Atualizar Senha\<close> is enabled (line 557).
\<close>

record security_view =
  sv_bar :: nat
  sv_match :: bool
  sv_enabled :: bool

definition security_view_of :: "settings_page \<Rightarrow> security_view" where
  "security_view_of p =
     \<lparr>sv_bar = (if sp_new p = [] then 0 else password_strength (sp_new p)),
      sv_match = (sp_confirm p \<noteq> [] \<and> sp_new p = sp_confirm p),
      sv_enabled = (sp_new p \<noteq> [] \<and> sp_current p \<noteq> [] \<and> sp_confirm p \<noteq> [])\<rparr>"

datatype sp_event =
    SP_Tab string
  | SP_Current string
  | SP_New string
  | SP_Confirm string
  | SP_Toggle_Show
  | SP_Update_Password string
  | SP_Open_Delete
  | SP_Cancel_Delete
  | SP_Confirm_Delete uid string
  | SP_Sign_Out

text \<open>
  \<open>SP_Tab\<close>: the tab buttons (lines 340--353). \<open>SP_Current\<close>: the current-password field
  of the security tab (lines 491--496) or the dialog's field (lines 788--794).
  \<open>SP_New\<close>, \<open>SP_Confirm\<close>, \<open>SP_Toggle_Show\<close>: the other fields and the eye button
  (lines 505--547). \<open>SP_Update_Password\<close>: \<open>updatePassword\<close> (lines 149--214), which
  empties the three fields on success. \<open>SP_Open_Delete\<close>, \<open>SP_Cancel_Delete\<close>: the
  \<open>Deletar\<close> button (line 756) and \<open>Cancelar\<close> (lines 798--806), which also empties
  the password. \<open>SP_Confirm_Delete\<close>: \<open>deleteAccount\<close> (lines 244--286), whose
  \<open>finally\<close> closes the dialog unless the password is blank, where it returns before.
  \<open>SP_Sign_Out\<close>: \<open>handleSignOut\<close> (lines 288--295, button line 740).
  An event whose control is not on screen leaves everything unchanged.
\<close>

fun sp_step :: "settings_page \<times> accounts \<times> db \<times> auth_state \<Rightarrow> sp_event \<Rightarrow>
                settings_page \<times> accounts \<times> db \<times> auth_state" where
  "sp_step (p, bk) (SP_Tab t) = (if t \<in> set settings_tabs then (p\<lparr>sp_tab := t\<rparr>, bk) else (p, bk))"
| "sp_step (p, bk) (SP_Current s) =
     (if sp_tab p = ''security'' \<or> sp_delete_dialog p then (p\<lparr>sp_current := s\<rparr>, bk) else (p, bk))"
| "sp_step (p, bk) (SP_New s) = (if sp_tab p = ''security'' then (p\<lparr>sp_new := s\<rparr>, bk) else (p, bk))"
| "sp_step (p, bk) (SP_Confirm s) = (if sp_tab p = ''security'' then (p\<lparr>sp_confirm := s\<rparr>, bk) else (p, bk))"
| "sp_step (p, bk) SP_Toggle_Show =
     (if sp_tab p = ''security'' then (p\<lparr>sp_show_passwords := \<not> sp_show_passwords p\<rparr>, bk) else (p, bk))"
| "sp_step (p, accts, d, st) (SP_Update_Password email) =
     (if sp_tab p \<noteq> ''security'' \<or> \<not> sv_enabled (security_view_of p) then (p, accts, d, st)
      else (case update_password email (sp_current p) (sp_new p) (sp_confirm p) accts of
              (Pw_Updated, accts') \<Rightarrow> (p\<lparr>sp_current := [], sp_new := [], sp_confirm := []\<rparr>, accts', d, st)
            | (_, accts') \<Rightarrow> (p, accts', d, st)))"
| "sp_step (p, bk) SP_Open_Delete =
     (if sp_tab p = ''account'' then (p\<lparr>sp_delete_dialog := True\<rparr>, bk) else (p, bk))"
| "sp_step (p, bk) SP_Cancel_Delete =
     (if sp_delete_dialog p then (p\<lparr>sp_delete_dialog := False, sp_current := []\<rparr>, bk) else (p, bk))"
| "sp_step (p, bk) (SP_Confirm_Delete u email) =
     (if \<not> sp_delete_dialog p \<or> sp_current p = [] then (p, bk)
      else (case delete_account u email (sp_current p) bk of
              (Del_No_Password, bk') \<Rightarrow> (p, bk')
            | (_, bk') \<Rightarrow> (p\<lparr>sp_delete_dialog := False\<rparr>, bk')))"
| "sp_step (p, accts, d, st) SP_Sign_Out =
     (if sp_tab p = ''account'' then (p, accts, d, sign_out st) else (p, accts, d, st))"

definition sp_run :: "sp_event list \<Rightarrow> settings_page \<times> accounts \<times> db \<times> auth_state \<Rightarrow>
                      settings_page \<times> accounts \<times> db \<times> auth_state" where
  "sp_run evs s = foldl sp_step s evs"

subsection \<open>The profile tab\<close>

text \<open>
  The profile fields (lines 19--22): the form, and the avatar file chosen and not yet
  uploaded, identified by the data URL the preview shows.
\<close>

record profile_tab =
  pt_form :: profile_form
  pt_avatar_file :: "string option"

definition profile_tab_init :: profile_tab where
  "profile_tab_init = \<lparr>pt_form = \<lparr>pf_username = [], pf_email = [], pf_avatar_url = []\<rparr>, pt_avatar_file = None\<rparr>"

text \<open>
  The effect of lines 31--43, run at mount and whenever the session's profile or user
  changes: from the profile, or, without one, e-mail and user name from the account's
  e-mail, the avatar field then left as it is.
\<close>

definition profile_sync :: "string option \<Rightarrow> auth_state \<Rightarrow> profile_form \<Rightarrow> profile_form" where
  "profile_sync userEmail st f =
     (case auth_profile st of
        Some p \<Rightarrow> f\<lparr>pf_username := prof_username p,
                    pf_email := (if prof_email p \<noteq> [] then prof_email p
                                 else case userEmail of Some e \<Rightarrow> e | None \<Rightarrow> []),
                    pf_avatar_url := prof_avatar_url p\<rparr>
      | None \<Rightarrow> (case userEmail of
                   Some e \<Rightarrow> if e = [] then f else f\<lparr>pf_email := e, pf_username := hd (js_split (CHR ''@'') e)\<rparr>
                 | None \<Rightarrow> f))"

datatype pt_event =
    PT_Sync
  | PT_Username string
  | PT_Email string
  | PT_Avatar string nat string
  | PT_Save "string option"

text \<open>
  One event of the profile tab of user \<open>u\<close>, whose account e-mail is \<open>userEmail\<close>,
  with the page on tab \<open>tab\<close> (the tab is rendered from line 368). \<open>PT_Sync\<close>: the effect above. \<open>PT_Username\<close>,
  \<open>PT_Email\<close>: the two fields (lines 407, 423). \<open>PT_Avatar type size url\<close>:
  \<open>handleAvatarChange\<close> (lines 47--73) with a file whose reading gives the data URL
  \<open>url\<close> (input line 387). \<open>PT_Save r\<close>: the save button (line 448) running \<open>updateProfile\<close>
  (\<open>Account.update_profile\<close>), \<open>r\<close> being the upload's public URL, or \<open>None\<close>
  when it fails, used only when a file is chosen. A save clears the chosen file only
  when it succeeds (line 125), and \<open>refreshProfile\<close> gives a new profile object, so the
  effect runs again on the refreshed session.
\<close>

fun pt_step :: "uid \<Rightarrow> string option \<Rightarrow> string \<Rightarrow> profile_tab \<times> db \<times> auth_state \<Rightarrow> pt_event \<Rightarrow>
                profile_tab \<times> db \<times> auth_state" where
  "pt_step u userEmail tab (pt, d, st) PT_Sync = (pt\<lparr>pt_form := profile_sync userEmail st (pt_form pt)\<rparr>, d, st)"
| "pt_step u userEmail tab (pt, ds) (PT_Username s) =
     (if tab = ''profile'' then (pt\<lparr>pt_form := (pt_form pt)\<lparr>pf_username := s\<rparr>\<rparr>, ds) else (pt, ds))"
| "pt_step u userEmail tab (pt, ds) (PT_Email s) =
     (if tab = ''profile'' then (pt\<lparr>pt_form := (pt_form pt)\<lparr>pf_email := s\<rparr>\<rparr>, ds) else (pt, ds))"
| "pt_step u userEmail tab (pt, ds) (PT_Avatar fileType fileSize url) =
     (if tab = ''profile'' \<and> avatar_accepted fileType fileSize
      then (pt\<lparr>pt_form := (pt_form pt)\<lparr>pf_avatar_url := url\<rparr>, pt_avatar_file := Some url\<rparr>, ds) else (pt, ds))"
| "pt_step u userEmail tab (pt, d, st) (PT_Save r) =
     (if tab \<noteq> ''profile'' then (pt, d, st)
      else (case update_profile u (pt_form pt) (case pt_avatar_file pt of None \<Rightarrow> None | Some _ \<Rightarrow> Some r) (d, st) of
              (Profile_Invalid, d', st') \<Rightarrow> (pt, d', st')
            | (Profile_Saved, d', st') \<Rightarrow>
                (pt\<lparr>pt_form := profile_sync userEmail st' (pt_form pt), pt_avatar_file := None\<rparr>, d', st')
            | (Profile_Upload_Failed, d', st') \<Rightarrow> (pt\<lparr>pt_form := profile_sync userEmail st' (pt_form pt)\<rparr>, d', st')))"

subsection \<open>Lemmas\<close>

text \<open>A password change that succeeds empties the three fields, so the bar, the mark and the button go off.\<close>

lemma sp_update_password_ok:
  assumes "sp_tab p = ''security''" and "sv_enabled (security_view_of p)"
    and "fst (update_password email (sp_current p) (sp_new p) (sp_confirm p) accts) = Pw_Updated"
  shows "sp_step (p, accts, d, st) (SP_Update_Password email) =
           (p\<lparr>sp_current := [], sp_new := [], sp_confirm := []\<rparr>,
            snd (update_password email (sp_current p) (sp_new p) (sp_confirm p) accts), d, st) \<and>
         security_view_of (p\<lparr>sp_current := [], sp_new := [], sp_confirm := []\<rparr>) =
           \<lparr>sv_bar = 0, sv_match = False, sv_enabled = False\<rparr>"
  using assms
  by (cases "update_password email (sp_current p) (sp_new p) (sp_confirm p) accts")
     (simp add: security_view_of_def)

text \<open>
  A wrong password in the deletion dialog closes the dialog (the \<open>finally\<close> of
  \<open>deleteAccount\<close>) and leaves that password in the security tab's current-password
  field, which the dialog shares.
\<close>

lemma sp_wrong_delete_password:
  assumes "sp_delete_dialog p" and "js_trim (sp_current p) \<noteq> []"
    and "sign_in_with_password accts email (sp_current p) = None"
  shows "sp_step (p, accts, d, st) (SP_Confirm_Delete u email) = (p\<lparr>sp_delete_dialog := False\<rparr>, accts, d, st)"
proof -
  have "sp_current p \<noteq> []" using assms(2) by (auto simp: js_trim_def)
  then show ?thesis using assms by (simp add: delete_account_def)
qed

text \<open>The only table write of the page is the deletion of the user's profile row.\<close>

lemma sp_step_tables:
  "fst (snd (snd (sp_step (p, accts, d, st) ev))) = d \<or>
   (\<exists>u email. ev = SP_Confirm_Delete u email \<and>
      sp_step (p, accts, d, st) ev = (p\<lparr>sp_delete_dialog := False\<rparr>, accts, d\<lparr>profiles := (profiles d)(u := None)\<rparr>, sign_out st))"
  by (cases ev) (auto simp: delete_account_def split: prod.splits password_outcome.splits delete_outcome.splits if_splits)


text \<open>
  A successful save without a new avatar shows the saved values: after the refresh the
  fields hold the trimmed user name and e-mail, as stored in the profile row.
\<close>

lemma pt_save_shows_trimmed:
  assumes "pt_avatar_file pt = None" and "session_user st = Some u"
    and "js_trim (pf_username (pt_form pt)) \<noteq> []" and "js_trim (pf_email (pt_form pt)) \<noteq> []"
    and "CHR ''@'' \<in> set (pf_email (pt_form pt))"
    and "\<not> (maintenance_value d = Some ''true'' \<and> roles d u \<noteq> Some Admin)"
  shows "pf_username (pt_form (fst (pt_step u e ''profile'' (pt, d, st) (PT_Save r)))) = js_trim (pf_username (pt_form pt)) \<and>
         pf_email (pt_form (fst (pt_step u e ''profile'' (pt, d, st) (PT_Save r)))) = js_trim (pf_email (pt_form pt))"
  using assms
  by (auto simp: update_profile_def Let_def fetch_user_data_def profile_sync_def)

text \<open>
  A failed upload keeps the chosen file while the refresh puts the profile's avatar back
  in the preview: the next save uploads a file the page no longer shows.
\<close>

lemma pt_failed_upload_keeps_file:
  assumes "pt_avatar_file pt = Some url" and "session_user st = Some u"
    and "js_trim (pf_username (pt_form pt)) \<noteq> []" and "js_trim (pf_email (pt_form pt)) \<noteq> []"
    and "CHR ''@'' \<in> set (pf_email (pt_form pt))"
    and "\<not> (maintenance_value d = Some ''true'' \<and> roles d u \<noteq> Some Admin)"
    and "profiles d u = Some p"
  shows "pt_avatar_file (fst (pt_step u e ''profile'' (pt, d, st) (PT_Save None))) = Some url \<and>
         pf_avatar_url (pt_form (fst (pt_step u e ''profile'' (pt, d, st) (PT_Save None)))) = prof_avatar_url p"
  using assms
  by (auto simp: update_profile_def Let_def fetch_user_data_def profile_sync_def)

end
