(* ===== verification/AuthPage.thy ===== *)
theory AuthPage
  imports Account
begin

text \<open>
  The sign-in page \<open>pages/Auth.tsx\<close> as a form around \<open>Account.handle_submit\<close>: the
  mode (sign-in or sign-up), the four fields, the error messages under the fields, the
  loading flag that disables the button, and the delayed navigation to \<open>/\<close> after a
  success. Times are milliseconds.
\<close>

record auth_page =
  ap_is_login :: bool
  ap_form :: auth_form
  ap_errors :: "(string \<times> form_error) list"
  ap_show_password :: bool
  ap_loading :: bool
  ap_navigate_at :: "ms option"

text \<open>The state at mount (lines 23--32): sign-in mode, empty fields, no errors.\<close>

definition auth_page_init :: auth_page where
  "auth_page_init =
     \<lparr>ap_is_login = True,
      ap_form = \<lparr>f_username = [], f_email = [], f_password = [], f_license_key = []\<rparr>,
      ap_errors = [], ap_show_password = False, ap_loading = False, ap_navigate_at = None\<rparr>"

datatype ap_event =
    AP_Set_Mode bool
  | AP_Toggle_Mode
  | AP_Username string
  | AP_Email string
  | AP_Password string
  | AP_License_Key string
  | AP_Toggle_Show
  | AP_Submit "string \<Rightarrow> bool" bool uid ms

text \<open>
  \<open>AP_Set_Mode\<close>: the two mode buttons (lines 206--226); \<open>AP_Toggle_Mode\<close>: the link
  under the form (lines 354--359). The username and licence-key fields are rendered in
  sign-up mode only (lines 239--257, 299--320); the key field keeps 19 characters
  (\<open>maxLength\<close>) and stores them upper-cased. \<open>AP_Submit\<close>: the form's submit
  (button disabled while loading, line 324) running \<open>handleSubmit\<close> (lines 57--142)
  with zod's e-mail test, the service's auto-confirm setting, the id a sign-up gets and
  the time. \<open>validateForm\<close> replaces the errors on every submit (lines 34--55); a
  sign-in that succeeds navigates after 500 ms, a sign-up after 2 s; a refusal clears
  the loading flag.
\<close>

fun ap_step :: "auth_page \<times> accounts \<times> db \<Rightarrow> ap_event \<Rightarrow> auth_page \<times> accounts \<times> db" where
  "ap_step (p, bk) (AP_Set_Mode b) = (p\<lparr>ap_is_login := b\<rparr>, bk)"
| "ap_step (p, bk) AP_Toggle_Mode = (p\<lparr>ap_is_login := \<not> ap_is_login p\<rparr>, bk)"
| "ap_step (p, bk) (AP_Username s) =
     (if ap_is_login p then (p, bk) else (p\<lparr>ap_form := (ap_form p)\<lparr>f_username := s\<rparr>\<rparr>, bk))"
| "ap_step (p, bk) (AP_Email s) = (p\<lparr>ap_form := (ap_form p)\<lparr>f_email := s\<rparr>\<rparr>, bk)"
| "ap_step (p, bk) (AP_Password s) = (p\<lparr>ap_form := (ap_form p)\<lparr>f_password := s\<rparr>\<rparr>, bk)"
| "ap_step (p, bk) (AP_License_Key s) =
     (if ap_is_login p then (p, bk) else (p\<lparr>ap_form := (ap_form p)\<lparr>f_license_key := js_upper (take 19 s)\<rparr>\<rparr>, bk))"
| "ap_step (p, bk) AP_Toggle_Show = (p\<lparr>ap_show_password := \<not> ap_show_password p\<rparr>, bk)"
| "ap_step (p, bk) (AP_Submit email_ok autoconfirm newUid now) =
     (if ap_loading p then (p, bk)
      else (case handle_submit email_ok autoconfirm (ap_is_login p) newUid now (ap_form p) bk of
              (Form_Invalid errs, bk') \<Rightarrow> (p\<lparr>ap_errors := errs\<rparr>, bk')
            | (Login_Ok u, bk') \<Rightarrow> (p\<lparr>ap_errors := [], ap_loading := True, ap_navigate_at := Some (now + 500)\<rparr>, bk')
            | (Signup_Ok k, bk') \<Rightarrow> (p\<lparr>ap_errors := [], ap_loading := True, ap_navigate_at := Some (now + 2000)\<rparr>, bk')
            | (_, bk') \<Rightarrow> (p\<lparr>ap_errors := [], ap_loading := False\<rparr>, bk')))"

definition ap_run :: "ap_event list \<Rightarrow> auth_page \<times> accounts \<times> db \<Rightarrow> auth_page \<times> accounts \<times> db" where
  "ap_run evs s = foldl ap_step s evs"

text \<open>
  The error message shown under a field (lines 256, 272, 296, 318): the error of that
  field, if the field is rendered in the current mode.
\<close>

definition field_error :: "auth_page \<Rightarrow> string \<Rightarrow> form_error option" where
  "field_error p field =
     (if ap_is_login p \<and> field \<in> {''username'', ''licenseKey''} then None
      else map_of (ap_errors p) field)"

subsection \<open>Lemmas\<close>

text \<open>A submit in sign-in mode writes neither the accounts nor the tables.\<close>

lemma ap_sign_in_no_write:
  assumes "ap_is_login p"
  shows "snd (ap_step (p, accts, d) (AP_Submit email_ok autoconfirm newUid now)) = (accts, d)"
  using assms by (auto simp: handle_submit_def Let_def split: option.split submit_outcome.split prod.split)

text \<open>
  After a successful sign-in or sign-up the button stays disabled until the
  navigation: a second submit changes nothing, so no account is created twice.
\<close>

lemma ap_submit_once:
  assumes "fst (handle_submit email_ok autoconfirm (ap_is_login p) newUid now (ap_form p) bk) \<in> {Login_Ok u, Signup_Ok k}"
    and "\<not> ap_loading p"
  shows "ap_step (ap_step (p, bk) (AP_Submit email_ok autoconfirm newUid now)) (AP_Submit email_ok' autoconfirm' newUid' now') =
         ap_step (p, bk) (AP_Submit email_ok autoconfirm newUid now)"
  using assms
  by (cases "handle_submit email_ok autoconfirm (ap_is_login p) newUid now (ap_form p) bk") auto

end
