(* ===== verification/ImageScripts.thy ===== *)
theory ImageScripts
  imports Prelude
begin

text \<open>
  The pixel loops of the two asset scripts, \<open>convert-icons.mjs\<close>
  (\<open>removeWhiteBackground\<close>) and \<open>remove-logo-bg.mjs\<close> (\<open>removeLogoBackground\<close>). Each
  reads an image through \<open>sharp(...).ensureAlpha().raw()\<close> into a \<open>Buffer\<close> of RGBA
  bytes, walks it four bytes at a time and rewrites the alpha byte of the pixels it takes
  for background, counting them in \<open>changedPixels\<close>. The buffer is a list of
  \<open>8 word\<close>; a byte read past the end is \<open>undefined\<close> in JavaScript, so every
  comparison with it is false, and a write past the end of a \<open>Buffer\<close> is ignored. The
  luminance is computed on exact reals (see the header on arithmetic). Decoding and
  encoding the PNG files are \<open>sharp\<close>'s and are not modelled.
\<close>

type_synonym byte = "8 word"

subsection \<open>\<open>removeWhiteBackground\<close> (\<open>convert-icons.mjs\<close>)\<close>

text \<open>\<open>0.299 * r + 0.587 * g + 0.114 * b\<close> (line 37) and \<open>Math.abs(x - y)\<close> on two bytes (line 46).\<close>

definition luminance :: "byte \<Rightarrow> byte \<Rightarrow> byte \<Rightarrow> real" where
  "luminance r g b = 299 / 1000 * unat r + 587 / 1000 * unat g + 114 / 1000 * unat b"

definition byte_dist :: "byte \<Rightarrow> byte \<Rightarrow> int" where
  "byte_dist x y = \<bar>int (unat x) - int (unat y)\<bar>"

text \<open>
  The body of the loop for one pixel (lines 29--49): the new alpha when the pixel is
  taken for background, \<open>None\<close> when it is left alone. A white pixel becomes
  transparent, a light grey one keeps half its alpha (\<open>Math.floor(a * 0.5)\<close>).
\<close>

definition white_pixel :: "byte \<Rightarrow> byte \<Rightarrow> byte \<Rightarrow> byte \<Rightarrow> byte option" where
  "white_pixel r g b a =
     (if 220 < unat r \<and> 220 < unat g \<and> 220 < unat b then
        (if 220 < luminance r g b then Some 0 else None)
      else if byte_dist r g < 10 \<and> byte_dist g b < 10 \<and> 200 < unat r then Some (a div 2)
      else None)"

text \<open>
  The loop (lines 25--50): the new buffer and \<open>changedPixels\<close>. A last pixel of three
  bytes has no alpha: its write is lost but it is still counted when taken for
  background; a tail of one or two bytes fails every test.
\<close>

fun white_bg_loop :: "byte list \<Rightarrow> byte list \<times> nat" where
  "white_bg_loop (r # g # b # a # rest) =
     (let (rest', n) = white_bg_loop rest
      in case white_pixel r g b a of
           Some a' \<Rightarrow> ([r, g, b, a'] @ rest', Suc n)
         | None \<Rightarrow> ([r, g, b, a] @ rest', n))"
| "white_bg_loop [r, g, b] = ([r, g, b], if white_pixel r g b 0 = None then 0 else 1)"
| "white_bg_loop xs = (xs, 0)"

subsection \<open>\<open>removeLogoBackground\<close> (\<open>remove-logo-bg.mjs\<close>)\<close>

text \<open>
  The body of the loop for one pixel (lines 26--40): white and light grey pixels, and
  light pixels whose channels differ by less than 15, become transparent.
\<close>

definition logo_pixel :: "byte \<Rightarrow> byte \<Rightarrow> byte \<Rightarrow> bool" where
  "logo_pixel r g b \<longleftrightarrow>
     (if 200 < unat r \<and> 200 < unat g \<and> 200 < unat b then True
      else 180 < unat r \<and> 180 < unat g \<and> 180 < unat b \<and> byte_dist r g < 15 \<and> byte_dist g b < 15)"

fun logo_bg_loop :: "byte list \<Rightarrow> byte list \<times> nat" where
  "logo_bg_loop (r # g # b # a # rest) =
     (let (rest', n) = logo_bg_loop rest
      in if logo_pixel r g b then ([r, g, b, 0] @ rest', Suc n) else ([r, g, b, a] @ rest', n))"
| "logo_bg_loop [r, g, b] = ([r, g, b], if logo_pixel r g b then 1 else 0)"
| "logo_bg_loop xs = (xs, 0)"

subsection \<open>The scripts' file lists\<close>

text \<open>
  \<open>main\<close> of \<open>convert-icons.mjs\<close> (lines 90--158): each of the two input PNGs that
  exists is processed into its output; then the six sizes are resized from
  \<open>public/icon-transparent.png\<close>, each failure being caught, so they are written exactly
  when that file exists by then. \<open>exists\<close> is the file system before the run; a
  processed file is taken to be written (a decoding error is caught and logged). The
  result is the PNGs written and the sizes of the \<open>icon-<size>x<size>.png\<close> written.
\<close>

definition icon_sizes :: "nat list" where
  "icon_sizes = [16, 32, 48, 64, 128, 256]"

definition process_existing :: "(string \<Rightarrow> bool) \<Rightarrow> (string \<times> string) list \<Rightarrow> string list" where
  "process_existing exists files = map snd (filter (\<lambda>f. exists (fst f)) files)"

definition convert_icons_outputs :: "(string \<Rightarrow> bool) \<Rightarrow> string list \<times> nat list" where
  "convert_icons_outputs exists =
     (let written = process_existing exists
                      [(''public/ByteLatency.png'', ''public/icon-transparent.png''),
                       (''public/byte.png'', ''public/byte-transparent.png'')];
          mainPng = ''public/icon-transparent.png''
      in (written, if exists mainPng \<or> mainPng \<in> set written then icon_sizes else []))"

text \<open>\<open>main\<close> of \<open>remove-logo-bg.mjs\<close> (lines 62--89): the same over its two logos.\<close>

definition remove_logo_outputs :: "(string \<Rightarrow> bool) \<Rightarrow> string list" where
  "remove_logo_outputs exists =
     process_existing exists
       [(''public/Logo1.png'', ''public/Logo1-transparent.png''),
        (''public/ByteLatency.png'', ''public/ByteLatency-logo-transparent.png'')]"

text \<open>
  The relation between a buffer and the buffer the loop returns: pixel by pixel, the
  colour bytes are the same and the alpha byte is no larger; a tail of fewer than four
  bytes is unchanged.
\<close>

fun alpha_lowered :: "byte list \<Rightarrow> byte list \<Rightarrow> bool" where
  "alpha_lowered (r' # g' # b' # a' # rest') (r # g # b # a # rest) =
     (r' = r \<and> g' = g \<and> b' = b \<and> a' \<le> a \<and> alpha_lowered rest' rest)"
| "alpha_lowered ys xs = (ys = xs)"

text \<open>The pixels the white-background loop takes for background, in order.\<close>

fun white_taken :: "byte list \<Rightarrow> nat" where
  "white_taken (r # g # b # a # rest) =
     (if white_pixel r g b a = None then 0 else 1) + white_taken rest"
| "white_taken [r, g, b] = (if white_pixel r g b 0 = None then 0 else 1)"
| "white_taken xs = 0"

subsection \<open>Lemmas\<close>

lemma alpha_lowered_refl [simp]: "alpha_lowered xs xs"
  by (induction xs rule: white_taken.induct) auto

lemma alpha_lowered_length: "alpha_lowered ys xs \<Longrightarrow> length ys = length xs"
  by (induction ys xs rule: alpha_lowered.induct) auto

text \<open>Three bytes above 220 give a luminance above 220: the weights sum to one.\<close>

lemma luminance_gt:
  assumes "c < unat r" "c < unat g" "c < unat b"
  shows "real c < luminance r g b"
proof -
  have "real c = 299 / 1000 * c + 587 / 1000 * c + 114 / 1000 * c" by simp
  also have "\<dots> < 299 / 1000 * unat r + 587 / 1000 * unat g + 114 / 1000 * unat b"
    using assms by (intro add_strict_mono mult_strict_left_mono) (auto simp del: of_nat_unat)
  finally show ?thesis by (simp add: luminance_def)
qed

text \<open>
  removeWhiteBackground's luminance test never fails where it is reached: the pixel
  function is the direct two-branch test, white pixels (all channels above 220) made
  transparent, other light grey ones (channels within 10, red above 200) halved.
\<close>

lemma white_pixel_luminance_redundant:
  "white_pixel r g b a =
     (if 220 < unat r \<and> 220 < unat g \<and> 220 < unat b then Some 0
      else if byte_dist r g < 10 \<and> byte_dist g b < 10 \<and> 200 < unat r then Some (a div 2)
      else None)"
  using luminance_gt [of 220 r g b] by (simp add: white_pixel_def)

lemma white_pixel_le: "white_pixel r g b a = Some a' \<Longrightarrow> a' \<le> a"
  by (auto simp: white_pixel_def word_le_nat_alt unat_div split: if_splits)

lemma white_bg_loop_lowered: "alpha_lowered (fst (white_bg_loop xs)) xs"
  by (induction xs rule: white_bg_loop.induct)
     (auto simp: white_pixel_le split: prod.split option.split)

lemma white_bg_loop_count: "snd (white_bg_loop xs) = white_taken xs"
  by (induction xs rule: white_bg_loop.induct) (auto split: prod.split option.split)

lemma white_taken_le: "white_taken xs \<le> (length xs + 3) div 4"
  by (induction xs rule: white_taken.induct) auto

lemma white_bg_loop_bounds:
  "length (fst (white_bg_loop xs)) = length xs \<and> snd (white_bg_loop xs) \<le> (length xs + 3) div 4"
  using alpha_lowered_length [OF white_bg_loop_lowered] white_taken_le white_bg_loop_count by simp

text \<open>
  C40: removeWhiteBackground only ever lowers opacity: pixel by pixel the colour bytes
  of the buffer it writes back are those it read and the alpha byte is no larger, the
  buffer keeps its length, and \<open>changedPixels\<close> counts at most one per started pixel.
\<close>

theorem white_bg_loop_safe:
  "alpha_lowered (fst (white_bg_loop xs)) xs \<and> snd (white_bg_loop xs) \<le> (length xs + 3) div 4"
  using white_bg_loop_lowered white_bg_loop_bounds by simp

text \<open>
  \<open>changedPixels\<close> counts pixels whose alpha does not change: an already transparent
  white pixel, and a three-byte tail, which has no alpha to write.
\<close>

lemma white_count_unchanged:
  "white_bg_loop [255, 255, 255, 0] = ([255, 255, 255, 0], 1)"
  "white_bg_loop [255, 255, 255] = ([255, 255, 255], 1)"
  by (simp_all add: white_pixel_def luminance_def)

lemma logo_bg_loop_lowered: "alpha_lowered (fst (logo_bg_loop xs)) xs"
  by (induction xs rule: logo_bg_loop.induct) (auto split: prod.split)

lemma logo_bg_loop_idem: "fst (logo_bg_loop (fst (logo_bg_loop xs))) = fst (logo_bg_loop xs)"
  by (induction xs rule: logo_bg_loop.induct) (auto split: prod.split)

end
