(* ===== verification/AdminScripts.thy ===== *)
theory AdminScripts
  imports Account "HOL-Library.Char_ord" "HOL-Library.List_Lexorder"
begin

text \<open>
  The maintenance scripts under \<open>server/\<close> that change the database:
  \<open>apply-migrations.js\<close>, the migration runner, and \<open>restore-admin.js\<close>, which gives the
  owner's account the admin role back. The migration runner is modelled over the
  \<open>schema_migrations\<close> table and the list of files whose SQL has been committed; a
  file's SQL is a parameter that either commits or fails. \<open>check-admin-rls.js\<close> only
  prints what it reads and is not modelled.
\<close>

subsection \<open>The migration runner (\<open>apply-migrations.js\<close>)\<close>

text \<open>
  The database as the runner sees it: the file names recorded in
  \<open>public.schema_migrations\<close>, and the files whose SQL has been committed, in order.
\<close>

record mig_db =
  mig_applied :: "string set"
  mig_committed :: "string list"

datatype mig_outcome =
    Mig_No_Url
  | Mig_No_Dir
  | Mig_No_Files
  | Mig_Done
  | Mig_Failed string

text \<open>
  The migration files (lines 57--60): the \<open>.sql\<close> entries of the directory, sorted by
  \<open>Array.prototype.sort\<close>, which compares strings code unit by code unit, a prefix
  first: the lexicographic order of \<open>List_Lexorder\<close>.
\<close>

definition js_ends_with :: "string \<Rightarrow> string \<Rightarrow> bool" where
  "js_ends_with s sfx \<longleftrightarrow> length sfx \<le> length s \<and> drop (length s - length sfx) s = sfx"

definition migration_files :: "string list \<Rightarrow> string list" where
  "migration_files entries = sort (filter (\<lambda>f. js_ends_with f ''.sql'') entries)"

text \<open>
  \<open>applyFile\<close> (lines 28--42): the file's SQL and the insert of its name in one
  transaction; a failure rolls both back and is rethrown.
\<close>

definition apply_file :: "(string \<Rightarrow> bool) \<Rightarrow> string \<Rightarrow> mig_db \<Rightarrow> mig_db option" where
  "apply_file sql_ok f db =
     (if sql_ok f then Some (db\<lparr>mig_applied := insert f (mig_applied db), mig_committed := mig_committed db @ [f]\<rparr>)
      else None)"

text \<open>
  The loop of lines 77--83 over the sorted files, with the set \<open>applied\<close> read once
  before it (line 75): an applied file is skipped, the others applied in order, and
  the first failure ends the run with that file.
\<close>

fun apply_files :: "(string \<Rightarrow> bool) \<Rightarrow> string set \<Rightarrow> string list \<Rightarrow> mig_db \<Rightarrow> mig_db \<times> string option" where
  "apply_files sql_ok applied [] db = (db, None)"
| "apply_files sql_ok applied (f # fs) db =
     (if f \<in> applied then apply_files sql_ok applied fs db
      else case apply_file sql_ok f db of
             Some db' \<Rightarrow> apply_files sql_ok applied fs db'
           | None \<Rightarrow> (db, Some f))"

text \<open>
  \<open>run\<close> (lines 44--89) with the connection string (line 12), the directory's entries
  (\<open>None\<close> when it does not exist) and the SQL of each file.
  \<open>ensureSchemaMigrations\<close> creates the table only if it does not exist, which the
  model's state always has.
\<close>

definition run_migrations ::
  "string option \<Rightarrow> string list option \<Rightarrow> (string \<Rightarrow> bool) \<Rightarrow> mig_db \<Rightarrow> mig_outcome \<times> mig_db" where
  "run_migrations url dir sql_ok db =
     (case url of None \<Rightarrow> (Mig_No_Url, db) | Some _ \<Rightarrow>
      (case dir of None \<Rightarrow> (Mig_No_Dir, db) | Some entries \<Rightarrow>
       (let files = migration_files entries
        in if files = [] then (Mig_No_Files, db)
           else (case apply_files sql_ok (mig_applied db) files db of
                   (db', None) \<Rightarrow> (Mig_Done, db')
                 | (db', Some f) \<Rightarrow> (Mig_Failed f, db')))))"

text \<open>The process's exit code: \<open>process.exit(1)\<close> without a URL or after a failure, 0 otherwise.\<close>

definition mig_exit_code :: "mig_outcome \<Rightarrow> nat" where
  "mig_exit_code r = (case r of Mig_No_Url \<Rightarrow> 1 | Mig_Failed _ \<Rightarrow> 1 | _ \<Rightarrow> 0)"

subsection \<open>Restoring the admin role (\<open>restore-admin.js\<close>)\<close>

text \<open>
  \<open>restoreAdmin\<close> (lines 17--55) for the hard-wired e-mail (line 19): the account is
  looked up among the users, its role rows deleted, then an admin row inserted. A
  failed delete or insert is thrown and ends the process; \<open>del_ok\<close> and \<open>ins_ok\<close>
  say whether they succeed. The environment check of lines 8--11 is \<open>env_ok\<close>.
\<close>

definition owner_email :: string where
  "owner_email = ''brunoquirin3@gmail.com''"

datatype restore_outcome = Restore_No_Env | Restore_No_User | Restore_Failed | Restore_Done

definition restore_admin :: "bool \<Rightarrow> accounts \<Rightarrow> bool \<Rightarrow> bool \<Rightarrow> db \<Rightarrow> restore_outcome \<times> db" where
  "restore_admin env_ok accts del_ok ins_ok d =
     (if \<not> env_ok then (Restore_No_Env, d)
      else case accts owner_email of
             None \<Rightarrow> (Restore_No_User, d)
           | Some (_, u) \<Rightarrow>
               if \<not> del_ok then (Restore_Failed, d)
               else let d1 = d\<lparr>roles := (roles d)(u := None)\<rparr>
                    in if \<not> ins_ok then (Restore_Failed, d1)
                       else (Restore_Done, d1\<lparr>roles := (roles d1)(u \<mapsto> Admin)\<rparr>))"

subsection \<open>Lemmas\<close>

lemma apply_files_committed:
  "apply_files sql_ok applied fs db = (db', r) \<Longrightarrow>
   \<exists>k. mig_committed db' = mig_committed db @ filter (\<lambda>f. f \<notin> applied) (take k fs) \<and>
       mig_applied db' = mig_applied db \<union> set (filter (\<lambda>f. f \<notin> applied) (take k fs))"
proof (induction fs arbitrary: db)
  case Nil then show ?case by auto
next
  case (Cons f fs)
  show ?case
  proof (cases "f \<in> applied \<or> sql_ok f")
    case True
    let ?db1 = "if f \<in> applied then db
                else db\<lparr>mig_applied := insert f (mig_applied db), mig_committed := mig_committed db @ [f]\<rparr>"
    from Cons.prems True have "apply_files sql_ok applied fs ?db1 = (db', r)"
      by (auto simp: apply_file_def split: if_splits)
    from Cons.IH [OF this] obtain k where
      "mig_committed db' = mig_committed ?db1 @ filter (\<lambda>f. f \<notin> applied) (take k fs)"
      "mig_applied db' = mig_applied ?db1 \<union> set (filter (\<lambda>f. f \<notin> applied) (take k fs))" by blast
    then show ?thesis by (intro exI [of _ "Suc k"]) (auto split: if_splits)
  next
    case False
    with Cons.prems show ?thesis by (intro exI [of _ 0]) (auto simp: apply_file_def)
  qed
qed

text \<open>A run that reaches the end has applied every file not recorded before, in order.\<close>

lemma apply_files_done:
  "apply_files sql_ok applied fs db = (db', None) \<Longrightarrow>
   mig_committed db' = mig_committed db @ filter (\<lambda>f. f \<notin> applied) fs \<and>
   mig_applied db' = mig_applied db \<union> (set fs - applied)"
proof (induction fs arbitrary: db)
  case Nil then show ?case by simp
next
  case (Cons f fs) then show ?case
    by (cases "f \<in> applied"; cases "sql_ok f") (auto simp: apply_file_def)
qed

text \<open>Files already recorded are skipped: with all of them recorded nothing runs.\<close>

lemma apply_files_all_applied:
  "set fs \<subseteq> applied \<Longrightarrow> apply_files sql_ok applied fs db = (db, None)"
  by (induction fs) auto

text \<open>
  C8: The migration runner is idempotent: after a run that applied every migration,
  running it again over the same directory succeeds and commits nothing, whatever the
  SQL would do.
\<close>

theorem run_migrations_idempotent:
  assumes "run_migrations url dir sql_ok db = (Mig_Done, db')"
  shows "run_migrations url dir sql_ok' db' = (Mig_Done, db')"
proof -
  obtain u entries where u: "url = Some u" and d: "dir = Some entries"
    using assms by (auto simp: run_migrations_def split: option.splits)
  let ?fs = "migration_files entries"
  have ne: "?fs \<noteq> []" using assms u d by (auto simp: run_migrations_def Let_def split: if_splits)
  have run: "apply_files sql_ok (mig_applied db) ?fs db = (db', None)"
    using assms u d ne by (auto simp: run_migrations_def Let_def split: prod.splits option.splits)
  then have "set ?fs \<subseteq> mig_applied db'" using apply_files_done [OF run] by auto
  then have "apply_files sql_ok' (mig_applied db') ?fs db' = (db', None)" by (rule apply_files_all_applied)
  then show ?thesis using u d ne by (simp add: run_migrations_def Let_def)
qed

text \<open>
  C20: When the migration loop stops on a failure, the file it names is a listed file
  not yet applied whose SQL fails, and the committed migrations are exactly the earlier
  ones plus the unapplied files listed before it, in order: the failing file's
  transaction leaves no trace, and no file after it runs.
\<close>

theorem apply_files_failed:
  "apply_files sql_ok applied fs db = (db', Some f) \<Longrightarrow> distinct fs \<Longrightarrow>
   f \<in> set fs \<and> f \<notin> applied \<and> \<not> sql_ok f \<and>
   mig_committed db' = mig_committed db @ filter (\<lambda>g. g \<notin> applied) (takeWhile (\<lambda>g. g \<noteq> f) fs)"
proof (induction fs arbitrary: db)
  case Nil then show ?case by simp
next
  case (Cons g fs) then show ?case
    by (cases "g \<in> applied"; cases "sql_ok g") (auto simp: apply_file_def split: if_splits)
qed

text \<open>After a successful restore the owner's account is an admin, whatever role rows it had.\<close>

lemma restore_admin_done:
  assumes "accts owner_email = Some (pw, u)"
  shows "restore_admin True accts True True d = (Restore_Done, d\<lparr>roles := (roles d)(u \<mapsto> Admin)\<rparr>)"
  using assms by (simp add: restore_admin_def)

text \<open>A failed insert leaves the account with no role at all: the delete is not rolled back.\<close>

lemma restore_admin_insert_failed:
  assumes "accts owner_email = Some (pw, u)"
  shows "roles (snd (restore_admin True accts True False d)) u = None"
  using assms by (simp add: restore_admin_def)


text \<open>The files run in name order; entries that are not \<open>.sql\<close> are ignored.\<close>

lemma migration_files_example:
  "migration_files [''002_roles.sql'', ''README.md'', ''001_init.sql'', ''001_init.sql.bak''] =
   [''001_init.sql'', ''002_roles.sql'']"
  by code_simp

text \<open>
  After a restore the owner signs in as an admin and passes the maintenance gate of
  \<open>fetchUserData\<close>.
\<close>

lemma restore_admin_signs_in:
  assumes "accts owner_email = Some (pw, u)"
  shows "session_user (auth_step (snd (restore_admin True accts True True d)) st (Auth_Change (Some u))) = Some u \<and>
         is_admin (auth_step (snd (restore_admin True accts True True d)) st (Auth_Change (Some u)))"
  using assms by (simp add: restore_admin_def session_changed_def fetch_user_data_def Let_def)

subsection \<open>Witnesses\<close>

theorem run_migrations_idempotent_witness:
  "run_migrations (Some ''postgresql://db'') (Some [''001_init.sql'']) (\<lambda>_. True)
      \<lparr>mig_applied = {}, mig_committed = []\<rparr> =
     (Mig_Done, \<lparr>mig_applied = {''001_init.sql''}, mig_committed = [''001_init.sql'']\<rparr>) \<and>
   run_migrations (Some ''postgresql://db'') (Some [''001_init.sql'']) (\<lambda>_. False)
      \<lparr>mig_applied = {''001_init.sql''}, mig_committed = [''001_init.sql'']\<rparr> =
     (Mig_Done, \<lparr>mig_applied = {''001_init.sql''}, mig_committed = [''001_init.sql'']\<rparr>)"
proof
  show first: "run_migrations (Some ''postgresql://db'') (Some [''001_init.sql'']) (\<lambda>_. True)
      \<lparr>mig_applied = {}, mig_committed = []\<rparr> =
     (Mig_Done, \<lparr>mig_applied = {''001_init.sql''}, mig_committed = [''001_init.sql'']\<rparr>)"
    by (simp add: run_migrations_def migration_files_def js_ends_with_def apply_file_def)
  show "run_migrations (Some ''postgresql://db'') (Some [''001_init.sql'']) (\<lambda>_. False)
      \<lparr>mig_applied = {''001_init.sql''}, mig_committed = [''001_init.sql'']\<rparr> =
     (Mig_Done, \<lparr>mig_applied = {''001_init.sql''}, mig_committed = [''001_init.sql'']\<rparr>)"
    using run_migrations_idempotent [OF first] .
qed

theorem apply_files_failed_witness:
  "apply_files (\<lambda>f. f \<noteq> ''002.sql'') {''000.sql''} [''000.sql'', ''001.sql'', ''002.sql'', ''003.sql'']
     \<lparr>mig_applied = {''000.sql''}, mig_committed = [''000.sql'']\<rparr> =
     (\<lparr>mig_applied = {''000.sql'', ''001.sql''}, mig_committed = [''000.sql'', ''001.sql'']\<rparr>, Some ''002.sql'') \<and>
   distinct [''000.sql'', ''001.sql'', ''002.sql'', ''003.sql''] \<and>
   ''002.sql'' \<notin> {''000.sql''} \<and>
   mig_committed \<lparr>mig_applied = {''000.sql'', ''001.sql''}, mig_committed = [''000.sql'', ''001.sql'']\<rparr> =
     [''000.sql''] @ filter (\<lambda>g. g \<notin> {''000.sql''}) (takeWhile (\<lambda>g. g \<noteq> ''002.sql'') [''000.sql'', ''001.sql'', ''002.sql'', ''003.sql''])"
proof -
  have run: "apply_files (\<lambda>f. f \<noteq> ''002.sql'') {''000.sql''} [''000.sql'', ''001.sql'', ''002.sql'', ''003.sql'']
     \<lparr>mig_applied = {''000.sql''}, mig_committed = [''000.sql'']\<rparr> =
     (\<lparr>mig_applied = {''000.sql'', ''001.sql''}, mig_committed = [''000.sql'', ''001.sql'']\<rparr>, Some ''002.sql'')"
    by (simp add: apply_file_def insert_commute)
  show ?thesis using run apply_files_failed [OF run] by simp
qed

end
