(* ===== verification/Servers.thy ===== *)
theory Servers
  imports AdminPanelState
begin

text \<open>
  The two small HTTP servers under \<open>server/\<close> and the browser code that talks to
  them: the e-mail endpoint \<open>send-email.cjs\<close>, which the admin panel's e-mail dialog
  posts to, and the push server \<open>push/index.js\<close> with its client helpers
  \<open>lib/pushNotifications.ts\<close> and the service worker \<open>public/push-sw.js\<close>. A server
  is its start-up condition, its port and its handlers as functions of the request
  body and of what the vendor library (nodemailer, web-push) answers.
\<close>

subsection \<open>The e-mail endpoint (\<open>send-email.cjs\<close>)\<close>

text \<open>
  The process starts only with \<open>GMAIL_USER\<close> and \<open>GMAIL_PASS\<close> set and non-empty
  (lines 18--21) and listens on \<open>process.env.PORT || 3000\<close> (line 51); ports are
  kept as the strings the environment and the URLs hold.
\<close>

definition email_server_starts :: "string option \<Rightarrow> string option \<Rightarrow> bool" where
  "email_server_starts gmailUser gmailPass \<longleftrightarrow> gmailUser \<notin> {None, Some []} \<and> gmailPass \<notin> {None, Some []}"

definition email_server_port :: "string option \<Rightarrow> string" where
  "email_server_port envPort = (case envPort of Some p \<Rightarrow> if p = [] then ''3000'' else p | None \<Rightarrow> ''3000'')"

text \<open>The port the admin panel posts to (\<open>AdminPanelComplete.tsx\<close>, line 446).\<close>

definition panel_email_port :: string where
  "panel_email_port = ''3001''"

record mail =
  mail_from :: string
  mail_to :: string
  mail_subject :: string
  mail_html :: string

datatype email_response = Email_400 | Email_Ok mail | Email_500

text \<open>
  The handler of \<open>POST /api/send-email\<close> (lines 24--47) for the body
  \<open>(to, subject, message)\<close>: a missing field is a 400; otherwise the mail from the
  Gmail account with the message inside a paragraph, answered 200 when nodemailer
  delivers it (\<open>deliver\<close>) and 500 when it throws.
\<close>

definition send_email_handler :: "string \<Rightarrow> (mail \<Rightarrow> bool) \<Rightarrow> string \<times> string \<times> string \<Rightarrow> email_response" where
  "send_email_handler gmailUser deliver body =
     (case body of (rcpt, subj, msg) \<Rightarrow>
       if rcpt = [] \<or> subj = [] \<or> msg = [] then Email_400
       else let m = \<lparr>mail_from = gmailUser, mail_to = rcpt, mail_subject = subj,
                     mail_html = ''<p>'' @ msg @ ''</p>''\<rparr>
            in if deliver m then Email_Ok m else Email_500)"

subsection \<open>The push server (\<open>push/index.js\<close>)\<close>

text \<open>
  The VAPID keys from the environment or the placeholders of lines 12--13; the
  in-memory list of subscriptions (line 22), each kept as its JSON.
\<close>

definition vapid_public_key :: "string option \<Rightarrow> string" where
  "vapid_public_key env = (case env of Some k \<Rightarrow> if k = [] then ''COLOQUE_SUA_PUBLIC_KEY_AQUI'' else k
                                    | None \<Rightarrow> ''COLOQUE_SUA_PUBLIC_KEY_AQUI'')"

definition push_server_port :: "string option \<Rightarrow> string" where
  "push_server_port envPort = (case envPort of Some p \<Rightarrow> if p = [] then ''4000'' else p | None \<Rightarrow> ''4000'')"

text \<open>The client's \<open>BACKEND_URL\<close> (\<open>pushNotifications.ts\<close>, line 4).\<close>

definition push_backend_port :: string where
  "push_backend_port = ''4000''"

record push_server =
  ps_subscriptions :: "string list"
  ps_delivered :: "(string \<times> string \<times> string) list"

definition push_server_init :: push_server where
  "push_server_init = \<lparr>ps_subscriptions = [], ps_delivered = []\<rparr>"

text \<open>\<open>POST /subscribe\<close> (lines 28--32): the body is appended, duplicates included.\<close>

definition push_subscribe :: "string \<Rightarrow> push_server \<Rightarrow> push_server \<times> nat" where
  "push_subscribe sub st = (st\<lparr>ps_subscriptions := ps_subscriptions st @ [sub]\<rparr>, 201)"

text \<open>
  The loop of \<open>POST /sendNotification\<close> (lines 37--45): one \<open>webpush.sendNotification\<close>
  per subscription in order, a rejected one ignored; the deliveries and the count.
\<close>

fun push_loop :: "(string \<Rightarrow> bool) \<Rightarrow> string \<times> string \<Rightarrow> string list \<Rightarrow> (string \<times> string \<times> string) list \<times> nat" where
  "push_loop accepts payload [] = ([], 0)"
| "push_loop accepts payload (sub # subs) =
     (let (ds, n) = push_loop accepts payload subs
      in if accepts sub then ((sub, payload) # ds, Suc n) else (ds, n))"

definition push_send :: "(string \<Rightarrow> bool) \<Rightarrow> string \<Rightarrow> string \<Rightarrow> push_server \<Rightarrow> push_server \<times> nat \<times> nat" where
  "push_send accepts title msg st =
     (let (ds, sent) = push_loop accepts (title, msg) (ps_subscriptions st)
      in (st\<lparr>ps_delivered := ps_delivered st @ ds\<rparr>, sent, length (ps_subscriptions st)))"

subsection \<open>The push client and service worker\<close>

text \<open>
  \<open>urlBase64ToUint8Array\<close> (\<open>pushNotifications.ts\<close>, lines 47--56): the key padded
  with \<open>=\<close> to a multiple of four, \<open>-\<close> and \<open>_\<close> replaced by \<open>+\<close> and \<open>/\<close>, decoded
  by \<open>atob\<close> (a parameter: the browser's decoder), and the code units copied into a
  \<open>Uint8Array\<close>, which keeps each modulo 256.
\<close>

definition b64_padding :: "string \<Rightarrow> string" where
  "b64_padding s = replicate ((4 - length s mod 4) mod 4) (CHR ''='')"

definition b64_std_char :: "char \<Rightarrow> char" where
  "b64_std_char c = (if c = CHR ''-'' then CHR ''+'' else if c = CHR ''_'' then CHR ''/'' else c)"

definition b64_prepare :: "string \<Rightarrow> string" where
  "b64_prepare s = map b64_std_char (s @ b64_padding s)"

definition url_b64_to_bytes :: "(string \<Rightarrow> string) \<Rightarrow> string \<Rightarrow> 8 word list" where
  "url_b64_to_bytes atob s = map (\<lambda>c. word_of_nat (of_char c)) (atob (b64_prepare s))"

text \<open>
  The service worker's \<open>push\<close> handler (\<open>push-sw.js\<close>, lines 2--12): the title and
  body it shows for a payload (\<open>None\<close> for a push without data); a missing or empty
  title becomes \<open>Notifica\<ccedilla>\<atilde>o\<close>, a missing message the empty body.
\<close>

definition sw_notification :: "(string option \<times> string option) option \<Rightarrow> string \<times> string" where
  "sw_notification data =
     (let (t, m) = (case data of Some tm \<Rightarrow> tm | None \<Rightarrow> (None, None))
      in ((case t of Some x \<Rightarrow> if x = [] then ''Notifica'' @ [CHR 0xE7, CHR 0xE3] @ ''o'' else x
                   | None \<Rightarrow> ''Notifica'' @ [CHR 0xE7, CHR 0xE3] @ ''o''),
          (case m of Some x \<Rightarrow> x | None \<Rightarrow> [])))"


subsection \<open>Lemmas\<close>

text \<open>
  The admin panel posts to port 3001, the e-mail server listens on 3000 unless
  \<open>PORT\<close> says otherwise: only \<open>PORT=3001\<close> connects them. The push client and
  server agree on 4000 by default.
\<close>

lemma email_ports_meet: "email_server_port env = panel_email_port \<longleftrightarrow> env = Some ''3001''"
  by (cases env) (auto simp: email_server_port_def panel_email_port_def)

lemma push_ports_meet: "push_server_port None = push_backend_port"
  by (simp add: push_server_port_def push_backend_port_def)

text \<open>Every request the dialog posts has a subject and a message.\<close>

lemma em_posted_fields:
  "x \<in> set (em_posted (foldl (em_step tab) em evs)) \<Longrightarrow>
   x \<in> set (em_posted em) \<or> (fst (snd x) \<noteq> [] \<and> snd (snd x) \<noteq> [])"
proof (induction evs arbitrary: em)
  case Nil then show ?case by simp
next
  case (Cons ev evs)
  from Cons.prems Cons.IH [of "em_step tab em ev"]
  have "x \<in> set (em_posted (em_step tab em ev)) \<or> (fst (snd x) \<noteq> [] \<and> snd (snd x) \<noteq> [])" by simp
  then show ?case by (cases ev) (auto split: if_splits)
qed

text \<open>
  So the server never answers the panel's requests with its 400 for a missing subject
  or message: it answers 400 exactly for an empty recipient, and otherwise addresses the
  mail to the recipient value as it is.
\<close>

lemma panel_request_handled:
  assumes "(r, s, m) \<in> set (em_posted (foldl (em_step tab) email_dialog_init evs))"
  shows "send_email_handler g deliver (r, s, m) =
           (if r = [] then Email_400
            else if deliver \<lparr>mail_from = g, mail_to = r, mail_subject = s, mail_html = ''<p>'' @ m @ ''</p>''\<rparr>
            then Email_Ok \<lparr>mail_from = g, mail_to = r, mail_subject = s, mail_html = ''<p>'' @ m @ ''</p>''\<rparr>
            else Email_500)"
  using em_posted_fields [OF assms] by (auto simp: send_email_handler_def email_dialog_init_def Let_def)

text \<open>
  With the recipient left at its default, \<open>Todos os usu\<aacute>rios\<close>, the mail is addressed
  to the literal \<open>all\<close>, which is no e-mail address.
\<close>

lemma panel_mail_to_all:
  assumes "s \<noteq> []" and "m \<noteq> []"
  shows "em_posted (foldl (em_step ''overview'') email_dialog_init [EM_Open, EM_Subject s, EM_Message m, EM_Send False]) =
           [(''all'', s, m)] \<and>
         send_email_handler g deliver (''all'', s, m) \<in>
           {Email_Ok \<lparr>mail_from = g, mail_to = ''all'', mail_subject = s, mail_html = ''<p>'' @ m @ ''</p>''\<rparr>, Email_500} \<and>
         CHR ''@'' \<notin> set ''all''"
  using assms by (simp add: email_dialog_init_def send_email_handler_def Let_def)

text \<open>The push loop delivers to the accepting subscriptions in order and counts them.\<close>

lemma push_loop_eq:
  "push_loop accepts p subs = (map (\<lambda>s. (s, p)) (filter accepts subs), length (filter accepts subs))"
  by (induction subs) auto

lemma push_send_count:
  "fst (snd (push_send accepts t m st)) \<le> snd (snd (push_send accepts t m st))"
  by (simp add: push_send_def push_loop_eq)

text \<open>A browser that subscribes twice is sent every notification twice.\<close>

lemma push_duplicate_subscription:
  assumes "accepts sub"
  shows "ps_delivered (fst (push_send accepts t m (fst (push_subscribe sub (fst (push_subscribe sub push_server_init)))))) =
         [(sub, t, m), (sub, t, m)]"
  using assms by (simp add: push_send_def push_subscribe_def push_server_init_def push_loop_eq)

lemma pad4_mod: "((n::nat) + (4 - n mod 4) mod 4) mod 4 = 0"
proof (cases "n mod 4 = 0")
  case True then show ?thesis by simp
next
  case False
  obtain q r where q: "n = 4 * q + r" "r < 4" "n mod 4 = r"
    by (metis div_mult_mod_eq mod_less_divisor mult.commute zero_less_numeral)
  with False have "(4 - n mod 4) mod 4 = 4 - r" by simp
  moreover have "4 * q + r + (4 - r) = 4 * (q + 1)" using q(2) by simp
  ultimately show ?thesis using q(1) by simp
qed

text \<open>The padded key has a length divisible by four and is in the standard alphabet.\<close>

lemma b64_prepare_props:
  "length (b64_prepare s) mod 4 = 0 \<and> CHR ''-'' \<notin> set (b64_prepare s) \<and> CHR ''_'' \<notin> set (b64_prepare s)"
  using pad4_mod [of "length s"] by (auto simp: b64_prepare_def b64_padding_def b64_std_char_def)

text \<open>The copy into the \<open>Uint8Array\<close> loses nothing: \<open>atob\<close>'s code units are bytes.\<close>

lemma url_b64_to_bytes_unat:
  "map unat (url_b64_to_bytes atob s) = map of_char (atob (b64_prepare s))"
proof -
  have "unat (word_of_nat (of_char c) :: 8 word) = of_char c" for c :: char
    using of_char_mod_256 [of c] by (simp add: unat_of_nat)
  then show ?thesis by (simp add: url_b64_to_bytes_def)
qed

lemma sw_notification_default:
  "sw_notification None = (''Notifica'' @ [CHR 0xE7, CHR 0xE3] @ ''o'', [])"
  by (simp add: sw_notification_def)

end
