(* ===== verification/Spec2Isabelle.thy ===== *)
theory Spec2Isabelle
  imports Optimize Preferences Account AdminViews Metrics MainProcess News LicenseTracker LegacyDashboard LegacyShell DashboardPage AdminPanelState SettingsPage AuthPage ImageScripts AdminScripts Servers
begin

text \<open>
  \<^bold>\<open>A verification model of Byte Latency, the Electron/React "PC optimizer".\<close>

  \<^bold>\<open>The program.\<close> A React dashboard (\<open>src/src\<close>) talks directly to a hosted
  Supabase backend (tables \<open>profiles\<close>, \<open>license_keys\<close>, \<open>user_roles\<close>,
  \<open>user_subscriptions\<close>, \<open>system_config\<close>, \<open>notifications\<close> and the RPC
  \<open>redeem_license_key\<close>), and through Electron IPC to a privileged main process
  (\<open>src/electron/main.js\<close>) that reads system metrics, computes an optimisation
  score, downloads tweak files and runs them with elevated rights. Its parts:
  \<^item> the optimisation score and the \<open>get-system-metrics\<close> handler of the main
    process, with the browser build's simulated score (\<open>useSystemMetrics.ts\<close>);
  \<^item> the licence-key generator of the two admin panels (\<open>AdminPanel.tsx\<close>,
    \<open>AdminPanelComplete.tsx\<close>) and the client side of key redemption
    (\<open>Dashboard.tsx\<close>, \<open>NewDashboard.tsx\<close>, \<open>Auth.tsx\<close>);
  \<^item> the backend tables as the client reads and writes them, the admin operations on
    them, and the redemption RPC (its SQL is not in the repository: it is modelled from
    the spec);
  \<^item> the session bootstrap of \<open>AuthContext.tsx\<close> (\<open>fetchUserData\<close>): profile,
    subscription, admin role, and the maintenance-mode sign-out;
  \<^item> the subscription-expiry checks and countdowns of the dashboard and header;
  \<^item> the optimisation resource manager (\<open>optimizationResourceManager.ts\<close>,
    \<open>optimizationResources.ts\<close>) and the optimise loop of \<open>NewDashboard.tsx\<close>.
  \<^item> the main process's window, Discord RPC client and auto-updater, with the
    renderer's presence hook and update blocker;
  \<^item> the user preferences (\<open>useSettings.ts\<close>, kept in \<open>localStorage\<close>) and the
    settings page (\<open>Settings.tsx\<close>): preference buttons, profile, password, account;
  \<^item> the sign-in and sign-up form (\<open>Auth.tsx\<close>), which may redeem a key at sign-up;
  \<^item> the main page (\<open>Index.tsx\<close>, \<open>NewSidebar.tsx\<close>): the loading screen, the
    redirect to \<open>/auth\<close> and the tab switch that gates the admin panel on the session.

  \<^bold>\<open>Theories.\<close>
  \<^item> \<open>Prelude\<close>: JavaScript built-ins the code relies on (\<open>Math.round\<close> as
    \<open>js_round\<close>, \<open>trim\<close>, \<open>split\<close>/\<open>join\<close>, \<open>toUpperCase\<close>/\<open>toLowerCase\<close>
    on Latin-1 code units, \<open>replace\<close> of a string pattern, the \<open>\s\<close> class), time units
    in milliseconds, and their shared lemmas (split/join round trip, the last path
    segment, trimming).
  \<^item> \<open>Score\<close>: \<open>cpu_score\<close>, \<open>mem_score\<close>, \<open>disk_score\<close>, \<open>process_score\<close>
    (\<open>main.js\<close> lines 298--346), \<open>weighted_score\<close> and \<open>optimization_score\<close>
    (lines 295--348), JavaScript's non-finite percentages (\<open>js_pct\<close>,
    \<open>usage_percent\<close>, \<open>js_subscore\<close>, \<open>js_weighted_score\<close>), the whole handler
    \<open>get_system_metrics\<close> (lines 262--362), \<open>get_process_count_exact\<close>
    (lines 365--382) and the simulated score \<open>simulated_score\<close>. The lemmas show the
    range and monotonicity of each sub-score, then the claims (C2, C4, C7, C17): the
    score never increases with any reading and is 100 on an idle machine (lemmas: it
    lies in \<open>[0, 100]\<close>, and is below 40 on a loaded machine); the handler refines the pure function
    on valid readings and returns \<open>NaN\<close> when no disk is reported. Lemmas: \<open>tasklist\<close> output is
    counted line by line, and the simulated score is not monotone.
  \<^item> \<open>LicenseKey\<close>: the key loops of \<open>AdminPanel.generateKey\<close> (lines 75--87; the
    loops of \<open>AdminPanelComplete.createLicenses\<close> are the same code) as \<open>key_chars\<close>,
    \<open>key_index\<close>, \<open>key_group\<close>, \<open>gen_key\<close>, over a random source
    \<open>nat \<Rightarrow> 32 word\<close> giving the sixteen \<open>crypto.getRandomValues\<close> words in draw
    order; \<open>key_format\<close> is the spec's regular expression; \<open>redeem_input\<close> is the
    trim guard and \<open>toUpperCase\<close> of \<open>Dashboard.redeemKey\<close> (lines 71--81). Claims
    (C3, C14, C15): every key has the format, the key decodes back to its draws modulo 36,
    and the reduction modulo 36 is biased: counting the \<open>2 ^ 32\<close> words through the
    bijection \<open>unat\<close> (\<open>Prelude.card_word_unat\<close>, \<open>Prelude.card_mod_class\<close>),
    A--D are each drawn by one word more than the other characters. A lemma shows a
    key typed in lower case is sent as the key.
  \<^item> \<open>LicenseDB\<close>: the tables of \<open>integrations/supabase/types.ts\<close> as the record
    \<open>db\<close> (licences as a list in insertion order, profiles, roles and subscriptions as
    maps, the maintenance flag, notifications, the schema default of \<open>duration_days\<close>);
    each admin write of \<open>AdminPanel.tsx\<close> and \<open>AdminPanelComplete.tsx\<close>
    (\<open>generate_key\<close>, \<open>create_licenses\<close>, \<open>delete_license\<close>,
    \<open>delete_all_licenses\<close>, \<open>toggle_user_role\<close>, \<open>delete_user\<close>,
    \<open>toggle_maintenance\<close>, \<open>send_notification\<close>) as a function on it; the RPC
    \<open>redeem_license_key\<close>, modelled from the spec since its SQL is not in the
    repository; the client's \<open>client_redeem\<close>. \<open>db_step\<close> applies one operation of
    \<open>db_op\<close>; \<open>reachable_db\<close> is the inductive closure from empty tables. Claims
    (C1, C5, C6, C9--C13): the licence invariant \<open>lic_inv\<close> (distinct fresh ids, used rows name
    their user, use time and expiry) holds in every reachable state, by rule induction over
    a per-operation lemma collection \<open>lic_inv_step\<close>; a used row never changes; the
    refusals of a used and of an unknown key change nothing (a blank input is refused
    before any call); a success marks the row and
    grants \<open>now + duration_days\<close>; a freshly generated key is redeemable; a bulk key
    grants the schema default instead of the chosen duration; a key typed with a leading
    space is refused.
  \<^item> \<open>AuthSession\<close>: the state of \<open>AuthProvider\<close> (\<open>contexts/AuthContext.tsx\<close>,
    lines 32--37) as \<open>auth_state\<close>; \<open>fetch_user_data\<close> (lines 39--123) reads the
    profile, the subscription, the admin role and the user's used licence
    (\<open>maybe_single\<close> is \<open>.maybeSingle()\<close>: no data on zero or several rows) from
    \<open>LicenseDB.db\<close>, falls back from a missing subscription to the licence row, and
    signs a non-admin out in maintenance mode; \<open>auth_step\<close> runs it from
    \<open>initializeAuth\<close>, the auth listener or \<open>refreshProfile\<close>. Claims (C21, C22):
    the maintenance gate after every fetching event, and the licence fallback.
  \<^item> \<open>Expiry\<close>: \<open>is_subscription_active\<close> (\<open>Dashboard.tsx\<close> line 36 and its copies),
    the countdown \<open>time_left\<close> of \<open>NewHeader.tsx\<close> (lines 18--31), the news list
    \<open>load_notifications\<close> and \<open>get_time_remaining\<close> of \<open>NewsSection.tsx\<close>. Claims
    (C23, C24): \<open>getTimeRemaining\<close> equals a direct computation, and a sent
    notification is shown exactly until its expiry; a lemma shows the countdown splits
    the remaining time exactly with bounded fields.
  \<^item> \<open>Resources\<close>: the table \<open>optimization_resources\<close> of
    \<open>lib/optimizationResources.ts\<close> (accented letters are their Latin-1 code units), the
    URL and path computations, and \<open>get_missing_resources\<close>, \<open>download_resources\<close>,
    \<open>download_resource\<close>, \<open>ensure_resource\<close>, \<open>initialize\<close> of
    \<open>lib/optimizationResourceManager.ts\<close> over a disk \<open>fs_state\<close> (the set of existing
    paths and the log of GET requests of the \<open>download-file\<close> handler). The preload is
    \<open>electron_api\<close>: \<open>preload_cjs_api\<close> (the script \<open>main.js\<close> loads, without file
    functions) or \<open>preload_js_api\<close>. An \<open>ipcRenderer.invoke\<close> is an
    \<open>invoke\<close> value, resolved or rejected. The main process's handlers are
    \<open>file_exists_handler\<close> and \<open>download_file_handler\<close> (\<open>main.js\<close>, lines
    410--474), parameterised by whether \<open>main.js\<close> is an ES module
    (\<open>main_js_esm\<close>, true: it \<open>import\<close>s, so the handlers' \<open>require\<close> throws
    before their \<open>try\<close>). The preload-side calls are \<open>file_exists\<close> and
    \<open>download_file\<close>, and the latter rejects an \<open>onProgress\<close> function, which
    cannot be cloned. Claims (C25, C26): a launch downloads nothing and reports every
    resource missing, and under \<open>preload.cjs\<close> \<open>ensureResource\<close> touches neither disk
    nor network. Lemmas: \<open>ensureResource\<close> never yields a path, the tested path is
    never the written one, and the CDN URLs are distinct.
  \<^item> \<open>Optimize\<close>: \<open>handle_optimize\<close> (\<open>NewDashboard.handleOptimize\<close>, lines
    104--181) with \<open>is_subscription_active\<close> as its gate and \<open>ensure_resource\<close> per
    resource, and \<open>execute_command_line\<close> of the \<open>execute-command\<close> handler. Claims
    (C28--C30): under \<open>preload.cjs\<close> a run does nothing and reports success; with any
    preload and any network an active subscriber's run issues no command and counts
    nothing, since \<open>ensureResource\<close> never yields a path; nothing runs without a
    subscription.
  \<^item> \<open>Preferences\<close>: \<open>hooks/useSettings.ts\<close> with \<open>localStorage\<close> as the
    stored item \<open>ls_item\<close> (an object, nothing, or text \<open>JSON.parse\<close> rejects);
    \<open>load_settings\<close>, \<open>apply_theme\<close> (the \<open>dark\<close> class as a flag), the load and
    save effects (\<open>mount\<close>, \<open>save_effect\<close>; React runs the save effect when
    the settings object changed by reference, which \<open>is_default_ref\<close> tracks for
    \<open>DEFAULT_SETTINGS\<close>), \<open>update_setting\<close>, \<open>update_settings\<close>,
    \<open>reset_settings\<close>, and the preference buttons of \<open>Settings.tsx\<close>
    (lines 580--700) as \<open>pref_click\<close>; \<open>prefs_reach\<close> is the inductive set of
    states after mounting. Claim C33: the stored item always reloads to the settings
    in memory (by rule induction over the per-operation lemmas); a lemma shows the theme
    buttons are inverted.
  \<^item> \<open>Account\<close>: the form of \<open>pages/Auth.tsx\<close> (\<open>validate_form\<close>,
    \<open>handle_submit\<close>, with zod's e-mail test a parameter and signup redemption through
    \<open>client_redeem\<close>), and \<open>update_profile\<close>, \<open>update_password\<close>,
    \<open>password_strength\<close>, \<open>delete_account\<close> of \<open>Settings.tsx\<close>. The Supabase
    auth service is modelled from the spec as \<open>accounts\<close>, a map from e-mail to
    password and user id. Claim C35: deleting one's account deletes only the
    profile row, keeping the account and the subscription; a lemma shows a successful
    password change leaves a password of strength 4 that signs in.
  \<^item> \<open>IndexPage\<close>: \<open>pages/Index.tsx\<close> and \<open>NewSidebar.tsx\<close>: the loading
    interval \<open>loading_run\<close> over the \<open>Math.random()\<close> draws, the completion
    interval \<open>complete_run\<close> (a \<open>partial_function (option)\<close>: \<open>None\<close> would be
    an interval that never clears), \<open>index_render\<close> and \<open>render_content\<close>, the
    sidebar menu and \<open>page_step\<close>. Claims (C36, C37): the completion interval clears
    itself after exactly \<open>\<lceil>(100 - p) / 10\<rceil> + 1\<close> ticks, and the admin panel
    renders exactly for admin role rows; a lemma shows the loading bar stays within
    \<open>[p, 90]\<close>.
  \<^item> \<open>Metrics\<close>: the poller of \<open>hooks/useSystemMetrics.ts\<close>
    (\<open>fetch_metrics\<close>, \<open>poll_metrics\<close> as a fold over 15-second ticks, each tick
    with its four \<open>Math.random()\<close> draws and the IPC answer), the simulated readings
    \<open>simulated_metrics\<close> and \<open>sim_draw\<close>, \<open>getOptimizationStatus\<close> of
    \<open>NewHeader.tsx\<close> as \<open>optimization_status\<close>, and the system cards of
    \<open>NewDashboard.tsx\<close> (\<open>system_info_of\<close>, \<open>process_status\<close>). Claim C16: in a
    browser the shown score always lies in \<open>[62, 85]\<close>.
  \<^item> \<open>MainProcess\<close>: the rest of \<open>main.js\<close> (lines 16--259) as the state
    \<open>main_state\<close> (window, Discord client, shown activity, messages to the renderer,
    quit flag) and the event step \<open>main_step\<close> for \<open>app.whenReady\<close>, the window's
    events, Discord's callbacks, the updater's events and the IPC channels
    (\<open>set_discord_activity\<close>, \<open>close_window\<close>, \<open>destroy_discord\<close>, ...);
    \<open>main_reach\<close> is the inductive set of reachable states. On the renderer side,
    \<open>presence_effect\<close> of \<open>useDiscordPresence.ts\<close> and \<open>update_blocker\<close> of
    \<open>UpdateBlocker.tsx\<close>. Claims (C18, C19): a shown activity always comes from a
    logged-in client, and once an updater message reached the renderer the blocker covers
    the app for good.
  \<^item> \<open>AdminViews\<close>: the reads of \<open>AdminPanelComplete.tsx\<close> (\<open>load_users\<close>
    with \<open>enrich_user\<close>, \<open>filtered_users\<close>, \<open>load_licenses\<close>, \<open>load_stats\<close>,
    \<open>load_maintenance_mode\<close>, \<open>check_expiring_licenses\<close>), its tab state
    \<open>admin_tab_init\<close> and sections \<open>admin_section\<close>, and \<open>fetch_keys\<close> and
    \<open>keys_stats\<close> of \<open>AdminPanel.tsx\<close>. Lemmas: the two panels' counters agree, a
    toggle after a load flips the maintenance gate, a role toggle flips the displayed
    role. Claims (C27, C34): the sidebar's admin entry opens the panel on no section, and
    after a redemption the statistics and the users list agree with the redeemer's
    dashboard.
  \<^item> \<open>News\<close>: \<open>NewsSection.tsx\<close>'s \<open>news_check_admin\<close>,
    \<open>delete_notification\<close>, \<open>notification_type\<close> (keyword search in the lower-cased
    title) and \<open>news_view\<close>; a lemma shows a deleted notification leaves every list.
  \<^item> \<open>LicenseTracker\<close>: \<open>useLicenseTracker.ts\<close> as \<open>tracker_step\<close> over DOM
    events, the one-minute inactivity check and the five-minute write; lemmas show a write
    touches only an unexpired licence the user redeemed, and nothing is written while
    the user is inactive.
  \<^item> \<open>DashboardPage\<close>: the rest of \<open>NewDashboard.tsx\<close>'s state
    (\<open>get_user_count\<close>, \<open>fetch_real_time_metrics\<close>, the PRO key card as
    \<open>nd_step\<close>, \<open>nd_redeem\<close> with its delayed reload, and what it renders,
    \<open>nd_render\<close>, with the user count as \<open>Prelude.locale_pt_br\<close>), the PRO status of
    \<open>NewHeader.tsx\<close> (\<open>header_pro_status\<close>, and its own state \<open>hd_step\<close>: the
    countdown interval, the About dialog and the Discord link), and the page \<open>pg_step\<close>: the tab
    of \<open>Index.tsx\<close> through \<open>IndexPage.page_step\<close>, the dashboard mounted afresh
    whenever \<open>renderContent\<close> comes back to it (\<open>pg_set_tab\<close>), and the 100 ms timer
    of \<open>handleActivateClick\<close>; \<open>NewSidebar\<close>'s avatar (\<open>sidebar_avatar\<close>) and
    score ring (\<open>sidebar_ring_offset\<close>, within the circumference for a score in
    \<open>[0, 100]\<close>). Claim C31: the user count shown reads back as the number of profiles.
    Lemmas: the header's activate button opens the key field from every tab;
    every tick after a subscription change shows the exact time left, but
    a subscription that arrives after the header mounted shows no countdown until the
    first tick.
  \<^item> \<open>LegacyDashboard\<close>: \<open>Dashboard.tsx\<close>, which no page renders any longer
    (\<open>Index\<close> shows \<open>NewDashboard\<close>), with \<open>PerformanceCharts.tsx\<close>,
    \<open>CircularProgress.tsx\<close> and \<open>OptimizeButton.tsx\<close>. The chart as
    \<open>chart_mount\<close>, \<open>chart_tick\<close> and \<open>chart_run\<close> (the interval's callback
    takes the \<open>currentStats\<close> of the mounting render as an argument, as its closure
    does), the sliding window of 20 points, \<open>chart_header\<close>, the cards under the chart
    (\<open>chart_cards\<close>) and \<open>custom_tooltip\<close>; the dashboard as
    \<open>dash_step\<close> over clicks and the events of \<open>handleOptimize\<close>'s interval and
    timeout (live timers are lists of ids), with \<open>dash_redeem\<close>, \<open>dash_gauges\<close>
    and \<open>get_color_by_value\<close>. Claim C38: with draws in \<open>[0, 1)\<close> the cards
    under the chart stay within one step of the first render's stats (CPU in
    \<open>[35, 55]\<close>, the temperature always labelled \<open>Normal\<close>). Lemmas: the readout
    is one step from the first render's stats whatever the history;
    in every run of the dashboard at most one optimisation is in flight, with the flags
    agreeing with the timers and the gauges within their ranges; the window keeps 20
    points within the draws' box; the stroke offset of a gauge lies between 0 and the
    circumference.
  \<^item> \<open>LegacyShell\<close>: \<open>Sidebar.tsx\<close> and \<open>AdminPanel.tsx\<close>, also no
    longer mounted: the side bar's entries \<open>old_menu_items\<close>, and the panel as
    \<open>old_panel_step\<close> on the pair of its state and the tables (\<open>fetchKeys\<close>, the
    \<open>activeSubTab\<close> effect, \<open>generateKey\<close> through \<open>LicenseDB.generate_key\<close>,
    \<open>deleteKey\<close>, \<open>copyKey\<close> and its timer), with \<open>old_panel_view\<close> and
    \<open>key_expiry_label\<close>. Lemmas: with no other writer the list on screen is the table
    after every write; a non-admin writes nothing; an earlier copy's timer clears a later
    copy's mark; only two of the side bar's admin entries open a section.
  \<^item> \<open>AdminPanelState\<close>: the state of \<open>AdminPanelComplete.tsx\<close> as \<open>apc_step\<close>
    on the pair of the panel's state and the tables: \<open>load_data\<close> (\<open>loadData\<close> at
    mount, every ten seconds and on \<open>Atualizar\<close>), the tab bar, the search field, the
    licence form and \<open>createLicenses\<close>, \<open>copyKey\<close>, the deletions with their
    \<open>confirm\<close> dialogs, \<open>toggleUserRole\<close>, \<open>deleteUser\<close> with its partial failure,
    \<open>toggleMaintenanceMode\<close> and the notification form, each followed by the reloads
    the code performs (\<open>reload_licenses\<close>, \<open>reload_users\<close>). Claim C39: with one
    writer and successful requests, the panel's licence list and counters are always
    those of the tables. Lemmas: a failed user deletion still removes role and
    subscription; the maintenance toggle without its row reports success and changes
    nothing; an earlier copy's timer clears a later copy's mark. The e-mail dialog as
    \<open>em_step\<close>: a send keeps the form, so reopening and sending posts it again.
  \<^item> \<open>SettingsPage\<close>: the tabs and password forms of \<open>Settings.tsx\<close>
    (\<open>sp_step\<close>, \<open>security_view_of\<close>) around \<open>Account.update_password\<close> and
    \<open>Account.delete_account\<close>. Lemmas: a successful change empties the fields; a wrong
    password in the deletion dialog closes it and stays in the shared field; the page's
    only table write is the deletion of the profile row. The profile tab as
    \<open>pt_step\<close> around \<open>Account.update_profile\<close>, with the synchronising effect
    \<open>profile_sync\<close>. Lemmas: a successful save shows the trimmed values; a failed
    upload keeps the chosen file while the preview goes back to the stored avatar.
  \<^item> \<open>AuthPage\<close>: \<open>pages/Auth.tsx\<close> as \<open>ap_step\<close> around
    \<open>Account.handle_submit\<close>: the mode, the fields (the key field cut to 19 characters
    and upper-cased), the errors under the fields (\<open>field_error\<close>), the loading flag
    and the delayed navigation. Lemmas: a sign-in submit writes nothing; after a success
    a second submit changes nothing.
  \<^item> \<open>ImageScripts\<close>: the pixel loops of \<open>convert-icons.mjs\<close>
    (\<open>removeWhiteBackground\<close> as \<open>white_pixel\<close> and \<open>white_bg_loop\<close>) and
    \<open>remove-logo-bg.mjs\<close> (\<open>removeLogoBackground\<close> as \<open>logo_pixel\<close> and
    \<open>logo_bg_loop\<close>) over a list of \<open>8 word\<close> bytes, and which files the two
    \<open>main\<close>s write (\<open>convert_icons_outputs\<close>, \<open>remove_logo_outputs\<close>). Claim
    C40: the white-background loop keeps the length and the colour bytes, never raises
    an alpha, and counts at most one per pixel. Lemmas: the luminance test is dead, the
    pixel function being the direct two-branch test; the logo loop never raises an alpha
    and is idempotent; the counter counts pixels that do not change.
  \<^item> \<open>AdminScripts\<close>: \<open>server/apply-migrations.js\<close> as \<open>run_migrations\<close>
    (\<open>migration_files\<close> sorts the \<open>.sql\<close> entries, \<open>apply_files\<close> skips the
    recorded ones and stops at the first failure, \<open>apply_file\<close> is one transaction)
    over the \<open>schema_migrations\<close> table and the committed files, and
    \<open>server/restore-admin.js\<close> as \<open>restore_admin\<close>. Claims (C8, C20): a second run after a
    complete one commits nothing; a failed run commits exactly the unrecorded files
    before the failing one, which is unrecorded and fails. Lemmas: a complete run commits
    exactly the unrecorded files in name order; after
    a restore the owner signs in as an admin, and a failed insert leaves no role.
  \<^item> \<open>Servers\<close>: \<open>server/send-email.cjs\<close> (\<open>send_email_handler\<close>, its start-up
    condition and port), \<open>server/push/index.js\<close> (\<open>push_subscribe\<close>,
    \<open>push_send\<close>), \<open>lib/pushNotifications.ts\<close> (\<open>url_b64_to_bytes\<close>) and
    \<open>public/push-sw.js\<close> (\<open>sw_notification\<close>), with nodemailer's delivery,
    web-push's acceptance and \<open>atob\<close> as parameters. Lemmas: the panel's e-mail port
    meets the server's only with \<open>PORT=3001\<close>; every request of the panel's dialog
    passes the server's field check and is addressed to the recipient value, \<open>all\<close> by
    default; a doubled subscription doubles every push; the key conversion pads to a
    multiple of four and loses no byte.
  \<^item> This theory: properties across components. C32: a user deleted by an admin keeps
    paid access through the licence fallback of \<open>fetchUserData\<close>.

  \<^bold>\<open>Arithmetic.\<close> Scores are computed on exact reals: the model has no IEEE rounding,
  so a reading whose exact score is within one ulp of a half-integer may round the other
  way in JavaScript. Percentages and counts are \<open>int\<close> (they are \<open>Math.round\<close>ed or
  counted by the code); timestamps are \<open>int\<close> milliseconds.

  \<^bold>\<open>Random sources.\<close> \<open>crypto.getRandomValues\<close> is a parameter of the
  operations (a function from the draw number to a word), so every property holds for
  every sequence of draws; a bulk call of \<open>q\<close> keys takes one such function per key.
  \<open>Math.random()\<close> draws are reals passed in as arguments; a claim that needs their
  range assumes them in \<open>[0, 1)\<close> (\<open>LegacyDashboard.unit_draw\<close>).

  \<^bold>\<open>Interleaving.\<close> Admin operations and redemptions are steps of \<open>db_step\<close>;
  client events are steps of \<open>auth_step\<close> against the table state of the moment. A
  \<open>fetchUserData\<close> is taken to finish before the next step, so its four reads see one
  state.

  \<^bold>\<open>Plan.\<close> Done: the score, the key generator, the tables, admin operations,
  redemption, the session bootstrap, the expiry checks, the resource manager, the
  optimise loop, the settings hook, the account forms, the main page and the admin
  panels' reads, the metrics poller and its displays, the main process, the news
  actions, the licence-activity tracker, the modulo bias of the key generator, and the
  old dashboard with its chart, the old side bar and admin panel, the dashboard page's
  composition, the admin panel's state, the settings page's forms and the sign-in
  page, the image scripts' pixel loops, the migration runner, the admin-restore
  script and the two servers. Next: the remaining tables of \<open>types.ts\<close>.

  \<^bold>\<open>Not modelled.\<close> What Electron, electron-updater and discord-rpc do beyond the
  state \<open>MainProcess\<close> keeps (window geometry, the loaded URL, the update download),
  what nodemailer, web-push, the browser's push service and \<open>atob\<close> do (parameters
  of the server models), \<open>check-admin-rls.js\<close> (it only prints), the SQL of the
  migration files (a parameter that commits or fails), the image scripts' PNG decoding, encoding and resizing (\<open>sharp\<close>'s), rendering, CSS
  and animation, \<open>Header.tsx\<close> (mounted nowhere, and importing a
  hook \<open>useClickOutside\<close> that the repository does not contain), \<open>exportData\<close> of
  the settings page and of the admin panel (downloads), what the local e-mail server
  does with a request \<open>sendEmail\<close> posts, and the reading of an avatar file
  (\<open>FileReader\<close>, taken to succeed and give the preview's data URL): they are thin wrappers over vendor or browser APIs with no logic of their own. The completion
  interval is proved to end; the loading interval runs as long as loading lasts and is
  modelled over a finite list of draws. Supabase row-level security and
  the schema's constraints are the backend's and are not modelled.
\<close>

subsection \<open>Redemption, user deletion and the session bootstrap\<close>

lemma map_other_ids:
  "\<forall>x \<in> set xs. lic_id x \<noteq> i \<Longrightarrow> map (\<lambda>x. if lic_id x = i then l' else x) xs = xs"
  by (induction xs) auto

text \<open>Replacing the one row with a given id, in a table none of whose rows satisfies \<open>P\<close>.\<close>

lemma filter_map_replace:
  "distinct (map lic_id xs) \<Longrightarrow> l \<in> set xs \<Longrightarrow> \<forall>x \<in> set xs. \<not> P x \<Longrightarrow> P l' \<Longrightarrow>
   filter P (map (\<lambda>x. if lic_id x = lic_id l then l' else x) xs) = [l']"
proof (induction xs)
  case Nil
  then show ?case by simp
next
  case (Cons a xs)
  show ?case
  proof (cases "lic_id a = lic_id l")
    case True
    with Cons.prems(1) have "\<forall>x \<in> set xs. lic_id x \<noteq> lic_id l" by (auto simp: image_iff)
    with True Cons.prems(3,4) show ?thesis by (simp add: map_other_ids filter_False)
  next
    case False
    with Cons.prems Cons.IH show ?thesis by auto
  qed
qed

text \<open>
  C32: deleting a user does not revoke their licence. \<open>deleteUser\<close> removes the role,
  subscription and profile rows but not the licence row the user redeemed (nor the
  account itself); at the user's next sign-in \<open>fetchUserData\<close> finds no subscription,
  falls back to that licence row, and the dashboard treats the user as subscribed until
  the licence's expiry.
\<close>

theorem deleted_user_keeps_access:
  assumes ok: "client_redeem u input now d = (Redeem_Ok, d1)" and inv: "lic_inv d"
    and fresh: "\<forall>l \<in> set (licenses d). used_by l \<noteq> Some u"
    and maint: "maintenance_value d \<noteq> Some ''true''"
  shows "\<exists>l \<in> set (licenses d).
           subscriptions (delete_user u d1) u = None \<and>
           session_user (auth_step (delete_user u d1) st (Auth_Change (Some u))) = Some u \<and>
           auth_subscription (auth_step (delete_user u d1) st (Auth_Change (Some u))) =
             Some \<lparr>view_expires_at = Some (now + duration_days l * ms_per_day),
                   view_source = ''license_key''\<rparr> \<and>
           (is_subscription_active
              (auth_subscription (auth_step (delete_user u d1) st (Auth_Change (Some u)))) t
            \<longleftrightarrow> t < now + duration_days l * ms_per_day)"
  using ok
proof (rule client_redeem_OkE)
  fix l assume l: "l \<in> set (licenses d)" "\<not> is_used l"
    and d1: "d1 = d\<lparr>licenses := map (\<lambda>x. if lic_id x = lic_id l then l\<lparr>is_used := True, used_by := Some u,
              used_at := Some now, expires_at := Some (now + duration_days l * ms_per_day)\<rparr> else x)
              (licenses d),
            subscriptions := (subscriptions d)(u \<mapsto> \<lparr>sub_expires_at = now + duration_days l * ms_per_day,
              sub_source = ''license_key'', sub_license_key_id = Some (lic_id l)\<rparr>)\<rparr>"
  let ?d2 = "delete_user u d1"
  have dist: "distinct (map lic_id (licenses d))" using inv by (simp add: lic_inv_def)
  have "filter (\<lambda>x. used_by x = Some u \<and> is_used x) (licenses ?d2) =
          [l\<lparr>is_used := True, used_by := Some u, used_at := Some now,
             expires_at := Some (now + duration_days l * ms_per_day)\<rparr>]"
    unfolding d1 delete_user_def using fresh
    by (simp add: filter_map_replace [OF dist l(1)])
  then have lic: "license_of_user u ?d2 = Some (l\<lparr>is_used := True, used_by := Some u, used_at := Some now,
             expires_at := Some (now + duration_days l * ms_per_day)\<rparr>)"
    by (simp add: license_of_user_def)
  have m2: "maintenance_value ?d2 = maintenance_value d" and s2: "subscriptions ?d2 u = None"
    by (simp_all add: d1 delete_user_def)
  have su: "session_user (auth_step ?d2 st (Auth_Change (Some u))) = Some u"
    using maint m2 by (simp add: session_changed_def session_user_fetch)
  have sub: "auth_subscription (auth_step ?d2 st (Auth_Change (Some u))) =
      Some \<lparr>view_expires_at = Some (now + duration_days l * ms_per_day), view_source = ''license_key''\<rparr>"
    using maint m2 s2 lic by (simp add: session_changed_def fetch_not_gated)
  from l(1) s2 su sub show ?thesis
    by (auto simp: is_subscription_active_def js_date_ms_def)
qed

theorem deleted_user_keeps_access_witness:
  "let L = \<lparr>lic_id = 0, lic_key = ''K'', duration_days = 30, is_used = False, created_by = None,
             created_at = 0, used_by = None, used_at = None, expires_at = Some 9\<rparr>;
       d = (empty_db 30)\<lparr>licenses := [L], next_id := 1\<rparr>;
       d1 = snd (client_redeem ''v'' ''K'' 7 d)
   in client_redeem ''v'' ''K'' 7 d = (Redeem_Ok, d1) \<and> lic_inv d \<and>
      used_by L \<noteq> Some ''v'' \<and> maintenance_value d \<noteq> Some ''true'' \<and>
      is_subscription_active
        (auth_subscription (auth_step (delete_user ''v'' d1) auth_init (Auth_Change (Some ''v'')))) 8"
proof -
  let ?L = "\<lparr>lic_id = 0, lic_key = ''K'', duration_days = 30, is_used = False, created_by = None,
             created_at = 0, used_by = None, used_at = None, expires_at = Some 9\<rparr>"
  let ?d = "(empty_db 30)\<lparr>licenses := [?L], next_id := 1\<rparr>"
  let ?d1 = "snd (client_redeem ''v'' ''K'' 7 ?d)"
  have ok: "client_redeem ''v'' ''K'' 7 ?d = (Redeem_Ok, ?d1)"
    by (simp add: client_redeem_def redeem_input_def js_trim_def js_is_space_def js_upper_def
        js_upper_char_def redeem_license_key_def Let_def)
  have inv: "lic_inv ?d" by (simp add: lic_inv_def row_ok_def)
  have fr: "\<forall>l \<in> set (licenses ?d). used_by l \<noteq> Some ''v''" by simp
  have mt: "maintenance_value ?d \<noteq> Some ''true''" by (simp add: empty_db_def)
  from deleted_user_keeps_access [OF ok inv fr mt, of auth_init 8]
  have "is_subscription_active
      (auth_subscription (auth_step (delete_user ''v'' ?d1) auth_init (Auth_Change (Some ''v'')))) 8"
    by (auto simp: time_unit_values)
  with ok inv mt show ?thesis by (simp only: Let_def) simp
qed

end
